(* ===== verification/Prelude.thy ===== *)
theory Prelude
  imports Main "HOL-Library.Multiset"
begin

text \<open>
  The prelude of the development: Rust's \<open>Result\<close> as a sum type with its early-return
  combinators, the \<open>Vec\<close> operations the program uses (\<open>iter().position\<close>,
  \<open>swap_remove\<close>), sums over the entries of finite maps, and the collections of
  rewrite rules the component theories share.
\<close>

named_theorems result_simps \<open>when a chain of fallible steps succeeds or fails\<close>
named_theorems rust_simps \<open>checked machine-integer operations in terms of nat and int\<close>
named_theorems const_defs \<open>the numeric constants of the program\<close>


section \<open>Results and early returns\<close>

text \<open>
  \<open>Result<T, E>\<close> is \<open>'e + 'a\<close>: \<open>Inl\<close> is \<open>Err\<close>, \<open>Inr\<close> is \<open>Ok\<close>. The \<open>?\<close> operator is
  \<open>and_then\<close>; \<open>require!(c, e)\<close> is \<open>require c e\<close>; \<open>.ok_or(e)?\<close> is \<open>ok_or\<close>.
\<close>

definition and_then :: "'e + 'a \<Rightarrow> ('a \<Rightarrow> 'e + 'b) \<Rightarrow> 'e + 'b" where
  "and_then m f = (case m of Inl e \<Rightarrow> Inl e | Inr x \<Rightarrow> f x)"

definition require :: "bool \<Rightarrow> 'e \<Rightarrow> 'e + unit" where
  "require c e = (if c then Inr () else Inl e)"

definition ok_or :: "'a option \<Rightarrow> 'e \<Rightarrow> 'e + 'a" where
  "ok_or m e = (case m of None \<Rightarrow> Inl e | Some x \<Rightarrow> Inr x)"

lemma and_then_Inr [simp]: "and_then (Inr x) f = f x"
  by (simp add: and_then_def)

lemma and_then_Inl [simp]: "and_then (Inl e) f = Inl e"
  by (simp add: and_then_def)

lemma and_then_eq_Inr [result_simps]:
  "and_then m f = Inr y \<longleftrightarrow> (\<exists>x. m = Inr x \<and> f x = Inr y)"
  by (cases m) auto

lemma and_then_eq_Inl [result_simps]:
  "and_then m f = Inl e \<longleftrightarrow> m = Inl e \<or> (\<exists>x. m = Inr x \<and> f x = Inl e)"
  by (cases m) auto

lemma require_eq_Inr [result_simps]: "require c e = Inr u \<longleftrightarrow> c"
  by (simp add: require_def)

lemma require_eq_Inl [result_simps]: "require c e = Inl e' \<longleftrightarrow> \<not> c \<and> e = e'"
  by (auto simp: require_def)

lemma require_True [simp]: "require True e = Inr ()"
  by (simp add: require_def)

lemma require_False [simp]: "require False e = Inl e"
  by (simp add: require_def)

lemma ok_or_eq_Inr [result_simps]: "ok_or m e = Inr x \<longleftrightarrow> m = Some x"
  by (cases m) (auto simp: ok_or_def)

lemma ok_or_eq_Inl [result_simps]: "ok_or m e = Inl e' \<longleftrightarrow> m = None \<and> e = e'"
  by (cases m) (auto simp: ok_or_def)

lemma ok_or_simps [simp]: "ok_or (Some x) e = Inr x" "ok_or None e = Inl e"
  by (simp_all add: ok_or_def)

lemma bind_eq_Some [result_simps]:
  "Option.bind m f = Some y \<longleftrightarrow> (\<exists>x. m = Some x \<and> f x = Some y)"
  by (cases m) auto


section \<open>Vectors\<close>

text \<open>\<open>iter().position(p)\<close>: the index of the first element that satisfies \<open>p\<close>.\<close>

fun position :: "('a \<Rightarrow> bool) \<Rightarrow> 'a list \<Rightarrow> nat option" where
  "position p [] = None"
| "position p (x # xs) = (if p x then Some 0 else map_option Suc (position p xs))"

text \<open>
  \<open>Vec::swap_remove(i)\<close>: the last element takes the place of element \<open>i\<close> and the vector
  loses its last slot. Rust panics when \<open>i\<close> is out of range; every caller passes an index
  that \<open>position\<close> returned, so the model is only applied in range.
\<close>

definition swap_remove :: "nat \<Rightarrow> 'a list \<Rightarrow> 'a list" where
  "swap_remove i xs = butlast (xs[i := last xs])"

lemma position_SomeD:
  "position p xs = Some i \<Longrightarrow> i < length xs \<and> p (xs ! i) \<and> (\<forall>j < i. \<not> p (xs ! j))"
proof (induction xs arbitrary: i)
  case Nil
  then show ?case by simp
next
  case (Cons x xs)
  show ?case
  proof (cases "p x")
    case True
    with Cons.prems show ?thesis by simp
  next
    case False
    with Cons.prems obtain j where j: "position p xs = Some j" "i = Suc j" by auto
    with Cons.IH False show ?thesis by (auto simp: less_Suc_eq_0_disj)
  qed
qed

lemma position_None_iff: "position p xs = None \<longleftrightarrow> (\<forall>x \<in> set xs. \<not> p x)"
  by (induction xs) auto

lemma position_Some_ex: "x \<in> set xs \<Longrightarrow> p x \<Longrightarrow> \<exists>i. position p xs = Some i"
  using position_None_iff [of p xs] by (cases "position p xs") auto

lemma mset_swap_remove:
  assumes "i < length xs"
  shows "mset (swap_remove i xs) = mset xs - {# xs ! i #}"
proof -
  have ne: "xs \<noteq> []" using assms by auto
  let ?ys = "xs[i := last xs]"
  have last: "last ?ys = last xs"
    using assms ne by (simp add: last_list_update)
  have ne': "?ys \<noteq> []" using ne by simp
  have "mset ?ys = add_mset (last xs) (mset xs - {# xs ! i #})"
    using assms by (rule mset_update)
  moreover have "mset ?ys = add_mset (last xs) (mset (butlast ?ys))"
  proof -
    have "mset (butlast ?ys @ [last ?ys]) = mset ?ys"
      by (subst append_butlast_last_id [OF ne']) (rule refl)
    then show ?thesis using last by simp
  qed
  ultimately show ?thesis by (simp add: swap_remove_def)
qed

lemma length_swap_remove [simp]: "length (swap_remove i xs) = length xs - 1"
  by (simp add: swap_remove_def)

lemma set_swap_remove_subset: "i < length xs \<Longrightarrow> set (swap_remove i xs) \<subseteq> set xs"
  by (metis mset_swap_remove diff_subset_eq_self set_mset_mono set_mset_mset)

lemma mset_swap_remove_plus:
  "i < length xs \<Longrightarrow> add_mset (xs ! i) (mset (swap_remove i xs)) = mset xs"
  by (simp add: mset_swap_remove)


section \<open>Lists seen as keyed tables\<close>

text \<open>\<open>iter().find(|e| key(e) == k)\<close>.\<close>

definition find_key :: "('a \<Rightarrow> 'k) \<Rightarrow> 'k \<Rightarrow> 'a list \<Rightarrow> 'a option" where
  "find_key key k xs = find (\<lambda>x. key x = k) xs"

text \<open>
  \<open>iter_mut().find(..)\<close> followed by an assignment through the reference: the first
  matching element is replaced.
\<close>

fun update_first :: "('a \<Rightarrow> bool) \<Rightarrow> ('a \<Rightarrow> 'a) \<Rightarrow> 'a list \<Rightarrow> 'a list" where
  "update_first p f [] = []"
| "update_first p f (x # xs) = (if p x then f x # xs else x # update_first p f xs)"

lemma length_update_first [simp]: "length (update_first p f xs) = length xs"
  by (induction xs) auto

lemma find_SomeD: "find p xs = Some x \<Longrightarrow> x \<in> set xs \<and> p x"
  by (auto simp: find_Some_iff)

lemma find_position:
  "find p xs = map_option (\<lambda>i. xs ! i) (position p xs)"
  by (induction xs) (auto simp: option.map_comp comp_def)

lemma update_first_position:
  "position p xs = Some i \<Longrightarrow> update_first p f xs = xs[i := f (xs ! i)]"
  by (induction xs arbitrary: i) (auto split: if_splits)

lemma update_first_None: "position p xs = None \<Longrightarrow> update_first p f xs = xs"
  by (induction xs) (auto split: if_splits)

lemma map_update_first:
  "(\<And>x. p x \<Longrightarrow> g (f x) = g x) \<Longrightarrow> map g (update_first p f xs) = map g xs"
  by (induction xs) auto

lemma mset_update_first:
  "find p xs = Some x \<Longrightarrow> add_mset x (mset (update_first p f xs)) = add_mset (f x) (mset xs)"
  by (induction xs) (auto split: if_splits)

lemma set_update_first_subset:
  "set (update_first p f xs) \<subseteq> set xs \<union> {f x | x. x \<in> set xs \<and> p x}"
  by (induction xs) auto


section \<open>Sums over the entries of a finite map\<close>

text \<open>
  The multiset of all elements of the vectors stored in a map: what an account-wide total
  (all open positions, all share entries) ranges over.
\<close>

definition map_elems :: "('v \<Rightarrow> 'a list) \<Rightarrow> ('k \<rightharpoonup> 'v) \<Rightarrow> 'a multiset" where
  "map_elems g m = (\<Sum>k \<in> dom m. mset (g (the (m k))))"

lemma map_elems_empty [simp]: "map_elems g Map.empty = {#}"
  by (simp add: map_elems_def)

lemma map_elems_update:
  assumes "finite (dom m)"
  shows "map_elems g (m(k \<mapsto> v)) + (case m k of None \<Rightarrow> {#} | Some u \<Rightarrow> mset (g u))
       = map_elems g m + mset (g v)"
proof (cases "m k")
  case None
  then have k: "k \<notin> dom m" by auto
  have "(\<Sum>j \<in> dom m. mset (g (the ((m(k \<mapsto> v)) j)))) = map_elems g m"
    using k by (auto simp: map_elems_def intro!: sum.cong)
  then have "(\<Sum>j \<in> insert k (dom m). mset (g (the ((m(k \<mapsto> v)) j))))
      = mset (g v) + map_elems g m"
    using assms k by (subst sum.insert) auto
  then show ?thesis using None by (simp add: map_elems_def add.commute del: fun_upd_apply)
next
  case (Some u)
  then have k: "k \<in> dom m" by auto
  let ?R = "\<Sum>j \<in> dom m - {k}. mset (g (the (m j)))"
  have "map_elems g m = mset (g u) + ?R"
    using assms k Some by (simp add: map_elems_def sum.remove)
  moreover have "map_elems g (m(k \<mapsto> v)) = mset (g v) + ?R"
  proof -
    have "dom (m(k \<mapsto> v)) = dom m" using k by auto
    then have "map_elems g (m(k \<mapsto> v))
        = mset (g v) + (\<Sum>j \<in> dom m - {k}. mset (g (the ((m(k \<mapsto> v)) j))))"
      using assms k by (simp add: map_elems_def sum.remove [of _ k])
    also have "(\<Sum>j \<in> dom m - {k}. mset (g (the ((m(k \<mapsto> v)) j)))) = ?R"
      by (rule sum.cong) auto
    finally show ?thesis .
  qed
  ultimately show ?thesis using Some by (simp add: ac_simps)
qed

lemma map_elems_fresh:
  "finite (dom m) \<Longrightarrow> m k = None \<Longrightarrow> map_elems g (m(k \<mapsto> v)) = map_elems g m + mset (g v)"
  using map_elems_update [of m g k v] by simp

lemma map_elems_replace:
  "finite (dom m) \<Longrightarrow> m k = Some u \<Longrightarrow>
   map_elems g (m(k \<mapsto> v)) + mset (g u) = map_elems g m + mset (g v)"
  using map_elems_update [of m g k v] by simp

lemma map_elems_memI:
  assumes "finite (dom m)" "m k = Some u" "x \<in> set (g u)"
  shows "x \<in># map_elems g m"
proof -
  have "map_elems g m = mset (g u) + (\<Sum>j \<in> dom m - {k}. mset (g (the (m j))))"
    using assms(1,2) sum.remove [of "dom m" k "\<lambda>j. mset (g (the (m j)))"]
    by (auto simp: map_elems_def)
  then show ?thesis using assms(3) by simp
qed

lemma map_elems_memE:
  assumes "x \<in># map_elems g m" "finite (dom m)"
  obtains k u where "m k = Some u" "x \<in> set (g u)"
  using assms by (auto simp: map_elems_def set_mset_sum)

text \<open>The total of a measure over the elements that satisfy a test.\<close>

definition total_where :: "('a \<Rightarrow> bool) \<Rightarrow> ('a \<Rightarrow> nat) \<Rightarrow> 'a multiset \<Rightarrow> nat" where
  "total_where p f M = sum_mset (image_mset f (filter_mset p M))"

definition count_where :: "('a \<Rightarrow> bool) \<Rightarrow> 'a multiset \<Rightarrow> nat" where
  "count_where p M = size (filter_mset p M)"

lemma total_where_empty [simp]: "total_where p f {#} = 0"
  by (simp add: total_where_def)

lemma total_where_add [simp]:
  "total_where p f (add_mset x M) = (if p x then f x else 0) + total_where p f M"
  by (simp add: total_where_def)

lemma total_where_union [simp]:
  "total_where p f (M + N) = total_where p f M + total_where p f N"
  by (simp add: total_where_def)

lemma count_where_empty [simp]: "count_where p {#} = 0"
  by (simp add: count_where_def)

lemma count_where_add [simp]:
  "count_where p (add_mset x M) = (if p x then 1 else 0) + count_where p M"
  by (simp add: count_where_def)

lemma count_where_union [simp]: "count_where p (M + N) = count_where p M + count_where p N"
  by (simp add: count_where_def)

lemma total_where_memI: "x \<in># M \<Longrightarrow> p x \<Longrightarrow> f x \<le> total_where p f M"
  using multi_member_split [of x M] by auto

lemma count_where_memI: "x \<in># M \<Longrightarrow> p x \<Longrightarrow> 0 < count_where p M"
  using multi_member_split [of x M] by auto

lemma total_where_none: "(\<forall>x \<in># M. \<not> p x) \<Longrightarrow> total_where p f M = 0"
  by (induction M) auto

lemma count_where_none: "(\<forall>x \<in># M. \<not> p x) \<longleftrightarrow> count_where p M = 0"
  by (induction M) auto

lemma total_where_le_count:
  "(\<forall>x \<in># M. p x \<longrightarrow> f x \<le> b) \<Longrightarrow> total_where p f M \<le> b * count_where p M"
  by (induction M) auto

lemma total_where_ge_count:
  "(\<forall>x \<in># M. p x \<longrightarrow> a \<le> f x) \<Longrightarrow> a * count_where p M \<le> total_where p f M"
  by (induction M) auto



section \<open>Transition systems\<close>

text \<open>
  The interface every state machine of the development provides: an initial predicate, a step
  relation and a candidate invariant that the steps keep. Its client lemma is that the
  invariant holds in every reachable state.
\<close>

inductive reachable :: "('s \<Rightarrow> bool) \<Rightarrow> ('s \<Rightarrow> 's \<Rightarrow> bool) \<Rightarrow> 's \<Rightarrow> bool"
  for init and step where
  start: "init s \<Longrightarrow> reachable init step s"
| next_step: "reachable init step s \<Longrightarrow> step s s' \<Longrightarrow> reachable init step s'"

locale transition_system =
  fixes init :: "'s \<Rightarrow> bool" and step :: "'s \<Rightarrow> 's \<Rightarrow> bool" and inv :: "'s \<Rightarrow> bool"
  assumes init_inv: "init s \<Longrightarrow> inv s"
    and step_inv: "inv s \<Longrightarrow> step s s' \<Longrightarrow> inv s'"
begin

lemma reachable_inv: "reachable init step s \<Longrightarrow> inv s"
  by (induction rule: reachable.induct) (blast intro: init_inv step_inv)+

end

end
