(* ===== verification/Rust_Ints.thy ===== *)
theory Rust_Ints
  imports Prelude "HOL-Library.Word" "HOL-Library.Signed_Division"
begin

text \<open>
  The machine integers of the Rust code: \<open>uN\<close> and \<open>iN\<close> are \<open>N word\<close>, an unsigned value
  read with \<open>unat\<close> and a signed one with \<open>sint\<close>. The checked operations return \<open>None\<close>
  where the standard library does, and the conversions \<open>From\<close> and \<open>TryFrom\<close> are written out.
  Each operation comes with a rule in \<open>rust_simps\<close> that turns its success into arithmetic.
\<close>

type_synonym u8 = "8 word"
type_synonym u16 = "16 word"
type_synonym u32 = "32 word"
type_synonym u64 = "64 word"
type_synonym u128 = "128 word"
type_synonym i32 = "32 word"
type_synonym i64 = "64 word"
type_synonym i128 = "128 word"


section \<open>Unsigned checked operations\<close>

definition checked_add :: "'a::len word \<Rightarrow> 'a word \<Rightarrow> 'a word option" where
  "checked_add a b = (if unat a + unat b < 2 ^ LENGTH('a) then Some (a + b) else None)"

definition checked_sub :: "'a::len word \<Rightarrow> 'a word \<Rightarrow> 'a word option" where
  "checked_sub a b = (if b \<le> a then Some (a - b) else None)"

definition checked_mul :: "'a::len word \<Rightarrow> 'a word \<Rightarrow> 'a word option" where
  "checked_mul a b = (if unat a * unat b < 2 ^ LENGTH('a) then Some (a * b) else None)"

definition checked_div :: "'a::len word \<Rightarrow> 'a word \<Rightarrow> 'a word option" where
  "checked_div a b = (if b = 0 then None else Some (a div b))"

definition saturating_add :: "'a::len word \<Rightarrow> 'a word \<Rightarrow> 'a word" where
  "saturating_add a b = (if unat a + unat b < 2 ^ LENGTH('a) then a + b else - 1)"

lemma checked_add_eq_Some [rust_simps]:
  fixes a b c :: "'a::len word"
  shows "checked_add a b = Some c \<longleftrightarrow>
    unat a + unat b < 2 ^ LENGTH('a) \<and> unat c = unat a + unat b"
proof (cases "unat a + unat b < 2 ^ LENGTH('a)")
  case True
  then have "unat (a + b) = unat a + unat b" using unat_add_lem by blast
  with True show ?thesis
    unfolding checked_add_def by (metis option.inject word_unat_eq_iff)
next
  case False
  then show ?thesis by (simp add: checked_add_def)
qed

lemma checked_sub_eq_Some [rust_simps]:
  "checked_sub a b = Some c \<longleftrightarrow> unat b \<le> unat a \<and> unat c = unat a - unat b"
proof (cases "unat b \<le> unat a")
  case True
  then have le: "b \<le> a" by (simp only: word_le_nat_alt)
  then have "unat (a - b) = unat a - unat b" by (rule unat_sub)
  with True le show ?thesis
    unfolding checked_sub_def by (metis option.inject word_unat_eq_iff)
next
  case False
  then have "\<not> b \<le> a" by (simp only: word_le_nat_alt not_False_eq_True)
  with False show ?thesis by (simp add: checked_sub_def)
qed

lemma checked_mul_eq_Some [rust_simps]:
  fixes a b c :: "'a::len word"
  shows "checked_mul a b = Some c \<longleftrightarrow>
    unat a * unat b < 2 ^ LENGTH('a) \<and> unat c = unat a * unat b"
proof (cases "unat a * unat b < 2 ^ LENGTH('a)")
  case True
  then have "unat (a * b) = unat a * unat b" using unat_mult_lem by blast
  with True show ?thesis
    unfolding checked_mul_def by (metis option.inject word_unat_eq_iff)
next
  case False
  then show ?thesis by (simp add: checked_mul_def)
qed

lemma checked_div_eq_Some [rust_simps]:
  "checked_div a b = Some c \<longleftrightarrow> unat b \<noteq> 0 \<and> unat c = unat a div unat b"
proof (cases "b = 0")
  case True
  then show ?thesis by (simp add: checked_div_def)
next
  case False
  then have "unat b \<noteq> 0" by (simp add: unat_eq_zero)
  moreover have "unat (a div b) = unat a div unat b" by (rule unat_div)
  ultimately show ?thesis
    using False unfolding checked_div_def by (metis option.inject word_unat_eq_iff)
qed

lemma checked_add_eq_None [rust_simps]:
  "checked_add (a :: 'a::len word) b = None \<longleftrightarrow> 2 ^ LENGTH('a) \<le> unat a + unat b"
  by (auto simp: checked_add_def)

lemma checked_sub_eq_None [rust_simps]: "checked_sub a b = None \<longleftrightarrow> unat a < unat b"
  unfolding checked_sub_def word_le_nat_alt by (simp add: not_le)

lemma checked_mul_eq_None [rust_simps]:
  "checked_mul (a :: 'a::len word) b = None \<longleftrightarrow> 2 ^ LENGTH('a) \<le> unat a * unat b"
  by (auto simp: checked_mul_def)

lemma checked_div_eq_None [rust_simps]: "checked_div a b = None \<longleftrightarrow> unat b = 0"
  by (auto simp: checked_div_def unat_eq_zero)

lemma saturating_add_unat:
  fixes a b :: "'a::len word"
  shows "unat (saturating_add a b) = min (unat a + unat b) (2 ^ LENGTH('a) - 1)"
proof (cases "unat a + unat b < 2 ^ LENGTH('a)")
  case True
  then show ?thesis using unat_add_lem [of a b] by (simp add: saturating_add_def)
next
  case False
  then show ?thesis by (simp add: saturating_add_def unsigned_minus_1_eq_mask mask_eq_exp_minus_1)
qed


section \<open>Signed checked operations\<close>

text \<open>The value of an \<open>iN\<close> operation, when it fits.\<close>

definition signed_fits :: "'a::len itself \<Rightarrow> int \<Rightarrow> bool" where
  "signed_fits _ r \<longleftrightarrow> - (2 ^ (LENGTH('a) - 1)) \<le> r \<and> r < 2 ^ (LENGTH('a) - 1)"

definition checked_of_int :: "int \<Rightarrow> 'a::len word option" where
  "checked_of_int r = (if signed_fits TYPE('a) r then Some (word_of_int r) else None)"

definition schecked_sub :: "'a::len word \<Rightarrow> 'a word \<Rightarrow> 'a word option" where
  "schecked_sub a b = checked_of_int (sint a - sint b)"

definition schecked_add :: "'a::len word \<Rightarrow> 'a word \<Rightarrow> 'a word option" where
  "schecked_add a b = checked_of_int (sint a + sint b)"

definition schecked_mul :: "'a::len word \<Rightarrow> 'a word \<Rightarrow> 'a word option" where
  "schecked_mul a b = checked_of_int (sint a * sint b)"

definition schecked_neg :: "'a::len word \<Rightarrow> 'a word option" where
  "schecked_neg a = checked_of_int (- sint a)"

text \<open>Rust's signed division truncates towards zero; \<open>None\<close> for a zero divisor and for
  \<open>MIN / -1\<close>.\<close>

definition schecked_div :: "'a::len word \<Rightarrow> 'a word \<Rightarrow> 'a word option" where
  "schecked_div a b = (if b = 0 then None else checked_of_int (sint a sdiv sint b))"

lemma sint_word_of_int_fits:
  "signed_fits TYPE('a::len) r \<Longrightarrow> sint (word_of_int r :: 'a word) = r"
  by (simp add: signed_fits_def sint_sbintrunc' signed_take_bit_int_eq_self)

lemma sint_fits [simp]: "signed_fits TYPE('a::len) (sint (w :: 'a word))"
  using sint_ge [of w] sint_lt [of w] by (simp add: signed_fits_def)

lemma checked_of_int_eq_Some [rust_simps]:
  "checked_of_int r = Some (c :: 'a::len word) \<longleftrightarrow> signed_fits TYPE('a) r \<and> sint c = r"
  by (auto simp: checked_of_int_def sint_word_of_int_fits)

lemma checked_of_int_eq_None [rust_simps]:
  "(checked_of_int r :: 'a::len word option) = None \<longleftrightarrow> \<not> signed_fits TYPE('a) r"
  by (simp add: checked_of_int_def)

lemmas schecked_defs = schecked_sub_def schecked_add_def schecked_mul_def schecked_neg_def

lemma sint_eq_0_iff [simp]: "sint (w :: 'a::len word) = 0 \<longleftrightarrow> w = 0"
  by (metis signed_eq_0_iff)

lemma schecked_div_eq_Some [rust_simps]:
  "schecked_div a b = Some (c :: 'a::len word) \<longleftrightarrow>
   sint b \<noteq> 0 \<and> signed_fits TYPE('a) (sint a sdiv sint b) \<and> sint c = sint a sdiv sint b"
  by (auto simp: schecked_div_def checked_of_int_eq_Some)


section \<open>Conversions\<close>

text \<open>
  \<open>From\<close> between unsigned widths is \<open>ucast\<close>, from \<open>i64\<close> to \<open>i128\<close> is \<open>scast\<close>, from an
  unsigned value to a wider signed one is \<open>ucast\<close>. \<open>TryFrom\<close> is checked.
\<close>

definition try_from_unsigned :: "'a::len word \<Rightarrow> 'b::len word option" where
  "try_from_unsigned a = (if unat a < 2 ^ LENGTH('b) then Some (ucast a) else None)"

text \<open>From a signed value to an unsigned type.\<close>

definition try_from_signed :: "'a::len word \<Rightarrow> 'b::len word option" where
  "try_from_signed a =
     (if 0 \<le> sint a \<and> sint a < 2 ^ LENGTH('b) then Some (word_of_int (sint a)) else None)"

text \<open>From an unsigned value to a signed type.\<close>

definition try_into_signed :: "'a::len word \<Rightarrow> 'b::len word option" where
  "try_into_signed a = checked_of_int (uint a)"

definition unsigned_abs :: "'a::len word \<Rightarrow> 'a word" where
  "unsigned_abs a = word_of_int \<bar>sint a\<bar>"

lemma unat_ucast_up:
  "LENGTH('a::len) \<le> LENGTH('b::len) \<Longrightarrow> unat (ucast (w :: 'a word) :: 'b word) = unat w"
  by transfer (simp add: take_bit_nat_eq_self min_def)

lemma unat_ucast_fits:
  "unat (w :: 'a::len word) < 2 ^ LENGTH('b::len) \<Longrightarrow> unat (ucast w :: 'b word) = unat w"
  by (simp add: unsigned_ucast_eq take_bit_nat_eq_self)

lemma try_from_unsigned_eq_Some [rust_simps]:
  "try_from_unsigned (a :: 'a::len word) = Some (b :: 'b::len word) \<longleftrightarrow>
   unat a < 2 ^ LENGTH('b) \<and> unat b = unat a"
proof (cases "unat a < 2 ^ LENGTH('b)")
  case True
  then have "unat (ucast a :: 'b word) = unat a" by (rule unat_ucast_fits)
  with True show ?thesis
    unfolding try_from_unsigned_def by (metis option.inject word_unat_eq_iff)
next
  case False
  then show ?thesis by (simp add: try_from_unsigned_def)
qed

lemma try_from_unsigned_eq_None [rust_simps]:
  "(try_from_unsigned (a :: 'a::len word) :: 'b::len word option) = None \<longleftrightarrow>
   2 ^ LENGTH('b) \<le> unat a"
  by (auto simp: try_from_unsigned_def)

lemma try_from_signed_eq_Some [rust_simps]:
  "try_from_signed (a :: 'a::len word) = Some (b :: 'b::len word) \<longleftrightarrow>
   0 \<le> sint a \<and> sint a < 2 ^ LENGTH('b) \<and> int (unat b) = sint a"
proof (cases "0 \<le> sint a \<and> sint a < 2 ^ LENGTH('b)")
  case True
  then have "uint (word_of_int (sint a) :: 'b word) = sint a"
    by (simp only: uint_word_of_int mod_pos_pos_trivial)
  with True show ?thesis
    unfolding try_from_signed_def by (metis option.inject uint_nat word_uint_eq_iff)
next
  case False
  then show ?thesis unfolding try_from_signed_def by (metis option.distinct(1))
qed

lemma try_from_signed_eq_None [rust_simps]:
  "(try_from_signed (a :: 'a::len word) :: 'b::len word option) = None \<longleftrightarrow>
   sint a < 0 \<or> 2 ^ LENGTH('b) \<le> sint a"
  by (auto simp: try_from_signed_def)

lemma try_into_signed_eq_Some [rust_simps]:
  "try_into_signed (a :: 'a::len word) = Some (b :: 'b::len word) \<longleftrightarrow>
   signed_fits TYPE('b) (int (unat a)) \<and> sint b = int (unat a)"
  unfolding try_into_signed_def checked_of_int_eq_Some uint_nat ..

lemma unat_unsigned_abs: "unat (unsigned_abs (a :: 'a::len word)) = nat \<bar>sint a\<bar>"
proof -
  define M :: int where "M = 2 ^ (LENGTH('a) - 1)"
  have "- M \<le> sint a" "sint a < M"
    unfolding M_def using sint_ge [of a] sint_lt [of a] by blast+
  then have "\<bar>sint a\<bar> \<le> M" by linarith
  then have "\<bar>sint a\<bar> \<le> 2 ^ (LENGTH('a) - 1)" unfolding M_def .
  also have "\<dots> < (2 :: int) ^ LENGTH('a)" by simp
  finally have "\<bar>sint a\<bar> < 2 ^ LENGTH('a)" .
  then have "uint (word_of_int \<bar>sint a\<bar> :: 'a word) = \<bar>sint a\<bar>"
    by (simp only: uint_word_of_int mod_pos_pos_trivial abs_ge_zero)
  then show ?thesis unfolding unsigned_abs_def by (metis nat_uint_eq)
qed

lemma sint_ucast_up:
  "LENGTH('a::len) < LENGTH('b::len) \<Longrightarrow> sint (ucast (w :: 'a word) :: 'b word) = int (unat w)"
proof -
  assume less: "LENGTH('a) < LENGTH('b)"
  define M :: int where "M = 2 ^ (LENGTH('b) - 1)"
  have "uint w < 2 ^ LENGTH('a)" by (rule uint_lt2p)
  also have "(2 :: int) ^ LENGTH('a) \<le> M"
    unfolding M_def using less by (intro power_increasing) auto
  finally have "uint w < M" .
  moreover have "- M \<le> uint w"
  proof -
    have "0 \<le> M" by (simp add: M_def)
    with uint_ge_0 [of w] show ?thesis by linarith
  qed
  ultimately have "signed_fits TYPE('b) (uint w)" unfolding signed_fits_def M_def by blast
  then have "sint (word_of_int (uint w) :: 'b word) = uint w" by (rule sint_word_of_int_fits)
  then show ?thesis by (simp only: ucast_eq uint_nat)
qed

lemma sint_scast_up:
  "LENGTH('a::len) \<le> LENGTH('b::len) \<Longrightarrow> sint (scast (w :: 'a word) :: 'b word) = sint w"
proof -
  assume le: "LENGTH('a) \<le> LENGTH('b)"
  define M N :: int where "M = 2 ^ (LENGTH('a) - 1)" and "N = 2 ^ (LENGTH('b) - 1)"
  have "M \<le> N" unfolding M_def N_def using le by (intro power_increasing) auto
  moreover have "- M \<le> sint w" "sint w < M"
    unfolding M_def using sint_ge [of w] sint_lt [of w] by blast+
  ultimately have "- N \<le> sint w" "sint w < N" by linarith+
  then have "signed_fits TYPE('b) (sint w)" unfolding signed_fits_def N_def by blast
  then have "sint (word_of_int (sint w) :: 'b word) = sint w" by (rule sint_word_of_int_fits)
  then show ?thesis by (simp only: scast_eq)
qed


section \<open>Truncated division on the integers\<close>

lemma sdiv_nonneg: "0 \<le> a \<Longrightarrow> 0 < b \<Longrightarrow> a sdiv b = a div (b :: int)"
  by (cases "a = 0") (simp_all add: signed_divide_int_def)

lemma sdiv_neg: "a < 0 \<Longrightarrow> 0 < b \<Longrightarrow> a sdiv b = - ((- a) div (b :: int))"
  by (simp add: signed_divide_int_def)

lemma sdiv_sign:
  fixes a b :: int
  assumes "0 < b"
  shows "0 \<le> a sdiv b \<longleftrightarrow> - b < a"
proof (cases "0 \<le> a")
  case True
  with assms show ?thesis by (simp add: sdiv_nonneg pos_imp_zdiv_nonneg_iff)
next
  case False
  with assms have "0 \<le> a sdiv b \<longleftrightarrow> \<not> 0 < (- a) div b"
    by (simp add: sdiv_neg not_less)
  also have "\<dots> \<longleftrightarrow> - a < b" using assms by (simp add: pos_imp_zdiv_pos_iff not_le)
  finally show ?thesis by linarith
qed

lemma abs_sdiv_le:
  fixes a b :: int
  assumes "0 < b"
  shows "\<bar>a sdiv b\<bar> \<le> \<bar>a\<bar>"
proof -
  have "\<bar>a\<bar> div b \<le> \<bar>a\<bar> div 1" using assms by (intro zdiv_mono2) auto
  moreover have "0 \<le> \<bar>a\<bar> div b" using assms by (simp add: pos_imp_zdiv_nonneg_iff)
  moreover have "\<bar>a sdiv b\<bar> = \<bar>a\<bar> div b"
    using assms calculation(2)
    by (cases "0 \<le> a") (simp_all add: sdiv_nonneg sdiv_neg)
  ultimately show ?thesis by simp
qed


section \<open>Bytes\<close>

text \<open>\<open>u16::to_le_bytes\<close> and \<open>u32::to_le_bytes\<close>.\<close>

definition u16_le_bytes :: "u16 \<Rightarrow> u8 list" where
  "u16_le_bytes w = [ucast w, ucast (drop_bit 8 w)]"

definition u32_le_bytes :: "u32 \<Rightarrow> u8 list" where
  "u32_le_bytes w =
     [ucast w, ucast (drop_bit 8 w), ucast (drop_bit 16 w), ucast (drop_bit 24 w)]"

text \<open>\<open>u64::from_le_bytes\<close> of an eight-byte array.\<close>

definition u64_from_le_bytes :: "u8 list \<Rightarrow> u64" where
  "u64_from_le_bytes bs = horner_sum ucast (2 ^ 8) bs"

lemma u16_le_bytes_inject [simp]: "u16_le_bytes v = u16_le_bytes w \<longleftrightarrow> v = w"
proof
  assume eq: "u16_le_bytes v = u16_le_bytes w"
  show "v = w"
  proof (rule bit_word_eqI)
    fix n assume "n < LENGTH(16)"
    then have n: "n < 16" by simp
    have lo: "bit (ucast v :: u8) n = bit (ucast w :: u8) n"
      and hi: "bit (ucast (drop_bit 8 v) :: u8) (n - 8) = bit (ucast (drop_bit 8 w) :: u8) (n - 8)"
      using eq by (simp_all add: u16_le_bytes_def)
    show "bit v n = bit w n"
    proof (cases "n < 8")
      case True
      with lo show ?thesis by (simp add: bit_simps)
    next
      case False
      with hi n show ?thesis by (auto simp: bit_simps)
    qed
  qed
qed simp


section \<open>Widths and orders\<close>

lemma unat_u16_lt: "unat (w :: u16) < 65536" using unsigned_less [of w, where 'a=nat] by simp
lemma unat_u32_lt: "unat (w :: u32) < 4294967296" using unsigned_less [of w, where 'a=nat] by simp
lemma unat_u64_lt: "unat (w :: u64) < 18446744073709551616" using unsigned_less [of w, where 'a=nat] by simp

lemma widen [rust_simps]:
  "unat (ucast (a :: u16) :: u64) = unat a" "unat (ucast (a :: u16) :: u128) = unat a"
  "unat (ucast (b :: u32) :: u64) = unat b" "unat (ucast (c :: u64) :: u128) = unat c"
  "sint (ucast (a :: u16) :: i128) = int (unat a)" "sint (ucast (c :: u64) :: i128) = int (unat c)"
  "sint (scast (c :: i64) :: i128) = sint c"
  by (simp_all add: unat_ucast_up sint_ucast_up sint_scast_up)

lemma word_order [rust_simps]:
  "(a :: 'a::len word) \<le> b \<longleftrightarrow> unat a \<le> unat b" "a < b \<longleftrightarrow> unat a < unat b"
  by (simp_all only: word_le_nat_alt word_less_nat_alt)

lemma unat_min: "unat (min a b) = min (unat a) (unat (b :: 'a::len word))"
  by (auto simp: min_def word_le_nat_alt)


lemma nat_min_eq: "nat (min a b) = min (nat a) (nat b)"
  by (auto simp: min_def)

lemma fits_i128: "\<bar>r\<bar> < 2 ^ 127 \<Longrightarrow> signed_fits TYPE(128) r"
  unfolding signed_fits_def by (simp add: abs_less_iff)

lemma option_total: "m \<noteq> None \<Longrightarrow> \<exists>x. m = Some x" by blast

end
