(* ===== verification/Program_State.thy ===== *)
theory Program_State
  imports Rust_Ints
begin

text \<open>
  The on-chain program's data (\<open>programs/leveraged-prediction/src/state.rs\<close>), its error codes
  (\<open>error.rs\<close>) and its constants (\<open>lib.rs\<close>), with the operations \<open>state.rs\<close> defines on them.
  A \<open>Pubkey\<close> is its byte array, so \<open>as_ref()\<close> is the identity. Record fields carry a short
  prefix where two structs of the source share a field name.
\<close>

type_synonym bytes = "u8 list"
type_synonym pubkey = bytes


section \<open>Errors\<close>

datatype error_code =
    InvalidAmount
  | InvalidConfig
  | MathOverflow
  | MarketCloseOnly
  | ActiveRisk
  | RiskLimitExceeded
  | InsufficientLiquidity
  | SlippageExceeded
  | WithdrawalAlreadyPending
  | NoPendingWithdrawal
  | OracleExponentMismatch
  | InvalidOraclePrice
  | UserPositionsCapacityExceeded
  | UserLiquidityCapacityExceeded
  | UserLiquidityMarketNotFound
  | ActiveUserLiquidity
  | InvalidNonce
  | InvalidSettlementTask
  | InvalidSettlementTrigger
  | SettlementTaskCreationFailed
  | InvalidTokenOwner
  | TokenMintMismatch
  | InvalidSessionTokenDelegate
  | InsufficientSessionTokenAllowance

text \<open>
  The failures the Anchor framework reports for an account constraint, and the error number of
  an invoked program.
\<close>

datatype anchor_error =
    AccountNotInitialized
  | AccountAlreadyInUse
  | AccountDidNotDeserialize
  | ConstraintSeeds
  | ConstraintHasOne
  | ConstraintAddress
  | ConstraintAssociated
  | ConstraintTokenOwner
  | ConstraintDuplicateMutableAccount
  | AccountNotSigner
  | InvalidProgramId
  | InvalidSessionToken

datatype program_error = Code error_code | Framework anchor_error | Cpi nat

type_synonym 'a result = "program_error + 'a"


section \<open>Constants\<close>

definition ORACLE_EXPONENT :: i32 where [const_defs]: "ORACLE_EXPONENT = 8"
definition COLLATERAL_DECIMALS :: u8 where [const_defs]: "COLLATERAL_DECIMALS = 6"
definition LEVERAGE :: u16 where [const_defs]: "LEVERAGE = 1000"
definition MAX_GROSS_PROFIT_MULTIPLIER :: u16 where
  [const_defs]: "MAX_GROSS_PROFIT_MULTIPLIER = 5"
definition POSITION_DURATION_SECONDS :: i64 where
  [const_defs]: "POSITION_DURATION_SECONDS = 10"
definition SETTLEMENT_BUFFER_SECONDS :: i64 where
  [const_defs]: "SETTLEMENT_BUFFER_SECONDS = 10"
definition MAX_MARKET_FINANCIALLY_ACTIVE_POSITIONS :: u32 where
  [const_defs]: "MAX_MARKET_FINANCIALLY_ACTIVE_POSITIONS = 8"
definition MIN_POSITION_COLLATERAL :: u64 where
  [const_defs]: "MIN_POSITION_COLLATERAL = 1000000"
definition MAX_POSITION_COLLATERAL :: u64 where
  [const_defs]: "MAX_POSITION_COLLATERAL = 1000000000"
definition MIN_MARKET_EQUITY :: u64 where
  [const_defs]: "MIN_MARKET_EQUITY = 100000000000"
definition MAX_MARKET_EQUITY :: u64 where
  [const_defs]: "MAX_MARKET_EQUITY = 100000000000000"
definition USER_OPEN_COLLATERAL_BPS :: u16 where
  [const_defs]: "USER_OPEN_COLLATERAL_BPS = 100"
definition SAFETY_BUFFER_BPS :: u16 where [const_defs]: "SAFETY_BUFFER_BPS = 1000"
definition PROFIT_FEE_BPS :: u16 where [const_defs]: "PROFIT_FEE_BPS = 1000"
definition PROTOCOL_FEE_SHARE_BPS :: u16 where [const_defs]: "PROTOCOL_FEE_SHARE_BPS = 2000"
definition ORACLE_MAX_AGE_SECONDS :: u16 where [const_defs]: "ORACLE_MAX_AGE_SECONDS = 2"
definition ORACLE_MAX_CONFIDENCE_BPS :: u16 where
  [const_defs]: "ORACLE_MAX_CONFIDENCE_BPS = 1"
definition SETTLEMENT_TASK_INTERVAL_MILLIS :: i64 where
  [const_defs]: "SETTLEMENT_TASK_INTERVAL_MILLIS = 1000"
definition SETTLEMENT_TASK_ITERATIONS :: i64 where
  [const_defs]: "SETTLEMENT_TASK_ITERATIONS = 25"
definition USER_POSITIONS_CAPACITY :: nat where [const_defs]: "USER_POSITIONS_CAPACITY = 8"
definition USER_LIQUIDITY_MARKET_CAPACITY :: nat where
  [const_defs]: "USER_LIQUIDITY_MARKET_CAPACITY = 8"

text \<open>A byte-string literal \<open>b"..."\<close>.\<close>

definition byte_string :: "string \<Rightarrow> bytes" where
  "byte_string s = map (\<lambda>c. word_of_nat (of_char c)) s"

definition CONFIG_SEED :: bytes where "CONFIG_SEED = byte_string ''protocol_config''"
definition MARKET_SEED :: bytes where "MARKET_SEED = byte_string ''market''"
definition USER_POSITIONS_SEED :: bytes where
  "USER_POSITIONS_SEED = byte_string ''user_positions''"
definition USER_LIQUIDITY_SEED :: bytes where
  "USER_LIQUIDITY_SEED = byte_string ''user_liquidity''"
definition FEE_AUTHORITY_SEED :: bytes where
  "FEE_AUTHORITY_SEED = byte_string ''fee_authority''"

text \<open>\<open>Pubkey::default()\<close> and the array \<open>[0; 32]\<close>.\<close>

definition zero32 :: bytes where "zero32 = replicate 32 0"


section \<open>Account data\<close>

datatype direction = Up | Down

datatype market_mode = Open | CloseOnly

record protocol_config =
  cfg_admin :: pubkey
  cfg_fee_authority :: pubkey
  cfg_collateral_mint :: pubkey
  cfg_bump :: u8

record market =
  mkt_market_id :: u16
  mkt_oracle :: pubkey
  mkt_oracle_feed_id :: bytes
  mkt_total_shares :: u128
  mkt_open_collateral :: u64
  mkt_risk_epoch_equity :: u64
  mkt_active_positions :: u32
  mkt_next_position_nonce :: u32
  mkt_mode :: market_mode
  mkt_bump :: u8

record compact_position =
  pos_market_id :: u16
  pos_nonce :: u32
  pos_task_salt :: bytes
  pos_collateral :: u32
  pos_entry_price :: i64
  pos_expires_at :: u32
  pos_direction :: direction

record market_liquidity =
  ml_market_id :: u16
  ml_shares :: u128
  ml_pending_withdrawal_shares :: u128
  ml_min_assets_out :: u64

record user_positions =
  up_positions :: "compact_position list"

record user_liquidity =
  ul_markets :: "market_liquidity list"

definition is_no_risk :: "market \<Rightarrow> bool" where
  "is_no_risk m \<longleftrightarrow> mkt_active_positions m = 0 \<and> mkt_open_collateral m = 0"


section \<open>\<open>UserPositions\<close>\<close>

definition require_capacity :: "user_positions \<Rightarrow> unit result" where
  "require_capacity up =
     require (length (up_positions up) < USER_POSITIONS_CAPACITY)
       (Code UserPositionsCapacityExceeded)"

definition position_index :: "user_positions \<Rightarrow> u16 \<Rightarrow> u32 \<Rightarrow> nat option" where
  "position_index up market_id nonce =
     position (\<lambda>p. pos_market_id p = market_id \<and> pos_nonce p = nonce) (up_positions up)"

text \<open>\<open>filter(..).try_fold(0, checked_add)\<close>.\<close>

fun try_sum :: "u64 \<Rightarrow> u32 list \<Rightarrow> u64 result" where
  "try_sum acc [] = Inr acc"
| "try_sum acc (c # cs) =
     and_then (ok_or (checked_add acc (ucast c)) (Code MathOverflow)) (\<lambda>s. try_sum s cs)"

definition open_collateral :: "user_positions \<Rightarrow> u16 \<Rightarrow> u64 result" where
  "open_collateral up market_id =
     try_sum 0 (map pos_collateral (filter (\<lambda>p. pos_market_id p = market_id) (up_positions up)))"


section \<open>\<open>UserLiquidity\<close>\<close>

definition require_empty :: "user_liquidity \<Rightarrow> unit result" where
  "require_empty ul = require (ul_markets ul = []) (Code ActiveUserLiquidity)"

definition liquidity_market :: "user_liquidity \<Rightarrow> u16 \<Rightarrow> market_liquidity option" where
  "liquidity_market ul market_id = find (\<lambda>e. ml_market_id e = market_id) (ul_markets ul)"

text \<open>A mutable reference into the vector is the index it points at.\<close>

definition market_mut :: "user_liquidity \<Rightarrow> u16 \<Rightarrow> nat option" where
  "market_mut ul market_id = position (\<lambda>e. ml_market_id e = market_id) (ul_markets ul)"

definition market_or_insert_mut ::
    "user_liquidity \<Rightarrow> u16 \<Rightarrow> (user_liquidity \<times> nat) result" where
  "market_or_insert_mut ul market_id =
     (case position (\<lambda>e. ml_market_id e = market_id) (ul_markets ul) of
        Some index \<Rightarrow> Inr (ul, index)
      | None \<Rightarrow>
          and_then (require (length (ul_markets ul) < USER_LIQUIDITY_MARKET_CAPACITY)
                      (Code UserLiquidityCapacityExceeded))
            (\<lambda>_. Inr (ul\<lparr>ul_markets := ul_markets ul @
                     [\<lparr>ml_market_id = market_id, ml_shares = 0,
                       ml_pending_withdrawal_shares = 0, ml_min_assets_out = 0\<rparr>]\<rparr>,
                   length (ul_markets ul))))"

definition remove_empty_market :: "user_liquidity \<Rightarrow> u16 \<Rightarrow> user_liquidity" where
  "remove_empty_market ul market_id =
     (case position (\<lambda>e. ml_market_id e = market_id \<and> ml_shares e = 0
                       \<and> ml_pending_withdrawal_shares e = 0) (ul_markets ul) of
        Some index \<Rightarrow> ul\<lparr>ul_markets := swap_remove index (ul_markets ul)\<rparr>
      | None \<Rightarrow> ul)"

text \<open>Writing through the reference.\<close>

definition set_entry :: "user_liquidity \<Rightarrow> nat \<Rightarrow> market_liquidity \<Rightarrow> user_liquidity" where
  "set_entry ul i e = ul\<lparr>ul_markets := (ul_markets ul)[i := e]\<rparr>"

end
