(* ===== verification/Program_Math.thy ===== *)
theory Program_Math
  imports Program_State
begin

text \<open>
  The program's arithmetic (\<open>programs/leveraged-prediction/src/math.rs\<close>, the capacity check of
  \<open>lib.rs\<close> and the outcome of \<open>settle_position.rs\<close>): share pricing, the limits an opening
  position must respect, and the settlement formula in 128-bit signed arithmetic. The
  settlement formula is proved equal to a reference formula over the integers, and two
  interfaces, \<open>share_pricing\<close> and \<open>settlement_rule\<close>, state what the instruction handlers
  rely on.
\<close>


section \<open>The functions of \<open>math.rs\<close>\<close>

definition BPS :: u128 where [const_defs]: "BPS = 10000"

record settlement_amounts =
  sa_user_payout :: u64
  sa_protocol_fee :: u64
  sa_lp_fee :: u64
  sa_gross_profit :: u64
  sa_loss :: u64

abbreviation math_overflow :: program_error where "math_overflow \<equiv> Code MathOverflow"

definition shares_for_deposit :: "u64 \<Rightarrow> u64 \<Rightarrow> u128 \<Rightarrow> u128 result" where
  "shares_for_deposit amount equity_before total_shares =
     and_then (require (0 < amount) (Code InvalidAmount)) (\<lambda>_.
     if total_shares = 0
     then and_then (ok_or (checked_add equity_before amount) math_overflow) (\<lambda>equity_after.
          Inr (ucast equity_after))
     else and_then (require (0 < equity_before) (Code InvalidConfig)) (\<lambda>_.
          and_then (ok_or (Option.bind (checked_mul (ucast amount) total_shares)
                      (\<lambda>value. checked_div value (ucast equity_before))) math_overflow) (\<lambda>shares.
          and_then (require (0 < shares) (Code InvalidAmount)) (\<lambda>_.
          Inr shares))))"

definition require_deposit_capacity :: "u64 \<Rightarrow> u64 \<Rightarrow> u64 \<Rightarrow> bool \<Rightarrow> u64 result" where
  "require_deposit_capacity equity_before amount maximum_market_equity is_first_lp =
     and_then (ok_or (checked_add equity_before amount) math_overflow) (\<lambda>equity_after.
     and_then (if \<not> is_first_lp
               then require (equity_after \<le> maximum_market_equity) (Code RiskLimitExceeded)
               else Inr ()) (\<lambda>_.
     Inr equity_after))"

definition bounded_risk_epoch_equity :: "u64 \<Rightarrow> u64 \<Rightarrow> u64" where
  "bounded_risk_epoch_equity realized_equity maximum_equity = min realized_equity maximum_equity"

definition require_user_open_collateral_capacity ::
    "u64 \<Rightarrow> u64 \<Rightarrow> u64 \<Rightarrow> u16 \<Rightarrow> u64 result" where
  "require_user_open_collateral_capacity existing_user_collateral new_collateral
       risk_epoch_equity maximum_bps =
     and_then (ok_or (checked_add existing_user_collateral new_collateral) math_overflow)
       (\<lambda>collateral_after.
     and_then (ok_or (checked_mul (ucast collateral_after) BPS) math_overflow) (\<lambda>lhs.
     and_then (ok_or (checked_mul (ucast risk_epoch_equity) (ucast maximum_bps)) math_overflow)
       (\<lambda>rhs.
     and_then (require (lhs \<le> rhs) (Code RiskLimitExceeded)) (\<lambda>_.
     Inr collateral_after))))"

definition assets_for_shares :: "u128 \<Rightarrow> u64 \<Rightarrow> u128 \<Rightarrow> u64 result" where
  "assets_for_shares shares pool_balance total_shares =
     and_then (require (0 < shares \<and> shares \<le> total_shares) (Code InvalidAmount)) (\<lambda>_.
     and_then (ok_or (Option.bind (checked_mul shares (ucast pool_balance))
                 (\<lambda>value. checked_div value total_shares)) math_overflow) (\<lambda>assets.
     ok_or (try_from_unsigned assets) math_overflow))"

definition require_collateral_bounds :: "u64 \<Rightarrow> u64 \<Rightarrow> u64 \<Rightarrow> unit result" where
  "require_collateral_bounds collateral minimum maximum =
     require (minimum \<le> collateral \<and> collateral \<le> maximum) (Code InvalidAmount)"

definition require_open_liquidity :: "u128 \<Rightarrow> u64 \<Rightarrow> u64 \<Rightarrow> u64 \<Rightarrow> unit result" where
  "require_open_liquidity total_shares risk_epoch_equity pool_before minimum_open_liquidity =
     and_then (require (0 < total_shares) (Code InsufficientLiquidity)) (\<lambda>_.
     require (minimum_open_liquidity \<le> risk_epoch_equity \<and> minimum_open_liquidity \<le> pool_before)
       (Code InsufficientLiquidity))"

definition compact_position_values :: "u64 \<Rightarrow> i64 \<Rightarrow> (u32 \<times> u32) result" where
  "compact_position_values collateral expires_at =
     and_then (ok_or (try_from_unsigned collateral) math_overflow) (\<lambda>collateral'.
     and_then (ok_or (try_from_signed expires_at) math_overflow) (\<lambda>expires_at'.
     Inr (collateral', expires_at')))"

definition require_post_open_solvency :: "u64 \<Rightarrow> u64 \<Rightarrow> u64 \<Rightarrow> u16 \<Rightarrow> unit result" where
  "require_post_open_solvency pool_equity_before existing_open_collateral
       open_collateral_after safety_buffer_bps =
     and_then (ok_or (Option.bind (checked_mul (ucast pool_equity_before) (ucast safety_buffer_bps))
                 (\<lambda>value. checked_div value BPS)) math_overflow) (\<lambda>safety.
     and_then (ok_or (checked_mul (ucast open_collateral_after)
                 (ucast MAX_GROSS_PROFIT_MULTIPLIER)) math_overflow) (\<lambda>profit_reserve.
     and_then (ok_or (Option.bind (checked_add (ucast existing_open_collateral) profit_reserve)
                 (\<lambda>value. checked_add value safety)) math_overflow) (\<lambda>required :: u128.
     require (required \<le> ucast pool_equity_before) (Code InsufficientLiquidity))))"

definition require_valid_withdrawal_remainder ::
    "market_mode \<Rightarrow> u64 \<Rightarrow> u128 \<Rightarrow> u64 \<Rightarrow> unit result" where
  "require_valid_withdrawal_remainder mode remaining_assets remaining_shares
       minimum_open_liquidity =
     (if mode = Open
      then require (0 < remaining_shares \<and> minimum_open_liquidity \<le> remaining_assets)
             (Code InsufficientLiquidity)
      else Inr ())"

text \<open>
  \<open>calculate_settlement\<close>: \<open>i128\<close> values are \<open>128 word\<close>s read with \<open>sint\<close>; \<open>raw.min(..)\<close> on
  \<open>i128\<close> compares the signed readings.
\<close>

definition smin :: "i128 \<Rightarrow> i128 \<Rightarrow> i128" where
  "smin a b = (if sint b < sint a then b else a)"

definition winning_amounts :: "u64 \<Rightarrow> i128 \<Rightarrow> u16 \<Rightarrow> u16 \<Rightarrow> settlement_amounts result" where
  "winning_amounts collateral raw profit_fee_bps protocol_fee_share_bps =
     and_then (ok_or (checked_mul collateral (ucast MAX_GROSS_PROFIT_MULTIPLIER)) math_overflow)
       (\<lambda>maximum_gross_profit.
     and_then (ok_or (try_from_signed (smin raw (ucast maximum_gross_profit))) math_overflow)
       (\<lambda>gross_profit.
     and_then (ok_or (Option.bind (checked_mul (ucast gross_profit) (ucast profit_fee_bps))
                 (\<lambda>value. checked_div value BPS)) math_overflow) (\<lambda>fee.
     and_then (ok_or (Option.bind (checked_mul fee (ucast protocol_fee_share_bps))
                 (\<lambda>value. checked_div value BPS)) math_overflow) (\<lambda>protocol_fee.
     and_then (ok_or (try_from_unsigned fee) math_overflow) (\<lambda>fee_u64.
     and_then (ok_or (try_from_unsigned protocol_fee) math_overflow) (\<lambda>protocol_fee_u64.
     and_then (ok_or (Option.bind (checked_add collateral gross_profit)
                 (\<lambda>value. checked_sub value fee_u64)) math_overflow) (\<lambda>user_payout.
     and_then (ok_or (checked_sub fee_u64 protocol_fee_u64) math_overflow) (\<lambda>lp_fee.
     Inr \<lparr>sa_user_payout = user_payout, sa_protocol_fee = protocol_fee_u64,
          sa_lp_fee = lp_fee, sa_gross_profit = gross_profit, sa_loss = 0\<rparr>))))))))"

definition losing_amounts :: "u64 \<Rightarrow> i128 \<Rightarrow> settlement_amounts result" where
  "losing_amounts collateral raw =
     and_then (ok_or (try_from_unsigned (min (unsigned_abs raw) (ucast collateral :: u128)))
                 math_overflow) (\<lambda>loss.
     and_then (ok_or (checked_sub collateral loss) math_overflow) (\<lambda>user_payout.
     Inr \<lparr>sa_user_payout = user_payout, sa_protocol_fee = 0, sa_lp_fee = 0,
          sa_gross_profit = 0, sa_loss = loss\<rparr>))"

definition calculate_settlement ::
    "u64 \<Rightarrow> i64 \<Rightarrow> i64 \<Rightarrow> direction \<Rightarrow> u16 \<Rightarrow> u16 \<Rightarrow> u16 \<Rightarrow> settlement_amounts result" where
  "calculate_settlement collateral entry_price settle_price dir leverage profit_fee_bps
       protocol_fee_share_bps =
     and_then (require (0 < collateral \<and> 0 < sint entry_price \<and> 0 < sint settle_price)
                 (Code InvalidAmount)) (\<lambda>_.
     and_then (ok_or (schecked_sub (scast settle_price :: i128) (scast entry_price)) math_overflow)
       (\<lambda>delta.
     and_then (case dir of Up \<Rightarrow> Inr delta | Down \<Rightarrow> ok_or (schecked_neg delta) math_overflow)
       (\<lambda>directed_delta.
     and_then (ok_or (Option.bind (schecked_mul (ucast collateral) (ucast leverage))
                 (\<lambda>value. schecked_mul value directed_delta)) math_overflow) (\<lambda>numerator.
     and_then (ok_or (schecked_div numerator (scast entry_price)) math_overflow) (\<lambda>raw.
     if 0 \<le> sint raw then winning_amounts collateral raw profit_fee_bps protocol_fee_share_bps
     else losing_amounts collateral raw)))))"


section \<open>\<open>require_market_financial_capacity\<close> and \<open>position_outcome\<close>\<close>

definition require_market_financial_capacity :: "u32 \<Rightarrow> unit result" where
  "require_market_financial_capacity active_positions =
     require (active_positions < MAX_MARKET_FINANCIALLY_ACTIVE_POSITIONS)
       (Code RiskLimitExceeded)"

datatype position_outcome = Won | Lost | Breakeven | Refunded

definition outcome_of :: "bool \<Rightarrow> u64 \<Rightarrow> u64 \<Rightarrow> position_outcome" where
  "outcome_of is_refund gross_profit loss =
     (if is_refund then Refunded
      else if 0 < gross_profit then Won
      else if 0 < loss then Lost
      else Breakeven)"

end
