(* ===== verification/Settlement_Math.thy ===== *)
theory Settlement_Math
  imports Program_Math
begin

text \<open>
  What \<open>calculate_settlement\<close>, the opening admission check and the share pricing of \<open>math.rs\<close>
  promise. The settlement is compared with a reference over the integers (\<open>ref_settlement\<close>):
  wherever the checked 128-bit computation returns, it returns the reference amounts, and it
  returns for every collateral a position can hold. The interfaces \<open>settlement_rule\<close>,
  \<open>collateral_cover\<close> and \<open>share_pricing\<close> carry the laws the handlers rely on.
\<close>


section \<open>The reference settlement\<close>

lemma unat_consts [rust_simps]:
  "unat BPS = 10000" "unat MAX_GROSS_PROFIT_MULTIPLIER = 5"
  by (simp_all add: const_defs)

definition ref_gross :: "nat \<Rightarrow> int \<Rightarrow> nat" where
  "ref_gross c raw = nat (min (max raw 0) (5 * int c))"

definition ref_loss :: "nat \<Rightarrow> int \<Rightarrow> nat" where
  "ref_loss c raw = nat (min (max (- raw) 0) (int c))"

definition ref_fee :: "nat \<Rightarrow> nat \<Rightarrow> nat" where
  "ref_fee bps amount = amount * bps div 10000"

lemma smin_sint: "sint (smin a b) = min (sint a) (sint b)"
  by (auto simp: smin_def)

lemma winning_amounts_InrD:
  assumes "winning_amounts c raw b1 b2 = Inr a" "0 \<le> sint raw"
  defines "g \<equiv> ref_gross (unat c) (sint raw)"
  defines "f \<equiv> ref_fee (unat b1) g"
  defines "p \<equiv> ref_fee (unat b2) f"
  shows "unat (sa_gross_profit a) = g" "unat (sa_loss a) = 0" "unat (sa_protocol_fee a) = p"
    "unat (sa_lp_fee a) = f - p" "unat (sa_user_payout a) = unat c + g - f"
    "p \<le> f" "f \<le> unat c + g"
proof -
  obtain mx gp f64 p64 cg up lf :: u64 and m1 fee m2 pf :: u128 where
    mx: "unat mx = unat c * 5" and
    gp: "int (unat gp) = min (sint raw) (int (unat mx))" and
    m1: "unat m1 = unat gp * unat b1" and fee: "unat fee = unat m1 div 10000" and
    m2: "unat m2 = unat fee * unat b2" and pf: "unat pf = unat m2 div 10000" and
    f64: "unat f64 = unat fee" and p64: "unat p64 = unat pf" and
    cg: "unat cg = unat c + unat gp" and
    up: "unat f64 \<le> unat cg" "unat up = unat cg - unat f64" and
    lf: "unat p64 \<le> unat f64" "unat lf = unat f64 - unat p64" and
    a: "\<lparr>sa_user_payout = up, sa_protocol_fee = p64, sa_lp_fee = lf,
          sa_gross_profit = gp, sa_loss = 0\<rparr> = a"
    using assms(1) unfolding winning_amounts_def result_simps sum.inject
    by (simp only: rust_simps smin_sint) (elim exE conjE, rule that; assumption)
  have "unat gp = nat (min (sint raw) (int (unat c * 5)))"
    using gp unfolding mx by (metis nat_int)
  then have "unat gp = g"
    using assms(2) unfolding g_def ref_gross_def
    by (simp only: max.absorb1 of_nat_mult of_nat_numeral mult.commute)
  then show "unat (sa_gross_profit a) = g" "unat (sa_loss a) = 0"
    "unat (sa_protocol_fee a) = p" "unat (sa_lp_fee a) = f - p"
    "unat (sa_user_payout a) = unat c + g - f" "p \<le> f" "f \<le> unat c + g"
    using m1 fee m2 pf f64 p64 cg up lf by (simp_all add: a [symmetric] f_def p_def ref_fee_def)
qed

lemma losing_amounts_InrD:
  assumes "losing_amounts c raw = Inr a" "sint raw < 0"
  shows "unat (sa_loss a) = ref_loss (unat c) (sint raw)" "unat (sa_gross_profit a) = 0"
    "unat (sa_protocol_fee a) = 0" "unat (sa_lp_fee a) = 0"
    "unat (sa_user_payout a) = unat c - unat (sa_loss a)" "unat (sa_loss a) \<le> unat c"
proof -
  obtain loss up where
    loss: "unat (loss :: u64) = min (nat \<bar>sint raw\<bar>) (unat c)" and
    up: "unat loss \<le> unat c" "unat up = unat c - unat loss" and
    a: "a = \<lparr>sa_user_payout = up, sa_protocol_fee = 0, sa_lp_fee = 0,
          sa_gross_profit = 0, sa_loss = loss\<rparr>"
    using assms(1)
    by (auto simp: losing_amounts_def result_simps rust_simps unat_min unat_unsigned_abs)
  show "unat (sa_loss a) = ref_loss (unat c) (sint raw)"
    using loss assms(2) unfolding a ref_loss_def nat_min_eq settlement_amounts.simps
    by (simp only: nat_int abs_of_neg max.absorb1 neg_0_le_iff_le less_imp_le)
  show "unat (sa_gross_profit a) = 0"
    "unat (sa_protocol_fee a) = 0" "unat (sa_lp_fee a) = 0"
    "unat (sa_user_payout a) = unat c - unat (sa_loss a)" "unat (sa_loss a) \<le> unat c"
    using up by (simp_all add: a)
qed


definition settle_raw :: "nat \<Rightarrow> int \<Rightarrow> int \<Rightarrow> direction \<Rightarrow> nat \<Rightarrow> int" where
  "settle_raw c entry settle dir lev =
     (int c * int lev * (case dir of Up \<Rightarrow> settle - entry | Down \<Rightarrow> - (settle - entry))) sdiv entry"

lemma calculate_settlement_Inr_split:
  assumes "calculate_settlement c e s d lev b1 b2 = Inr a"
  obtains raw where "0 < unat c" "0 < sint e" "0 < sint s"
    "sint raw = settle_raw (unat c) (sint e) (sint s) d (unat lev)"
    "(if 0 \<le> sint raw then winning_amounts c raw b1 b2 else losing_amounts c raw) = Inr a"
proof -
  have "(\<exists>raw. 0 < unat c \<and> 0 < sint e \<and> 0 < sint s \<and>
      sint raw = settle_raw (unat c) (sint e) (sint s) d (unat lev) \<and>
      (if 0 \<le> sint raw then winning_amounts c raw b1 b2 else losing_amounts c raw) = Inr a)"
    using assms unfolding calculate_settlement_def result_simps schecked_defs settle_raw_def
    by (cases d) (simp_all only: rust_simps direction.case result_simps sum.inject unat_0 schecked_defs,
      (elim exE conjE, intro exI conjI, assumption+, simp only:, assumption)+)
  then show thesis using that by blast
qed


text \<open>A record of the reference amounts, as natural numbers.\<close>

record ref_amounts =
  ra_payout :: nat
  ra_protocol :: nat
  ra_lp :: nat
  ra_gross :: nat
  ra_loss :: nat

definition ref_settlement ::
    "nat \<Rightarrow> int \<Rightarrow> int \<Rightarrow> direction \<Rightarrow> nat \<Rightarrow> nat \<Rightarrow> nat \<Rightarrow> ref_amounts" where
  "ref_settlement c entry settle dir lev b1 b2 =
     (let raw = settle_raw c entry settle dir lev; g = ref_gross c raw; l = ref_loss c raw;
          fee = ref_fee b1 g; p = ref_fee b2 fee
      in \<lparr>ra_payout = c + g - fee - l, ra_protocol = p, ra_lp = fee - p,
          ra_gross = g, ra_loss = l\<rparr>)"

definition amounts_nat :: "settlement_amounts \<Rightarrow> ref_amounts" where
  "amounts_nat a = \<lparr>ra_payout = unat (sa_user_payout a), ra_protocol = unat (sa_protocol_fee a),
     ra_lp = unat (sa_lp_fee a), ra_gross = unat (sa_gross_profit a), ra_loss = unat (sa_loss a)\<rparr>"

lemma ref_gross_neg [simp]: "raw \<le> 0 \<Longrightarrow> ref_gross c raw = 0"
  by (simp add: ref_gross_def)

lemma ref_loss_pos [simp]: "0 \<le> raw \<Longrightarrow> ref_loss c raw = 0"
  by (simp add: ref_loss_def)

lemma ref_gross_le: "ref_gross c raw \<le> 5 * c"
  unfolding ref_gross_def nat_min_eq by simp

lemma ref_loss_le: "ref_loss c raw \<le> c"
  unfolding ref_loss_def nat_min_eq by simp

lemma ref_fee_0 [simp]: "ref_fee b 0 = 0" by (simp add: ref_fee_def)

lemma ref_fee_le: "b \<le> 10000 \<Longrightarrow> ref_fee b x \<le> x"
proof -
  assume "b \<le> 10000"
  then have "x * b div 10000 \<le> x * 10000 div 10000" by (intro div_le_mono mult_le_mono2)
  then show ?thesis by (simp add: ref_fee_def)
qed

lemma calculate_settlement_InrD:
  assumes "calculate_settlement c e s d lev b1 b2 = Inr a"
  defines "raw \<equiv> settle_raw (unat c) (sint e) (sint s) d (unat lev)"
  shows "0 < unat c" "0 < sint e" "0 < sint s"
    "amounts_nat a = ref_settlement (unat c) (sint e) (sint s) d (unat lev) (unat b1) (unat b2)"
    "ref_fee (unat b2) (ref_fee (unat b1) (ref_gross (unat c) raw))
      \<le> ref_fee (unat b1) (ref_gross (unat c) raw)"
    "ref_fee (unat b1) (ref_gross (unat c) raw) \<le> unat c + ref_gross (unat c) raw"
proof -
  obtain w where w: "0 < unat c" "0 < sint e" "0 < sint s" "sint w = raw"
    "(if 0 \<le> sint w then winning_amounts c w b1 b2 else losing_amounts c w) = Inr a"
    using calculate_settlement_Inr_split [OF assms(1)] unfolding raw_def by metis
  then show "0 < unat c" "0 < sint e" "0 < sint s" by blast+
  have "amounts_nat a = ref_settlement (unat c) (sint e) (sint s) d (unat lev) (unat b1) (unat b2)
    \<and> ref_fee (unat b2) (ref_fee (unat b1) (ref_gross (unat c) raw))
      \<le> ref_fee (unat b1) (ref_gross (unat c) raw)
    \<and> ref_fee (unat b1) (ref_gross (unat c) raw) \<le> unat c + ref_gross (unat c) raw"
  proof (cases "0 \<le> raw")
    case True
    with w have "winning_amounts c w b1 b2 = Inr a" "0 \<le> sint w" by simp_all
    note D = winning_amounts_InrD [OF this]
    with True w(4) show ?thesis
      by (simp add: ref_settlement_def Let_def raw_def [symmetric] amounts_nat_def)
  next
    case False
    with w have "losing_amounts c w = Inr a" "sint w < 0" by simp_all
    note D = losing_amounts_InrD [OF this]
    with False w(4) show ?thesis
      by (simp add: ref_settlement_def Let_def raw_def [symmetric] amounts_nat_def)
  qed
  then show "amounts_nat a = ref_settlement (unat c) (sint e) (sint s) d (unat lev) (unat b1) (unat b2)"
    "ref_fee (unat b2) (ref_fee (unat b1) (ref_gross (unat c) raw))
      \<le> ref_fee (unat b1) (ref_gross (unat c) raw)"
    "ref_fee (unat b1) (ref_gross (unat c) raw) \<le> unat c + ref_gross (unat c) raw" by blast+
qed

text \<open>Totality, step by step: no intermediate value overflows for a 32-bit collateral.\<close>

lemma winning_amounts_total:
  assumes c: "unat c < 2 ^ 32" and raw: "0 \<le> sint raw"
    and b: "unat b1 \<le> 10000" "unat b2 \<le> 10000"
  shows "\<exists>a. winning_amounts c raw b1 b2 = Inr a"
proof -
  obtain mx where mx: "checked_mul c (ucast MAX_GROSS_PROFIT_MULTIPLIER) = Some (mx :: u64)"
    "unat mx = unat c * 5"
    using option_total [of "checked_mul c (ucast MAX_GROSS_PROFIT_MULTIPLIER)"] c
    by (auto simp: rust_simps)
  define r where "r = smin raw (ucast mx)"
  have r: "0 \<le> sint r" "sint r \<le> 5 * int (unat c)"
    using raw mx(2) unfolding r_def smin_sint widen by simp_all
  have cb: "int (unat c) < 2 ^ 32" using c by (metis of_nat_less_iff of_nat_numeral of_nat_power)
  obtain g where g: "try_from_signed r = Some (g :: u64)" "int (unat g) = sint r"
    using option_total [of "try_from_signed r :: u64 option"] r cb
    unfolding try_from_signed_eq_None try_from_signed_eq_Some by force
  have gb: "unat g \<le> 5 * unat c"
    using r(2) g(2) by linarith
  obtain m1 :: u128 where m1: "checked_mul (ucast g) (ucast b1) = Some m1"
    "unat m1 = unat g * unat b1"
  proof -
    have "unat g * unat b1 \<le> (5 * 2 ^ 32) * 10000" using gb c b(1) by (intro mult_le_mono) simp_all
    then have "\<not> 2 ^ LENGTH(128) \<le> unat g * unat b1" by simp
    then show thesis
      using that option_total [of "checked_mul (ucast g :: u128) (ucast b1)"]
      unfolding checked_mul_eq_None checked_mul_eq_Some widen by blast
  qed
  obtain fee where fee: "checked_div m1 BPS = Some fee" "unat fee = unat m1 div 10000"
    using option_total [of "checked_div m1 BPS"] by (auto simp: rust_simps)
  have feeb: "unat fee \<le> unat g" 
    using ref_fee_le [OF b(1), of "unat g"] fee(2) m1(2) by (simp add: ref_fee_def)
  obtain m2 :: u128 where m2: "checked_mul fee (ucast b2) = Some m2"
    "unat m2 = unat fee * unat b2"
  proof -
    have "unat fee * unat b2 \<le> (5 * 2 ^ 32) * 10000"
      using feeb gb c b(2) by (intro mult_le_mono) simp_all
    then have "\<not> 2 ^ LENGTH(128) \<le> unat fee * unat b2" by simp
    then show thesis
      using that option_total [of "checked_mul fee (ucast b2)"]
      unfolding checked_mul_eq_None checked_mul_eq_Some widen by blast
  qed
  obtain pf where pf: "checked_div m2 BPS = Some pf" "unat pf = unat m2 div 10000"
    using option_total [of "checked_div m2 BPS"] by (auto simp: rust_simps)
  have pfb: "unat pf \<le> unat fee"
    using ref_fee_le [OF b(2), of "unat fee"] pf(2) m2(2) by (simp add: ref_fee_def)
  obtain f64 :: u64 where f64: "try_from_unsigned fee = Some f64" "unat f64 = unat fee"
    using option_total [of "try_from_unsigned fee :: u64 option"] feeb gb c
    unfolding try_from_unsigned_eq_None try_from_unsigned_eq_Some by force
  obtain p64 :: u64 where p64: "try_from_unsigned pf = Some p64" "unat p64 = unat pf"
    using option_total [of "try_from_unsigned pf :: u64 option"] pfb feeb gb c
    unfolding try_from_unsigned_eq_None try_from_unsigned_eq_Some by force
  obtain cg where cg: "checked_add c g = Some cg" "unat cg = unat c + unat g"
    using option_total [of "checked_add c g"] gb c
    unfolding checked_add_eq_None checked_add_eq_Some by force
  obtain up where up: "checked_sub cg f64 = Some up"
    using option_total [of "checked_sub cg f64"] cg f64 feeb
    unfolding checked_sub_eq_None by force
  obtain lf where lf: "checked_sub f64 p64 = Some lf"
    using option_total [of "checked_sub f64 p64"] p64 f64 pfb
    unfolding checked_sub_eq_None by force
  show ?thesis
    unfolding winning_amounts_def mx(1) ok_or_simps and_then_Inr r_def [symmetric] g(1) m1(1)
      Option.bind.bind_lunit fee(1) m2(1) pf(1) f64(1) p64(1) cg(1) up lf by blast
qed


lemma losing_amounts_total: "\<exists>a. losing_amounts c raw = Inr a"
proof -
  define m :: u128 where "m = min (unsigned_abs raw) (ucast c)"
  have m: "unat m \<le> unat c" unfolding m_def unat_min widen by simp
  obtain l :: u64 where l: "try_from_unsigned m = Some l" "unat l = unat m"
    using option_total [of "try_from_unsigned m :: u64 option"] m unat_u64_lt [of c]
    unfolding try_from_unsigned_eq_None try_from_unsigned_eq_Some by force
  obtain up where up: "checked_sub c l = Some up"
    using option_total [of "checked_sub c l"] m l(2) unfolding checked_sub_eq_None by force
  show ?thesis
    unfolding losing_amounts_def m_def [symmetric] l(1) ok_or_simps and_then_Inr up by blast
qed

lemma price_diff_bound:
  fixes e s :: i64
  assumes "0 < sint e" "0 < sint s"
  shows "\<bar>sint s - sint e\<bar> < 2 ^ 63"
proof -
  have "sint e < 2 ^ 63" "sint s < 2 ^ 63" using sint_lt [of e] sint_lt [of s] by simp_all
  with assms show ?thesis by linarith
qed

lemma calculate_settlement_total:
  assumes c: "0 < unat c" "unat c < 2 ^ 32" and e: "0 < sint e" and s: "0 < sint s"
    and b: "unat b1 \<le> 10000" "unat b2 \<le> 10000"
  shows "\<exists>a. calculate_settlement c e s d lev b1 b2 = Inr a"
proof -
  note pd = price_diff_bound [OF e s]
  have "c \<noteq> 0" using c(1) by auto
  then have c0: "0 < c" by (simp add: word_neq_0_conv)
  have small: "(2::int) ^ 63 < 2 ^ 127" by simp
  obtain delta where delta:
    "schecked_sub (scast s :: i128) (scast e) = Some delta" "sint delta = sint s - sint e"
    using option_total [of "schecked_sub (scast s :: i128) (scast e)"] pd small
    unfolding schecked_sub_def checked_of_int_eq_None checked_of_int_eq_Some widen
    by (meson fits_i128 less_trans)
  have "signed_fits TYPE(128) (- sint delta)"
    by (rule fits_i128) (use pd small delta(2) in linarith)
  then obtain neg where neg: "schecked_neg delta = Some neg" "sint neg = - sint delta"
    using option_total [of "schecked_neg delta"]
    unfolding schecked_neg_def checked_of_int_eq_None checked_of_int_eq_Some by blast
  obtain dd where dd: "(case d of Up \<Rightarrow> Inr delta | Down \<Rightarrow> ok_or (schecked_neg delta) math_overflow) = Inr dd"
    "\<bar>sint dd\<bar> < 2 ^ 63"
  proof (cases d)
    case Up then show thesis using that [of delta] pd delta(2) by simp
  next
    case Down then show thesis using that [of neg] pd delta(2) neg by simp
  qed
  have clb: "int (unat c) * int (unat lev) < 2 ^ 32 * 2 ^ 16"
  proof -
    have "unat c * unat lev < 2 ^ 32 * 2 ^ 16"
      by (rule mult_strict_mono) (use c unat_u16_lt [of lev] in simp_all)
    then have "int (unat c * unat lev) < int (2 ^ 32 * 2 ^ 16)" by (simp only: of_nat_less_iff)
    then show ?thesis by (simp only: of_nat_mult of_nat_power of_nat_numeral)
  qed
  obtain cl where cl: "schecked_mul (ucast c :: i128) (ucast lev) = Some cl"
    "sint cl = int (unat c) * int (unat lev)"
  proof -
    have "\<bar>int (unat c) * int (unat lev)\<bar> < 2 ^ 127"
    proof -
      have "(2::int) ^ 32 * 2 ^ 16 < 2 ^ 127" by simp
      with clb show ?thesis unfolding abs_mult abs_of_nat by (rule less_trans)
    qed
    then show thesis
      using that option_total [of "schecked_mul (ucast c :: i128) (ucast lev)"]
      unfolding schecked_mul_def checked_of_int_eq_None checked_of_int_eq_Some widen
      by (meson fits_i128)
  qed
  have numb: "\<bar>sint cl * sint dd\<bar> < 2 ^ 127"
  proof -
    have "\<bar>sint cl\<bar> \<le> 2 ^ 32 * 2 ^ 16" "\<bar>sint dd\<bar> \<le> 2 ^ 63"
      using less_imp_le [OF clb] less_imp_le [OF dd(2)] unfolding cl(2) abs_mult abs_of_nat .
    then have "\<bar>sint cl\<bar> * \<bar>sint dd\<bar> \<le> (2 ^ 32 * 2 ^ 16) * 2 ^ 63"
      by (rule mult_mono) (simp_all only: abs_ge_zero zero_le_mult_iff zero_le_power zero_le_numeral simp_thms)
    then have "\<bar>sint cl * sint dd\<bar> \<le> (2 ^ 32 * 2 ^ 16) * 2 ^ 63" by (simp only: abs_mult)
    also have "(2 ^ 32 * 2 ^ 16) * 2 ^ 63 < (2::int) ^ 127" by simp
    finally show ?thesis .
  qed
  obtain num where num: "schecked_mul cl dd = Some num" "sint num = sint cl * sint dd"
    using option_total [of "schecked_mul cl dd"] numb
    unfolding schecked_mul_def checked_of_int_eq_None checked_of_int_eq_Some
    by (meson fits_i128)
  obtain raw where raw: "schecked_div num (scast e :: i128) = Some raw"
  proof -
    have "\<bar>sint num sdiv sint e\<bar> < 2 ^ 127"
      using abs_sdiv_le [OF e, of "sint num"] numb num(2) by linarith
    then have "signed_fits TYPE(128) (sint num sdiv sint e)" by (rule fits_i128)
    moreover have "(scast e :: i128) \<noteq> 0"
      using e widen(7) [of e] by (metis less_irrefl sint_eq_0_iff)
    ultimately have "schecked_div num (scast e :: i128) \<noteq> None"
      unfolding schecked_div_def widen
      by (simp only: if_False checked_of_int_eq_None not_True_eq_False not_False_eq_True)
    then show thesis using that by blast
  qed
  have step: "calculate_settlement c e s d lev b1 b2 =
      (if 0 \<le> sint raw then winning_amounts c raw b1 b2 else losing_amounts c raw)"
    using c0 e s unfolding calculate_settlement_def
    by (simp add: delta(1) dd(1) cl(1) num(1) raw)
  show ?thesis
    using step winning_amounts_total [OF c(2) _ b, of raw] losing_amounts_total [of c raw]
    by (cases "0 \<le> sint raw") simp_all
qed


section \<open>Truncated division is monotone\<close>

lemma sdiv_mono:
  fixes a b k :: int
  assumes "0 < k" "a \<le> b"
  shows "a sdiv k \<le> b sdiv k"
proof -
  consider "0 \<le> a" | "a < 0" "0 \<le> b" | "b < 0" using assms(2) by linarith
  then show ?thesis
  proof cases
    case 1
    then show ?thesis using assms by (simp add: sdiv_nonneg zdiv_mono1)
  next
    case 2
    then have "0 \<le> (- a) div k" "0 \<le> b div k"
      using assms(1) by (simp_all add: pos_imp_zdiv_nonneg_iff)
    then show ?thesis using 2 assms(1) by (simp add: sdiv_nonneg sdiv_neg)
  next
    case 3
    then have "(- b) div k \<le> (- a) div k" using assms by (intro zdiv_mono1) auto
    then show ?thesis using 3 assms by (simp add: sdiv_neg)
  qed
qed

lemma sdiv_uminus: "0 < k \<Longrightarrow> (- a) sdiv k = - (a sdiv (k :: int))"
  by (cases "a < 0"; cases "a = 0") (simp_all add: sdiv_nonneg sdiv_neg)

lemma ref_fee_mono: "x \<le> y \<Longrightarrow> ref_fee b x \<le> ref_fee b y"
  by (simp add: ref_fee_def div_le_mono)

lemma ref_fee_step: 
  assumes "b \<le> 10000"
  shows "ref_fee b (x + d) \<le> ref_fee b x + d"
proof -
  have "(x + d) * b \<le> x * b + d * 10000" using assms by (simp add: algebra_simps)
  then have "(x + d) * b div 10000 \<le> (x * b + d * 10000) div 10000" by (rule div_le_mono)
  then show ?thesis by (simp add: ref_fee_def)
qed

lemma net_profit_mono:
  assumes "x \<le> y" "b \<le> 10000"
  shows "x - ref_fee b x \<le> y - ref_fee b y"
proof -
  obtain d where y: "y = x + d" using assms(1) le_Suc_ex by blast
  show ?thesis
    using ref_fee_step [OF assms(2), of x d] ref_fee_le [OF assms(2), of x] unfolding y by linarith
qed

lemma ref_gross_mono: "r \<le> r' \<Longrightarrow> ref_gross c r \<le> ref_gross c r'"
  unfolding ref_gross_def by (intro nat_mono min.mono max.mono) simp_all

lemma ref_loss_mono: "r \<le> r' \<Longrightarrow> ref_loss c r' \<le> ref_loss c r"
  unfolding ref_loss_def by (intro nat_mono min.mono max.mono) simp_all

lemma ref_payout_mono:
  assumes "r \<le> r'" "b \<le> 10000"
  shows "c + ref_gross c r - ref_fee b (ref_gross c r) - ref_loss c r
       \<le> c + ref_gross c r' - ref_fee b (ref_gross c r') - ref_loss c r'"
  using net_profit_mono [OF ref_gross_mono [OF assms(1), of c] assms(2)] ref_loss_mono [OF assms(1), of c]
    ref_fee_le [OF assms(2), of "ref_gross c r"] ref_fee_le [OF assms(2), of "ref_gross c r'"]
    ref_loss_le [of c r] ref_loss_le [of c r'] by linarith

lemma sdiv_scale_mono:
  "0 < e \<Longrightarrow> 0 \<le> k \<Longrightarrow> x \<le> y \<Longrightarrow> (k * x) sdiv e \<le> (k * y) sdiv (e :: int)"
  by (rule sdiv_mono) (simp_all add: mult_left_mono)

lemma settle_raw_mono:
  assumes "0 < e" "s \<le> s'"
  shows "settle_raw c e s Up lev \<le> settle_raw c e s' Up lev"
    "settle_raw c e s' Down lev \<le> settle_raw c e s Down lev"
proof -
  have k: "0 \<le> int c * int lev" by simp
  have "s - e \<le> s' - e" "- (s' - e) \<le> - (s - e)" using assms(2) by simp_all
  note sdiv_scale_mono [OF assms(1) k this(1)] sdiv_scale_mono [OF assms(1) k this(2)]
  then show "settle_raw c e s Up lev \<le> settle_raw c e s' Up lev"
    "settle_raw c e s' Down lev \<le> settle_raw c e s Down lev"
    unfolding settle_raw_def direction.case by blast+
qed

lemma settle_raw_opposite:
  "0 < e \<Longrightarrow> settle_raw c e s Down lev = - settle_raw c e s Up lev"
  by (simp only: settle_raw_def direction.case mult_minus_right sdiv_uminus)


section \<open>Settlement properties\<close>

text \<open>C7: \<open>calculate_settlement\<close> computes the product's payoff exactly. For every collateral a
  position can record (it is stored in 32 bits), every positive price and fee rates of at most
  100%, no intermediate step overflows, and the amounts are those of the reference over the
  integers: leverage times the relative price move, truncated towards zero, capped at five times
  the collateral on the winning side and at the collateral on the losing side, less the fee and
  its protocol share.\<close>
theorem settlement_exact:
  assumes "0 < unat c" "unat c < 2 ^ 32" "0 < sint e" "0 < sint s"
    and "unat b1 \<le> 10000" "unat b2 \<le> 10000"
  shows "\<exists>a. calculate_settlement c e s d lev b1 b2 = Inr a \<and>
    amounts_nat a = ref_settlement (unat c) (sint e) (sint s) d (unat lev) (unat b1) (unat b2)"
  using calculate_settlement_total [OF assms] calculate_settlement_InrD(4) by metis

theorem settlement_exact_witness:
  "\<exists>a. calculate_settlement 1000001 100000000 99999999 Up 1000 1000 2000 = Inr a \<and>
    amounts_nat a = ref_settlement 1000001 100000000 99999999 Up 1000 1000 2000"
  using settlement_exact [of 1000001 100000000 99999999 1000 2000 Up 1000] by simp

text \<open>C16: A settlement creates and destroys no money. Whenever \<open>calculate_settlement\<close> returns,
  the payout, the two fee shares and the loss kept by the pool add up to the collateral plus the
  gross profit; what leaves the pool (payout and protocol fee) is at most six times the
  collateral; and profit and loss are never both positive.\<close>
theorem settlement_conserves:
  assumes "calculate_settlement c e s d lev b1 b2 = Inr a"
  shows "unat (sa_user_payout a) + unat (sa_protocol_fee a) + unat (sa_lp_fee a)
           + unat (sa_loss a) = unat c + unat (sa_gross_profit a)
       \<and> unat (sa_user_payout a) + unat (sa_protocol_fee a) \<le> 6 * unat c
       \<and> (sa_gross_profit a = 0 \<or> sa_loss a = 0)"
proof -
  note D = calculate_settlement_InrD [OF assms]
  define raw where "raw = settle_raw (unat c) (sint e) (sint s) d (unat lev)"
  define g where "g = ref_gross (unat c) raw"
  have amounts: "unat (sa_user_payout a) = unat c + g - ref_fee (unat b1) g - ref_loss (unat c) raw"
    "unat (sa_protocol_fee a) = ref_fee (unat b2) (ref_fee (unat b1) g)"
    "unat (sa_lp_fee a) = ref_fee (unat b1) g - ref_fee (unat b2) (ref_fee (unat b1) g)"
    "unat (sa_gross_profit a) = g" "unat (sa_loss a) = ref_loss (unat c) raw"
    using D(4) by (simp_all add: amounts_nat_def ref_settlement_def Let_def raw_def g_def)
  have g0: "g = 0 \<or> ref_loss (unat c) raw = 0"
    unfolding g_def by (cases "0 \<le> raw") auto
  have "ref_loss (unat c) raw \<le> unat c" "g \<le> 5 * unat c"
    unfolding g_def by (rule ref_loss_le, rule ref_gross_le)
  moreover note D(5,6) [folded raw_def, folded g_def]
  ultimately have "unat (sa_user_payout a) + unat (sa_protocol_fee a) + unat (sa_lp_fee a)
           + unat (sa_loss a) = unat c + unat (sa_gross_profit a)"
    "unat (sa_user_payout a) + unat (sa_protocol_fee a) \<le> 6 * unat c"
    unfolding amounts using g0 by auto
  moreover have "sa_gross_profit a = 0 \<or> sa_loss a = 0"
    using g0 amounts(4,5) by (metis unsigned_eq_0_iff)
  ultimately show ?thesis by blast
qed


theorem settlement_conserves_witness:
  "\<exists>a. calculate_settlement 1000000 100000 101000 Up 1000 1000 2000 = Inr a \<and>
     unat (sa_user_payout a) + unat (sa_protocol_fee a) \<le> 6000000"
proof -
  obtain a where a: "calculate_settlement 1000000 100000 101000 Up 1000 1000 2000 = Inr a"
    using calculate_settlement_total [of 1000000 100000 101000 1000 2000 Up 1000] by auto
  show ?thesis using settlement_conserves [OF a] a by auto
qed

text \<open>The payout of a settlement that succeeds, in the reference's terms.\<close>

lemma payout_eq:
  assumes "calculate_settlement c e s d lev b1 b2 = Inr a"
  shows "unat (sa_user_payout a) =
    (let raw = settle_raw (unat c) (sint e) (sint s) d (unat lev); g = ref_gross (unat c) raw
     in unat c + g - ref_fee (unat b1) g - ref_loss (unat c) raw)"
  using calculate_settlement_InrD(4) [OF assms]
  by (simp add: amounts_nat_def ref_settlement_def Let_def)

text \<open>The payout follows the price. With the direction, the collateral, the entry price and
  the rates fixed, a higher settlement price never pays an \<open>Up\<close> position less and never pays a
  \<open>Down\<close> position more.\<close>
theorem settlement_payout_monotone:
  assumes "calculate_settlement c e s d lev b1 b2 = Inr a"
    and "calculate_settlement c e s' d lev b1 b2 = Inr a'"
    and "sint s \<le> sint s'" "unat b1 \<le> 10000"
  shows "(case d of Up \<Rightarrow> unat (sa_user_payout a) \<le> unat (sa_user_payout a')
                 | Down \<Rightarrow> unat (sa_user_payout a') \<le> unat (sa_user_payout a))"
proof -
  note e = calculate_settlement_InrD(2) [OF assms(1)]
  note mono = settle_raw_mono [OF e assms(3), of "unat c" "unat lev"]
  show ?thesis
  proof (cases d)
    case Up
    then show ?thesis
      using ref_payout_mono [OF mono(1) assms(4), of "unat c"]
        payout_eq [OF assms(1)] payout_eq [OF assms(2)] by (simp add: Let_def)
  next
    case Down
    then show ?thesis
      using ref_payout_mono [OF mono(2) assms(4), of "unat c"]
        payout_eq [OF assms(1)] payout_eq [OF assms(2)] by (simp add: Let_def)
  qed
qed

theorem settlement_payout_monotone_witness:
  "\<exists>a a'. calculate_settlement 1000000 100000 100010 Up 1000 1000 2000 = Inr a \<and>
     calculate_settlement 1000000 100000 100020 Up 1000 1000 2000 = Inr a' \<and>
     unat (sa_user_payout a) \<le> unat (sa_user_payout a')"
proof -
  obtain a where a: "calculate_settlement 1000000 100000 100010 Up 1000 1000 2000 = Inr a"
    using calculate_settlement_total [of 1000000 100000 100010 1000 2000 Up 1000] by auto
  obtain a' where a': "calculate_settlement 1000000 100000 100020 Up 1000 1000 2000 = Inr a'"
    using calculate_settlement_total [of 1000000 100000 100020 1000 2000 Up 1000] by auto
  show ?thesis using settlement_payout_monotone [OF a a'] a a' by auto
qed

lemma ref_loss_gross: "0 \<le> x \<Longrightarrow> ref_loss c (- x) = min (ref_gross c x) c"
  by (simp add: ref_gross_def ref_loss_def nat_min_eq nat_mult_distrib)




section \<open>Interfaces of the arithmetic\<close>

text \<open>
  What settling relies on: the amounts that leave the pool are bounded by a fixed multiple of
  the collateral, and a settlement of a position's collateral always returns.
\<close>

locale settlement_rule =
  fixes settle :: "u64 \<Rightarrow> i64 \<Rightarrow> i64 \<Rightarrow> direction \<Rightarrow> settlement_amounts result"
    and cap :: nat
  assumes outflow: "settle c e s d = Inr a \<Longrightarrow>
      unat (sa_user_payout a) + unat (sa_protocol_fee a) \<le> cap * unat c"
    and total: "0 < unat c \<Longrightarrow> unat c < 2 ^ 32 \<Longrightarrow> 0 < sint e \<Longrightarrow> 0 < sint s \<Longrightarrow>
      \<exists>a. settle c e s d = Inr a"
    and cap_pos: "0 < cap"
begin

text \<open>A covered pool pays the settlement and stays covered.\<close>

lemma pays:
  assumes "settle c e s d = Inr a" "unat c \<le> oc" "cap * oc \<le> pool"
  shows "unat (sa_user_payout a) + unat (sa_protocol_fee a) \<le> pool"
    "cap * (oc - unat c) \<le> pool - unat (sa_protocol_fee a) - unat (sa_user_payout a)"
proof -
  have le: "cap * unat c \<le> cap * oc" using assms(2) by simp
  show "unat (sa_user_payout a) + unat (sa_protocol_fee a) \<le> pool"
    using outflow [OF assms(1)] assms(3) le by linarith
  have "cap * (oc - unat c) = cap * oc - cap * unat c" by (simp add: diff_mult_distrib2)
  then show "cap * (oc - unat c) \<le> pool - unat (sa_protocol_fee a) - unat (sa_user_payout a)"
    using outflow [OF assms(1)] assms(3) le by linarith
qed

text \<open>So does a refund, which pays the collateral back.\<close>

lemma refunds:
  assumes "c \<le> oc" "cap * oc \<le> pool"
  shows "c \<le> pool" "cap * (oc - c) \<le> pool - c"
proof -
  have le: "c \<le> cap * c" "cap * c \<le> cap * oc" using cap_pos assms(1) by simp_all
  then show "c \<le> pool" using assms(2) by linarith
  have "cap * (oc - c) = cap * oc - cap * c" by (rule diff_mult_distrib2)
  then show "cap * (oc - c) \<le> pool - c" using le assms(2) by linarith
qed

end

text \<open>The admission check of an opening position keeps the pool covered.\<close>

locale collateral_cover = settlement_rule +
  fixes admit :: "u64 \<Rightarrow> u64 \<Rightarrow> u64 \<Rightarrow> unit result"
  assumes admit_law: "admit pool oc oc' = Inr u \<Longrightarrow>
      unat oc + (cap - 1) * unat oc' \<le> unat pool"
begin

lemma opens:
  assumes "admit pool oc oc' = Inr u" "unat oc' = unat oc + c"
  shows "cap * unat oc' \<le> unat pool + c"
proof -
  have "cap * unat oc' = unat oc' + (cap - 1) * unat oc'"
    using cap_pos by (cases cap) simp_all
  with admit_law [OF assms(1)] assms(2) show ?thesis by linarith
qed

end

lemma require_post_open_solvency_InrD:
  assumes "require_post_open_solvency pool oc oc' bps = Inr u"
  shows "unat oc + 5 * unat oc' + unat pool * unat bps div 10000 \<le> unat pool"
proof -
  obtain m safety reserve t r :: u128 where
    "unat m = unat pool * unat bps" "unat safety = unat m div 10000"
    "unat reserve = unat oc' * 5" "unat t = unat oc + unat reserve"
    "unat r = unat t + unat safety" "unat r \<le> unat pool"
    using assms unfolding require_post_open_solvency_def result_simps
    by (simp only: rust_simps)
      (elim exE conjE, rule that; assumption)
  then show ?thesis by simp
qed

interpretation program_rule: collateral_cover
  "\<lambda>c e s d. calculate_settlement c e s d LEVERAGE PROFIT_FEE_BPS PROTOCOL_FEE_SHARE_BPS"
  6 "\<lambda>pool oc oc'. require_post_open_solvency pool oc oc' SAFETY_BUFFER_BPS"
proof unfold_locales
  fix c e s d a
  assume "calculate_settlement c e s d LEVERAGE PROFIT_FEE_BPS PROTOCOL_FEE_SHARE_BPS = Inr a"
  note D = calculate_settlement_InrD [OF this]
  define g where "g = ref_gross (unat c) (settle_raw (unat c) (sint e) (sint s) d (unat LEVERAGE))"
  have "unat (sa_user_payout a) \<le> unat c + g - ref_fee (unat PROFIT_FEE_BPS) g"
    "unat (sa_protocol_fee a) =
      ref_fee (unat PROTOCOL_FEE_SHARE_BPS) (ref_fee (unat PROFIT_FEE_BPS) g)"
    using D(4) by (simp_all add: amounts_nat_def ref_settlement_def Let_def g_def)
  moreover have "g \<le> 5 * unat c" unfolding g_def by (rule ref_gross_le)
  ultimately show "unat (sa_user_payout a) + unat (sa_protocol_fee a) \<le> 6 * unat c"
    using D(5,6) [folded g_def] by linarith
next
  fix c :: u64 and e s :: i64 and d
  assume "0 < unat c" "unat c < 2 ^ 32" "0 < sint e" "0 < sint s"
  then show "\<exists>a. calculate_settlement c e s d LEVERAGE PROFIT_FEE_BPS PROTOCOL_FEE_SHARE_BPS = Inr a"
    by (rule calculate_settlement_total) (simp_all add: const_defs)
next
  fix pool oc oc' u
  assume "require_post_open_solvency pool oc oc' SAFETY_BUFFER_BPS = Inr u"
  from require_post_open_solvency_InrD [OF this]
  show "unat oc + (6 - 1) * unat oc' \<le> unat pool" by simp
qed simp_all

text \<open>
  What the liquidity instructions rely on: minting rounds against the depositor, redeeming
  rounds against the withdrawer.
\<close>

locale share_pricing =
  fixes mint :: "u64 \<Rightarrow> u64 \<Rightarrow> u128 \<Rightarrow> u128 result"
    and redeem :: "u128 \<Rightarrow> u64 \<Rightarrow> u128 \<Rightarrow> u64 result"
  assumes mint_law: "mint a e t = Inr s \<Longrightarrow> unat s * unat e \<le> unat a * unat t \<or> t = 0"
    and mint_pos: "mint a e t = Inr s \<Longrightarrow> 0 < unat s"
    and redeem_law: "redeem s p t = Inr r \<Longrightarrow> unat r * unat t \<le> unat s * unat p"
    and redeem_range: "redeem s p t = Inr r \<Longrightarrow> 0 < unat s \<and> unat s \<le> unat t"
begin

text \<open>The assets behind a share never fall: neither by a deposit nor by a withdrawal.\<close>

lemma mint_keeps_price:
  assumes "mint a e t = Inr s" "t \<noteq> 0"
  shows "unat e * (unat t + unat s) \<le> (unat e + unat a) * unat t"
  using mint_law [OF assms(1)] assms(2) by (simp add: algebra_simps)

lemma redeem_keeps_price:
  assumes "redeem s p t = Inr r"
  shows "unat r \<le> unat p"
    "unat p * (unat t - unat s) \<le> (unat p - unat r) * unat t"
proof -
  have le: "unat r * unat t \<le> unat s * unat p" by (rule redeem_law [OF assms])
  also have "\<dots> \<le> unat t * unat p" using redeem_range [OF assms] by simp
  finally show "unat r \<le> unat p" using redeem_range [OF assms] by (simp add: mult.commute)
  then show "unat p * (unat t - unat s) \<le> (unat p - unat r) * unat t"
    using le redeem_range [OF assms]
    by (simp add: diff_mult_distrib diff_mult_distrib2 mult.commute diff_le_mono2)
qed

text \<open>A deposit that is withdrawn at once returns at most what was deposited.\<close>

lemma round_trip:
  assumes m: "mint a e t = Inr s" and t: "t \<noteq> 0"
    and r: "redeem s p t' = Inr r" and p: "unat p = unat e + unat a"
    and t': "unat t' = unat t + unat s"
  shows "unat r \<le> unat a"
proof -
  have "unat r * (unat t + unat s) \<le> unat s * unat e + unat s * unat a"
    using redeem_law [OF r] by (simp add: t' p algebra_simps)
  also have "\<dots> \<le> unat a * unat t + unat s * unat a" using mint_law [OF m] t by simp
  also have "\<dots> = unat a * (unat t + unat s)" by (simp add: algebra_simps)
  finally show ?thesis using mint_pos [OF m] by simp
qed

end


lemma shares_for_deposit_InrD:
  assumes "shares_for_deposit a e t = Inr s"
  shows "0 < unat a" "0 < unat s"
    "t = 0 \<Longrightarrow> unat s = unat e + unat a"
    "t \<noteq> 0 \<Longrightarrow> 0 < unat e \<and> unat s = unat a * unat t div unat e"
proof -
  show a: "0 < unat a" using assms
    unfolding shares_for_deposit_def result_simps rust_simps by simp
  show t0: "unat s = unat e + unat a" if t: "t = 0"
  proof -
    obtain w :: u64 where "unat w = unat e + unat a" "ucast w = s"
      using assms unfolding shares_for_deposit_def result_simps if_P [OF t] sum.inject
      by (simp only: rust_simps) (elim exE conjE, rule that; assumption)
    then show ?thesis using widen(4) [of w] by simp
  qed
  have t1: "0 < unat e \<and> unat s = unat a * unat t div unat e \<and> 0 < unat s" if t: "t \<noteq> 0"
  proof -
    obtain m :: u128 where "0 < unat e" "unat m = unat a * unat t"
      "unat s = unat m div unat e" "0 < unat s"
      using assms unfolding shares_for_deposit_def result_simps if_not_P [OF t] sum.inject
      by (simp only: rust_simps unat_0) (elim exE conjE, simp)
    then show ?thesis by simp
  qed
  then show "0 < unat e \<and> unat s = unat a * unat t div unat e" if "t \<noteq> 0"
    using that by blast
  show "0 < unat s" using t0 t1 a by (cases "t = 0") simp_all
qed

lemma assets_for_shares_InrD:
  assumes "assets_for_shares s p t = Inr r"
  shows "0 < unat s" "unat s \<le> unat t" "unat r = unat s * unat p div unat t"
proof -
  obtain m q :: u128 where "0 < unat s" "unat s \<le> unat t" "unat m = unat s * unat p"
    "unat q = unat m div unat t" "unat r = unat q"
    using assms unfolding assets_for_shares_def result_simps
    by (simp only: rust_simps unat_0) (elim exE conjE, rule that; assumption)
  then show "0 < unat s" "unat s \<le> unat t" "unat r = unat s * unat p div unat t" by simp_all
qed

interpretation program_shares: share_pricing shares_for_deposit assets_for_shares
proof unfold_locales
  fix a e t s
  assume A: "shares_for_deposit a e t = Inr s"
  show "unat s * unat e \<le> unat a * unat t \<or> t = 0"
    using shares_for_deposit_InrD(4) [OF A] by (cases "t = 0") simp_all
  show "0 < unat s" by (rule shares_for_deposit_InrD(2) [OF A])
next
  fix s p t r
  assume A: "assets_for_shares s p t = Inr r"
  show "unat r * unat t \<le> unat s * unat p"
    using assets_for_shares_InrD(3) [OF A] by simp
  show "0 < unat s \<and> unat s \<le> unat t"
    using assets_for_shares_InrD [OF A] by blast
qed

text \<open>C18: Shares are priced so that no liquidity provider gains at another's expense. A deposit
  into a market with shares outstanding and a withdrawal never lower the assets behind a share
  (compared without rounding, by cross-multiplication), a withdrawal never takes more than the
  pool, and depositing and withdrawing the minted shares at once never returns more than was
  deposited.\<close>
theorem share_pricing_fair:
  assumes deposit: "shares_for_deposit amount equity supply = Inr s" "supply \<noteq> 0"
    and withdraw: "assets_for_shares w pool supply' = Inr r"
  shows "unat equity * (unat supply + unat s) \<le> (unat equity + unat amount) * unat supply
    \<and> unat r \<le> unat pool
    \<and> unat pool * (unat supply' - unat w) \<le> (unat pool - unat r) * unat supply'
    \<and> (w = s \<and> unat pool = unat equity + unat amount \<and> unat supply' = unat supply + unat s
        \<longrightarrow> unat r \<le> unat amount)"
proof (intro conjI impI)
  show "unat equity * (unat supply + unat s) \<le> (unat equity + unat amount) * unat supply"
    by (rule program_shares.mint_keeps_price [OF deposit])
  show "unat r \<le> unat pool"
    "unat pool * (unat supply' - unat w) \<le> (unat pool - unat r) * unat supply'"
    by (rule program_shares.redeem_keeps_price [OF withdraw])+
  assume "w = s \<and> unat pool = unat equity + unat amount \<and> unat supply' = unat supply + unat s"
  then show "unat r \<le> unat amount"
    using program_shares.round_trip [OF deposit] withdraw by blast
qed

theorem share_pricing_fair_witness:
  "shares_for_deposit 50 200 100 = Inr 25 \<and> assets_for_shares 25 250 125 = Inr 50 \<and>
   unat (50 :: u64) \<le> unat (50 :: u64)"
proof -
  have m: "shares_for_deposit 50 200 100 = Inr 25"
    by (simp add: shares_for_deposit_def checked_mul_def checked_div_def)
  have r: "assets_for_shares 25 250 125 = Inr 50"
    by (simp add: assets_for_shares_def checked_mul_def checked_div_def try_from_unsigned_def)
  have "unat (50 :: u64) \<le> unat (50 :: u64)"
    using share_pricing_fair [OF m _ r] by simp
  with m r show ?thesis by blast
qed

end
