(* ===== verification/Platform.thy ===== *)
theory Platform
  imports Settlement_Math
begin

text \<open>
  The platform the program runs on, as far as the program uses it: the chain state its
  instructions read and write (\<open>chain\<close>), the events it emits, and, as one parameter record
  \<open>env\<close>, the third-party code it calls: the Solana runtime's program-address derivation, the
  SPL token and associated-token programs, the session-key check, the Pyth price account and
  the MagicBlock scheduler and delegation programs. Nothing is assumed of these functions
  here; \<open>env_laws\<close> states their documented behaviour and is a named hypothesis of the
  theorems that use it.
\<close>


section \<open>Accounts of other programs\<close>

datatype account_state = Uninitialized | Initialized | Frozen

record token_account =
  ta_mint :: pubkey
  ta_owner :: pubkey
  ta_amount :: u64
  ta_delegate :: "pubkey option"
  ta_delegated_amount :: u64
  ta_state :: account_state

type_synonym tokens = "pubkey \<rightharpoonup> token_account"

text \<open>A Pyth \<open>PriceUpdateV2\<close> and the \<open>Price\<close> read from it.\<close>

record price_update =
  pu_feed_id :: bytes
  pu_verification_level :: bytes
  pu_price :: i64
  pu_conf :: u64
  pu_exponent :: i32
  pu_publish_time :: i64
  pu_posted_slot :: u64

record price =
  pr_price :: i64
  pr_conf :: u64
  pr_exponent :: i32
  pr_publish_time :: i64

text \<open>An account holding price data: its owner program and, when its bytes deserialize, the
  update in it.\<close>

record price_account =
  pa_owner :: pubkey
  pa_update :: "price_update option"


section \<open>Events\<close>

text \<open>The \<open>#[event]\<close> structs of \<open>lib.rs\<close>, with their fields in order.\<close>

datatype event =
    PositionCreated (ev_market_id: u16) (ev_position_id: u32) pubkey i64 u32 direction u32
  | PositionClosed (ev_market_id: u16) (ev_position_id: u32) position_outcome u64 u64 u64
  | MarketModeChanged (ev_market_id: u16) market_mode
  | LiquidityDeposited (ev_market_id: u16) pubkey u64 u128
  | WithdrawalRequested (ev_market_id: u16) pubkey u128 u64
  | WithdrawalCancelled (ev_market_id: u16) pubkey u128
  | WithdrawalExecuted (ev_market_id: u16) pubkey u128 u64
  | ProtocolFeesWithdrawn (ev_market_id: u16) pubkey u64
  | FallbackPayoutClaimed pubkey pubkey u64


section \<open>Requests to other programs\<close>

text \<open>A token transfer: the accounts, the authority, the amount and the keys that sign the call
  (the transaction's signers and the program addresses derived from the signer seeds).\<close>

record transfer_request =
  tr_from :: pubkey
  tr_to :: pubkey
  tr_authority :: pubkey
  tr_signers :: "pubkey list"
  tr_amount :: u64

record account_meta =
  am_pubkey :: pubkey
  am_is_signer :: bool
  am_is_writable :: bool

text \<open>The scheduled call of \<open>settle_position(nonce, task_salt)\<close>.\<close>

record instruction =
  in_program_id :: pubkey
  in_accounts :: "account_meta list"
  in_nonce :: u32
  in_task_salt :: bytes

record schedule_request =
  sr_authority :: pubkey
  sr_task_id :: i64
  sr_interval_millis :: i64
  sr_iterations :: i64
  sr_instruction :: instruction
  sr_accounts :: "pubkey list"

record delegation =
  dg_account :: pubkey
  dg_payer :: pubkey
  dg_seeds :: "bytes list"
  dg_commit_frequency_ms :: u32
  dg_validator :: "pubkey option"


section \<open>Third-party code\<close>

record env =
  find_program_address :: "bytes list \<Rightarrow> pubkey \<times> u8"
  create_program_address :: "bytes list \<Rightarrow> pubkey option"
  crank_program_address :: "bytes list \<Rightarrow> pubkey"
  associated_token_address :: "pubkey \<Rightarrow> pubkey \<Rightarrow> pubkey"
  hashv :: "bytes list \<Rightarrow> bytes"
  token_transfer :: "transfer_request \<Rightarrow> tokens \<Rightarrow> nat + tokens"
  create_associated_token :: "pubkey \<Rightarrow> pubkey \<Rightarrow> tokens \<Rightarrow> nat + tokens"
  create_account :: "pubkey \<Rightarrow> pubkey \<Rightarrow> nat option"
  transfer_lamports :: "pubkey \<Rightarrow> pubkey \<Rightarrow> u64 \<Rightarrow> nat option"
  schedule_task :: "schedule_request \<Rightarrow> bool"
  delegate_account :: "delegation \<Rightarrow> nat option"
  commit_and_undelegate :: "pubkey \<Rightarrow> nat option"
  session_valid :: "pubkey \<Rightarrow> pubkey \<Rightarrow> pubkey \<Rightarrow> i64 \<Rightarrow> bool"
  get_price_unchecked :: "price_update \<Rightarrow> bytes \<Rightarrow> price option"
  verification_gte_full :: "bytes \<Rightarrow> bool"
  token_program_id :: pubkey
  oracle_program_id :: pubkey
  magic_program_id :: pubkey
  program_id :: pubkey


section \<open>The chain state\<close>

text \<open>
  The program's own accounts by address and type (an address that holds no account of the type,
  owned by the program and with its discriminator, is not in the map), the token accounts and
  mints, the price accounts, the clock, the upgrade authority of the program, and what the
  instructions send out: the event log, the scheduled tasks and the delegations.
\<close>

record chain =
  st_now :: i64
  st_upgrade_authority :: "pubkey option"
  st_configs :: "pubkey \<rightharpoonup> protocol_config"
  st_markets :: "pubkey \<rightharpoonup> market"
  st_positions :: "pubkey \<rightharpoonup> user_positions"
  st_liquidity :: "pubkey \<rightharpoonup> user_liquidity"
  st_tokens :: tokens
  st_mints :: "pubkey \<rightharpoonup> u8"
  st_prices :: "pubkey \<rightharpoonup> price_account"
  st_events :: "event list"
  st_tasks :: "schedule_request list"
  st_delegations :: "delegation list"
  st_undelegated :: "pubkey list"

definition emit :: "event \<Rightarrow> chain \<Rightarrow> chain" where
  "emit ev st = st\<lparr>st_events := st_events st @ [ev]\<rparr>"

text \<open>The result of a call to another program, whose error number is passed on.\<close>

definition cpi :: "nat + 'a \<Rightarrow> 'a result" where
  "cpi r = (case r of Inl n \<Rightarrow> Inl (Cpi n) | Inr x \<Rightarrow> Inr x)"

definition cpi_unit :: "nat option \<Rightarrow> unit result" where
  "cpi_unit r = (case r of Some n \<Rightarrow> Inl (Cpi n) | None \<Rightarrow> Inr ())"

lemma cpi_eq_Inr [result_simps]: "cpi r = Inr x \<longleftrightarrow> r = Inr x"
  by (auto simp: cpi_def split: sum.splits)

lemma cpi_unit_eq_Inr [result_simps]: "cpi_unit r = Inr u \<longleftrightarrow> r = None"
  by (auto simp: cpi_unit_def split: option.splits)

end
