(* ===== verification/Instruction_Common.thy ===== *)
theory Instruction_Common
  imports Platform
begin

text \<open>
  What the instructions share (\<open>instructions/mod.rs\<close> and the account constraints the
  \<open>#[derive(Accounts)]\<close> structs repeat): loading a typed account and checking its seeds,
  owner or association; reading the oracle; transferring out of a market's pool. Every
  constraint is a guard with its error, in the order of the struct's fields.
\<close>


section \<open>Account constraints\<close>

text \<open>\<open>Signer<'info>\<close>: the key signed the transaction.\<close>

definition require_signer :: "pubkey list \<Rightarrow> pubkey \<Rightarrow> unit result" where
  "require_signer signers k = require (k \<in> set signers) (Framework AccountNotSigner)"

text \<open>The framework rejects an instruction that passes one account as two mutable ones.\<close>

definition require_distinct :: "pubkey list \<Rightarrow> unit result" where
  "require_distinct ks = require (distinct ks) (Framework ConstraintDuplicateMutableAccount)"

text \<open>\<open>Account<'info, T>\<close>.\<close>

definition load_account :: "(pubkey \<rightharpoonup> 'a) \<Rightarrow> pubkey \<Rightarrow> 'a result" where
  "load_account accounts k = ok_or (accounts k) (Framework AccountNotInitialized)"

text \<open>\<open>seeds = [..], bump = stored\<close> and \<open>seeds = [..], bump\<close>.\<close>

definition require_stored_bump :: "env \<Rightarrow> bytes list \<Rightarrow> u8 \<Rightarrow> pubkey \<Rightarrow> unit result" where
  "require_stored_bump e seeds bump k =
     require (create_program_address e (seeds @ [[bump]]) = Some k) (Framework ConstraintSeeds)"

definition require_seeds :: "env \<Rightarrow> bytes list \<Rightarrow> pubkey \<Rightarrow> unit result" where
  "require_seeds e seeds k =
     require (fst (find_program_address e seeds) = k) (Framework ConstraintSeeds)"

definition load_config :: "env \<Rightarrow> chain \<Rightarrow> pubkey \<Rightarrow> protocol_config result" where
  "load_config e st k =
     and_then (load_account (st_configs st) k) (\<lambda>c.
     and_then (require_stored_bump e [CONFIG_SEED] (cfg_bump c) k) (\<lambda>_. Inr c))"

definition market_seeds :: "u16 \<Rightarrow> bytes list" where
  "market_seeds market_id = [MARKET_SEED, u16_le_bytes market_id]"

definition load_market :: "env \<Rightarrow> chain \<Rightarrow> pubkey \<Rightarrow> market result" where
  "load_market e st k =
     and_then (load_account (st_markets st) k) (\<lambda>m.
     and_then (require_stored_bump e (market_seeds (mkt_market_id m)) (mkt_bump m) k) (\<lambda>_.
     Inr m))"

definition load_positions :: "env \<Rightarrow> chain \<Rightarrow> pubkey \<Rightarrow> pubkey \<Rightarrow> user_positions result" where
  "load_positions e st user k =
     and_then (load_account (st_positions st) k) (\<lambda>up.
     and_then (require_seeds e [USER_POSITIONS_SEED, user] k) (\<lambda>_. Inr up))"

definition load_liquidity :: "env \<Rightarrow> chain \<Rightarrow> pubkey \<Rightarrow> pubkey \<Rightarrow> user_liquidity result" where
  "load_liquidity e st user k =
     and_then (load_account (st_liquidity st) k) (\<lambda>ul.
     and_then (require_seeds e [USER_LIQUIDITY_SEED, user] k) (\<lambda>_. Inr ul))"

text \<open>\<open>associated_token::mint = m, associated_token::authority = a\<close>.\<close>

definition load_associated ::
    "env \<Rightarrow> chain \<Rightarrow> pubkey \<Rightarrow> pubkey \<Rightarrow> pubkey \<Rightarrow> token_account result" where
  "load_associated e st authority mint k =
     and_then (load_account (st_tokens st) k) (\<lambda>t.
     and_then (require (ta_owner t = authority) (Framework ConstraintTokenOwner)) (\<lambda>_.
     and_then (require (k = associated_token_address e authority mint)
       (Framework ConstraintAssociated)) (\<lambda>_. Inr t)))"

definition require_token_program :: "env \<Rightarrow> pubkey \<Rightarrow> unit result" where
  "require_token_program e k = require (k = token_program_id e) (Framework InvalidProgramId)"

lemmas load_defs = load_config_def load_market_def load_positions_def load_liquidity_def
  load_associated_def load_account_def require_stored_bump_def require_seeds_def
  require_signer_def require_distinct_def require_token_program_def


section \<open>\<open>lib.rs\<close>: task identity\<close>

text \<open>\<open>settlement_task_id\<close>: the first eight bytes of the digest as a positive \<open>i64\<close>. The mask
  leaves 63 bits, so the \<open>expect\<close> of the conversion never fires (\<open>settlement_task_id_positive\<close>).\<close>

definition settlement_task_id :: "env \<Rightarrow> pubkey \<Rightarrow> pubkey \<Rightarrow> u32 \<Rightarrow> bytes \<Rightarrow> i64" where
  "settlement_task_id e market user nonce task_salt =
     (let digest = hashv e [byte_string ''leveraged_prediction_position'', market, user,
                            u32_le_bytes nonce, task_salt];
          id = and (u64_from_le_bytes (take 8 digest)) (2 ^ 63 - 1)
      in max id 1)"

definition settlement_crank_signer :: "env \<Rightarrow> pubkey \<Rightarrow> pubkey" where
  "settlement_crank_signer e task_authority =
     crank_program_address e [byte_string ''crank-executor'', task_authority]"


section \<open>\<open>instructions/mod.rs\<close>\<close>

record delegate_config =
  dc_commit_frequency_ms :: u32
  dc_validator :: "pubkey option"

definition DELEGATED_STATE_COMMIT_FREQUENCY_MS :: u32 where
  [const_defs]: "DELEGATED_STATE_COMMIT_FREQUENCY_MS = 10000"

definition delegated_state_config :: delegate_config where
  "delegated_state_config =
     \<lparr>dc_commit_frequency_ms = DELEGATED_STATE_COMMIT_FREQUENCY_MS, dc_validator = None\<rparr>"

text \<open>An account that is not owned by the token program, or whose bytes are not a token account,
  is not in \<open>st_tokens\<close>.\<close>

definition is_usable_payout_destination :: "chain \<Rightarrow> pubkey \<Rightarrow> pubkey \<Rightarrow> bool" where
  "is_usable_payout_destination st k mint =
     (case st_tokens st k of
        None \<Rightarrow> False
      | Some t \<Rightarrow> ta_mint t = mint \<and> ta_state t = Initialized)"

text \<open>The keys that \<open>invoke_signed\<close> adds: the address derived from the signer seeds.\<close>

definition seed_signers :: "env \<Rightarrow> bytes list \<Rightarrow> pubkey list" where
  "seed_signers e seeds = (case create_program_address e seeds of Some k \<Rightarrow> [k] | None \<Rightarrow> [])"

definition market_transfer ::
    "env \<Rightarrow> pubkey list \<Rightarrow> pubkey \<Rightarrow> market \<Rightarrow> pubkey \<Rightarrow> pubkey \<Rightarrow> u64 \<Rightarrow> tokens \<Rightarrow> tokens result" where
  "market_transfer e signers market_key m from to amount ts =
     cpi (token_transfer e
       \<lparr>tr_from = from, tr_to = to, tr_authority = market_key,
        tr_signers = signers @ seed_signers e (market_seeds (mkt_market_id m) @ [[mkt_bump m]]),
        tr_amount = amount\<rparr> ts)"

definition validate_oracle_price ::
    "env \<Rightarrow> price_update \<Rightarrow> i64 \<Rightarrow> bytes \<Rightarrow> price option result" where
  "validate_oracle_price e update unix_timestamp expected_feed_id =
     and_then (require (pu_feed_id update = expected_feed_id) (Code InvalidOraclePrice)) (\<lambda>_.
     and_then (ok_or (get_price_unchecked e update expected_feed_id) (Code InvalidOraclePrice))
       (\<lambda>price.
     and_then (require (pr_exponent price = ORACLE_EXPONENT) (Code OracleExponentMismatch)) (\<lambda>_.
     let is_stale = (case schecked_add (pr_publish_time price) (ucast ORACLE_MAX_AGE_SECONDS) of
           Some fresh_until \<Rightarrow> sint fresh_until < sint unix_timestamp
         | None \<Rightarrow> True)
     in if pu_posted_slot update = 0
           \<or> \<not> verification_gte_full e (pu_verification_level update)
           \<or> is_stale
           \<or> sint unix_timestamp < sint (pr_publish_time price)
           \<or> sint (pr_price price) \<le> 0
        then Inr None
        else
          and_then (ok_or (checked_mul (ucast (pr_conf price) :: u128) 10000) math_overflow)
            (\<lambda>confidence_scaled.
          and_then (ok_or (checked_mul (ucast (unsigned_abs (pr_price price)) :: u128)
                      (ucast ORACLE_MAX_CONFIDENCE_BPS)) math_overflow) (\<lambda>maximum_confidence.
          if maximum_confidence < confidence_scaled then Inr None
          else Inr (Some price))))))"

definition read_oracle_price ::
    "env \<Rightarrow> chain \<Rightarrow> pubkey \<Rightarrow> bytes \<Rightarrow> price option result" where
  "read_oracle_price e st k expected_feed_id =
     (case st_prices st k of
        None \<Rightarrow> Inl (Code InvalidOraclePrice)
      | Some account \<Rightarrow>
          and_then (require (pa_owner account = oracle_program_id e) (Code InvalidOraclePrice)) (\<lambda>_.
          and_then (ok_or (pa_update account) (Framework AccountDidNotDeserialize)) (\<lambda>update.
          validate_oracle_price e update (st_now st) expected_feed_id)))"

end
