(* ===== verification/Admin.thy ===== *)
theory Admin
  imports Instruction_Common
begin

text \<open>
  The administrative and account-lifecycle instructions: \<open>initialize_protocol_config\<close>,
  \<open>initialize_market\<close>, \<open>set_market_mode\<close>, the three \<open>delegate_*\<close> instructions,
  \<open>initialize_user_positions\<close>, \<open>initialize_user_liquidity\<close> and \<open>undelegate_user_liquidity\<close>.
  Each is a function of the environment, the transaction's signers, the instruction's accounts
  and arguments and the chain state; it returns the new state or the error that reverts it.
\<close>


section \<open>\<open>initialize_protocol_config\<close>\<close>

record initialize_protocol_config_accounts =
  ipc_admin :: pubkey
  ipc_fee_authority :: pubkey
  ipc_collateral_mint :: pubkey
  ipc_protocol_config :: pubkey

definition require_valid_fee_authority :: "pubkey \<Rightarrow> unit result" where
  "require_valid_fee_authority fee_authority =
     require (fee_authority \<noteq> zero32) (Code InvalidConfig)"

text \<open>\<open>init, payer, seeds, bump\<close>: the canonical address must hold no account yet.\<close>

definition init_account ::
    "env \<Rightarrow> (pubkey \<rightharpoonup> 'a) \<Rightarrow> pubkey \<Rightarrow> bytes list \<Rightarrow> pubkey \<Rightarrow> u8 result" where
  "init_account e accounts payer seeds k =
     and_then (require_seeds e seeds k) (\<lambda>_.
     and_then (require (accounts k = None) (Framework AccountAlreadyInUse)) (\<lambda>_.
     and_then (cpi_unit (create_account e payer k)) (\<lambda>_.
     Inr (snd (find_program_address e seeds)))))"

definition initialize_protocol_config ::
    "env \<Rightarrow> pubkey list \<Rightarrow> initialize_protocol_config_accounts \<Rightarrow> chain \<Rightarrow> chain result" where
  "initialize_protocol_config e signers a st =
     and_then (require_signer signers (ipc_admin a)) (\<lambda>_.
     and_then (require (st_upgrade_authority st = Some (ipc_admin a)) (Code InvalidConfig)) (\<lambda>_.
     and_then (load_account (st_mints st) (ipc_collateral_mint a)) (\<lambda>decimals.
     and_then (init_account e (st_configs st) (ipc_admin a) [CONFIG_SEED] (ipc_protocol_config a))
       (\<lambda>bump.
     and_then (require_valid_fee_authority (ipc_fee_authority a)) (\<lambda>_.
     and_then (require (decimals = COLLATERAL_DECIMALS) (Code InvalidConfig)) (\<lambda>_.
     Inr (st\<lparr>st_configs := (st_configs st)(ipc_protocol_config a \<mapsto>
           \<lparr>cfg_admin = ipc_admin a, cfg_fee_authority = ipc_fee_authority a,
            cfg_collateral_mint = ipc_collateral_mint a, cfg_bump = bump\<rparr>)\<rparr>)))))))"


section \<open>\<open>initialize_market\<close>\<close>

record initialize_market_accounts =
  im_admin :: pubkey
  im_collateral_mint :: pubkey
  im_protocol_config :: pubkey
  im_market :: pubkey
  im_pool_token_account :: pubkey
  im_derived_fee_authority :: pubkey
  im_fee_token_account :: pubkey
  im_token_program :: pubkey

text \<open>\<open>init_if_needed, associated_token::mint, associated_token::authority\<close>.\<close>

definition init_associated ::
    "env \<Rightarrow> pubkey \<Rightarrow> pubkey \<Rightarrow> pubkey \<Rightarrow> tokens \<Rightarrow> tokens result" where
  "init_associated e authority mint k ts =
     and_then (require (k = associated_token_address e authority mint)
       (Framework ConstraintAssociated)) (\<lambda>_.
     and_then (if ts k = None then cpi (create_associated_token e authority mint ts) else Inr ts)
       (\<lambda>ts'.
     and_then (load_account ts' k) (\<lambda>t.
     and_then (require (ta_owner t = authority) (Framework ConstraintTokenOwner)) (\<lambda>_.
     Inr ts'))))"

definition initialize_market ::
    "env \<Rightarrow> pubkey list \<Rightarrow> initialize_market_accounts \<Rightarrow> u16 \<Rightarrow> pubkey \<Rightarrow> bytes \<Rightarrow> u64 \<Rightarrow>
     chain \<Rightarrow> chain result" where
  "initialize_market e signers a market_id oracle oracle_feed_id sponsor_lamports st =
     and_then (require_signer signers (im_admin a)) (\<lambda>_.
     and_then (load_account (st_mints st) (im_collateral_mint a)) (\<lambda>_.
     and_then (load_config e st (im_protocol_config a)) (\<lambda>config.
     and_then (require (cfg_admin config = im_admin a) (Framework ConstraintHasOne)) (\<lambda>_.
     and_then (require (cfg_collateral_mint config = im_collateral_mint a)
       (Framework ConstraintHasOne)) (\<lambda>_.
     and_then (init_account e (st_markets st) (im_admin a) (market_seeds market_id) (im_market a))
       (\<lambda>bump.
     and_then (require_token_program e (im_token_program a)) (\<lambda>_.
     and_then (init_associated e (im_market a) (im_collateral_mint a) (im_pool_token_account a)
       (st_tokens st)) (\<lambda>ts.
     and_then (require_seeds e [FEE_AUTHORITY_SEED, im_market a] (im_derived_fee_authority a)) (\<lambda>_.
     and_then (init_associated e (im_derived_fee_authority a) (im_collateral_mint a)
       (im_fee_token_account a) ts) (\<lambda>ts'.
     and_then (require_distinct [im_pool_token_account a, im_fee_token_account a]) (\<lambda>_.
     and_then (require (oracle \<noteq> zero32 \<and> oracle_feed_id \<noteq> zero32) (Code InvalidConfig)) (\<lambda>_.
     and_then (if 0 < sponsor_lamports
       then cpi_unit (transfer_lamports e (im_admin a) (im_market a) sponsor_lamports)
       else Inr ()) (\<lambda>_.
     Inr (st\<lparr>st_tokens := ts',
             st_markets := (st_markets st)(im_market a \<mapsto>
               \<lparr>mkt_market_id = market_id, mkt_oracle = oracle, mkt_oracle_feed_id = oracle_feed_id,
                mkt_total_shares = 0, mkt_open_collateral = 0, mkt_risk_epoch_equity = 0,
                mkt_active_positions = 0, mkt_next_position_nonce = 0, mkt_mode = Open,
                mkt_bump = bump\<rparr>)\<rparr>))))))))))))))"


section \<open>\<open>set_market_mode\<close>\<close>

record admin_market_accounts =
  sm_admin :: pubkey
  sm_protocol_config :: pubkey
  sm_market :: pubkey

definition set_market_mode ::
    "env \<Rightarrow> pubkey list \<Rightarrow> admin_market_accounts \<Rightarrow> market_mode \<Rightarrow> chain \<Rightarrow> chain result" where
  "set_market_mode e signers a mode st =
     and_then (require_signer signers (sm_admin a)) (\<lambda>_.
     and_then (load_config e st (sm_protocol_config a)) (\<lambda>config.
     and_then (require (cfg_admin config = sm_admin a) (Framework ConstraintHasOne)) (\<lambda>_.
     and_then (load_market e st (sm_market a)) (\<lambda>m.
     Inr (emit (MarketModeChanged (mkt_market_id m) mode)
       (st\<lparr>st_markets := (st_markets st)(sm_market a \<mapsto> m\<lparr>mkt_mode := mode\<rparr>)\<rparr>))))))"


section \<open>Delegation to an ephemeral rollup\<close>

text \<open>\<open>market_delegation_config\<close>, \<open>user_positions_delegation_config\<close> and
  \<open>user_liquidity_delegation_config\<close> are the same function in three files.\<close>

definition market_delegation_config :: "pubkey \<Rightarrow> delegate_config" where
  "market_delegation_config validator =
     delegated_state_config\<lparr>dc_validator := Some validator\<rparr>"

definition user_positions_delegation_config :: "pubkey \<Rightarrow> delegate_config" where
  "user_positions_delegation_config validator =
     delegated_state_config\<lparr>dc_validator := Some validator\<rparr>"

definition user_liquidity_delegation_config :: "pubkey \<Rightarrow> delegate_config" where
  "user_liquidity_delegation_config validator =
     delegated_state_config\<lparr>dc_validator := Some validator\<rparr>"

text \<open>The call the \<open>#[delegate]\<close> attribute generates.\<close>

definition delegate_cpi ::
    "env \<Rightarrow> pubkey \<Rightarrow> pubkey \<Rightarrow> bytes list \<Rightarrow> delegate_config \<Rightarrow> chain \<Rightarrow> chain result" where
  "delegate_cpi e account payer seeds config st =
     (let d = \<lparr>dg_account = account, dg_payer = payer, dg_seeds = seeds,
               dg_commit_frequency_ms = dc_commit_frequency_ms config,
               dg_validator = dc_validator config\<rparr>
      in and_then (cpi_unit (delegate_account e d)) (\<lambda>_.
         Inr (st\<lparr>st_delegations := st_delegations st @ [d]\<rparr>)))"

record delegate_market_accounts =
  dm_payer :: pubkey
  dm_protocol_config :: pubkey
  dm_market :: pubkey

definition delegate_market ::
    "env \<Rightarrow> pubkey list \<Rightarrow> delegate_market_accounts \<Rightarrow> u16 \<Rightarrow> pubkey \<Rightarrow> chain \<Rightarrow> chain result" where
  "delegate_market e signers a market_id validator st =
     and_then (require_signer signers (dm_payer a)) (\<lambda>_.
     and_then (load_config e st (dm_protocol_config a)) (\<lambda>config.
     and_then (require (cfg_admin config = dm_payer a) (Code InvalidConfig)) (\<lambda>_.
     and_then (require_seeds e (market_seeds market_id) (dm_market a)) (\<lambda>_.
     delegate_cpi e (dm_market a) (dm_payer a) (market_seeds market_id)
       (market_delegation_config validator) st))))"

record user_account =
  ua_user :: pubkey
  ua_account :: pubkey

definition delegate_user_positions ::
    "env \<Rightarrow> pubkey list \<Rightarrow> user_account \<Rightarrow> pubkey \<Rightarrow> chain \<Rightarrow> chain result" where
  "delegate_user_positions e signers a validator st =
     and_then (require_signer signers (ua_user a)) (\<lambda>_.
     and_then (require_seeds e [USER_POSITIONS_SEED, ua_user a] (ua_account a)) (\<lambda>_.
     delegate_cpi e (ua_account a) (ua_user a) [USER_POSITIONS_SEED, ua_user a]
       (user_positions_delegation_config validator) st))"

definition delegate_user_liquidity ::
    "env \<Rightarrow> pubkey list \<Rightarrow> user_account \<Rightarrow> pubkey \<Rightarrow> chain \<Rightarrow> chain result" where
  "delegate_user_liquidity e signers a validator st =
     and_then (require_signer signers (ua_user a)) (\<lambda>_.
     and_then (require_seeds e [USER_LIQUIDITY_SEED, ua_user a] (ua_account a)) (\<lambda>_.
     delegate_cpi e (ua_account a) (ua_user a) [USER_LIQUIDITY_SEED, ua_user a]
       (user_liquidity_delegation_config validator) st))"


section \<open>User accounts\<close>

text \<open>\<open>init_if_needed\<close>: an existing account is left as it is; a new one is empty.\<close>

definition initialize_user_positions ::
    "env \<Rightarrow> pubkey list \<Rightarrow> user_account \<Rightarrow> chain \<Rightarrow> chain result" where
  "initialize_user_positions e signers a st =
     and_then (require_signer signers (ua_user a)) (\<lambda>_.
     and_then (require_seeds e [USER_POSITIONS_SEED, ua_user a] (ua_account a)) (\<lambda>_.
     (case st_positions st (ua_account a) of
        Some _ \<Rightarrow> Inr st
      | None \<Rightarrow> and_then (cpi_unit (create_account e (ua_user a) (ua_account a))) (\<lambda>_.
          Inr (st\<lparr>st_positions := (st_positions st)(ua_account a \<mapsto> \<lparr>up_positions = []\<rparr>)\<rparr>)))))"

definition initialize_user_liquidity ::
    "env \<Rightarrow> pubkey list \<Rightarrow> user_account \<Rightarrow> chain \<Rightarrow> chain result" where
  "initialize_user_liquidity e signers a st =
     and_then (require_signer signers (ua_user a)) (\<lambda>_.
     and_then (require_seeds e [USER_LIQUIDITY_SEED, ua_user a] (ua_account a)) (\<lambda>_.
     (case st_liquidity st (ua_account a) of
        Some _ \<Rightarrow> Inr st
      | None \<Rightarrow> and_then (cpi_unit (create_account e (ua_user a) (ua_account a))) (\<lambda>_.
          Inr (st\<lparr>st_liquidity := (st_liquidity st)(ua_account a \<mapsto> \<lparr>ul_markets = []\<rparr>)\<rparr>)))))"

text \<open>\<open>undelegate_user_liquidity\<close>: only an account without share entries leaves the rollup.\<close>

definition undelegate_user_liquidity ::
    "env \<Rightarrow> pubkey list \<Rightarrow> user_account \<Rightarrow> chain \<Rightarrow> chain result" where
  "undelegate_user_liquidity e signers a st =
     and_then (require_signer signers (ua_user a)) (\<lambda>_.
     and_then (load_liquidity e st (ua_user a) (ua_account a)) (\<lambda>ul.
     and_then (require_empty ul) (\<lambda>_.
     and_then (cpi_unit (commit_and_undelegate e (ua_account a))) (\<lambda>_.
     Inr (st\<lparr>st_undelegated := st_undelegated st @ [ua_account a]\<rparr>)))))"

end
