(* ===== verification/Liquidity.thy ===== *)
theory Liquidity
  imports Instruction_Common
begin

text \<open>
  The liquidity-provider instructions (\<open>deposit_liquidity\<close>, \<open>request_withdrawal\<close>,
  \<open>cancel_withdrawal\<close>, \<open>execute_withdrawal\<close>) and the two cash-outs (\<open>withdraw_protocol_fees\<close>,
  \<open>claim_fallback_payout\<close>).
\<close>


section \<open>\<open>deposit_liquidity\<close>\<close>

record deposit_accounts =
  dl_user :: pubkey
  dl_protocol_config :: pubkey
  dl_market :: pubkey
  dl_user_liquidity :: pubkey
  dl_pool_token_account :: pubkey
  dl_user_token_account :: pubkey
  dl_collateral_mint :: pubkey
  dl_token_program :: pubkey

record deposit_loaded =
  dll_market :: market
  dll_liquidity :: user_liquidity
  dll_pool :: token_account

definition load_deposit ::
    "env \<Rightarrow> pubkey list \<Rightarrow> deposit_accounts \<Rightarrow> chain \<Rightarrow> deposit_loaded result" where
  "load_deposit e signers a st =
     and_then (require_signer signers (dl_user a)) (\<lambda>_.
     and_then (load_config e st (dl_protocol_config a)) (\<lambda>config.
     and_then (require (cfg_collateral_mint config = dl_collateral_mint a)
       (Framework ConstraintHasOne)) (\<lambda>_.
     and_then (load_market e st (dl_market a)) (\<lambda>m.
     and_then (load_liquidity e st (dl_user a) (dl_user_liquidity a)) (\<lambda>ul.
     and_then (load_associated e st (dl_market a) (dl_collateral_mint a) (dl_pool_token_account a))
       (\<lambda>pool.
     and_then (load_account (st_tokens st) (dl_user_token_account a)) (\<lambda>_.
     and_then (load_account (st_mints st) (dl_collateral_mint a)) (\<lambda>_.
     and_then (require_token_program e (dl_token_program a)) (\<lambda>_.
     and_then (require_distinct [dl_pool_token_account a, dl_user_token_account a]) (\<lambda>_.
     Inr \<lparr>dll_market = m, dll_liquidity = ul, dll_pool = pool\<rparr>))))))))))"

text \<open>The checks and pricing before the transfer: the shares to mint.\<close>

definition deposit_shares ::
    "market \<Rightarrow> user_liquidity \<Rightarrow> u64 \<Rightarrow> u64 \<Rightarrow> u128 \<Rightarrow> u128 result" where
  "deposit_shares m ul equity_before amount min_shares_out =
     and_then (require (mkt_mode m = Open) (Code MarketCloseOnly)) (\<lambda>_.
     and_then (require (is_no_risk m) (Code ActiveRisk)) (\<lambda>_.
     let first_lp = mkt_total_shares m = 0 in
     and_then (if first_lp
               then require (MIN_MARKET_EQUITY \<le> amount \<and> amount \<le> MAX_MARKET_EQUITY)
                      (Code InvalidAmount)
               else Inr ()) (\<lambda>_.
     and_then (require_deposit_capacity equity_before amount MAX_MARKET_EQUITY first_lp) (\<lambda>_.
     and_then (shares_for_deposit amount equity_before (mkt_total_shares m)) (\<lambda>shares.
     and_then (require (min_shares_out \<le> shares) (Code SlippageExceeded)) (\<lambda>_.
     and_then (market_or_insert_mut ul (mkt_market_id m)) (\<lambda>_.
     Inr shares)))))))"

text \<open>Crediting the shares to the provider's entry and to the market.\<close>

definition credit_shares ::
    "market \<Rightarrow> user_liquidity \<Rightarrow> u128 \<Rightarrow> (market \<times> user_liquidity) result" where
  "credit_shares m ul shares =
     and_then (market_or_insert_mut ul (mkt_market_id m)) (\<lambda>(ul', i).
     let entry = ul_markets ul' ! i in
     and_then (ok_or (checked_add (ml_shares entry) shares) math_overflow) (\<lambda>user_shares.
     and_then (ok_or (checked_add (mkt_total_shares m) shares) math_overflow) (\<lambda>total_shares.
     Inr (m\<lparr>mkt_total_shares := total_shares\<rparr>,
          set_entry ul' i (entry\<lparr>ml_shares := user_shares\<rparr>)))))"

definition deposit_liquidity ::
    "env \<Rightarrow> pubkey list \<Rightarrow> deposit_accounts \<Rightarrow> u64 \<Rightarrow> u128 \<Rightarrow> chain \<Rightarrow> chain result" where
  "deposit_liquidity e signers a amount min_shares_out st =
     and_then (load_deposit e signers a st) (\<lambda>l.
     and_then (deposit_shares (dll_market l) (dll_liquidity l) (ta_amount (dll_pool l)) amount
       min_shares_out) (\<lambda>shares.
     and_then (cpi (token_transfer e
       \<lparr>tr_from = dl_user_token_account a, tr_to = dl_pool_token_account a,
        tr_authority = dl_user a, tr_signers = signers, tr_amount = amount\<rparr> (st_tokens st)))
       (\<lambda>ts.
     and_then (credit_shares (dll_market l) (dll_liquidity l) shares) (\<lambda>(m, ul).
     Inr (emit (LiquidityDeposited (mkt_market_id m) (dl_user a) amount shares)
       (st\<lparr>st_tokens := ts,
           st_markets := (st_markets st)(dl_market a \<mapsto> m),
           st_liquidity := (st_liquidity st)(dl_user_liquidity a \<mapsto> ul)\<rparr>))))))"


section \<open>\<open>request_withdrawal\<close> and \<open>cancel_withdrawal\<close>\<close>

record manage_withdrawal_accounts =
  mw_user :: pubkey
  mw_market :: pubkey
  mw_user_liquidity :: pubkey

definition load_manage_withdrawal ::
    "env \<Rightarrow> pubkey list \<Rightarrow> manage_withdrawal_accounts \<Rightarrow> chain \<Rightarrow> (market \<times> user_liquidity) result"
where
  "load_manage_withdrawal e signers a st =
     and_then (require_signer signers (mw_user a)) (\<lambda>_.
     and_then (load_market e st (mw_market a)) (\<lambda>m.
     and_then (load_liquidity e st (mw_user a) (mw_user_liquidity a)) (\<lambda>ul.
     Inr (m, ul))))"

definition request_withdrawal ::
    "env \<Rightarrow> pubkey list \<Rightarrow> manage_withdrawal_accounts \<Rightarrow> u128 \<Rightarrow> u64 \<Rightarrow> chain \<Rightarrow> chain result" where
  "request_withdrawal e signers a shares min_assets_out st =
     and_then (load_manage_withdrawal e signers a st) (\<lambda>(m, ul).
     and_then (ok_or (market_mut ul (mkt_market_id m)) (Code UserLiquidityMarketNotFound)) (\<lambda>i.
     let entry = ul_markets ul ! i in
     and_then (require (0 < shares \<and> shares \<le> ml_shares entry) (Code InvalidAmount)) (\<lambda>_.
     and_then (require (ml_pending_withdrawal_shares entry = 0) (Code WithdrawalAlreadyPending))
       (\<lambda>_.
     Inr (emit (WithdrawalRequested (mkt_market_id m) (mw_user a) shares min_assets_out)
       (st\<lparr>st_liquidity := (st_liquidity st)(mw_user_liquidity a \<mapsto>
           set_entry ul i (entry\<lparr>ml_pending_withdrawal_shares := shares,
                                 ml_min_assets_out := min_assets_out\<rparr>))\<rparr>))))))"

definition cancel_withdrawal ::
    "env \<Rightarrow> pubkey list \<Rightarrow> manage_withdrawal_accounts \<Rightarrow> chain \<Rightarrow> chain result" where
  "cancel_withdrawal e signers a st =
     and_then (load_manage_withdrawal e signers a st) (\<lambda>(m, ul).
     and_then (ok_or (market_mut ul (mkt_market_id m)) (Code UserLiquidityMarketNotFound)) (\<lambda>i.
     let entry = ul_markets ul ! i; shares = ml_pending_withdrawal_shares entry in
     and_then (require (0 < shares) (Code NoPendingWithdrawal)) (\<lambda>_.
     Inr (emit (WithdrawalCancelled (mkt_market_id m) (mw_user a) shares)
       (st\<lparr>st_liquidity := (st_liquidity st)(mw_user_liquidity a \<mapsto>
           set_entry ul i (entry\<lparr>ml_pending_withdrawal_shares := 0, ml_min_assets_out := 0\<rparr>))\<rparr>)))))"


section \<open>\<open>execute_withdrawal\<close>\<close>

record execute_withdrawal_accounts =
  ew_user :: pubkey
  ew_protocol_config :: pubkey
  ew_market :: pubkey
  ew_user_liquidity :: pubkey
  ew_pool_token_account :: pubkey
  ew_user_token_account :: pubkey
  ew_collateral_mint :: pubkey
  ew_token_program :: pubkey

definition load_execute_withdrawal ::
    "env \<Rightarrow> execute_withdrawal_accounts \<Rightarrow> chain \<Rightarrow> deposit_loaded result" where
  "load_execute_withdrawal e a st =
     and_then (load_config e st (ew_protocol_config a)) (\<lambda>config.
     and_then (require (cfg_collateral_mint config = ew_collateral_mint a)
       (Framework ConstraintHasOne)) (\<lambda>_.
     and_then (load_market e st (ew_market a)) (\<lambda>m.
     and_then (load_liquidity e st (ew_user a) (ew_user_liquidity a)) (\<lambda>ul.
     and_then (load_associated e st (ew_market a) (ew_collateral_mint a) (ew_pool_token_account a))
       (\<lambda>pool.
     and_then (load_associated e st (ew_user a) (ew_collateral_mint a) (ew_user_token_account a))
       (\<lambda>_.
     and_then (load_account (st_mints st) (ew_collateral_mint a)) (\<lambda>_.
     and_then (require_token_program e (ew_token_program a)) (\<lambda>_.
     and_then (require_distinct [ew_pool_token_account a, ew_user_token_account a]) (\<lambda>_.
     Inr \<lparr>dll_market = m, dll_liquidity = ul, dll_pool = pool\<rparr>)))))))))"

text \<open>The checks and pricing before the transfer: the shares burnt, the assets paid and the
  shares that remain.\<close>

definition withdrawal_terms ::
    "market \<Rightarrow> user_liquidity \<Rightarrow> u64 \<Rightarrow> (u128 \<times> u64 \<times> u128) result" where
  "withdrawal_terms m ul equity_before =
     and_then (require (is_no_risk m) (Code ActiveRisk)) (\<lambda>_.
     and_then (ok_or (liquidity_market ul (mkt_market_id m)) (Code UserLiquidityMarketNotFound))
       (\<lambda>user_market.
     let shares = ml_pending_withdrawal_shares user_market;
         min_assets_out = ml_min_assets_out user_market in
     and_then (require (0 < shares) (Code NoPendingWithdrawal)) (\<lambda>_.
     and_then (assets_for_shares shares equity_before (mkt_total_shares m)) (\<lambda>assets.
     and_then (require (0 < assets) (Code InvalidAmount)) (\<lambda>_.
     and_then (require (min_assets_out \<le> assets) (Code SlippageExceeded)) (\<lambda>_.
     and_then (ok_or (checked_sub equity_before assets) math_overflow) (\<lambda>remaining_equity.
     and_then (ok_or (checked_sub (mkt_total_shares m) shares) math_overflow) (\<lambda>remaining_shares.
     and_then (require_valid_withdrawal_remainder (mkt_mode m) remaining_equity remaining_shares
       MIN_MARKET_EQUITY) (\<lambda>_.
     Inr (shares, assets, remaining_shares))))))))))"

definition debit_shares :: "user_liquidity \<Rightarrow> u16 \<Rightarrow> u128 \<Rightarrow> user_liquidity result" where
  "debit_shares ul market_id shares =
     and_then (ok_or (market_mut ul market_id) (Code UserLiquidityMarketNotFound)) (\<lambda>i.
     let entry = ul_markets ul ! i in
     and_then (ok_or (checked_sub (ml_shares entry) shares) math_overflow) (\<lambda>rest.
     Inr (remove_empty_market
       (set_entry ul i (entry\<lparr>ml_shares := rest, ml_pending_withdrawal_shares := 0,
                               ml_min_assets_out := 0\<rparr>)) market_id)))"

definition execute_withdrawal ::
    "env \<Rightarrow> pubkey list \<Rightarrow> execute_withdrawal_accounts \<Rightarrow> chain \<Rightarrow> chain result" where
  "execute_withdrawal e signers a st =
     and_then (load_execute_withdrawal e a st) (\<lambda>l.
     let m = dll_market l; ul = dll_liquidity l in
     and_then (withdrawal_terms m ul (ta_amount (dll_pool l))) (\<lambda>(shares, assets, remaining_shares).
     and_then (market_transfer e signers (ew_market a) m (ew_pool_token_account a)
       (ew_user_token_account a) assets (st_tokens st)) (\<lambda>ts.
     and_then (debit_shares ul (mkt_market_id m) shares) (\<lambda>ul'.
     Inr (emit (WithdrawalExecuted (mkt_market_id m) (ew_user a) shares assets)
       (st\<lparr>st_tokens := ts,
           st_markets := (st_markets st)(ew_market a \<mapsto> m\<lparr>mkt_total_shares := remaining_shares\<rparr>),
           st_liquidity := (st_liquidity st)(ew_user_liquidity a \<mapsto> ul')\<rparr>))))))"


section \<open>\<open>withdraw_protocol_fees\<close>\<close>

record withdraw_fees_accounts =
  wf_fee_authority :: pubkey
  wf_protocol_config :: pubkey
  wf_market :: pubkey
  wf_derived_fee_authority :: pubkey
  wf_fee_token_account :: pubkey
  wf_destination_token_account :: pubkey
  wf_collateral_mint :: pubkey
  wf_token_program :: pubkey

definition fee_transfer ::
    "env \<Rightarrow> pubkey list \<Rightarrow> pubkey \<Rightarrow> pubkey \<Rightarrow> pubkey \<Rightarrow> pubkey \<Rightarrow> u64 \<Rightarrow> u8 \<Rightarrow> tokens \<Rightarrow> tokens result"
where
  "fee_transfer e signers market_key fee_authority from to amount fee_bump ts =
     cpi (token_transfer e
       \<lparr>tr_from = from, tr_to = to, tr_authority = fee_authority,
        tr_signers = signers @ seed_signers e [FEE_AUTHORITY_SEED, market_key, [fee_bump]],
        tr_amount = amount\<rparr> ts)"

definition load_withdraw_fees ::
    "env \<Rightarrow> pubkey list \<Rightarrow> withdraw_fees_accounts \<Rightarrow> chain \<Rightarrow> market result" where
  "load_withdraw_fees e signers a st =
     and_then (require_signer signers (wf_fee_authority a)) (\<lambda>_.
     and_then (load_config e st (wf_protocol_config a)) (\<lambda>config.
     and_then (require (cfg_fee_authority config = wf_fee_authority a)
       (Framework ConstraintHasOne)) (\<lambda>_.
     and_then (require (cfg_collateral_mint config = wf_collateral_mint a)
       (Framework ConstraintHasOne)) (\<lambda>_.
     and_then (load_market e st (wf_market a)) (\<lambda>m.
     and_then (require_seeds e [FEE_AUTHORITY_SEED, wf_market a] (wf_derived_fee_authority a)) (\<lambda>_.
     and_then (load_associated e st (wf_derived_fee_authority a) (wf_collateral_mint a)
       (wf_fee_token_account a)) (\<lambda>_.
     and_then (load_account (st_tokens st) (wf_destination_token_account a)) (\<lambda>_.
     and_then (load_account (st_mints st) (wf_collateral_mint a)) (\<lambda>_.
     and_then (require_token_program e (wf_token_program a)) (\<lambda>_.
     and_then (require_distinct [wf_fee_token_account a, wf_destination_token_account a]) (\<lambda>_.
     Inr m)))))))))))"

definition withdraw_protocol_fees ::
    "env \<Rightarrow> pubkey list \<Rightarrow> withdraw_fees_accounts \<Rightarrow> u64 \<Rightarrow> chain \<Rightarrow> chain result" where
  "withdraw_protocol_fees e signers a amount st =
     and_then (load_withdraw_fees e signers a st) (\<lambda>m.
     and_then (require (0 < amount) (Code InvalidAmount)) (\<lambda>_.
     and_then (fee_transfer e signers (wf_market a) (wf_derived_fee_authority a)
       (wf_fee_token_account a) (wf_destination_token_account a) amount
       (snd (find_program_address e [FEE_AUTHORITY_SEED, wf_market a])) (st_tokens st)) (\<lambda>ts.
     Inr (emit (ProtocolFeesWithdrawn (mkt_market_id m) (wf_destination_token_account a) amount)
       (st\<lparr>st_tokens := ts\<rparr>)))))"


section \<open>\<open>claim_fallback_payout\<close>\<close>

record claim_fallback_accounts =
  cf_user :: pubkey
  cf_protocol_config :: pubkey
  cf_user_positions :: pubkey
  cf_payout_escrow_token_account :: pubkey
  cf_user_token_account :: pubkey
  cf_collateral_mint :: pubkey
  cf_token_program :: pubkey

definition load_claim_fallback ::
    "env \<Rightarrow> pubkey list \<Rightarrow> claim_fallback_accounts \<Rightarrow> chain \<Rightarrow> token_account result" where
  "load_claim_fallback e signers a st =
     and_then (require_signer signers (cf_user a)) (\<lambda>_.
     and_then (load_config e st (cf_protocol_config a)) (\<lambda>config.
     and_then (require (cfg_collateral_mint config = cf_collateral_mint a)
       (Framework ConstraintHasOne)) (\<lambda>_.
     and_then (load_positions e st (cf_user a) (cf_user_positions a)) (\<lambda>_.
     and_then (load_associated e st (cf_user_positions a) (cf_collateral_mint a)
       (cf_payout_escrow_token_account a)) (\<lambda>escrow.
     and_then (load_account (st_tokens st) (cf_user_token_account a)) (\<lambda>_.
     and_then (load_account (st_mints st) (cf_collateral_mint a)) (\<lambda>_.
     and_then (require_token_program e (cf_token_program a)) (\<lambda>_.
     and_then (require_distinct [cf_payout_escrow_token_account a, cf_user_token_account a]) (\<lambda>_.
     Inr escrow)))))))))"

definition claim_fallback_payout ::
    "env \<Rightarrow> pubkey list \<Rightarrow> claim_fallback_accounts \<Rightarrow> chain \<Rightarrow> chain result" where
  "claim_fallback_payout e signers a st =
     and_then (load_claim_fallback e signers a st) (\<lambda>escrow.
     let amount = ta_amount escrow;
         seeds = [USER_POSITIONS_SEED, cf_user a,
                  [snd (find_program_address e [USER_POSITIONS_SEED, cf_user a])]] in
     and_then (require (0 < amount) (Code InvalidAmount)) (\<lambda>_.
     and_then (cpi (token_transfer e
       \<lparr>tr_from = cf_payout_escrow_token_account a, tr_to = cf_user_token_account a,
        tr_authority = cf_user_positions a, tr_signers = signers @ seed_signers e seeds,
        tr_amount = amount\<rparr> (st_tokens st))) (\<lambda>ts.
     Inr (emit (FallbackPayoutClaimed (cf_user a) (cf_user_token_account a) amount)
       (st\<lparr>st_tokens := ts\<rparr>)))))"

end
