(* ===== verification/Positions.thy ===== *)
theory Positions
  imports Instruction_Common
begin

text \<open>
  The life of a position: \<open>open_position\<close>, which admits it, schedules its settlement, takes the
  collateral and records it, and \<open>settle_position\<close>, which the scheduler's signer triggers and
  which pays it out at the oracle price, refunds it after the settlement window, or does
  nothing.
\<close>


section \<open>The settlement accounts and the scheduled instruction\<close>

record settle_accounts =
  sp_user :: pubkey
  sp_protocol_config :: pubkey
  sp_market :: pubkey
  sp_user_positions :: pubkey
  sp_pool_token_account :: pubkey
  sp_user_token_account :: pubkey
  sp_payout_escrow_token_account :: pubkey
  sp_derived_fee_authority :: pubkey
  sp_fee_token_account :: pubkey
  sp_collateral_mint :: pubkey
  sp_price_update :: pubkey
  sp_token_program :: pubkey
  sp_crank_signer :: pubkey

text \<open>\<open>SettlePosition::to_account_metas\<close>: \<open>mut\<close> accounts are writable, the crank signer signs.\<close>

definition settle_account_metas :: "settle_accounts \<Rightarrow> account_meta list" where
  "settle_account_metas a =
     [\<lparr>am_pubkey = sp_user a, am_is_signer = False, am_is_writable = False\<rparr>,
      \<lparr>am_pubkey = sp_protocol_config a, am_is_signer = False, am_is_writable = False\<rparr>,
      \<lparr>am_pubkey = sp_market a, am_is_signer = False, am_is_writable = True\<rparr>,
      \<lparr>am_pubkey = sp_user_positions a, am_is_signer = False, am_is_writable = True\<rparr>,
      \<lparr>am_pubkey = sp_pool_token_account a, am_is_signer = False, am_is_writable = True\<rparr>,
      \<lparr>am_pubkey = sp_user_token_account a, am_is_signer = False, am_is_writable = True\<rparr>,
      \<lparr>am_pubkey = sp_payout_escrow_token_account a, am_is_signer = False, am_is_writable = True\<rparr>,
      \<lparr>am_pubkey = sp_derived_fee_authority a, am_is_signer = False, am_is_writable = False\<rparr>,
      \<lparr>am_pubkey = sp_fee_token_account a, am_is_signer = False, am_is_writable = True\<rparr>,
      \<lparr>am_pubkey = sp_collateral_mint a, am_is_signer = False, am_is_writable = False\<rparr>,
      \<lparr>am_pubkey = sp_price_update a, am_is_signer = False, am_is_writable = False\<rparr>,
      \<lparr>am_pubkey = sp_token_program a, am_is_signer = False, am_is_writable = False\<rparr>,
      \<lparr>am_pubkey = sp_crank_signer a, am_is_signer = True, am_is_writable = False\<rparr>]"

definition settlement_instruction ::
    "env \<Rightarrow> settle_accounts \<Rightarrow> u32 \<Rightarrow> bytes \<Rightarrow> instruction result" where
  "settlement_instruction e a nonce task_salt =
     (let crank_signer = sp_crank_signer a; metas = settle_account_metas a in
      and_then (require (list_all (\<lambda>m. am_pubkey m = crank_signer \<and> \<not> am_is_writable m)
                           (filter am_is_signer metas)) (Code InvalidSettlementTask)) (\<lambda>_.
      Inr \<lparr>in_program_id = program_id e, in_accounts = metas, in_nonce = nonce,
           in_task_salt = task_salt\<rparr>))"


section \<open>\<open>open_position\<close>\<close>

record open_accounts =
  op_user :: pubkey
  op_session_signer :: pubkey
  op_protocol_config :: pubkey
  op_market :: pubkey
  op_user_positions :: pubkey
  op_pool_token_account :: pubkey
  op_derived_fee_authority :: pubkey
  op_fee_token_account :: pubkey
  op_user_token_account :: pubkey
  op_payout_escrow_token_account :: pubkey
  op_collateral_mint :: pubkey
  op_price_update :: pubkey
  op_token_program :: pubkey
  op_crank_signer :: pubkey
  op_magic_program :: pubkey
  op_session_token :: "pubkey option"

record open_args =
  oa_nonce :: u32
  oa_task_salt :: bytes
  oa_direction :: direction
  oa_collateral :: u64
  oa_min_entry_price :: i64
  oa_max_entry_price :: i64

record open_loaded =
  ol_market :: market
  ol_positions :: user_positions
  ol_pool :: token_account
  ol_user_token :: token_account

text \<open>\<open>#[session_auth_or(false, SessionError::InvalidToken)]\<close> on \<open>lib.rs\<close>'s entry point: without a
  valid session token the call fails.\<close>

definition require_session :: "env \<Rightarrow> chain \<Rightarrow> open_accounts \<Rightarrow> unit result" where
  "require_session e st a =
     (case op_session_token a of
        None \<Rightarrow> Inl (Framework InvalidSessionToken)
      | Some token \<Rightarrow> require (session_valid e token (op_session_signer a) (op_user a) (st_now st))
                        (Framework InvalidSessionToken))"

definition load_open ::
    "env \<Rightarrow> pubkey list \<Rightarrow> open_accounts \<Rightarrow> chain \<Rightarrow> open_loaded result" where
  "load_open e signers a st =
     and_then (require_signer signers (op_session_signer a)) (\<lambda>_.
     and_then (load_config e st (op_protocol_config a)) (\<lambda>config.
     and_then (require (cfg_collateral_mint config = op_collateral_mint a)
       (Framework ConstraintHasOne)) (\<lambda>_.
     and_then (load_market e st (op_market a)) (\<lambda>m.
     and_then (load_positions e st (op_user a) (op_user_positions a)) (\<lambda>up.
     and_then (load_associated e st (op_market a) (op_collateral_mint a) (op_pool_token_account a))
       (\<lambda>pool.
     and_then (require_seeds e [FEE_AUTHORITY_SEED, op_market a] (op_derived_fee_authority a)) (\<lambda>_.
     and_then (load_associated e st (op_derived_fee_authority a) (op_collateral_mint a)
       (op_fee_token_account a)) (\<lambda>_.
     and_then (load_account (st_tokens st) (op_user_token_account a)) (\<lambda>user_token.
     and_then (require (ta_owner user_token = op_user a) (Code InvalidTokenOwner)) (\<lambda>_.
     and_then (require (ta_mint user_token = op_collateral_mint a) (Code TokenMintMismatch)) (\<lambda>_.
     and_then (load_associated e st (op_user_positions a) (op_collateral_mint a)
       (op_payout_escrow_token_account a)) (\<lambda>_.
     and_then (load_account (st_mints st) (op_collateral_mint a)) (\<lambda>_.
     and_then (require (op_price_update a = mkt_oracle m) (Framework ConstraintAddress)) (\<lambda>_.
     and_then (require_token_program e (op_token_program a)) (\<lambda>_.
     and_then (require (op_crank_signer a = settlement_crank_signer e (op_market a))
       (Code InvalidSettlementTask)) (\<lambda>_.
     and_then (require (op_magic_program a = magic_program_id e) (Framework ConstraintAddress)) (\<lambda>_.
     and_then (require_distinct [op_pool_token_account a, op_fee_token_account a,
       op_user_token_account a, op_payout_escrow_token_account a]) (\<lambda>_.
     and_then (require_session e st a) (\<lambda>_.
     Inr \<lparr>ol_market = m, ol_positions = up, ol_pool = pool,
          ol_user_token = user_token\<rparr>)))))))))))))))))))"

definition require_session_token_delegate ::
    "pubkey option \<Rightarrow> u64 \<Rightarrow> pubkey \<Rightarrow> u64 \<Rightarrow> unit result" where
  "require_session_token_delegate delegate delegated_amount session_signer collateral =
     and_then (require (delegate = Some session_signer) (Code InvalidSessionTokenDelegate)) (\<lambda>_.
     require (collateral \<le> delegated_amount) (Code InsufficientSessionTokenAllowance))"

text \<open>The admission checks of the handler, up to the scheduling call: the oracle sample, the
  equity that bounds the risk epoch and the market's open collateral after the opening.\<close>

definition admit_position ::
    "env \<Rightarrow> open_accounts \<Rightarrow> open_args \<Rightarrow> open_loaded \<Rightarrow> chain \<Rightarrow> (price \<times> u64 \<times> u64) result" where
  "admit_position e a args l st =
     (let m = ol_market l; collateral = oa_collateral args in
     and_then (require (oa_task_salt args \<noteq> zero32) (Code InvalidSettlementTask)) (\<lambda>_.
     and_then (require (mkt_mode m = Open) (Code MarketCloseOnly)) (\<lambda>_.
     and_then (require_collateral_bounds collateral MIN_POSITION_COLLATERAL
       MAX_POSITION_COLLATERAL) (\<lambda>_.
     and_then (require (oa_nonce args = mkt_next_position_nonce m) (Code InvalidNonce)) (\<lambda>_.
     and_then (require_market_financial_capacity (mkt_active_positions m)) (\<lambda>_.
     and_then (require_capacity (ol_positions l)) (\<lambda>_.
     and_then (read_oracle_price e st (op_price_update a) (mkt_oracle_feed_id m)) (\<lambda>reading.
     and_then (ok_or reading (Code InvalidOraclePrice)) (\<lambda>sample.
     and_then (require (sint (oa_min_entry_price args) \<le> sint (pr_price sample)
                      \<and> sint (pr_price sample) \<le> sint (oa_max_entry_price args))
       (Code SlippageExceeded)) (\<lambda>_.
     and_then (require_session_token_delegate (ta_delegate (ol_user_token l))
       (ta_delegated_amount (ol_user_token l)) (op_session_signer a) collateral) (\<lambda>_.
     let pool_before = ta_amount (ol_pool l);
         epoch_equity = (if mkt_active_positions m = 0
                         then bounded_risk_epoch_equity pool_before MAX_MARKET_EQUITY
                         else mkt_risk_epoch_equity m) in
     and_then (require_open_liquidity (mkt_total_shares m) epoch_equity pool_before
       MIN_MARKET_EQUITY) (\<lambda>_.
     and_then (open_collateral (ol_positions l) (mkt_market_id m)) (\<lambda>user_open_collateral.
     and_then (require_user_open_collateral_capacity user_open_collateral collateral epoch_equity
       USER_OPEN_COLLATERAL_BPS) (\<lambda>_.
     and_then (ok_or (checked_add (mkt_open_collateral m) collateral) math_overflow)
       (\<lambda>open_collateral_after.
     and_then (require_post_open_solvency pool_before (mkt_open_collateral m)
       open_collateral_after SAFETY_BUFFER_BPS) (\<lambda>_.
     Inr (sample, epoch_equity, open_collateral_after)))))))))))))))))"

text \<open>Scheduling the settlement: the call is signed by the market through its seeds.\<close>

definition settlement_accounts_of :: "open_accounts \<Rightarrow> settle_accounts" where
  "settlement_accounts_of a =
     \<lparr>sp_user = op_user a, sp_protocol_config = op_protocol_config a, sp_market = op_market a,
      sp_user_positions = op_user_positions a, sp_pool_token_account = op_pool_token_account a,
      sp_user_token_account = op_user_token_account a,
      sp_payout_escrow_token_account = op_payout_escrow_token_account a,
      sp_derived_fee_authority = op_derived_fee_authority a,
      sp_fee_token_account = op_fee_token_account a,
      sp_collateral_mint = op_collateral_mint a, sp_price_update = op_price_update a,
      sp_token_program = op_token_program a, sp_crank_signer = op_crank_signer a\<rparr>"

definition schedule_settlement ::
    "env \<Rightarrow> open_accounts \<Rightarrow> market \<Rightarrow> u32 \<Rightarrow> bytes \<Rightarrow> schedule_request result" where
  "schedule_settlement e a m nonce task_salt =
     and_then (settlement_instruction e (settlement_accounts_of a) nonce task_salt)
       (\<lambda>scheduled_instruction.
     let request =
       \<lparr>sr_authority = op_market a,
        sr_task_id = settlement_task_id e (op_market a) (op_user a) nonce task_salt,
        sr_interval_millis = SETTLEMENT_TASK_INTERVAL_MILLIS,
        sr_iterations = SETTLEMENT_TASK_ITERATIONS,
        sr_instruction = scheduled_instruction,
        sr_accounts = op_market a # map am_pubkey (settle_account_metas (settlement_accounts_of a))\<rparr>
     in and_then (require
          (op_market a \<in> set (seed_signers e (market_seeds (mkt_market_id m) @ [[mkt_bump m]]))
           \<and> schedule_task e request) (Code SettlementTaskCreationFailed)) (\<lambda>_.
        Inr request))"

definition open_position ::
    "env \<Rightarrow> pubkey list \<Rightarrow> open_accounts \<Rightarrow> open_args \<Rightarrow> chain \<Rightarrow> chain result" where
  "open_position e signers a args st =
     and_then (load_open e signers a st) (\<lambda>l.
     and_then (admit_position e a args l st) (\<lambda>(sample, epoch_equity, open_collateral_after).
     let m = ol_market l; collateral = oa_collateral args; nonce = oa_nonce args in
     and_then (schedule_settlement e a m nonce (oa_task_salt args)) (\<lambda>task.
     and_then (cpi (token_transfer e
       \<lparr>tr_from = op_user_token_account a, tr_to = op_pool_token_account a,
        tr_authority = op_session_signer a, tr_signers = signers, tr_amount = collateral\<rparr>
       (st_tokens st))) (\<lambda>ts.
     and_then (ok_or (schecked_add (st_now st) POSITION_DURATION_SECONDS) math_overflow)
       (\<lambda>expires_at.
     and_then (compact_position_values collateral expires_at)
       (\<lambda>(compact_collateral, compact_expires_at).
     and_then (ok_or (checked_add (mkt_active_positions m) 1) math_overflow) (\<lambda>active_positions.
     and_then (ok_or (checked_add nonce 1) math_overflow) (\<lambda>next_position_nonce.
     let position =
           \<lparr>pos_market_id = mkt_market_id m, pos_nonce = nonce,
            pos_task_salt = oa_task_salt args, pos_collateral = compact_collateral,
            pos_entry_price = pr_price sample, pos_expires_at = compact_expires_at,
            pos_direction = oa_direction args\<rparr>;
         m' = m\<lparr>mkt_risk_epoch_equity := epoch_equity,
                mkt_open_collateral := open_collateral_after,
                mkt_active_positions := active_positions,
                mkt_next_position_nonce := next_position_nonce\<rparr> in
     Inr (emit (PositionCreated (mkt_market_id m) nonce (op_user a) (pr_price sample)
             compact_collateral (oa_direction args) compact_expires_at)
       (st\<lparr>st_tokens := ts,
           st_tasks := st_tasks st @ [task],
           st_positions := (st_positions st)(op_user_positions a \<mapsto>
             \<lparr>up_positions = up_positions (ol_positions l) @ [position]\<rparr>),
           st_markets := (st_markets st)(op_market a \<mapsto> m')\<rparr>))))))))))"


section \<open>\<open>settle_position\<close>\<close>

record settle_loaded =
  sl_market :: market
  sl_positions :: user_positions

definition load_settle ::
    "env \<Rightarrow> pubkey list \<Rightarrow> settle_accounts \<Rightarrow> chain \<Rightarrow> settle_loaded result" where
  "load_settle e signers a st =
     and_then (load_config e st (sp_protocol_config a)) (\<lambda>config.
     and_then (require (cfg_collateral_mint config = sp_collateral_mint a)
       (Framework ConstraintHasOne)) (\<lambda>_.
     and_then (load_market e st (sp_market a)) (\<lambda>m.
     and_then (load_positions e st (sp_user a) (sp_user_positions a)) (\<lambda>up.
     and_then (load_associated e st (sp_market a) (sp_collateral_mint a) (sp_pool_token_account a))
       (\<lambda>_.
     and_then (load_associated e st (sp_user_positions a) (sp_collateral_mint a)
       (sp_payout_escrow_token_account a)) (\<lambda>_.
     and_then (require_seeds e [FEE_AUTHORITY_SEED, sp_market a] (sp_derived_fee_authority a)) (\<lambda>_.
     and_then (load_associated e st (sp_derived_fee_authority a) (sp_collateral_mint a)
       (sp_fee_token_account a)) (\<lambda>_.
     and_then (load_account (st_mints st) (sp_collateral_mint a)) (\<lambda>_.
     and_then (require (sp_price_update a = mkt_oracle m) (Framework ConstraintAddress)) (\<lambda>_.
     and_then (require_token_program e (sp_token_program a)) (\<lambda>_.
     and_then (require_signer signers (sp_crank_signer a)) (\<lambda>_.
     and_then (require (sp_crank_signer a = settlement_crank_signer e (sp_market a))
       (Code InvalidSettlementTrigger)) (\<lambda>_.
     and_then (require_distinct [sp_pool_token_account a, sp_payout_escrow_token_account a,
       sp_fee_token_account a]) (\<lambda>_.
     Inr \<lparr>sl_market = m, sl_positions = up\<rparr>))))))))))))))"

text \<open>What a settlement pays: the payout, the protocol fee, the liquidity providers' fee and
  the outcome. \<open>None\<close> is the handler's \<open>return Ok(())\<close> without an effect.\<close>

type_synonym settlement_terms = "u64 \<times> u64 \<times> u64 \<times> position_outcome"

definition priced_terms ::
    "env \<Rightarrow> settle_accounts \<Rightarrow> market \<Rightarrow> compact_position \<Rightarrow> i64 \<Rightarrow> i64 \<Rightarrow> chain \<Rightarrow>
     settlement_terms option result" where
  "priced_terms e a m p expires_at refund_at st =
     and_then (read_oracle_price e st (sp_price_update a) (mkt_oracle_feed_id m)) (\<lambda>reading.
     case reading of
       None \<Rightarrow> Inr None
     | Some sample \<Rightarrow>
         if sint (pr_publish_time sample) < sint expires_at
            \<or> sint refund_at \<le> sint (pr_publish_time sample)
         then Inr None
         else
           and_then (calculate_settlement (ucast (pos_collateral p)) (pos_entry_price p)
             (pr_price sample) (pos_direction p) LEVERAGE PROFIT_FEE_BPS PROTOCOL_FEE_SHARE_BPS)
             (\<lambda>amounts.
           Inr (Some (sa_user_payout amounts, sa_protocol_fee amounts, sa_lp_fee amounts,
                 outcome_of False (sa_gross_profit amounts) (sa_loss amounts)))))"

definition settlement_terms_of ::
    "env \<Rightarrow> settle_accounts \<Rightarrow> market \<Rightarrow> compact_position \<Rightarrow> bytes \<Rightarrow> chain \<Rightarrow>
     settlement_terms option result" where
  "settlement_terms_of e a m p task_salt st =
     and_then (require (pos_task_salt p = task_salt) (Code InvalidSettlementTrigger)) (\<lambda>_.
     let collateral = ucast (pos_collateral p); expires_at = ucast (pos_expires_at p) in
     and_then (ok_or (schecked_add expires_at SETTLEMENT_BUFFER_SECONDS) math_overflow)
       (\<lambda>refund_at.
     if sint (st_now st) < sint expires_at then Inr None
     else if sint refund_at \<le> sint (st_now st) then Inr (Some (collateral, 0, 0, Refunded))
     else priced_terms e a m p expires_at refund_at st))"

text \<open>The two transfers out of the pool.\<close>

definition pay_settlement ::
    "env \<Rightarrow> pubkey list \<Rightarrow> settle_accounts \<Rightarrow> market \<Rightarrow> u64 \<Rightarrow> u64 \<Rightarrow> chain \<Rightarrow> tokens result" where
  "pay_settlement e signers a m user_payout protocol_fee st =
     and_then (if 0 < protocol_fee
               then market_transfer e signers (sp_market a) m (sp_pool_token_account a)
                      (sp_fee_token_account a) protocol_fee (st_tokens st)
               else Inr (st_tokens st)) (\<lambda>ts.
     if 0 < user_payout
     then market_transfer e signers (sp_market a) m (sp_pool_token_account a)
            (if is_usable_payout_destination (st\<lparr>st_tokens := ts\<rparr>) (sp_user_token_account a)
                  (sp_collateral_mint a)
             then sp_user_token_account a else sp_payout_escrow_token_account a) user_payout ts
     else Inr ts)"

definition settle_position ::
    "env \<Rightarrow> pubkey list \<Rightarrow> settle_accounts \<Rightarrow> u32 \<Rightarrow> bytes \<Rightarrow> chain \<Rightarrow> chain result" where
  "settle_position e signers a nonce task_salt st =
     and_then (load_settle e signers a st) (\<lambda>l.
     let m = sl_market l; up = sl_positions l in
     (case position_index up (mkt_market_id m) nonce of
        None \<Rightarrow> Inr st
      | Some i \<Rightarrow>
          let p = up_positions up ! i in
          and_then (settlement_terms_of e a m p task_salt st) (\<lambda>terms.
          (case terms of
             None \<Rightarrow> Inr st
           | Some (user_payout, protocol_fee, lp_fee, outcome) \<Rightarrow>
               and_then (pay_settlement e signers a m user_payout protocol_fee st) (\<lambda>ts.
               and_then (ok_or (checked_sub (mkt_open_collateral m) (ucast (pos_collateral p)))
                 math_overflow) (\<lambda>open_collateral'.
               and_then (ok_or (checked_sub (mkt_active_positions m) 1) math_overflow)
                 (\<lambda>active_positions'.
               Inr (emit (PositionClosed (mkt_market_id m) nonce outcome user_payout lp_fee
                       protocol_fee)
                 (st\<lparr>st_tokens := ts,
                     st_positions := (st_positions st)(sp_user_positions a \<mapsto>
                       \<lparr>up_positions = swap_remove i (up_positions up)\<rparr>),
                     st_markets := (st_markets st)(sp_market a \<mapsto>
                       m\<lparr>mkt_open_collateral := open_collateral',
                         mkt_active_positions := active_positions'\<rparr>)\<rparr>)))))))))"

end
