(* ===== verification/Env_Laws.thy ===== *)
theory Env_Laws
  imports Admin Liquidity Positions
begin

text \<open>
  The documented behaviour of the third-party code, as the named hypothesis \<open>env_laws\<close>, and
  what it gives the account constraints: under it an account that passes its seeds check is at
  the canonical address, and a token transfer moves exactly the requested amount between
  exactly two accounts. A concrete environment that satisfies every law,
  \<open>reference_env\<close>, shows that they can hold together.
\<close>


section \<open>Program addresses\<close>

definition config_key :: "env \<Rightarrow> pubkey" where
  "config_key e = fst (find_program_address e [CONFIG_SEED])"

definition market_key :: "env \<Rightarrow> u16 \<Rightarrow> pubkey" where
  "market_key e market_id = fst (find_program_address e (market_seeds market_id))"

definition positions_key :: "env \<Rightarrow> pubkey \<Rightarrow> pubkey" where
  "positions_key e user = fst (find_program_address e [USER_POSITIONS_SEED, user])"

definition liquidity_key :: "env \<Rightarrow> pubkey \<Rightarrow> pubkey" where
  "liquidity_key e user = fst (find_program_address e [USER_LIQUIDITY_SEED, user])"

definition fee_authority_key :: "env \<Rightarrow> pubkey \<Rightarrow> pubkey" where
  "fee_authority_key e market = fst (find_program_address e [FEE_AUTHORITY_SEED, market])"

text \<open>An address only the program can sign for.\<close>

definition program_address :: "env \<Rightarrow> pubkey \<Rightarrow> bool" where
  "program_address e k \<longleftrightarrow>
     (\<exists>seeds. k = fst (find_program_address e seeds) \<or> create_program_address e seeds = Some k)"

text \<open>
  \<open>find_program_address\<close> returns the address that \<open>create_program_address\<close> gives for the seeds
  and the bump; two seed lists with the same address have the same bytes (the hash has no
  collision); the associated-token derivation is injective.
\<close>

definition address_laws :: "env \<Rightarrow> bool" where
  "address_laws e \<longleftrightarrow>
     (\<forall>seeds. create_program_address e (seeds @ [[snd (find_program_address e seeds)]])
        = Some (fst (find_program_address e seeds)))
   \<and> (\<forall>seeds seeds'. fst (find_program_address e seeds) = fst (find_program_address e seeds')
        \<longrightarrow> concat seeds = concat seeds')
   \<and> (\<forall>a m a' m'. associated_token_address e a m = associated_token_address e a' m'
        \<longrightarrow> a = a' \<and> m = m')"


section \<open>The token programs\<close>

text \<open>Two token accounts that differ at most in the amount and, unless there is no delegate, in
  the delegation.\<close>

definition same_token_account :: "token_account \<Rightarrow> token_account \<Rightarrow> bool" where
  "same_token_account t t' \<longleftrightarrow>
     ta_mint t' = ta_mint t \<and> ta_owner t' = ta_owner t \<and> ta_state t' = ta_state t
   \<and> (ta_delegate t = None \<longrightarrow> ta_delegate t' = None)"

text \<open>A transfer that succeeds: signed by the owner or the delegate, funded, exact, and without
  an effect on any other account. A transfer of an account to itself changes no amount.\<close>

definition transfer_effect :: "transfer_request \<Rightarrow> tokens \<Rightarrow> tokens \<Rightarrow> bool" where
  "transfer_effect r ts ts' \<longleftrightarrow>
     (\<exists>f t f' t'. ts (tr_from r) = Some f \<and> ts (tr_to r) = Some t
       \<and> tr_authority r \<in> set (tr_signers r)
       \<and> (tr_authority r = ta_owner f \<or> ta_delegate f = Some (tr_authority r))
       \<and> tr_amount r \<le> ta_amount f
       \<and> ts' (tr_from r) = Some f' \<and> ts' (tr_to r) = Some t'
       \<and> same_token_account f f' \<and> same_token_account t t'
       \<and> (if tr_from r = tr_to r then ta_amount f' = ta_amount f
          else unat (ta_amount f') = unat (ta_amount f) - unat (tr_amount r)
             \<and> unat (ta_amount t') = unat (ta_amount t) + unat (tr_amount r))
       \<and> (\<forall>k. k \<noteq> tr_from r \<and> k \<noteq> tr_to r \<longrightarrow> ts' k = ts k))"

text \<open>When a transfer by the owner does succeed.\<close>

definition transfer_enabled :: "transfer_request \<Rightarrow> tokens \<Rightarrow> bool" where
  "transfer_enabled r ts \<longleftrightarrow>
     (\<exists>f t. ts (tr_from r) = Some f \<and> ts (tr_to r) = Some t
       \<and> ta_state f = Initialized \<and> ta_state t = Initialized \<and> ta_mint f = ta_mint t
       \<and> tr_authority r \<in> set (tr_signers r) \<and> tr_authority r = ta_owner f
       \<and> tr_amount r \<le> ta_amount f
       \<and> unat (ta_amount t) + unat (tr_amount r) < 2 ^ 64)"

definition fresh_token_account :: "pubkey \<Rightarrow> pubkey \<Rightarrow> token_account" where
  "fresh_token_account authority mint =
     \<lparr>ta_mint = mint, ta_owner = authority, ta_amount = 0, ta_delegate = None,
      ta_delegated_amount = 0, ta_state = Initialized\<rparr>"

definition token_laws :: "env \<Rightarrow> bool" where
  "token_laws e \<longleftrightarrow>
     (\<forall>r ts ts'. token_transfer e r ts = Inr ts' \<longrightarrow> transfer_effect r ts ts')
   \<and> (\<forall>r ts. transfer_enabled r ts \<longrightarrow> (\<exists>ts'. token_transfer e r ts = Inr ts'))
   \<and> (\<forall>a m ts ts'. create_associated_token e a m ts = Inr ts' \<longrightarrow>
        ts' = ts(associated_token_address e a m \<mapsto> fresh_token_account a m))"

definition env_laws :: "env \<Rightarrow> bool" where
  "env_laws e \<longleftrightarrow> address_laws e \<and> token_laws e"


section \<open>A reference environment\<close>

text \<open>
  Addresses tag their seed bytes, the token programs do what \<open>token_laws\<close> asks for, and every
  other call succeeds. It is used only to show that hypotheses can be met.
\<close>

fun tag_pair :: "bytes \<Rightarrow> bytes \<Rightarrow> bytes" where
  "tag_pair [] b = 0 # b"
| "tag_pair (x # a) b = 1 # x # tag_pair a b"

definition reference_transfer :: "transfer_request \<Rightarrow> tokens \<Rightarrow> nat + tokens" where
  "reference_transfer r ts =
     (case (ts (tr_from r), ts (tr_to r)) of
        (Some f, Some t) \<Rightarrow>
          if tr_authority r \<in> set (tr_signers r)
             \<and> (tr_authority r = ta_owner f \<or> ta_delegate f = Some (tr_authority r))
             \<and> tr_amount r \<le> ta_amount f
             \<and> unat (ta_amount t) + unat (tr_amount r) < 2 ^ 64
          then if tr_from r = tr_to r then Inr ts
               else Inr (ts(tr_from r \<mapsto> f\<lparr>ta_amount := ta_amount f - tr_amount r\<rparr>,
                            tr_to r \<mapsto> t\<lparr>ta_amount := ta_amount t + tr_amount r\<rparr>))
          else Inl 1
      | _ \<Rightarrow> Inl 0)"

definition reference_env :: env where
  "reference_env =
     \<lparr>find_program_address = (\<lambda>seeds. (1 # concat seeds, 255)),
      create_program_address =
        (\<lambda>seeds. if seeds \<noteq> [] \<and> last seeds = [255] then Some (1 # concat (butlast seeds)) else None),
      crank_program_address = (\<lambda>seeds. 2 # concat seeds),
      associated_token_address = (\<lambda>a m. 3 # tag_pair a m),
      hashv = concat,
      token_transfer = reference_transfer,
      create_associated_token =
        (\<lambda>a m ts. Inr (ts(3 # tag_pair a m \<mapsto> fresh_token_account a m))),
      create_account = (\<lambda>_ _. None),
      transfer_lamports = (\<lambda>_ _ _. None),
      schedule_task = (\<lambda>_. True),
      delegate_account = (\<lambda>_. None),
      commit_and_undelegate = (\<lambda>_. None),
      session_valid = (\<lambda>_ _ _ _. True),
      get_price_unchecked = (\<lambda>u feed. if pu_feed_id u = feed
        then Some \<lparr>pr_price = pu_price u, pr_conf = pu_conf u, pr_exponent = pu_exponent u,
                   pr_publish_time = pu_publish_time u\<rparr> else None),
      verification_gte_full = (\<lambda>level. level = []),
      token_program_id = [4], oracle_program_id = [5], magic_program_id = [6], program_id = [7]\<rparr>"

lemma tag_pair_inject: "tag_pair a b = tag_pair a' b' \<longleftrightarrow> a = a' \<and> b = b'"
proof (induction a arbitrary: a')
  case Nil
  then show ?case by (cases a') simp_all
next
  case (Cons x a)
  then show ?case by (cases a') simp_all
qed

lemma reference_transfer_effect:
  assumes "reference_transfer r ts = Inr ts'"
  shows "transfer_effect r ts ts'"
proof -
  obtain f t where ft: "ts (tr_from r) = Some f" "ts (tr_to r) = Some t"
    using assms by (auto simp: reference_transfer_def split: option.splits)
  have ok: "tr_authority r \<in> set (tr_signers r)"
    "tr_authority r = ta_owner f \<or> ta_delegate f = Some (tr_authority r)"
    "tr_amount r \<le> ta_amount f" "unat (ta_amount t) + unat (tr_amount r) < 2 ^ 64"
    and ts': "ts' = (if tr_from r = tr_to r then ts
               else ts(tr_from r \<mapsto> f\<lparr>ta_amount := ta_amount f - tr_amount r\<rparr>,
                       tr_to r \<mapsto> t\<lparr>ta_amount := ta_amount t + tr_amount r\<rparr>))"
    using assms ft by (auto simp: reference_transfer_def split: if_splits)
  have add: "unat (ta_amount t + tr_amount r) = unat (ta_amount t) + unat (tr_amount r)"
    using ok(4) unat_add_lem [of "ta_amount t" "tr_amount r"] by simp
  show ?thesis
    using ft ok(1,2,3) ts' add unat_sub [OF ok(3)]
    by (cases "tr_from r = tr_to r")
       (auto simp: transfer_effect_def same_token_account_def)
qed

lemma reference_env_laws: "env_laws reference_env"
proof -
  have "address_laws reference_env"
    by (simp add: address_laws_def reference_env_def tag_pair_inject)
  moreover have "token_laws reference_env"
    unfolding token_laws_def
    using reference_transfer_effect
    by (auto simp: reference_env_def transfer_enabled_def reference_transfer_def)
  ultimately show ?thesis by (simp add: env_laws_def)
qed

lemma reference_program_address: "program_address reference_env k \<longleftrightarrow> (\<exists>ks. k = 1 # ks)"
proof
  show "\<exists>ks. k = 1 # ks" if "program_address reference_env k"
    using that by (auto simp: program_address_def reference_env_def split: if_splits)
next
  assume "\<exists>ks. k = 1 # ks"
  then obtain ks where "k = 1 # concat [ks]" by auto
  then show "program_address reference_env k"
    unfolding program_address_def reference_env_def by (intro exI [of _ "[ks]"]) simp
qed

end
