(* ===== verification/Program.thy ===== *)
theory Program
  imports Env_Laws
begin

text \<open>
  The program as one dispatch function (the \<open>#[program]\<close> module of \<open>lib.rs\<close>) and, per
  instruction, what its success means: the facts its guards establish and the state it returns.
  The step relation \<open>chain_step\<close> adds everything the outside world can do between two
  instructions.
\<close>


section \<open>Dispatch\<close>

datatype request =
    InitializeProtocolConfig initialize_protocol_config_accounts
  | InitializeMarket initialize_market_accounts u16 pubkey bytes u64
  | SetMarketMode admin_market_accounts market_mode
  | DelegateMarket delegate_market_accounts u16 pubkey
  | InitializeUserPositions user_account
  | InitializeUserLiquidity user_account
  | DelegateUserPositions user_account pubkey
  | DelegateUserLiquidity user_account pubkey
  | UndelegateUserLiquidity user_account
  | DepositLiquidity deposit_accounts u64 u128
  | RequestWithdrawal manage_withdrawal_accounts u128 u64
  | CancelWithdrawal manage_withdrawal_accounts
  | ExecuteWithdrawal execute_withdrawal_accounts
  | OpenPosition open_accounts open_args
  | SettlePosition settle_accounts u32 bytes
  | WithdrawProtocolFees withdraw_fees_accounts u64
  | ClaimFallbackPayout claim_fallback_accounts

fun process :: "env \<Rightarrow> pubkey list \<Rightarrow> request \<Rightarrow> chain \<Rightarrow> chain result" where
  "process e signers (InitializeProtocolConfig a) st = initialize_protocol_config e signers a st"
| "process e signers (InitializeMarket a market_id oracle feed sponsor) st =
     initialize_market e signers a market_id oracle feed sponsor st"
| "process e signers (SetMarketMode a mode) st = set_market_mode e signers a mode st"
| "process e signers (DelegateMarket a market_id validator) st =
     delegate_market e signers a market_id validator st"
| "process e signers (InitializeUserPositions a) st = initialize_user_positions e signers a st"
| "process e signers (InitializeUserLiquidity a) st = initialize_user_liquidity e signers a st"
| "process e signers (DelegateUserPositions a validator) st =
     delegate_user_positions e signers a validator st"
| "process e signers (DelegateUserLiquidity a validator) st =
     delegate_user_liquidity e signers a validator st"
| "process e signers (UndelegateUserLiquidity a) st = undelegate_user_liquidity e signers a st"
| "process e signers (DepositLiquidity a amount min_shares_out) st =
     deposit_liquidity e signers a amount min_shares_out st"
| "process e signers (RequestWithdrawal a shares min_assets_out) st =
     request_withdrawal e signers a shares min_assets_out st"
| "process e signers (CancelWithdrawal a) st = cancel_withdrawal e signers a st"
| "process e signers (ExecuteWithdrawal a) st = execute_withdrawal e signers a st"
| "process e signers (OpenPosition a args) st = open_position e signers a args st"
| "process e signers (SettlePosition a nonce task_salt) st =
     settle_position e signers a nonce task_salt st"
| "process e signers (WithdrawProtocolFees a amount) st =
     withdraw_protocol_fees e signers a amount st"
| "process e signers (ClaimFallbackPayout a) st = claim_fallback_payout e signers a st"


section \<open>Loaded accounts\<close>

lemma load_config_InrD:
  "load_config e st k = Inr c \<Longrightarrow> st_configs st k = Some c
    \<and> create_program_address e [CONFIG_SEED, [cfg_bump c]] = Some k"
  by (auto simp: load_defs result_simps)

lemma load_market_InrD:
  "load_market e st k = Inr m \<Longrightarrow> st_markets st k = Some m
    \<and> create_program_address e (market_seeds (mkt_market_id m) @ [[mkt_bump m]]) = Some k"
  by (auto simp: load_defs result_simps)

lemma load_positions_InrD:
  "load_positions e st user k = Inr up \<Longrightarrow> st_positions st k = Some up \<and> k = positions_key e user"
  by (auto simp: load_defs result_simps positions_key_def)

lemma load_liquidity_InrD:
  "load_liquidity e st user k = Inr ul \<Longrightarrow> st_liquidity st k = Some ul \<and> k = liquidity_key e user"
  by (auto simp: load_defs result_simps liquidity_key_def)

lemma load_associated_InrD:
  "load_associated e st a m k = Inr t \<Longrightarrow>
   st_tokens st k = Some t \<and> ta_owner t = a \<and> k = associated_token_address e a m"
  by (auto simp: load_defs result_simps)

lemma load_deposit_InrD:
  assumes "load_deposit e signers a st = Inr l"
  obtains config where "dl_user a \<in> set signers" 
    "load_config e st (dl_protocol_config a) = Inr config"
    "cfg_collateral_mint config = dl_collateral_mint a"
    "load_market e st (dl_market a) = Inr (dll_market l)"
    "load_liquidity e st (dl_user a) (dl_user_liquidity a) = Inr (dll_liquidity l)"
    "load_associated e st (dl_market a) (dl_collateral_mint a) (dl_pool_token_account a) = Inr (dll_pool l)"
    "dl_pool_token_account a \<noteq> dl_user_token_account a"
  using assms unfolding load_deposit_def result_simps require_signer_def require_distinct_def sum.inject
  by (elim exE conjE) (rule that; (assumption | force))

lemma load_execute_withdrawal_InrD:
  assumes "load_execute_withdrawal e a st = Inr l"
  obtains config where 
    "load_config e st (ew_protocol_config a) = Inr config"
    "cfg_collateral_mint config = ew_collateral_mint a"
    "load_market e st (ew_market a) = Inr (dll_market l)"
    "load_liquidity e st (ew_user a) (ew_user_liquidity a) = Inr (dll_liquidity l)"
    "load_associated e st (ew_market a) (ew_collateral_mint a) (ew_pool_token_account a) = Inr (dll_pool l)"
    "ew_pool_token_account a \<noteq> ew_user_token_account a"
  using assms unfolding load_execute_withdrawal_def result_simps require_distinct_def sum.inject
  by (elim exE conjE) (rule that; (assumption | force))

lemma load_open_InrD:
  assumes "load_open e signers a st = Inr l"
  obtains config where "op_session_signer a \<in> set signers"
    "load_config e st (op_protocol_config a) = Inr config"
    "cfg_collateral_mint config = op_collateral_mint a"
    "load_market e st (op_market a) = Inr (ol_market l)"
    "load_positions e st (op_user a) (op_user_positions a) = Inr (ol_positions l)"
    "load_associated e st (op_market a) (op_collateral_mint a) (op_pool_token_account a) = Inr (ol_pool l)"
    "st_tokens st (op_user_token_account a) = Some (ol_user_token l)"
    "ta_owner (ol_user_token l) = op_user a" "ta_mint (ol_user_token l) = op_collateral_mint a"
    "op_price_update a = mkt_oracle (ol_market l)"
    "op_crank_signer a = settlement_crank_signer e (op_market a)"
    "op_pool_token_account a \<noteq> op_user_token_account a"
    "require_session e st a = Inr ()"
  using assms unfolding load_open_def result_simps require_signer_def require_distinct_def sum.inject load_account_def
  by (elim exE conjE) (rule that; (assumption | force))

lemma load_settle_InrD:
  assumes "load_settle e signers a st = Inr l"
  obtains config m up pool escrow fee where
    "\<lparr>sl_market = m, sl_positions = up\<rparr> = l"
    "load_config e st (sp_protocol_config a) = Inr config"
    "cfg_collateral_mint config = sp_collateral_mint a"
    "load_market e st (sp_market a) = Inr m"
    "load_positions e st (sp_user a) (sp_user_positions a) = Inr up"
    "load_associated e st (sp_market a) (sp_collateral_mint a) (sp_pool_token_account a) = Inr pool"
    "load_associated e st (sp_user_positions a) (sp_collateral_mint a) (sp_payout_escrow_token_account a) = Inr escrow"
    "load_associated e st (sp_derived_fee_authority a) (sp_collateral_mint a) (sp_fee_token_account a) = Inr fee"
    "fst (find_program_address e [FEE_AUTHORITY_SEED, sp_market a]) = sp_derived_fee_authority a"
    "sp_price_update a = mkt_oracle m"
    "sp_crank_signer a \<in> set signers"
    "sp_crank_signer a = settlement_crank_signer e (sp_market a)"
    "distinct [sp_pool_token_account a, sp_payout_escrow_token_account a, sp_fee_token_account a]"
  using assms unfolding load_settle_def result_simps require_signer_def require_distinct_def sum.inject
    require_seeds_def
  by (elim exE conjE) (rule that; assumption)


lemma cpi_pair_case: "(case x of (a, b) \<Rightarrow> f a b) = Inr y \<longleftrightarrow> (\<exists>a b. x = (a, b) \<and> f a b = Inr y)"
  by (cases x) simp

lemma admit_position_InrD:
  assumes "admit_position e a args l st = Inr r"
  obtains sample ee oc' uoc reading x u1 u2 where "(sample, ee, oc') = r"
    "oa_task_salt args \<noteq> zero32" "mkt_mode (ol_market l) = Open"
    "MIN_POSITION_COLLATERAL \<le> oa_collateral args" "oa_collateral args \<le> MAX_POSITION_COLLATERAL"
    "oa_nonce args = mkt_next_position_nonce (ol_market l)"
    "mkt_active_positions (ol_market l) < MAX_MARKET_FINANCIALLY_ACTIVE_POSITIONS"
    "length (up_positions (ol_positions l)) < USER_POSITIONS_CAPACITY"
    "read_oracle_price e st (op_price_update a) (mkt_oracle_feed_id (ol_market l)) = Inr reading"
    "reading = Some sample"
    "sint (oa_min_entry_price args) \<le> sint (pr_price sample)"
    "sint (pr_price sample) \<le> sint (oa_max_entry_price args)"
    "ta_delegate (ol_user_token l) = Some (op_session_signer a)"
    "oa_collateral args \<le> ta_delegated_amount (ol_user_token l)"
    "ee = (if mkt_active_positions (ol_market l) = 0
           then bounded_risk_epoch_equity (ta_amount (ol_pool l)) MAX_MARKET_EQUITY
           else mkt_risk_epoch_equity (ol_market l))"
    "require_open_liquidity (mkt_total_shares (ol_market l)) ee (ta_amount (ol_pool l))
       MIN_MARKET_EQUITY = Inr u1"
    "open_collateral (ol_positions l) (mkt_market_id (ol_market l)) = Inr uoc"
    "require_user_open_collateral_capacity uoc (oa_collateral args) ee USER_OPEN_COLLATERAL_BPS
       = Inr x"
    "checked_add (mkt_open_collateral (ol_market l)) (oa_collateral args) = Some oc'"
    "require_post_open_solvency (ta_amount (ol_pool l)) (mkt_open_collateral (ol_market l)) oc'
       SAFETY_BUFFER_BPS = Inr u2"
  using assms
  unfolding admit_position_def Let_def result_simps require_collateral_bounds_def
    require_market_financial_capacity_def require_capacity_def require_session_token_delegate_def
    sum.inject
  by (elim exE conjE) (rule that; (assumption | rule refl))

lemma open_position_InrD:
  assumes "open_position e signers a args st = Inr st'"
  obtains l sample ee oc' task ts expires cc ce act nn where
    "load_open e signers a st = Inr l"
    "admit_position e a args l st = Inr (sample, ee, oc')"
    "schedule_settlement e a (ol_market l) (oa_nonce args) (oa_task_salt args) = Inr task"
    "token_transfer e \<lparr>tr_from = op_user_token_account a, tr_to = op_pool_token_account a,
        tr_authority = op_session_signer a, tr_signers = signers, tr_amount = oa_collateral args\<rparr>
       (st_tokens st) = Inr ts"
    "schecked_add (st_now st) POSITION_DURATION_SECONDS = Some expires"
    "compact_position_values (oa_collateral args) expires = Inr (cc, ce)"
    "checked_add (mkt_active_positions (ol_market l)) 1 = Some act"
    "checked_add (oa_nonce args) 1 = Some nn"
    "emit (PositionCreated (mkt_market_id (ol_market l)) (oa_nonce args) (op_user a)
             (pr_price sample) cc (oa_direction args) ce)
       (st\<lparr>st_tokens := ts,
           st_tasks := st_tasks st @ [task],
           st_positions := (st_positions st)(op_user_positions a \<mapsto>
             \<lparr>up_positions = up_positions (ol_positions l) @
               [\<lparr>pos_market_id = mkt_market_id (ol_market l), pos_nonce = oa_nonce args,
                 pos_task_salt = oa_task_salt args, pos_collateral = cc,
                 pos_entry_price = pr_price sample, pos_expires_at = ce,
                 pos_direction = oa_direction args\<rparr>]\<rparr>),
           st_markets := (st_markets st)(op_market a \<mapsto>
             (ol_market l)\<lparr>mkt_risk_epoch_equity := ee, mkt_open_collateral := oc',
                mkt_active_positions := act, mkt_next_position_nonce := nn\<rparr>)\<rparr>) = st'"
  using assms unfolding open_position_def Let_def result_simps cpi_pair_case sum.inject
  apply (elim exE conjE)
  apply hypsubst
  apply (rule that)
  apply (assumption | (rule sym, assumption))+
  done

lemma settle_position_InrD:
  assumes "settle_position e signers a nonce salt st = Inr st'"
  obtains (unknown) l where "load_settle e signers a st = Inr l"
      "position_index (sl_positions l) (mkt_market_id (sl_market l)) nonce = None" "st' = st"
  | (noop) l i where "load_settle e signers a st = Inr l"
      "position_index (sl_positions l) (mkt_market_id (sl_market l)) nonce = Some i"
      "settlement_terms_of e a (sl_market l) (up_positions (sl_positions l) ! i) salt st = Inr None"
      "st' = st"
  | (closed) l i pay pf lf oc ts oc' act where "load_settle e signers a st = Inr l"
      "position_index (sl_positions l) (mkt_market_id (sl_market l)) nonce = Some i"
      "settlement_terms_of e a (sl_market l) (up_positions (sl_positions l) ! i) salt st
        = Inr (Some (pay, pf, lf, oc))"
      "pay_settlement e signers a (sl_market l) pay pf st = Inr ts"
      "checked_sub (mkt_open_collateral (sl_market l))
         (ucast (pos_collateral (up_positions (sl_positions l) ! i))) = Some oc'"
      "checked_sub (mkt_active_positions (sl_market l)) 1 = Some act"
      "st' = emit (PositionClosed (mkt_market_id (sl_market l)) nonce oc pay lf pf)
        (st\<lparr>st_tokens := ts,
            st_positions := (st_positions st)(sp_user_positions a \<mapsto>
              \<lparr>up_positions = swap_remove i (up_positions (sl_positions l))\<rparr>),
            st_markets := (st_markets st)(sp_market a \<mapsto>
              (sl_market l)\<lparr>mkt_open_collateral := oc', mkt_active_positions := act\<rparr>)\<rparr>)"
proof -
  obtain l where l: "load_settle e signers a st = Inr l"
    using assms unfolding settle_position_def result_simps by blast
  show thesis
  proof (cases "position_index (sl_positions l) (mkt_market_id (sl_market l)) nonce")
    case None
    with assms l show thesis by (intro unknown [of l]) (simp_all add: settle_position_def Let_def)
  next
    case (Some i)
    let ?p = "up_positions (sl_positions l) ! i"
    obtain terms where t: "settlement_terms_of e a (sl_market l) ?p salt st = Inr terms"
      using assms l Some unfolding settle_position_def Let_def
      by (cases "settlement_terms_of e a (sl_market l) ?p salt st") simp_all
    show thesis
    proof (cases terms)
      case None
      with assms l Some t show thesis
        by (intro noop [of l i]) (simp_all add: settle_position_def Let_def)
    next
      case (Some x)
      obtain pay pf lf oc where x: "x = (pay, pf, lf, oc)" by (cases x)
      have "\<exists>ts oc' act. pay_settlement e signers a (sl_market l) pay pf st = Inr ts \<and>
        checked_sub (mkt_open_collateral (sl_market l)) (ucast (pos_collateral ?p)) = Some oc' \<and>
        checked_sub (mkt_active_positions (sl_market l)) 1 = Some act \<and>
        st' = emit (PositionClosed (mkt_market_id (sl_market l)) nonce oc pay lf pf)
          (st\<lparr>st_tokens := ts,
            st_positions := (st_positions st)(sp_user_positions a \<mapsto>
              \<lparr>up_positions = swap_remove i (up_positions (sl_positions l))\<rparr>),
            st_markets := (st_markets st)(sp_market a \<mapsto>
              (sl_market l)\<lparr>mkt_open_collateral := oc', mkt_active_positions := act\<rparr>)\<rparr>)"
        using assms l \<open>position_index _ _ _ = Some i\<close> t Some x
        by (auto simp: settle_position_def Let_def and_then_eq_Inr ok_or_eq_Inr)
      then show thesis using closed l \<open>position_index _ _ _ = Some i\<close> t Some x by blast
    qed
  qed
qed


section \<open>Liquidity instructions\<close>

lemma credit_shares_InrD:
  assumes "credit_shares m ul s = Inr r"
  obtains ul' i us tot where "market_or_insert_mut ul (mkt_market_id m) = Inr (ul', i)"
    "checked_add (ml_shares (ul_markets ul' ! i)) s = Some us"
    "checked_add (mkt_total_shares m) s = Some tot"
    "(m\<lparr>mkt_total_shares := tot\<rparr>, set_entry ul' i ((ul_markets ul' ! i)\<lparr>ml_shares := us\<rparr>)) = r"
  using assms unfolding credit_shares_def Let_def result_simps cpi_pair_case sum.inject
  by (elim exE conjE, hypsubst) (rule that; (assumption | rule refl | (rule sym, assumption)))

lemma deposit_shares_InrD:
  assumes "deposit_shares m ul eq amount mins = Inr s"
  obtains x y where "mkt_mode m = Open" "is_no_risk m"
    "mkt_total_shares m = 0 \<Longrightarrow> MIN_MARKET_EQUITY \<le> amount \<and> amount \<le> MAX_MARKET_EQUITY"
    "require_deposit_capacity eq amount MAX_MARKET_EQUITY (mkt_total_shares m = 0) = Inr x"
    "shares_for_deposit amount eq (mkt_total_shares m) = Inr s" "mins \<le> s"
    "market_or_insert_mut ul (mkt_market_id m) = Inr y"
  using assms unfolding deposit_shares_def Let_def result_simps
  by (force simp: result_simps)

lemma deposit_liquidity_InrD:
  assumes "deposit_liquidity e signers a amount mins st = Inr st'"
  obtains l s ts m ul where "load_deposit e signers a st = Inr l"
    "deposit_shares (dll_market l) (dll_liquidity l) (ta_amount (dll_pool l)) amount mins = Inr s"
    "token_transfer e \<lparr>tr_from = dl_user_token_account a, tr_to = dl_pool_token_account a,
        tr_authority = dl_user a, tr_signers = signers, tr_amount = amount\<rparr> (st_tokens st) = Inr ts"
    "credit_shares (dll_market l) (dll_liquidity l) s = Inr (m, ul)"
    "emit (LiquidityDeposited (mkt_market_id m) (dl_user a) amount s)
       (st\<lparr>st_tokens := ts, st_markets := (st_markets st)(dl_market a \<mapsto> m),
           st_liquidity := (st_liquidity st)(dl_user_liquidity a \<mapsto> ul)\<rparr>) = st'"
  using assms unfolding deposit_liquidity_def Let_def result_simps cpi_pair_case sum.inject
  by (elim exE conjE, hypsubst) (rule that; (assumption | rule refl | (rule sym, assumption)))

lemma load_manage_withdrawal_InrD:
  assumes "load_manage_withdrawal e signers a st = Inr (m, ul)"
  shows "mw_user a \<in> set signers" "load_market e st (mw_market a) = Inr m"
    "load_liquidity e st (mw_user a) (mw_user_liquidity a) = Inr ul"
  using assms by (auto simp: load_manage_withdrawal_def result_simps require_signer_def)

lemma request_withdrawal_InrD:
  assumes "request_withdrawal e signers a s mins st = Inr st'"
  obtains m ul i where "load_manage_withdrawal e signers a st = Inr (m, ul)"
    "market_mut ul (mkt_market_id m) = Some i"
    "0 < s" "s \<le> ml_shares (ul_markets ul ! i)"
    "ml_pending_withdrawal_shares (ul_markets ul ! i) = 0"
    "emit (WithdrawalRequested (mkt_market_id m) (mw_user a) s mins)
       (st\<lparr>st_liquidity := (st_liquidity st)(mw_user_liquidity a \<mapsto>
           set_entry ul i ((ul_markets ul ! i)\<lparr>ml_pending_withdrawal_shares := s,
                                 ml_min_assets_out := mins\<rparr>))\<rparr>) = st'"
  using assms unfolding request_withdrawal_def Let_def result_simps cpi_pair_case sum.inject
  by (elim exE conjE, hypsubst) (rule that; (assumption | rule refl | (rule sym, assumption)))

lemma cancel_withdrawal_InrD:
  assumes "cancel_withdrawal e signers a st = Inr st'"
  obtains m ul i where "load_manage_withdrawal e signers a st = Inr (m, ul)"
    "market_mut ul (mkt_market_id m) = Some i"
    "0 < ml_pending_withdrawal_shares (ul_markets ul ! i)"
    "emit (WithdrawalCancelled (mkt_market_id m) (mw_user a)
         (ml_pending_withdrawal_shares (ul_markets ul ! i)))
       (st\<lparr>st_liquidity := (st_liquidity st)(mw_user_liquidity a \<mapsto>
           set_entry ul i ((ul_markets ul ! i)\<lparr>ml_pending_withdrawal_shares := 0,
                                 ml_min_assets_out := 0\<rparr>))\<rparr>) = st'"
  using assms unfolding cancel_withdrawal_def Let_def result_simps cpi_pair_case sum.inject
  by (elim exE conjE, hypsubst) (rule that; (assumption | rule refl | (rule sym, assumption)))

lemma withdrawal_terms_InrD:
  assumes "withdrawal_terms m ul eq = Inr r"
  obtains entry assets re rs u where
    "is_no_risk m" "liquidity_market ul (mkt_market_id m) = Some entry"
    "0 < ml_pending_withdrawal_shares entry"
    "assets_for_shares (ml_pending_withdrawal_shares entry) eq (mkt_total_shares m) = Inr assets"
    "0 < assets" "ml_min_assets_out entry \<le> assets"
    "checked_sub eq assets = Some re"
    "checked_sub (mkt_total_shares m) (ml_pending_withdrawal_shares entry) = Some rs"
    "require_valid_withdrawal_remainder (mkt_mode m) re rs MIN_MARKET_EQUITY = Inr u"
    "(ml_pending_withdrawal_shares entry, assets, rs) = r"
  using assms unfolding withdrawal_terms_def Let_def result_simps sum.inject
  by (elim exE conjE) (rule that; assumption)

lemma debit_shares_InrD:
  assumes "debit_shares ul mid s = Inr ul'"
  obtains i rest where "market_mut ul mid = Some i"
    "checked_sub (ml_shares (ul_markets ul ! i)) s = Some rest"
    "remove_empty_market (set_entry ul i ((ul_markets ul ! i)\<lparr>ml_shares := rest,
        ml_pending_withdrawal_shares := 0, ml_min_assets_out := 0\<rparr>)) mid = ul'"
  using assms unfolding debit_shares_def Let_def result_simps sum.inject
  by (elim exE conjE) (rule that; assumption)

lemma execute_withdrawal_InrD:
  assumes "execute_withdrawal e signers a st = Inr st'"
  obtains l s assets rs ts ul where "load_execute_withdrawal e a st = Inr l"
    "withdrawal_terms (dll_market l) (dll_liquidity l) (ta_amount (dll_pool l)) = Inr (s, assets, rs)"
    "market_transfer e signers (ew_market a) (dll_market l) (ew_pool_token_account a)
       (ew_user_token_account a) assets (st_tokens st) = Inr ts"
    "debit_shares (dll_liquidity l) (mkt_market_id (dll_market l)) s = Inr ul"
    "emit (WithdrawalExecuted (mkt_market_id (dll_market l)) (ew_user a) s assets)
       (st\<lparr>st_tokens := ts,
           st_markets := (st_markets st)(ew_market a \<mapsto> (dll_market l)\<lparr>mkt_total_shares := rs\<rparr>),
           st_liquidity := (st_liquidity st)(ew_user_liquidity a \<mapsto> ul)\<rparr>) = st'"
  using assms unfolding execute_withdrawal_def Let_def result_simps cpi_pair_case sum.inject
  by (elim exE conjE, hypsubst) (rule that; (assumption | rule refl | (rule sym, assumption)))

lemma withdraw_protocol_fees_InrD:
  assumes "withdraw_protocol_fees e signers a amount st = Inr st'"
  obtains m ts where "load_withdraw_fees e signers a st = Inr m" "0 < amount"
    "fee_transfer e signers (wf_market a) (wf_derived_fee_authority a)
       (wf_fee_token_account a) (wf_destination_token_account a) amount
       (snd (find_program_address e [FEE_AUTHORITY_SEED, wf_market a])) (st_tokens st) = Inr ts"
    "emit (ProtocolFeesWithdrawn (mkt_market_id m) (wf_destination_token_account a) amount)
       (st\<lparr>st_tokens := ts\<rparr>) = st'"
  using assms unfolding withdraw_protocol_fees_def Let_def result_simps sum.inject
  by (elim exE conjE) (rule that; assumption)

lemma load_withdraw_fees_InrD:
  assumes "load_withdraw_fees e signers a st = Inr m"
  obtains config t where "load_config e st (wf_protocol_config a) = Inr config"
    "wf_fee_authority a \<in> set signers"
    "cfg_fee_authority config = wf_fee_authority a"
    "cfg_collateral_mint config = wf_collateral_mint a"
    "load_market e st (wf_market a) = Inr m"
    "fst (find_program_address e [FEE_AUTHORITY_SEED, wf_market a]) = wf_derived_fee_authority a"
    "load_associated e st (wf_derived_fee_authority a) (wf_collateral_mint a)
       (wf_fee_token_account a) = Inr t"
  using assms unfolding load_withdraw_fees_def result_simps require_signer_def require_seeds_def sum.inject
  by (elim exE conjE, hypsubst) (rule that; assumption)

lemma load_claim_fallback_InrD:
  assumes "load_claim_fallback e signers a st = Inr escrow"
  obtains config up where "load_config e st (cf_protocol_config a) = Inr config"
    "cf_user a \<in> set signers"
    "cfg_collateral_mint config = cf_collateral_mint a"
    "load_positions e st (cf_user a) (cf_user_positions a) = Inr up"
    "load_associated e st (cf_user_positions a) (cf_collateral_mint a)
       (cf_payout_escrow_token_account a) = Inr escrow"
  using assms unfolding load_claim_fallback_def result_simps require_signer_def sum.inject
  by (elim exE conjE, hypsubst) (rule that; assumption)

lemma claim_fallback_payout_InrD:
  assumes "claim_fallback_payout e signers a st = Inr st'"
  obtains escrow ts signers' where "load_claim_fallback e signers a st = Inr escrow"
    "0 < ta_amount escrow"
    "token_transfer e \<lparr>tr_from = cf_payout_escrow_token_account a, tr_to = cf_user_token_account a,
        tr_authority = cf_user_positions a, tr_signers = signers',
        tr_amount = ta_amount escrow\<rparr> (st_tokens st) = Inr ts"
    "emit (FallbackPayoutClaimed (cf_user a) (cf_user_token_account a) (ta_amount escrow))
       (st\<lparr>st_tokens := ts\<rparr>) = st'"
  using assms unfolding claim_fallback_payout_def Let_def result_simps sum.inject
  by (elim exE conjE) (rule that; assumption)

lemma initialize_market_InrD:
  assumes "initialize_market e signers a market_id oracle feed sponsor st = Inr st'"
  obtains config bump ts ts' where
    "load_config e st (im_protocol_config a) = Inr config"
    "cfg_admin config = im_admin a" "im_admin a \<in> set signers"
    "cfg_collateral_mint config = im_collateral_mint a"
    "init_account e (st_markets st) (im_admin a) (market_seeds market_id) (im_market a) = Inr bump"
    "init_associated e (im_market a) (im_collateral_mint a) (im_pool_token_account a)
       (st_tokens st) = Inr ts"
    "init_associated e (im_derived_fee_authority a) (im_collateral_mint a)
       (im_fee_token_account a) ts = Inr ts'"
    "fst (find_program_address e [FEE_AUTHORITY_SEED, im_market a]) = im_derived_fee_authority a"
    "oracle \<noteq> zero32" "feed \<noteq> zero32"
    "st\<lparr>st_tokens := ts', st_markets := (st_markets st)(im_market a \<mapsto>
               \<lparr>mkt_market_id = market_id, mkt_oracle = oracle, mkt_oracle_feed_id = feed,
                mkt_total_shares = 0, mkt_open_collateral = 0, mkt_risk_epoch_equity = 0,
                mkt_active_positions = 0, mkt_next_position_nonce = 0, mkt_mode = Open,
                mkt_bump = bump\<rparr>)\<rparr> = st'"
  using assms unfolding initialize_market_def result_simps require_signer_def require_seeds_def sum.inject
  by (elim exE conjE) (rule that; assumption)

end
