(* ===== verification/Balances.thy ===== *)
theory Balances
  imports Program
begin

text \<open>
  Addresses and balances under the laws of the environment: the program's derived addresses are
  distinct by construction of their seeds, and a successful token transfer keeps every balance
  owned by a program address except the one the program itself signs for.
\<close>


section \<open>Addresses\<close>

lemma seed_bytes [simp]:
  "MARKET_SEED = [109, 97, 114, 107, 101, 116]"
  "USER_POSITIONS_SEED = [117, 115, 101, 114, 95, 112, 111, 115, 105, 116, 105, 111, 110, 115]"
  "USER_LIQUIDITY_SEED = [117, 115, 101, 114, 95, 108, 105, 113, 117, 105, 100, 105, 116, 121]"
  "FEE_AUTHORITY_SEED = [102, 101, 101, 95, 97, 117, 116, 104, 111, 114, 105, 116, 121]"
  "CONFIG_SEED = [112, 114, 111, 116, 111, 99, 111, 108, 95, 99, 111, 110, 102, 105, 103]"
  by (simp_all add: MARKET_SEED_def USER_POSITIONS_SEED_def USER_LIQUIDITY_SEED_def
      FEE_AUTHORITY_SEED_def CONFIG_SEED_def byte_string_def)

lemma address_lawsD:
  assumes "address_laws e"
  shows "fst (find_program_address e s) = fst (find_program_address e s') \<Longrightarrow> concat s = concat s'"
    "associated_token_address e a m = associated_token_address e a' m' \<Longrightarrow> a = a' \<and> m = m'"
    "create_program_address e (s @ [[snd (find_program_address e s)]]) = Some (fst (find_program_address e s))"
  using assms unfolding address_laws_def by blast+

lemma market_key_inject:
  "address_laws e \<Longrightarrow> market_key e i = market_key e j \<longleftrightarrow> i = j"
  using address_lawsD(1) [of e "market_seeds i" "market_seeds j"]
  by (auto simp: market_key_def market_seeds_def)

lemma market_key_not_fee_authority: "address_laws e \<Longrightarrow> market_key e i \<noteq> fee_authority_key e k"
  using address_lawsD(1) [of e "market_seeds i" "[FEE_AUTHORITY_SEED, k]"]
  by (auto simp: market_key_def fee_authority_key_def market_seeds_def)

lemma market_key_not_positions: "address_laws e \<Longrightarrow> market_key e i \<noteq> positions_key e u"
  using address_lawsD(1) [of e "market_seeds i" "[USER_POSITIONS_SEED, u]"]
  by (auto simp: market_key_def positions_key_def market_seeds_def)

lemma program_address_keys [simp]:
  "program_address e (config_key e)" "program_address e (market_key e i)"
  "program_address e (positions_key e u)" "program_address e (fee_authority_key e k)"
  "program_address e (liquidity_key e u)"
  by (auto simp: program_address_def config_key_def market_key_def positions_key_def
      fee_authority_key_def liquidity_key_def)


section \<open>Balances under transfers\<close>

definition no_delegates :: "env \<Rightarrow> tokens \<Rightarrow> bool" where
  "no_delegates e ts \<longleftrightarrow>
     (\<forall>k t. ts k = Some t \<and> program_address e (ta_owner t) \<longrightarrow> ta_delegate t = None)"

text \<open>The account at \<open>k\<close> belongs to \<open>owner\<close> and holds at least \<open>n\<close>.\<close>

definition holds :: "tokens \<Rightarrow> pubkey \<Rightarrow> pubkey \<Rightarrow> nat \<Rightarrow> bool" where
  "holds ts k owner n \<longleftrightarrow> (\<exists>t. ts k = Some t \<and> ta_owner t = owner \<and> n \<le> unat (ta_amount t))"

lemma holds_mono: "holds ts k owner n \<Longrightarrow> n' \<le> n \<Longrightarrow> holds ts k owner n'"
  unfolding holds_def by fastforce

lemma transfer_no_delegates:
  assumes "transfer_effect r ts ts'" "no_delegates e ts"
  shows "no_delegates e ts'"
  unfolding no_delegates_def
proof (intro allI impI)
  fix k t'
  assume k: "ts' k = Some t' \<and> program_address e (ta_owner t')"
  obtain t where "ts k = Some t" "same_token_account t t'"
    using assms(1) k unfolding transfer_effect_def
    by (cases "k = tr_from r"; cases "k = tr_to r") (auto simp: same_token_account_def)
  then show "ta_delegate t' = None"
    using assms(2) k by (auto simp: no_delegates_def same_token_account_def)
qed

lemma transfer_holds_key:
  assumes "transfer_effect r ts ts'" "holds ts k owner n" "k \<noteq> tr_from r"
  shows "holds ts' k owner n"
  using assms unfolding transfer_effect_def holds_def
  by (cases "k = tr_to r") (auto simp: same_token_account_def)

lemma transfer_holds_from:
  assumes "transfer_effect r ts ts'" "holds ts (tr_from r) owner n"
  shows "holds ts' (tr_from r) owner (n - unat (tr_amount r))"
  using assms unfolding transfer_effect_def holds_def
  by (cases "tr_from r = tr_to r") (auto simp: same_token_account_def)

lemma transfer_holds_to:
  assumes "transfer_effect r ts ts'" "holds ts (tr_to r) owner n" "tr_from r \<noteq> tr_to r"
  shows "holds ts' (tr_to r) owner (n + unat (tr_amount r))"
  using assms unfolding transfer_effect_def holds_def
  by (auto simp: same_token_account_def)

lemma transfer_holds_owner:
  assumes "transfer_effect r ts ts'" "no_delegates e ts" "holds ts k owner n"
    and "program_address e owner" "tr_authority r \<noteq> owner"
  shows "holds ts' k owner n"
proof (rule transfer_holds_key [OF assms(1,3)])
  show "k \<noteq> tr_from r"
  proof
    assume "k = tr_from r"
    with assms(1,3) obtain f where "ts k = Some f" "ta_owner f = owner"
      "tr_authority r = ta_owner f \<or> ta_delegate f = Some (tr_authority r)"
      unfolding transfer_effect_def holds_def by auto
    then show False using assms(2,4,5) by (auto simp: no_delegates_def)
  qed
qed

lemma token_lawsD:
  assumes "token_laws e"
  shows "token_transfer e r ts = Inr ts' \<Longrightarrow> transfer_effect r ts ts'"
    "transfer_enabled r ts \<Longrightarrow> \<exists>ts'. token_transfer e r ts = Inr ts'"
    "create_associated_token e a m ts = Inr ts' \<Longrightarrow>
       ts' = ts(associated_token_address e a m \<mapsto> fresh_token_account a m)"
  using assms unfolding token_laws_def by blast+

lemma init_associated_InrD:
  assumes "token_laws e" "init_associated e a m k ts = Inr ts'"
  shows "k = associated_token_address e a m" "holds ts' k a 0"
    "holds ts j owner n \<Longrightarrow> holds ts' j owner n"
    "no_delegates e ts \<Longrightarrow> no_delegates e ts'"
proof -
  obtain t where k: "k = associated_token_address e a m"
    and ts': "(if ts k = None then cpi (create_associated_token e a m ts) else Inr ts) = Inr ts'"
    and t: "ts' k = Some t" "ta_owner t = a"
    using assms(2) by (auto simp: init_associated_def result_simps load_account_def)
  have eq: "ts' = (if ts k = None then ts(k \<mapsto> fresh_token_account a m) else ts)"
    using ts' token_lawsD(3) [OF assms(1)] k by (auto simp: result_simps)
  show "k = associated_token_address e a m" by (rule k)
  show "holds ts' k a 0" using t by (auto simp: holds_def)
  show "holds ts' j owner n" if "holds ts j owner n"
    using that by (auto simp: eq holds_def)
  show "no_delegates e ts'" if "no_delegates e ts"
    using that by (auto simp: eq no_delegates_def fresh_token_account_def)
qed

end
