(* ===== verification/Oracle.thy ===== *)
theory Oracle
  imports Instruction_Common
begin

text \<open>
  What a price the program accepts looks like: \<open>read_oracle_price\<close> returns a price exactly when
  the account is the oracle program's, the update is posted, fully verified and for the
  expected feed, and the price is positive, at most two seconds old, not from the future, and
  its confidence interval is at most one basis point wide.
\<close>


section \<open>Acceptance\<close>

lemma scaled_total: "\<exists>w. checked_mul (ucast (c :: u64) :: u128) k = Some w \<and> unat w = unat c * unat k"
  if "unat k < 2 ^ 64" for c k
proof -
  have "unat c * unat k < 2 ^ 64 * 2 ^ 64"
    by (rule mult_strict_mono) (use unat_u64_lt [of c] that in simp_all)
  then have "\<not> 2 ^ LENGTH(128) \<le> unat c * unat k" by simp
  then show ?thesis
    using option_total [of "checked_mul (ucast c :: u128) k"]
    unfolding checked_mul_eq_None checked_mul_eq_Some widen by blast
qed

definition fresh_price :: "i64 \<Rightarrow> price \<Rightarrow> bool" where
  "fresh_price now p \<longleftrightarrow>
     sint (pr_publish_time p) + 2 < 2 ^ 63 \<and> sint now \<le> sint (pr_publish_time p) + 2
   \<and> sint (pr_publish_time p) \<le> sint now"

definition tight_price :: "price \<Rightarrow> bool" where
  "tight_price p \<longleftrightarrow> 0 < sint (pr_price p) \<and> int (unat (pr_conf p)) * 10000 \<le> sint (pr_price p)"

lemma stale_iff:
  "(case schecked_add (t :: i64) (ucast ORACLE_MAX_AGE_SECONDS) of
      Some u \<Rightarrow> sint u < sint (now :: i64) | None \<Rightarrow> True) \<longleftrightarrow>
   \<not> (sint t + 2 < 2 ^ 63 \<and> sint now \<le> sint t + 2)"
proof -
  have two: "sint (ucast ORACLE_MAX_AGE_SECONDS :: i64) = 2" by (simp add: const_defs)
  have lb: "- (2 ^ 63) \<le> sint t" using sint_ge [of t] by simp
  have fits: "signed_fits TYPE(64) (sint t + 2) \<longleftrightarrow> sint t + 2 < 2 ^ 63"
    using lb by (simp add: signed_fits_def)
  show ?thesis
  proof (cases "schecked_add t (ucast ORACLE_MAX_AGE_SECONDS)")
    case None
    then have "\<not> signed_fits TYPE(64) (sint t + 2)"
      unfolding schecked_add_def checked_of_int_eq_None two .
    then show ?thesis using None fits by simp
  next
    case (Some u)
    then have "signed_fits TYPE(64) (sint t + 2)" "sint u = sint t + 2"
      unfolding schecked_add_def checked_of_int_eq_Some two by blast+
    then show ?thesis using Some fits by (simp add: not_le)
  qed
qed

lemma validate_oracle_price_Some:
  "validate_oracle_price e u now feed = Inr (Some p) \<longleftrightarrow>
     pu_feed_id u = feed \<and> get_price_unchecked e u feed = Some p
   \<and> pr_exponent p = ORACLE_EXPONENT \<and> pu_posted_slot u \<noteq> 0
   \<and> verification_gte_full e (pu_verification_level u) \<and> fresh_price now p \<and> tight_price p"
proof (cases "pu_feed_id u = feed \<and> (\<exists>q. get_price_unchecked e u feed = Some q \<and> pr_exponent q = ORACLE_EXPONENT)")
  case False
  then show ?thesis unfolding validate_oracle_price_def Let_def result_simps by blast
next
  case True
  then obtain q where q: "pu_feed_id u = feed" "get_price_unchecked e u feed = Some q"
    "pr_exponent q = ORACLE_EXPONENT" by blast
  obtain cs where cs: "checked_mul (ucast (pr_conf q) :: u128) 10000 = Some cs"
    "unat cs = unat (pr_conf q) * 10000"
    using scaled_total [of 10000 "pr_conf q"] by auto
  obtain mc where mc: "checked_mul (ucast (unsigned_abs (pr_price q)) :: u128)
      (ucast ORACLE_MAX_CONFIDENCE_BPS) = Some mc" "unat mc = unat (unsigned_abs (pr_price q))"
    using scaled_total [of "ucast ORACLE_MAX_CONFIDENCE_BPS" "unsigned_abs (pr_price q)"]
    by (auto simp: const_defs)
  have conf: "\<not> mc < cs \<longleftrightarrow> int (unat (pr_conf q)) * 10000 \<le> sint (pr_price q)"
    if pos: "0 < sint (pr_price q)"
  proof -
    have "\<not> mc < cs \<longleftrightarrow> unat (pr_conf q) * 10000 \<le> nat (sint (pr_price q))"
      using pos unfolding word_less_nat_alt cs(2) mc(2) unat_unsigned_abs not_less by simp
    also have "\<dots> \<longleftrightarrow> int (unat (pr_conf q) * 10000) \<le> sint (pr_price q)"
      using pos by (simp only: nat_le_iff le_nat_iff less_imp_le)
    finally show ?thesis by (simp only: of_nat_mult of_nat_numeral)
  qed
  have "validate_oracle_price e u now feed =
      (if pu_posted_slot u = 0 \<or> \<not> verification_gte_full e (pu_verification_level u)
          \<or> \<not> (sint (pr_publish_time q) + 2 < 2 ^ 63 \<and> sint now \<le> sint (pr_publish_time q) + 2)
          \<or> sint now < sint (pr_publish_time q) \<or> sint (pr_price q) \<le> 0
       then Inr None else if mc < cs then Inr None else Inr (Some q))"
    unfolding validate_oracle_price_def Let_def stale_iff
    by (simp only: q require_True and_then_Inr ok_or_simps cs(1) mc(1) simp_thms)
  then show ?thesis
    using q conf by (auto simp: fresh_price_def tight_price_def not_le not_less)
qed


text \<open>C13: The oracle gate, exactly. A price is used only if the account belongs to the oracle
  program and holds an update for the market's feed that is posted and fully verified, with the
  expected exponent, a positive price, a publish time in the last two seconds and not in the
  future, and a confidence of at most one basis point of the price; and every such update is
  accepted.\<close>
theorem oracle_gate:
  "read_oracle_price e st k feed = Inr (Some p) \<longleftrightarrow>
     (\<exists>account u. st_prices st k = Some account \<and> pa_owner account = oracle_program_id e
       \<and> pa_update account = Some u \<and> pu_feed_id u = feed
       \<and> get_price_unchecked e u feed = Some p \<and> pr_exponent p = ORACLE_EXPONENT
       \<and> pu_posted_slot u \<noteq> 0 \<and> verification_gte_full e (pu_verification_level u)
       \<and> fresh_price (st_now st) p \<and> tight_price p)"
  unfolding read_oracle_price_def
  by (auto simp: result_simps validate_oracle_price_Some split: option.splits)

text \<open>The part of it the position proofs use.\<close>

lemma oracle_price_positive:
  "read_oracle_price e st k feed = Inr (Some p) \<Longrightarrow> 0 < sint (pr_price p)"
  unfolding read_oracle_price_def
  by (auto simp: result_simps validate_oracle_price_Some tight_price_def split: option.splits)

end
