(* ===== verification/Chain_Invariant.thy ===== *)
theory Chain_Invariant
  imports Balances Oracle
begin

text \<open>
  The chain as a transition system and its invariant: the counters of a market are the totals
  over all users' accounts, open positions are well formed and uniquely identified, no key of
  the program has a delegate, and every pool holds six times the collateral at risk. Each
  instruction and each step of the outside world keeps it.
\<close>


section \<open>Steps of the chain\<close>

text \<open>What the token program can do without a signature of the program: accounts the program's
  addresses own keep their owner and mint and are never debited, and none gets a delegate.\<close>

definition external_tokens :: "env \<Rightarrow> tokens \<Rightarrow> tokens \<Rightarrow> bool" where
  "external_tokens e ts ts' \<longleftrightarrow>
     (\<forall>k t. ts k = Some t \<and> program_address e (ta_owner t) \<longrightarrow>
        (\<exists>t'. ts' k = Some t' \<and> ta_owner t' = ta_owner t \<and> ta_mint t' = ta_mint t
            \<and> ta_amount t \<le> ta_amount t'))
   \<and> (no_delegates e ts \<longrightarrow> no_delegates e ts')"

text \<open>
  One step: a transaction whose signers are not the program's own addresses (nobody else can
  sign for those), or the world moving on: time passes, prices are posted, tokens move, mints
  appear, the upgrade authority changes.
\<close>

inductive chain_step :: "env \<Rightarrow> chain \<Rightarrow> chain \<Rightarrow> bool" for e where
  instruction: "process e signers r st = Inr st' \<Longrightarrow> \<forall>s \<in> set signers. \<not> program_address e s
    \<Longrightarrow> chain_step e st st'"
| environment: "sint (st_now st) \<le> sint now' \<Longrightarrow> external_tokens e (st_tokens st) ts'
    \<Longrightarrow> chain_step e st (st\<lparr>st_now := now', st_tokens := ts', st_prices := prices',
          st_mints := mints', st_upgrade_authority := authority'\<rparr>)"

inductive_cases chain_stepE: "chain_step e st st'"

text \<open>Before the program is used: no account of it exists and nothing was sent.\<close>

definition initial_chain :: "env \<Rightarrow> chain \<Rightarrow> bool" where
  "initial_chain e st \<longleftrightarrow>
     st_configs st = Map.empty \<and> st_markets st = Map.empty \<and> st_positions st = Map.empty
   \<and> st_liquidity st = Map.empty \<and> st_events st = [] \<and> st_tasks st = []
   \<and> no_delegates e (st_tokens st)"


section \<open>The invariant\<close>

definition open_positions :: "chain \<Rightarrow> compact_position multiset" where
  "open_positions st = map_elems up_positions (st_positions st)"

definition share_entries :: "chain \<Rightarrow> market_liquidity multiset" where
  "share_entries st = map_elems ul_markets (st_liquidity st)"

definition in_market :: "u16 \<Rightarrow> compact_position \<Rightarrow> bool" where
  "in_market i p \<longleftrightarrow> pos_market_id p = i"

definition has_id :: "u16 \<Rightarrow> u32 \<Rightarrow> compact_position \<Rightarrow> bool" where
  "has_id i n p \<longleftrightarrow> pos_market_id p = i \<and> pos_nonce p = n"

definition collateral_in :: "u16 \<Rightarrow> compact_position multiset \<Rightarrow> nat" where
  "collateral_in i M = total_where (in_market i) (\<lambda>p. unat (pos_collateral p)) M"

definition entry_in :: "u16 \<Rightarrow> market_liquidity \<Rightarrow> bool" where
  "entry_in i e \<longleftrightarrow> ml_market_id e = i"

definition shares_in :: "u16 \<Rightarrow> market_liquidity multiset \<Rightarrow> nat" where
  "shares_in i M = total_where (entry_in i) (\<lambda>e. unat (ml_shares e)) M"

definition position_wf :: "compact_position \<Rightarrow> bool" where
  "position_wf p \<longleftrightarrow>
     MIN_POSITION_COLLATERAL \<le> ucast (pos_collateral p) \<and> ucast (pos_collateral p) \<le> MAX_POSITION_COLLATERAL
   \<and> 0 < sint (pos_entry_price p) \<and> pos_task_salt p \<noteq> zero32"

text \<open>Accounts sit at their addresses and a market has a configuration.\<close>

definition inv_keys :: "env \<Rightarrow> chain \<Rightarrow> bool" where
  "inv_keys e st \<longleftrightarrow>
     finite (dom (st_positions st)) \<and> finite (dom (st_liquidity st))
   \<and> (\<forall>k c. st_configs st k = Some c \<longrightarrow> k = config_key e)
   \<and> (\<forall>k m. st_markets st k = Some m \<longrightarrow>
        k = market_key e (mkt_market_id m) \<and> st_configs st (config_key e) \<noteq> None)"

text \<open>A market's counters are the totals over all users' position accounts.\<close>

definition inv_risk :: "chain \<Rightarrow> bool" where
  "inv_risk st \<longleftrightarrow>
     (\<forall>k m. st_markets st k = Some m \<longrightarrow>
        unat (mkt_open_collateral m) = collateral_in (mkt_market_id m) (open_positions st)
      \<and> unat (mkt_active_positions m) = count_where (in_market (mkt_market_id m)) (open_positions st)
      \<and> count_where (in_market (mkt_market_id m)) (open_positions st) \<le> 8)
   \<and> (\<forall>k up. st_positions st k = Some up \<longrightarrow> length (up_positions up) \<le> USER_POSITIONS_CAPACITY)"

text \<open>Open positions are well formed, belong to a market, and have an identity of their own
  below the market's next nonce.\<close>

definition inv_positions :: "chain \<Rightarrow> bool" where
  "inv_positions st \<longleftrightarrow>
     (\<forall>p \<in># open_positions st. position_wf p \<and>
        (\<exists>k m. st_markets st k = Some m \<and> mkt_market_id m = pos_market_id p
             \<and> pos_nonce p < mkt_next_position_nonce m))
   \<and> (\<forall>i n. count_where (has_id i n) (open_positions st) \<le> 1)"

definition liquidity_wf :: "user_liquidity \<Rightarrow> bool" where
  "liquidity_wf ul \<longleftrightarrow>
     distinct (map ml_market_id (ul_markets ul))
   \<and> length (ul_markets ul) \<le> USER_LIQUIDITY_MARKET_CAPACITY
   \<and> (\<forall>x \<in> set (ul_markets ul). ml_pending_withdrawal_shares x \<le> ml_shares x \<and> 0 < ml_shares x)"

text \<open>A market's supply is the total of all users' entries for it.\<close>

definition inv_shares :: "chain \<Rightarrow> bool" where
  "inv_shares st \<longleftrightarrow>
     (\<forall>k m. st_markets st k = Some m \<longrightarrow>
        unat (mkt_total_shares m) = shares_in (mkt_market_id m) (share_entries st))
   \<and> (\<forall>k ul. st_liquidity st k = Some ul \<longrightarrow> liquidity_wf ul)
   \<and> (\<forall>x \<in># share_entries st. \<exists>k m. st_markets st k = Some m \<and> mkt_market_id m = ml_market_id x)"

text \<open>Every market's pool holds six times the collateral at risk in it.\<close>

definition pool_covered :: "env \<Rightarrow> chain \<Rightarrow> bool" where
  "pool_covered e st \<longleftrightarrow>
     (\<forall>k m c. st_markets st k = Some m \<and> st_configs st (config_key e) = Some c \<longrightarrow>
        holds (st_tokens st) (associated_token_address e k (cfg_collateral_mint c)) k
          (6 * unat (mkt_open_collateral m)))"

definition inv_pools :: "env \<Rightarrow> chain \<Rightarrow> bool" where
  "inv_pools e st \<longleftrightarrow> no_delegates e (st_tokens st) \<and> pool_covered e st"

definition chain_inv :: "env \<Rightarrow> chain \<Rightarrow> bool" where
  "chain_inv e st \<longleftrightarrow>
     inv_keys e st \<and> inv_risk st \<and> inv_positions st \<and> inv_shares st \<and> inv_pools e st"

lemma initial_chain_inv: "initial_chain e st \<Longrightarrow> chain_inv e st"
  by (simp add: initial_chain_def chain_inv_def inv_keys_def inv_risk_def inv_positions_def
      inv_shares_def inv_pools_def pool_covered_def open_positions_def share_entries_def)


section \<open>Frame rules\<close>

lemma emit_simps [simp]:
  "st_now (emit ev st) = st_now st" "st_configs (emit ev st) = st_configs st"
  "st_markets (emit ev st) = st_markets st" "st_positions (emit ev st) = st_positions st"
  "st_liquidity (emit ev st) = st_liquidity st" "st_tokens (emit ev st) = st_tokens st"
  "st_events (emit ev st) = st_events st @ [ev]" "st_tasks (emit ev st) = st_tasks st"
  by (simp_all add: emit_def)

text \<open>The invariant reads six components of the state.\<close>

lemma chain_inv_cong:
  assumes "st_configs st' = st_configs st" "st_markets st' = st_markets st"
    "st_positions st' = st_positions st" "st_liquidity st' = st_liquidity st"
    "st_tokens st' = st_tokens st" "chain_inv e st"
  shows "chain_inv e st'"
  using assms(6) unfolding chain_inv_def inv_keys_def inv_risk_def inv_positions_def
    inv_shares_def inv_pools_def pool_covered_def open_positions_def share_entries_def assms(1-5) .

text \<open>Replacing tokens only.\<close>

lemma chain_inv_tokens:
  assumes "chain_inv e st" "st_configs st' = st_configs st" "st_markets st' = st_markets st"
    "st_positions st' = st_positions st" "st_liquidity st' = st_liquidity st"
    "inv_pools e st'"
  shows "chain_inv e st'"
  using assms(1,6) unfolding chain_inv_def inv_keys_def inv_risk_def inv_positions_def
    inv_shares_def open_positions_def share_entries_def assms(2-5) by blast

text \<open>
  Replacing one market's record by another of the same market: what the parts of the invariant
  need of the new record.
\<close>

lemma inv_keys_market:
  assumes "inv_keys e st" "st_markets st k = Some m" "mkt_market_id m' = mkt_market_id m"
    and "st_configs st' = st_configs st" "st_markets st' = (st_markets st)(k \<mapsto> m')"
    and "finite (dom (st_positions st'))" "finite (dom (st_liquidity st'))"
  shows "inv_keys e st'"
  using assms unfolding inv_keys_def by (auto split: if_splits)

lemma market_unique:
  assumes "inv_keys e st" "st_markets st k = Some m" "st_markets st k' = Some m'"
    and "mkt_market_id m = mkt_market_id m'"
  shows "k = k'"
  using assms unfolding inv_keys_def by metis

lemma inv_risk_frame:
  assumes "inv_risk st" "st_markets st k = Some m" "st_markets st' = (st_markets st)(k \<mapsto> m')"
    and "st_positions st' = st_positions st"
    and "mkt_market_id m' = mkt_market_id m" "mkt_open_collateral m' = mkt_open_collateral m"
    and "mkt_active_positions m' = mkt_active_positions m"
  shows "inv_risk st'"
proof -
  have "unat (mkt_open_collateral x) = collateral_in (mkt_market_id x) (open_positions st')
      \<and> unat (mkt_active_positions x) = count_where (in_market (mkt_market_id x)) (open_positions st')
      \<and> count_where (in_market (mkt_market_id x)) (open_positions st') \<le> 8" if x: "st_markets st' j = Some x" for j x
  proof -
    obtain y where "st_markets st j = Some y" "mkt_market_id y = mkt_market_id x"
      "mkt_open_collateral y = mkt_open_collateral x" "mkt_active_positions y = mkt_active_positions x"
      using x assms(2,3,5-7) by (cases "j = k") auto
    moreover have "open_positions st' = open_positions st"
      by (simp add: open_positions_def assms(4))
    ultimately show ?thesis using assms(1) unfolding inv_risk_def by metis
  qed
  then show ?thesis using assms(1) unfolding inv_risk_def assms(4) by blast
qed

lemma inv_positions_frame:
  assumes "inv_positions st" "st_markets st k = Some m" "st_markets st' = (st_markets st)(k \<mapsto> m')"
    and "st_positions st' = st_positions st"
    and "mkt_market_id m' = mkt_market_id m" "mkt_next_position_nonce m' = mkt_next_position_nonce m"
  shows "inv_positions st'"
proof -
  have "\<exists>k m. st_markets st' k = Some m \<and> mkt_market_id m = i \<and> n < mkt_next_position_nonce m"
    if ex: "\<exists>k m. st_markets st k = Some m \<and> mkt_market_id m = i \<and> n < mkt_next_position_nonce m" for i n
  proof -
    obtain j x where "st_markets st j = Some x" "mkt_market_id x = i" "n < mkt_next_position_nonce x"
      using ex by blast
    then show ?thesis using assms(2,3,5,6) by (intro exI [of _ j]) auto
  qed
  then show ?thesis
    using assms(1,4) unfolding inv_positions_def open_positions_def by simp
qed

lemma inv_shares_frame:
  assumes "inv_shares st" "st_markets st k = Some m" "st_markets st' = (st_markets st)(k \<mapsto> m')"
    and "st_liquidity st' = st_liquidity st"
    and "mkt_market_id m' = mkt_market_id m" "mkt_total_shares m' = mkt_total_shares m"
  shows "inv_shares st'"
proof -
  have "\<exists>k m. st_markets st' k = Some m \<and> mkt_market_id m = i"
    if ex: "\<exists>k m. st_markets st k = Some m \<and> mkt_market_id m = i" for i
  proof -
    obtain j x where "st_markets st j = Some x" "mkt_market_id x = i" using ex by blast
    then show ?thesis using assms(2,3,5) by (intro exI [of _ j]) auto
  qed
  moreover have "unat (mkt_total_shares x) = shares_in (mkt_market_id x) (share_entries st')"
    if x: "st_markets st' j = Some x" for j x
  proof -
    obtain y where "st_markets st j = Some y" "mkt_market_id y = mkt_market_id x"
      "mkt_total_shares y = mkt_total_shares x"
      using x assms(2,3,5,6) by (cases "j = k") auto
    moreover have "share_entries st' = share_entries st"
      by (simp add: share_entries_def assms(4))
    ultimately show ?thesis using assms(1) unfolding inv_shares_def by metis
  qed
  ultimately show ?thesis
    using assms(1,4) unfolding inv_shares_def share_entries_def by simp
qed

lemma pool_covered_market:
  assumes "inv_keys e st" "st_markets st k = Some m" "mkt_market_id m' = mkt_market_id m"
    and "st_configs st' = st_configs st" "st_markets st' = (st_markets st)(k \<mapsto> m')"
    and other: "\<And>j x c. st_markets st j = Some x \<Longrightarrow> st_configs st (config_key e) = Some c \<Longrightarrow> j \<noteq> k \<Longrightarrow>
      holds (st_tokens st') (associated_token_address e j (cfg_collateral_mint c)) j
        (6 * unat (mkt_open_collateral x))"
    and own: "\<And>c. st_configs st (config_key e) = Some c \<Longrightarrow>
      holds (st_tokens st') (associated_token_address e k (cfg_collateral_mint c)) k
        (6 * unat (mkt_open_collateral m'))"
  shows "pool_covered e st'"
  using other own unfolding pool_covered_def assms(4,5) by (auto split: if_splits)

section \<open>Instructions that move no risk\<close>

lemma pool_covered_mono:
  assumes "inv_keys e st" "pool_covered e st"
    and "st_configs st' = st_configs st" "st_markets st' = st_markets st"
    and keep: "\<And>k i n. holds (st_tokens st) k (market_key e i) n \<Longrightarrow> holds (st_tokens st') k (market_key e i) n"
  shows "pool_covered e st'"
  unfolding pool_covered_def assms(3,4)
proof (intro allI impI)
  fix k m c
  assume km: "st_markets st k = Some m \<and> st_configs st (config_key e) = Some c"
  then have k: "k = market_key e (mkt_market_id m)" using assms(1) by (auto simp: inv_keys_def)
  have "holds (st_tokens st) (associated_token_address e k (cfg_collateral_mint c)) k
      (6 * unat (mkt_open_collateral m))"
    using assms(2) km by (auto simp: pool_covered_def)
  then show "holds (st_tokens st') (associated_token_address e k (cfg_collateral_mint c)) k
      (6 * unat (mkt_open_collateral m))"
    using keep k by metis
qed

lemma inv_pools_transfer:
  assumes "env_laws e" "inv_keys e st" "inv_pools e st" "transfer_effect r (st_tokens st) ts"
    and "\<And>i. tr_authority r \<noteq> market_key e i"
    and "st_configs st' = st_configs st" "st_markets st' = st_markets st" "st_tokens st' = ts"
  shows "inv_pools e st'"
proof -
  have nd: "no_delegates e (st_tokens st)" using assms(3) by (simp add: inv_pools_def)
  have "pool_covered e st'"
  proof (rule pool_covered_mono [OF assms(2) _ assms(6,7)])
    show "pool_covered e st" using assms(3) by (simp add: inv_pools_def)
    show "holds (st_tokens st') k (market_key e i) n"
      if "holds (st_tokens st) k (market_key e i) n" for k i n
      unfolding assms(8) by (rule transfer_holds_owner [OF assms(4) nd that]) (use assms(5) in simp_all)
  qed
  then show ?thesis
    using transfer_no_delegates [OF assms(4) nd] assms(8) by (simp add: inv_pools_def)
qed

lemma env_lawsD: "env_laws e \<Longrightarrow> address_laws e" "env_laws e \<Longrightarrow> token_laws e"
  by (simp_all add: env_laws_def)

lemma initialize_protocol_config_inv:
  assumes "chain_inv e st" "initialize_protocol_config e signers a st = Inr st'"
  shows "chain_inv e st'"
proof -
  obtain c where key: "ipc_protocol_config a = config_key e"
    and none: "st_configs st (ipc_protocol_config a) = None"
    and st': "st' = st\<lparr>st_configs := (st_configs st)(ipc_protocol_config a \<mapsto> c)\<rparr>"
    using assms(2) unfolding initialize_protocol_config_def init_account_def
    by (auto simp: result_simps require_seeds_def config_key_def)
  have "st_markets st k = None" for k
    using assms(1) none key by (cases "st_markets st k") (auto simp: chain_inv_def inv_keys_def)
  then show ?thesis
    using assms(1) key unfolding st'
    by (simp add: chain_inv_def inv_keys_def inv_risk_def inv_positions_def
      inv_shares_def inv_pools_def pool_covered_def open_positions_def share_entries_def)
qed

lemma set_market_mode_inv:
  assumes "chain_inv e st" "set_market_mode e signers a mode st = Inr st'"
  shows "chain_inv e st'"
proof -
  obtain m where m: "st_markets st (sm_market a) = Some m"
    and st': "st' = emit (MarketModeChanged (mkt_market_id m) mode)
       (st\<lparr>st_markets := (st_markets st)(sm_market a \<mapsto> m\<lparr>mkt_mode := mode\<rparr>)\<rparr>)"
    using assms(2) unfolding set_market_mode_def by (auto simp: result_simps dest!: load_market_InrD)
  note inv = assms(1) [unfolded chain_inv_def]
  have "inv_keys e st'" by (rule inv_keys_market [OF _ m, where m' = "m\<lparr>mkt_mode := mode\<rparr>"])
    (use inv in \<open>simp_all add: st' inv_keys_def\<close>)
  moreover have "inv_risk st'" by (rule inv_risk_frame [OF _ m, where m' = "m\<lparr>mkt_mode := mode\<rparr>"]) (use inv in \<open>simp_all add: st'\<close>)
  moreover have "inv_positions st'"
    by (rule inv_positions_frame [OF _ m, where m' = "m\<lparr>mkt_mode := mode\<rparr>"]) (use inv in \<open>simp_all add: st'\<close>)
  moreover have "inv_shares st'" by (rule inv_shares_frame [OF _ m, where m' = "m\<lparr>mkt_mode := mode\<rparr>"]) (use inv in \<open>simp_all add: st'\<close>)
  moreover have "pool_covered e st'"
    by (rule pool_covered_market [OF _ m, where m' = "m\<lparr>mkt_mode := mode\<rparr>"]) (use inv m in \<open>simp_all add: st' inv_pools_def pool_covered_def\<close>)
  ultimately show ?thesis using inv by (simp add: chain_inv_def inv_pools_def st')
qed

lemma delegate_cpi_inv:
  "chain_inv e st \<Longrightarrow> delegate_cpi e k payer seeds config st = Inr st' \<Longrightarrow> chain_inv e st'"
  by (rule chain_inv_cong [of _ st]) (auto simp: delegate_cpi_def Let_def result_simps)

lemma delegate_market_inv:
  "chain_inv e st \<Longrightarrow> delegate_market e signers a i v st = Inr st' \<Longrightarrow> chain_inv e st'"
  unfolding delegate_market_def result_simps by (blast intro: delegate_cpi_inv)

lemma delegate_user_positions_inv:
  "chain_inv e st \<Longrightarrow> delegate_user_positions e signers a v st = Inr st' \<Longrightarrow> chain_inv e st'"
  unfolding delegate_user_positions_def result_simps by (blast intro: delegate_cpi_inv)

lemma delegate_user_liquidity_inv:
  "chain_inv e st \<Longrightarrow> delegate_user_liquidity e signers a v st = Inr st' \<Longrightarrow> chain_inv e st'"
  unfolding delegate_user_liquidity_def result_simps by (blast intro: delegate_cpi_inv)

lemma undelegate_user_liquidity_inv:
  "chain_inv e st \<Longrightarrow> undelegate_user_liquidity e signers a st = Inr st' \<Longrightarrow> chain_inv e st'"
  by (rule chain_inv_cong [of _ st]) (auto simp: undelegate_user_liquidity_def result_simps)

lemma initialize_user_positions_inv:
  assumes "chain_inv e st" "initialize_user_positions e signers a st = Inr st'"
  shows "chain_inv e st'"
proof (cases "st_positions st (ua_account a)")
  case (Some up)
  then have "st' = st" using assms(2) by (simp add: initialize_user_positions_def result_simps)
  with assms(1) show ?thesis by simp
next
  case None
  then have st': "st' = st\<lparr>st_positions := (st_positions st)(ua_account a \<mapsto> \<lparr>up_positions = []\<rparr>)\<rparr>"
    using assms(2) by (auto simp: initialize_user_positions_def result_simps)
  have fin: "finite (dom (st_positions st))" using assms(1) by (simp add: chain_inv_def inv_keys_def)
  have eq: "open_positions st' = open_positions st"
    using map_elems_fresh [of "st_positions st" "ua_account a" up_positions, OF fin None]
    by (simp add: open_positions_def st')
  have eq2: "share_entries st' = share_entries st" by (simp add: share_entries_def st')
  show ?thesis
    using assms(1) fin unfolding chain_inv_def inv_keys_def inv_risk_def inv_positions_def inv_shares_def
      inv_pools_def pool_covered_def eq eq2 by (simp add: st')
qed

lemma initialize_user_liquidity_inv:
  assumes "chain_inv e st" "initialize_user_liquidity e signers a st = Inr st'"
  shows "chain_inv e st'"
proof (cases "st_liquidity st (ua_account a)")
  case (Some up)
  then have "st' = st" using assms(2) by (simp add: initialize_user_liquidity_def result_simps)
  with assms(1) show ?thesis by simp
next
  case None
  then have st': "st' = st\<lparr>st_liquidity := (st_liquidity st)(ua_account a \<mapsto> \<lparr>ul_markets = []\<rparr>)\<rparr>"
    using assms(2) by (auto simp: initialize_user_liquidity_def result_simps)
  have fin: "finite (dom (st_liquidity st))" using assms(1) by (simp add: chain_inv_def inv_keys_def)
  have eq: "share_entries st' = share_entries st"
    using map_elems_fresh [of "st_liquidity st" "ua_account a" ul_markets, OF fin None]
    by (simp add: share_entries_def st')
  have eq2: "open_positions st' = open_positions st" by (simp add: open_positions_def st')
  show ?thesis
    using assms(1) fin unfolding chain_inv_def inv_keys_def inv_risk_def inv_positions_def inv_shares_def
      inv_pools_def pool_covered_def eq eq2 by (simp add: st' liquidity_wf_def)
qed

lemma withdraw_protocol_fees_inv:
  assumes "env_laws e" "chain_inv e st" "withdraw_protocol_fees e signers a amount st = Inr st'"
  shows "chain_inv e st'"
proof -
  obtain m ts where l: "load_withdraw_fees e signers a st = Inr m"
    and t: "fee_transfer e signers (wf_market a) (wf_derived_fee_authority a)
       (wf_fee_token_account a) (wf_destination_token_account a) amount
       (snd (find_program_address e [FEE_AUTHORITY_SEED, wf_market a])) (st_tokens st) = Inr ts"
    and st': "emit (ProtocolFeesWithdrawn (mkt_market_id m) (wf_destination_token_account a) amount)
       (st\<lparr>st_tokens := ts\<rparr>) = st'"
    by (rule withdraw_protocol_fees_InrD [OF assms(3)])
  have auth: "wf_derived_fee_authority a = fee_authority_key e (wf_market a)"
    using load_withdraw_fees_InrD [OF l] unfolding fee_authority_key_def by metis
  obtain s where "transfer_effect \<lparr>tr_from = wf_fee_token_account a, tr_to = wf_destination_token_account a,
      tr_authority = wf_derived_fee_authority a, tr_signers = s, tr_amount = amount\<rparr> (st_tokens st) ts"
    using t token_lawsD(1) [OF env_lawsD(2) [OF assms(1)]] unfolding fee_transfer_def result_simps by blast
  from inv_pools_transfer [OF assms(1) _ _ this, of st']
  have "inv_pools e st'"
    using assms(1,2) market_key_not_fee_authority [OF env_lawsD(1), symmetric] auth st'
    by (auto simp: chain_inv_def)
  then show ?thesis by (rule chain_inv_tokens [OF assms(2), rotated -1]) (auto simp: st' [symmetric])
qed

lemma claim_fallback_payout_inv:
  assumes "env_laws e" "chain_inv e st" "claim_fallback_payout e signers a st = Inr st'"
  shows "chain_inv e st'"
proof -
  obtain escrow ts s where l: "load_claim_fallback e signers a st = Inr escrow"
    and t: "token_transfer e \<lparr>tr_from = cf_payout_escrow_token_account a, tr_to = cf_user_token_account a,
        tr_authority = cf_user_positions a, tr_signers = s,
        tr_amount = ta_amount escrow\<rparr> (st_tokens st) = Inr ts"
    and st': "emit (FallbackPayoutClaimed (cf_user a) (cf_user_token_account a) (ta_amount escrow))
       (st\<lparr>st_tokens := ts\<rparr>) = st'"
    by (rule claim_fallback_payout_InrD [OF assms(3)])
  have auth: "cf_user_positions a = positions_key e (cf_user a)"
    using load_claim_fallback_InrD [OF l] load_positions_InrD by metis
  note token_lawsD(1) [OF env_lawsD(2) [OF assms(1)] t]
  from inv_pools_transfer [OF assms(1) _ _ this, of st']
  have "inv_pools e st'"
    using assms(1,2) market_key_not_positions [OF env_lawsD(1), symmetric] auth st'
    by (auto simp: chain_inv_def)
  then show ?thesis by (rule chain_inv_tokens [OF assms(2), rotated -1]) (auto simp: st' [symmetric])
qed

lemma environment_inv:
  assumes "chain_inv e st" "external_tokens e (st_tokens st) ts'"
  shows "chain_inv e (st\<lparr>st_now := now', st_tokens := ts', st_prices := prices',
          st_mints := mints', st_upgrade_authority := authority'\<rparr>)" (is "chain_inv e ?st'")
proof (rule chain_inv_tokens [OF assms(1)])
  have "holds ts' k owner n" if h: "holds (st_tokens st) k owner n" "program_address e owner" for k owner n
  proof -
    obtain t where t: "st_tokens st k = Some t" "ta_owner t = owner" "n \<le> unat (ta_amount t)"
      using h(1) by (auto simp: holds_def)
    then obtain t' where "ts' k = Some t'" "ta_owner t' = owner" "ta_amount t \<le> ta_amount t'"
      using assms(2) h(2) unfolding external_tokens_def by metis
    with t(3) show ?thesis unfolding holds_def by (auto simp: word_le_nat_alt)
  qed
  note keep = this
  have inv: "inv_keys e st" "pool_covered e st" "no_delegates e (st_tokens st)"
    using assms(1) by (simp_all add: chain_inv_def inv_pools_def)
  have "pool_covered e ?st'"
    by (rule pool_covered_mono [OF inv(1,2)]) (simp_all add: keep)
  then show "inv_pools e ?st'"
    using assms(2) inv(3) by (simp add: inv_pools_def external_tokens_def)
qed simp_all

section \<open>\<open>initialize_market\<close>\<close>

lemma total_where_0: "\<forall>x \<in># M. \<not> p x \<Longrightarrow> total_where p f M = 0 \<and> count_where p M = 0"
  using total_where_none [of M p f] count_where_none [of M p] by simp

lemma market_exists_mono:
  assumes "\<exists>k m. M k = Some m \<and> P m" "M k0 = None \<or> (\<exists>m0. M k0 = Some m0 \<and> (P m0 \<longrightarrow> P m1))"
  shows "\<exists>k m. (M(k0 \<mapsto> m1)) k = Some m \<and> P m"
proof -
  obtain k m where km: "M k = Some m" "P m" using assms(1) by blast
  show ?thesis
  proof (cases "k = k0")
    case True
    then have "P m1" using assms(2) km by auto
    then show ?thesis by (intro exI [of _ k0] exI [of _ m1]) simp
  next
    case False
    then show ?thesis using km by (intro exI [of _ k] exI [of _ m]) simp
  qed
qed

lemma inv_positions_grow:
  assumes "inv_positions st" "open_positions st' = open_positions st"
    and "\<And>i n. \<exists>k m. st_markets st k = Some m \<and> mkt_market_id m = i \<and> n < mkt_next_position_nonce m
      \<Longrightarrow> \<exists>k m. st_markets st' k = Some m \<and> mkt_market_id m = i \<and> n < mkt_next_position_nonce m"
  shows "inv_positions st'"
  using assms(1,3) unfolding inv_positions_def assms(2) by simp

lemma init_account_InrD:
  "init_account e accounts payer seeds k = Inr bump \<Longrightarrow>
   k = fst (find_program_address e seeds) \<and> accounts k = None
   \<and> bump = snd (find_program_address e seeds)"
  by (auto simp: init_account_def result_simps require_seeds_def)

lemma initialize_market_inv:
  assumes "env_laws e" "chain_inv e st" 
    and "initialize_market e signers a market_id oracle feed sponsor st = Inr st'"
  shows "chain_inv e st'"
proof -
  note laws = env_lawsD [OF assms(1)]
  define m0 where "m0 bump = \<lparr>mkt_market_id = market_id, mkt_oracle = oracle, mkt_oracle_feed_id = feed,
                mkt_total_shares = 0, mkt_open_collateral = 0, mkt_risk_epoch_equity = 0,
                mkt_active_positions = 0, mkt_next_position_nonce = 0, mkt_mode = Open,
                mkt_bump = bump\<rparr>" for bump
  obtain config bump ts ts' where
    config: "load_config e st (im_protocol_config a) = Inr config"
      "cfg_collateral_mint config = im_collateral_mint a"
    and ia: "init_account e (st_markets st) (im_admin a) (market_seeds market_id) (im_market a) = Inr bump"
    and ts: "init_associated e (im_market a) (im_collateral_mint a) (im_pool_token_account a)
       (st_tokens st) = Inr ts"
    and ts': "init_associated e (im_derived_fee_authority a) (im_collateral_mint a)
       (im_fee_token_account a) ts = Inr ts'"
    and st': "st\<lparr>st_tokens := ts', st_markets := (st_markets st)(im_market a \<mapsto> m0 bump)\<rparr> = st'"
    by (rule initialize_market_InrD [OF assms(3), folded m0_def]) (rule that; assumption)
  have key: "im_market a = market_key e market_id" "st_markets st (im_market a) = None"
    unfolding market_key_def using init_account_InrD [OF ia] by blast+
  note inv = assms(2) [unfolded chain_inv_def]
  have cfg: "st_configs st (config_key e) = Some config"
    using load_config_InrD [OF config(1)] inv by (auto simp: inv_keys_def)
  have fresh: "\<not> (\<exists>k m. st_markets st k = Some m \<and> mkt_market_id m = market_id)"
    using inv key unfolding inv_keys_def by auto
  have none: "\<forall>p \<in># open_positions st. \<not> in_market market_id p"
    using inv fresh unfolding inv_positions_def in_market_def by metis
  have none': "\<forall>x \<in># share_entries st. \<not> entry_in market_id x"
    using inv fresh unfolding inv_shares_def entry_in_def by metis
  have zero: "collateral_in market_id (open_positions st) = 0"
    "count_where (in_market market_id) (open_positions st) = 0"
    "shares_in market_id (share_entries st) = 0"
    using total_where_0 [OF none] total_where_0 [OF none'] by (simp_all add: collateral_in_def shares_in_def)
  have eq: "open_positions st' = open_positions st" "share_entries st' = share_entries st"
    by (simp_all add: open_positions_def share_entries_def st' [symmetric])
  have markets: "st_markets st' = (st_markets st)(im_market a \<mapsto> m0 bump)" "st_configs st' = st_configs st"
    "st_positions st' = st_positions st" "st_liquidity st' = st_liquidity st" "st_tokens st' = ts'"
    by (simp_all add: st' [symmetric])
  have ex: "\<exists>k m. st_markets st' k = Some m \<and> P m" if "\<exists>k m. st_markets st k = Some m \<and> P m" for P
    unfolding markets by (rule market_exists_mono [OF that]) (use key(2) in blast)
  have "inv_keys e st'"
    using inv key(1) cfg unfolding inv_keys_def markets by (auto simp: m0_def)
  moreover have "inv_risk st'"
    using inv zero unfolding inv_risk_def eq markets by (auto simp: m0_def)
  moreover have "inv_positions st'"
  proof (rule inv_positions_grow [OF _ eq(1)])
    show "inv_positions st" using inv by blast
    show "\<exists>k m. st_markets st' k = Some m \<and> mkt_market_id m = i \<and> n < mkt_next_position_nonce m"
      if "\<exists>k m. st_markets st k = Some m \<and> mkt_market_id m = i \<and> n < mkt_next_position_nonce m" for i n
      using ex [OF that] .
  qed
  moreover have "inv_shares st'"
    unfolding inv_shares_def
  proof (intro conjI allI impI ballI)
    show "unat (mkt_total_shares m) = shares_in (mkt_market_id m) (share_entries st')"
      if "st_markets st' k = Some m" for k m
      using that inv zero unfolding inv_shares_def eq markets(1) by (auto simp: m0_def split: if_splits)
    show "liquidity_wf ul" if "st_liquidity st' k = Some ul" for k ul
      using that inv unfolding inv_shares_def markets(4) by blast
    show "\<exists>k m. st_markets st' k = Some m \<and> mkt_market_id m = ml_market_id x"
      if "x \<in># share_entries st'" for x
      by (rule ex) (use that inv in \<open>simp add: inv_shares_def eq\<close>)
  qed
  moreover have "inv_pools e st'"
  proof -
    have nd: "no_delegates e ts'"
      using inv init_associated_InrD(4) [OF laws(2) ts] init_associated_InrD(4) [OF laws(2) ts']
      by (simp add: inv_pools_def)
    have keep: "holds ts' j owner n" if "holds (st_tokens st) j owner n" for j owner n
      using init_associated_InrD(3) [OF laws(2) ts that] by (rule init_associated_InrD(3) [OF laws(2) ts'])
    have own: "holds ts' (associated_token_address e (im_market a) (cfg_collateral_mint config)) (im_market a) 0"
      using init_associated_InrD(1,2) [OF laws(2) ts] init_associated_InrD(3) [OF laws(2) ts'] config(2) by metis
    have "pool_covered e st'"
      unfolding pool_covered_def markets
    proof (intro allI impI)
      fix k m c
      assume km: "((st_markets st)(im_market a \<mapsto> m0 bump)) k = Some m \<and> st_configs st (config_key e) = Some c"
      then have c: "c = config" using cfg by simp
      show "holds ts' (associated_token_address e k (cfg_collateral_mint c)) k (6 * unat (mkt_open_collateral m))"
      proof (cases "k = im_market a")
        case True
        then show ?thesis using km own c by (auto simp: m0_def)
      next
        case False
        then show ?thesis using km inv unfolding inv_pools_def pool_covered_def by (auto intro: keep)
      qed
    qed
    with nd show ?thesis by (simp add: inv_pools_def markets)
  qed
  ultimately show ?thesis by (simp add: chain_inv_def)
qed

section \<open>Share entries\<close>

lemma shares_in_simps [simp]:
  "shares_in j {#} = 0"
  "shares_in j (add_mset x M) = (if ml_market_id x = j then unat (ml_shares x) else 0) + shares_in j M"
  "shares_in j (M + N) = shares_in j M + shares_in j N"
  by (simp_all add: shares_in_def entry_in_def)

lemma shares_in_update:
  assumes "i < length xs" "ml_market_id y = ml_market_id (xs ! i)"
  shows "shares_in j (mset (xs[i := y])) + (if ml_market_id (xs ! i) = j then unat (ml_shares (xs ! i)) else 0)
       = shares_in j (mset xs) + (if ml_market_id (xs ! i) = j then unat (ml_shares y) else 0)"
proof -
  have "mset xs = add_mset (xs ! i) (mset xs - {# xs ! i #})"
    using assms(1) by simp
  then have "shares_in j (mset xs) = (if ml_market_id (xs ! i) = j then unat (ml_shares (xs ! i)) else 0)
      + shares_in j (mset xs - {# xs ! i #})" by (metis shares_in_simps(2))
  moreover have "shares_in j (mset (xs[i := y])) = (if ml_market_id y = j then unat (ml_shares y) else 0)
      + shares_in j (mset xs - {# xs ! i #})"
    using assms(1) by (simp add: mset_update)
  ultimately show ?thesis using assms(2) by simp
qed

lemma map_id_update [simp]:
  "i < length xs \<Longrightarrow> f y = f (xs ! i) \<Longrightarrow> map f (xs[i := y]) = map f xs"
  by (simp add: map_update list_update_same_conv)

lemma market_mut_SomeD:
  "market_mut ul j = Some i \<Longrightarrow> i < length (ul_markets ul) \<and> ml_market_id (ul_markets ul ! i) = j"
  using position_SomeD by (fastforce simp: market_mut_def)

lemma liquidity_market_mut:
  "liquidity_market ul j = map_option (\<lambda>i. ul_markets ul ! i) (market_mut ul j)"
  by (simp add: liquidity_market_def market_mut_def find_position)

lemma market_or_insert_mut_InrD:
  assumes "market_or_insert_mut ul j = Inr (ul', i)" "liquidity_wf ul"
  shows "i < length (ul_markets ul')" "ml_market_id (ul_markets ul' ! i) = j"
    "distinct (map ml_market_id (ul_markets ul'))"
    "length (ul_markets ul') \<le> USER_LIQUIDITY_MARKET_CAPACITY"
    "\<And>x. x \<in> set (ul_markets ul') \<Longrightarrow> ml_pending_withdrawal_shares x \<le> ml_shares x
       \<and> (0 < ml_shares x \<or> ml_market_id x = j)
       \<and> (ml_market_id x = j \<or> x \<in> set (ul_markets ul))"
    "\<And>n. shares_in n (mset (ul_markets ul')) = shares_in n (mset (ul_markets ul))"
proof -
  have wf: "distinct (map ml_market_id (ul_markets ul))"
    "length (ul_markets ul) \<le> USER_LIQUIDITY_MARKET_CAPACITY"
    "\<And>x. x \<in> set (ul_markets ul) \<Longrightarrow> ml_pending_withdrawal_shares x \<le> ml_shares x \<and> 0 < ml_shares x"
    using assms(2) by (simp_all add: liquidity_wf_def)
  have "i < length (ul_markets ul') \<and> ml_market_id (ul_markets ul' ! i) = j
    \<and> distinct (map ml_market_id (ul_markets ul'))
    \<and> length (ul_markets ul') \<le> USER_LIQUIDITY_MARKET_CAPACITY
    \<and> (\<forall>x \<in> set (ul_markets ul'). ml_pending_withdrawal_shares x \<le> ml_shares x
       \<and> (0 < ml_shares x \<or> ml_market_id x = j) \<and> (ml_market_id x = j \<or> x \<in> set (ul_markets ul)))
    \<and> (\<forall>n. shares_in n (mset (ul_markets ul')) = shares_in n (mset (ul_markets ul)))"
  proof (cases "position (\<lambda>e. ml_market_id e = j) (ul_markets ul)")
    case (Some a)
    then have "ul' = ul" "i = a" using assms(1) by (simp_all add: market_or_insert_mut_def)
    then show ?thesis using position_SomeD [OF Some] wf by auto
  next
    case None
    then have new: "i = length (ul_markets ul)" "length (ul_markets ul) < USER_LIQUIDITY_MARKET_CAPACITY"
      "ul_markets ul' = ul_markets ul @ [\<lparr>ml_market_id = j, ml_shares = 0,
                       ml_pending_withdrawal_shares = 0, ml_min_assets_out = 0\<rparr>]"
      using assms(1) by (auto simp: market_or_insert_mut_def result_simps)
    have "j \<notin> ml_market_id ` set (ul_markets ul)" using None by (auto simp: position_None_iff)
    then show ?thesis using new(2) wf unfolding new(1,3) by auto
  qed
  then show "i < length (ul_markets ul')" "ml_market_id (ul_markets ul' ! i) = j"
    "distinct (map ml_market_id (ul_markets ul'))"
    "length (ul_markets ul') \<le> USER_LIQUIDITY_MARKET_CAPACITY"
    "\<And>x. x \<in> set (ul_markets ul') \<Longrightarrow> ml_pending_withdrawal_shares x \<le> ml_shares x
       \<and> (0 < ml_shares x \<or> ml_market_id x = j)
       \<and> (ml_market_id x = j \<or> x \<in> set (ul_markets ul))"
    "\<And>n. shares_in n (mset (ul_markets ul')) = shares_in n (mset (ul_markets ul))" by blast+
qed

lemma credit_shares_effect:
  assumes "credit_shares m ul s = Inr (m', ul')" "liquidity_wf ul" "0 < s"
  shows "liquidity_wf ul'"
    "shares_in j (mset (ul_markets ul')) =
       shares_in j (mset (ul_markets ul)) + (if mkt_market_id m = j then unat s else 0)"
    "\<exists>t. m' = m\<lparr>mkt_total_shares := t\<rparr> \<and> unat t = unat (mkt_total_shares m) + unat s"
    "\<forall>x \<in> set (ul_markets ul'). ml_market_id x = mkt_market_id m \<or> x \<in> set (ul_markets ul)"
proof -
  obtain ul1 i us tot where u: "market_or_insert_mut ul (mkt_market_id m) = Inr (ul1, i)"
    and us: "checked_add (ml_shares (ul_markets ul1 ! i)) s = Some us"
    and tot: "checked_add (mkt_total_shares m) s = Some tot"
    and r: "(m\<lparr>mkt_total_shares := tot\<rparr>, set_entry ul1 i ((ul_markets ul1 ! i)\<lparr>ml_shares := us\<rparr>)) = (m', ul')"
    by (rule credit_shares_InrD [OF assms(1)])
  note D = market_or_insert_mut_InrD [OF u assms(2)]
  define y where "y = (ul_markets ul1 ! i)\<lparr>ml_shares := us\<rparr>"
  have ul': "ul_markets ul' = (ul_markets ul1)[i := y]" using r by (auto simp: set_entry_def y_def)
  have y: "ml_market_id y = ml_market_id (ul_markets ul1 ! i)"
    "ml_market_id y = mkt_market_id m" "unat (ml_shares y) = unat (ml_shares (ul_markets ul1 ! i)) + unat s"
    using us D(2) by (simp_all add: y_def checked_add_eq_Some)
  have s: "0 < unat s" using assms(3) by (simp add: word_less_nat_alt)
  have pend: "ml_pending_withdrawal_shares y \<le> ml_shares y" "0 < ml_shares y"
    using D(5) [of "ul_markets ul1 ! i"] D(1) y(3) s
    by (auto simp: word_le_nat_alt word_less_nat_alt y_def)
  have sub: "set (ul_markets ul') \<subseteq> insert y (set (ul_markets ul1))"
    unfolding ul' by (rule set_update_subset_insert)
  have others: "ml_pending_withdrawal_shares x \<le> ml_shares x \<and> 0 < ml_shares x"
    if x: "x \<in> set (ul_markets ul')" for x
  proof (cases "x = y")
    case True then show ?thesis using pend by simp
  next
    case False
    obtain n where nl: "n < length ((ul_markets ul1)[i := y])" "(ul_markets ul1)[i := y] ! n = x"
      using x unfolding ul' in_set_conv_nth by blast
    with False D(1) have n: "n < length (ul_markets ul1)" "n \<noteq> i" "x = ul_markets ul1 ! n"
      by (cases "n = i"; simp)+
    then have "ml_market_id x \<noteq> mkt_market_id m"
      using D(1,2,3) by (metis distinct_conv_nth length_map nth_map)
    then show ?thesis using D(5) n(1,3) by (metis nth_mem)
  qed
  show "liquidity_wf ul'"
    unfolding liquidity_wf_def using D(1,3,4) y(1) others by (simp add: ul')
  show "shares_in j (mset (ul_markets ul')) =
       shares_in j (mset (ul_markets ul)) + (if mkt_market_id m = j then unat s else 0)"
    using shares_in_update [OF D(1) y(1), of j] D(2,6) y(3) unfolding ul' by (auto split: if_splits)
  show "\<exists>t. m' = m\<lparr>mkt_total_shares := t\<rparr> \<and> unat t = unat (mkt_total_shares m) + unat s"
    using r tot by (auto simp: checked_add_eq_Some)
  show "\<forall>x \<in> set (ul_markets ul'). ml_market_id x = mkt_market_id m \<or> x \<in> set (ul_markets ul)"
    using sub y(2) D(5) by blast
qed


lemma set_entry_wf:
  assumes "liquidity_wf ul" "i < length (ul_markets ul)"
    and "ml_market_id y = ml_market_id (ul_markets ul ! i)"
    and "ml_pending_withdrawal_shares y \<le> ml_shares y" "0 < ml_shares y"
  shows "liquidity_wf (set_entry ul i y)"
  using assms set_update_subset_insert [of "ul_markets ul" i y]
  unfolding liquidity_wf_def set_entry_def by auto

lemma debit_shares_effect:
  assumes "debit_shares ul id' s = Inr ul'" "liquidity_wf ul"
  shows "liquidity_wf ul'"
    "shares_in j (mset (ul_markets ul')) + (if id' = j then unat s else 0) =
       shares_in j (mset (ul_markets ul))"
    "ml_market_id ` set (ul_markets ul') \<subseteq> ml_market_id ` set (ul_markets ul)"
proof -
  obtain i rest where i: "market_mut ul id' = Some i"
    and rest: "checked_sub (ml_shares (ul_markets ul ! i)) s = Some rest"
    and ul': "remove_empty_market (set_entry ul i ((ul_markets ul ! i)\<lparr>ml_shares := rest,
        ml_pending_withdrawal_shares := 0, ml_min_assets_out := 0\<rparr>)) id' = ul'"
    by (rule debit_shares_InrD [OF assms(1)])
  define y where "y = (ul_markets ul ! i)\<lparr>ml_shares := rest,
        ml_pending_withdrawal_shares := 0, ml_min_assets_out := 0\<rparr>"
  note il = market_mut_SomeD [OF i]
  have y: "ml_market_id y = ml_market_id (ul_markets ul ! i)" "ml_pending_withdrawal_shares y = 0"
    "unat (ml_shares y) + unat s = unat (ml_shares (ul_markets ul ! i))" "ml_shares y = rest"
    using rest by (simp_all add: y_def checked_sub_eq_Some)
  define ul1 where "ul1 = set_entry ul i y"
  have m1: "ul_markets ul1 = (ul_markets ul)[i := y]" by (simp add: ul1_def set_entry_def)
  have len: "i < length (ul_markets ul1)" "ul_markets ul1 ! i = y" using il by (simp_all add: m1)
  have ids: "map ml_market_id (ul_markets ul1) = map ml_market_id (ul_markets ul)"
    unfolding m1 using il y(1) by simp
  have sh1: "shares_in j (mset (ul_markets ul1)) + (if id' = j then unat s else 0)
      = shares_in j (mset (ul_markets ul))" for j
    using shares_in_update [of i "ul_markets ul" y j] il y(1,3) unfolding m1 by (auto split: if_splits)
  let ?p = "\<lambda>e. ml_market_id e = id' \<and> ml_shares e = 0 \<and> ml_pending_withdrawal_shares e = 0"
  have rul: "remove_empty_market ul1 id' = ul'" using ul' by (simp add: ul1_def y_def)
  have "liquidity_wf ul'
    \<and> (\<forall>j. shares_in j (mset (ul_markets ul')) = shares_in j (mset (ul_markets ul1)))
    \<and> set (ul_markets ul') \<subseteq> set (ul_markets ul1)"
  proof (cases "rest = 0")
    case False
    have none: "position ?p (ul_markets ul1) = None"
    proof (rule ccontr)
      assume "position ?p (ul_markets ul1) \<noteq> None"
      then obtain n where n: "n < length (ul_markets ul1)" "?p (ul_markets ul1 ! n)"
        using position_SomeD by blast
      then have "n = i" using il len(1) ids assms(2) y(1)
        unfolding liquidity_wf_def by (metis distinct_conv_nth length_map nth_map len(2))
      then show False using n(2) len(2) y(4) False by simp
    qed
    then have "ul' = ul1" using rul by (simp add: remove_empty_market_def)
    moreover have "liquidity_wf ul1"
      unfolding ul1_def using il y False
      by (intro set_entry_wf [OF assms(2)]) (simp_all add: word_neq_0_conv)
    ultimately show ?thesis by simp
  next
    case True
    have "?p (ul_markets ul1 ! i)" using len(2) il y True by simp
    then obtain n where n: "position ?p (ul_markets ul1) = Some n"
      using position_Some_ex [of "ul_markets ul1 ! i" "ul_markets ul1" ?p] len(1) by auto
    note nD = position_SomeD [OF n]
    have "n = i" using il len ids assms(2) nD y(1)
      unfolding liquidity_wf_def by (metis distinct_conv_nth length_map nth_map)
    then have m2: "ul_markets ul' = swap_remove i (ul_markets ul1)"
      using rul n by (auto simp: remove_empty_market_def)
    have ms: "add_mset y (mset (ul_markets ul')) = mset (ul_markets ul1)"
      using mset_swap_remove_plus [OF len(1)] len(2) by (simp add: m2)
    have sub: "set (ul_markets ul') \<subseteq> set (ul_markets ul1)"
      unfolding m2 by (rule set_swap_remove_subset [OF len(1)])
    have dist: "distinct (map ml_market_id (ul_markets ul1))"
      using ids assms(2) by (simp add: liquidity_wf_def)
    have dist': "distinct (map ml_market_id (ul_markets ul')) \<and> y \<notin> set (ul_markets ul')"
    proof -
      have "mset (map ml_market_id (ul_markets ul1)) = mset (ml_market_id y # map ml_market_id (ul_markets ul'))"
        using ms by (metis image_mset_add_mset mset.simps(2) mset_map)
      then have "distinct (ml_market_id y # map ml_market_id (ul_markets ul'))"
        using dist by (metis mset_eq_imp_distinct_iff)
      then show ?thesis by auto
    qed
    have "liquidity_wf ul'"
      unfolding liquidity_wf_def
    proof (intro conjI ballI)
      show "distinct (map ml_market_id (ul_markets ul'))" using dist' by blast
      show "length (ul_markets ul') \<le> USER_LIQUIDITY_MARKET_CAPACITY"
        using assms(2) by (auto simp: m2 m1 liquidity_wf_def)
      fix x assume x: "x \<in> set (ul_markets ul')"
      then have "x \<noteq> y" "x \<in> set (ul_markets ul1)" using dist' sub by auto
      then have "x \<in> set (ul_markets ul)"
        unfolding m1 using set_update_subset_insert [of "ul_markets ul" i y] by auto
      then show "ml_pending_withdrawal_shares x \<le> ml_shares x" "0 < ml_shares x"
        using assms(2) by (simp_all add: liquidity_wf_def)
    qed
    moreover have "shares_in j (mset (ul_markets ul')) = shares_in j (mset (ul_markets ul1))" for j
      using True y(4) by (simp add: ms [symmetric])
    ultimately show ?thesis using sub by blast
  qed
  note F = this
  show "liquidity_wf ul'" using F by blast
  show "shares_in j (mset (ul_markets ul')) + (if id' = j then unat s else 0) =
       shares_in j (mset (ul_markets ul))" using F sh1 by simp
  have "set (map ml_market_id (ul_markets ul1)) = set (map ml_market_id (ul_markets ul))"
    by (simp only: ids)
  then show "ml_market_id ` set (ul_markets ul') \<subseteq> ml_market_id ` set (ul_markets ul)"
    using F by (metis image_mono image_set)
qed

lemma share_entries_update:
  assumes "finite (dom (st_liquidity st))" "st_liquidity st k = Some ul"
    and "st_liquidity st' = (st_liquidity st)(k \<mapsto> ul')"
  shows "share_entries st' + mset (ul_markets ul) = share_entries st + mset (ul_markets ul')"
  unfolding share_entries_def assms(3) by (rule map_elems_replace [OF assms(1,2)])

lemma share_entries_memI:
  "finite (dom (st_liquidity st)) \<Longrightarrow> st_liquidity st k = Some ul \<Longrightarrow> x \<in> set (ul_markets ul)
   \<Longrightarrow> x \<in># share_entries st"
  unfolding share_entries_def by (rule map_elems_memI)

lemma inv_shares_update:
  assumes keys: "inv_keys e st" and inv: "inv_shares st"
    and ul: "st_liquidity st k = Some ul" "st_liquidity st' = (st_liquidity st)(k \<mapsto> ul')" "liquidity_wf ul'"
    and m: "st_markets st mk = Some m" "st_markets st' = (st_markets st)(mk \<mapsto> m')"
      "mkt_market_id m' = mkt_market_id m"
    and delta: "\<And>j. shares_in j (mset (ul_markets ul')) + (if mkt_market_id m = j then a else 0)
        = shares_in j (mset (ul_markets ul)) + (if mkt_market_id m = j then b else 0)"
    and total: "unat (mkt_total_shares m') + a = unat (mkt_total_shares m) + b"
    and ids: "\<And>x. x \<in> set (ul_markets ul') \<Longrightarrow>
        ml_market_id x = mkt_market_id m \<or> ml_market_id x \<in> ml_market_id ` set (ul_markets ul)"
  shows "inv_shares st'"
proof -
  have fin: "finite (dom (st_liquidity st))" using keys by (simp add: inv_keys_def)
  have eq: "shares_in j (share_entries st') + shares_in j (mset (ul_markets ul))
      = shares_in j (share_entries st) + shares_in j (mset (ul_markets ul'))" for j
    using share_entries_update [OF fin ul(1,2)] shares_in_simps(3) by metis
  have old: "unat (mkt_total_shares x) = shares_in (mkt_market_id x) (share_entries st)"
    if "st_markets st i = Some x" for i x using inv that by (simp add: inv_shares_def)
  have ex: "\<exists>k m. st_markets st' k = Some m \<and> mkt_market_id m = i"
    if "\<exists>k m. st_markets st k = Some m \<and> mkt_market_id m = i" for i
    unfolding m(2) by (rule market_exists_mono [OF that]) (simp add: m(1,3))
  show ?thesis
    unfolding inv_shares_def
  proof (intro conjI allI impI ballI)
    fix i x
    assume x: "st_markets st' i = Some x"
    show "unat (mkt_total_shares x) = shares_in (mkt_market_id x) (share_entries st')"
    proof (cases "i = mk")
      case True
      then have "x = m'" using x m(2) by simp
      then show ?thesis using old [OF m(1)] total delta [of "mkt_market_id m"] eq [of "mkt_market_id m"] m(3) by simp
    next
      case False
      then have xi: "st_markets st i = Some x" using x m(2) by simp
      then have "mkt_market_id x \<noteq> mkt_market_id m"
        using market_unique [OF keys xi m(1)] False by blast
      then show ?thesis using old [OF xi] delta [of "mkt_market_id x"] eq [of "mkt_market_id x"] by simp
    qed
  next
    fix i l assume "st_liquidity st' i = Some l"
    then show "liquidity_wf l" using inv ul(2,3) by (auto simp: inv_shares_def split: if_splits)
  next
    fix x assume "x \<in># share_entries st'"
    then have "x \<in># share_entries st' + mset (ul_markets ul)" by simp
    then have "x \<in># share_entries st \<or> x \<in> set (ul_markets ul')"
      unfolding share_entries_update [OF fin ul(1,2)] by simp
    moreover have "\<exists>k m. st_markets st k = Some m \<and> mkt_market_id m = ml_market_id y"
      if "y \<in># share_entries st" for y using inv that by (simp add: inv_shares_def)
    moreover have "\<exists>y. y \<in># share_entries st \<and> ml_market_id y = ml_market_id x"
      if "ml_market_id x \<in> ml_market_id ` set (ul_markets ul)"
      using that share_entries_memI [OF fin ul(1)] by force
    ultimately have "\<exists>k m. st_markets st k = Some m \<and> mkt_market_id m = ml_market_id x"
      using ids m(1) by metis
    then show "\<exists>k m. st_markets st' k = Some m \<and> mkt_market_id m = ml_market_id x" by (rule ex)
  qed
qed

text \<open>An instruction that changes share accounts, a market's total and tokens: the rest of the
  invariant.\<close>

lemma chain_inv_liquidity:
  assumes inv: "chain_inv e st" and m: "st_markets st mk = Some m"
    and st': "st_markets st' = (st_markets st)(mk \<mapsto> m\<lparr>mkt_total_shares := t\<rparr>)"
      "st_configs st' = st_configs st" "st_positions st' = st_positions st"
      "finite (dom (st_liquidity st'))"
    and shares: "inv_shares st'"
    and nd: "no_delegates e (st_tokens st')"
    and pools: "\<And>j x c. st_markets st j = Some x \<Longrightarrow> st_configs st (config_key e) = Some c \<Longrightarrow>
      holds (st_tokens st') (associated_token_address e j (cfg_collateral_mint c)) j
        (6 * unat (mkt_open_collateral x))"
  shows "chain_inv e st'"
proof -
  note I = inv [unfolded chain_inv_def]
  let ?m = "m\<lparr>mkt_total_shares := t\<rparr>"
  have "inv_keys e st'"
    by (rule inv_keys_market [OF _ m, where m' = ?m]) (use I st' in \<open>simp_all add: inv_keys_def\<close>)
  moreover have "inv_risk st'"
    by (rule inv_risk_frame [OF _ m, where m' = ?m]) (use I st' in simp_all)
  moreover have "inv_positions st'"
    by (rule inv_positions_frame [OF _ m, where m' = ?m]) (use I st' in simp_all)
  moreover have "pool_covered e st'"
    by (rule pool_covered_market [OF _ m, where m' = ?m]) (use I st' m pools in simp_all)
  ultimately show ?thesis using shares nd by (simp add: chain_inv_def inv_pools_def)
qed

lemma deposit_liquidity_inv:
  assumes "env_laws e" "chain_inv e st" "deposit_liquidity e signers a amount mins st = Inr st'"
    and signers: "\<forall>s \<in> set signers. \<not> program_address e s"
  shows "chain_inv e st'"
proof -
  obtain l s ts m ul where l: "load_deposit e signers a st = Inr l"
    and s: "deposit_shares (dll_market l) (dll_liquidity l) (ta_amount (dll_pool l)) amount mins = Inr s"
    and t: "token_transfer e \<lparr>tr_from = dl_user_token_account a, tr_to = dl_pool_token_account a,
        tr_authority = dl_user a, tr_signers = signers, tr_amount = amount\<rparr> (st_tokens st) = Inr ts"
    and c: "credit_shares (dll_market l) (dll_liquidity l) s = Inr (m, ul)"
    and st': "emit (LiquidityDeposited (mkt_market_id m) (dl_user a) amount s)
       (st\<lparr>st_tokens := ts, st_markets := (st_markets st)(dl_market a \<mapsto> m),
           st_liquidity := (st_liquidity st)(dl_user_liquidity a \<mapsto> ul)\<rparr>) = st'"
    by (rule deposit_liquidity_InrD [OF assms(3)])
  have L: "dl_user a \<in> set signers" "st_markets st (dl_market a) = Some (dll_market l)"
    "st_liquidity st (dl_user_liquidity a) = Some (dll_liquidity l)"
    using load_deposit_InrD [OF l] load_market_InrD load_liquidity_InrD by metis+
  note I = assms(2) [unfolded chain_inv_def]
  have wf: "liquidity_wf (dll_liquidity l)" using I L(3) by (simp add: inv_shares_def)
  have "0 < unat s"
    using shares_for_deposit_InrD(2) deposit_shares_InrD [OF s] by metis
  then have s0: "0 < s" by (simp add: word_less_nat_alt)
  note C = credit_shares_effect [OF c wf s0]
  obtain tt where tt: "m = (dll_market l)\<lparr>mkt_total_shares := tt\<rparr>"
    "unat tt = unat (mkt_total_shares (dll_market l)) + unat s" using C(3) by blast
  note te = token_lawsD(1) [OF env_lawsD(2) [OF assms(1)] t]
  have nd: "no_delegates e (st_tokens st)" using I by (simp add: inv_pools_def)
  show ?thesis
  proof (rule chain_inv_liquidity [OF assms(2) L(2), where t = tt])
    show "inv_shares st'"
      by (rule inv_shares_update [OF _ _ L(3) _ C(1) L(2), where m' = m and a = 0 and b = "unat s" and e = e])
        (use I C(2,4) tt in \<open>auto simp: st' [symmetric]\<close>)
    show "no_delegates e (st_tokens st')"
      using transfer_no_delegates [OF te nd] by (simp add: st' [symmetric])
    show "holds (st_tokens st') (associated_token_address e j (cfg_collateral_mint c)) j
        (6 * unat (mkt_open_collateral x))"
      if "st_markets st j = Some x" "st_configs st (config_key e) = Some c" for j x c
    proof -
      have "j = market_key e (mkt_market_id x)" using I that(1) by (simp add: inv_keys_def)
      moreover have "holds (st_tokens st) (associated_token_address e j (cfg_collateral_mint c)) j
        (6 * unat (mkt_open_collateral x))" using I that by (simp add: inv_pools_def pool_covered_def)
      ultimately have "holds ts (associated_token_address e j (cfg_collateral_mint c)) j
        (6 * unat (mkt_open_collateral x))"
        by (intro transfer_holds_owner [OF te nd]) (use signers L(1) in auto)
      then show ?thesis by (simp add: st' [symmetric])
    qed
  qed (use I tt in \<open>auto simp: st' [symmetric] inv_keys_def\<close>)
qed

lemma entry_change_inv:
  assumes inv: "chain_inv e st"
    and ul: "st_liquidity st k = Some ul" "i < length (ul_markets ul)"
    and y: "ml_market_id y = ml_market_id (ul_markets ul ! i)" "ml_shares y = ml_shares (ul_markets ul ! i)"
      "ml_pending_withdrawal_shares y \<le> ml_shares y"
    and m: "st_markets st mk = Some m"
  shows "chain_inv e (emit ev (st\<lparr>st_liquidity := (st_liquidity st)(k \<mapsto> set_entry ul i y)\<rparr>))"
    (is "chain_inv e ?st'")
proof (rule chain_inv_liquidity [OF inv m, where t = "mkt_total_shares m"])
  note I = inv [unfolded chain_inv_def]
  have wf: "liquidity_wf ul" using I ul(1) by (simp add: inv_shares_def)
  have pos: "0 < ml_shares y" using wf ul(2) y(2) by (simp add: liquidity_wf_def)
  show "inv_shares ?st'"
  proof (rule inv_shares_update [OF _ _ ul(1) _ _ m, where m' = m and a = 0 and b = 0 and e = e and ul' = "set_entry ul i y"])
    show "liquidity_wf (set_entry ul i y)" by (rule set_entry_wf [OF wf ul(2) y(1,3) pos])
    show "shares_in j (mset (ul_markets (set_entry ul i y))) + (if mkt_market_id m = j then 0 else 0)
        = shares_in j (mset (ul_markets ul)) + (if mkt_market_id m = j then 0 else 0)" for j
      using shares_in_update [OF ul(2) y(1), of j] y(2) by (simp add: set_entry_def split: if_splits)
    show "ml_market_id x = mkt_market_id m \<or> ml_market_id x \<in> ml_market_id ` set (ul_markets ul)"
      if "x \<in> set (ul_markets (set_entry ul i y))" for x
    proof -
      have "x = y \<or> x \<in> set (ul_markets ul)"
        using that set_update_subset_insert [of "ul_markets ul" i y] by (auto simp: set_entry_def)
      then show ?thesis using y(1) ul(2) by auto
    qed
  qed (use I m in auto)
  show "holds (st_tokens ?st') (associated_token_address e j (cfg_collateral_mint c)) j
      (6 * unat (mkt_open_collateral x))"
    if "st_markets st j = Some x" "st_configs st (config_key e) = Some c" for j x c
    using I that by (simp add: inv_pools_def pool_covered_def)
qed (use inv m in \<open>auto simp: chain_inv_def inv_keys_def inv_pools_def\<close>)

lemma request_withdrawal_inv:
  assumes "chain_inv e st" "request_withdrawal e signers a s mins st = Inr st'"
  shows "chain_inv e st'"
proof -
  obtain m ul i where l: "load_manage_withdrawal e signers a st = Inr (m, ul)"
    and i: "market_mut ul (mkt_market_id m) = Some i" and s: "s \<le> ml_shares (ul_markets ul ! i)"
    and st': "emit (WithdrawalRequested (mkt_market_id m) (mw_user a) s mins)
       (st\<lparr>st_liquidity := (st_liquidity st)(mw_user_liquidity a \<mapsto>
           set_entry ul i ((ul_markets ul ! i)\<lparr>ml_pending_withdrawal_shares := s,
                                 ml_min_assets_out := mins\<rparr>))\<rparr>) = st'"
    by (rule request_withdrawal_InrD [OF assms(2)])
  have L: "st_markets st (mw_market a) = Some m" "st_liquidity st (mw_user_liquidity a) = Some ul"
    using load_manage_withdrawal_InrD [OF l] load_market_InrD load_liquidity_InrD by metis+
  show ?thesis
    unfolding st' [symmetric] using market_mut_SomeD [OF i] s
    by (intro entry_change_inv [OF assms(1) L(2) _ _ _ _ L(1)]) simp_all
qed

lemma cancel_withdrawal_inv:
  assumes "chain_inv e st" "cancel_withdrawal e signers a st = Inr st'"
  shows "chain_inv e st'"
proof -
  obtain m ul i where l: "load_manage_withdrawal e signers a st = Inr (m, ul)"
    and i: "market_mut ul (mkt_market_id m) = Some i"
    and st': "emit (WithdrawalCancelled (mkt_market_id m) (mw_user a)
         (ml_pending_withdrawal_shares (ul_markets ul ! i)))
       (st\<lparr>st_liquidity := (st_liquidity st)(mw_user_liquidity a \<mapsto>
           set_entry ul i ((ul_markets ul ! i)\<lparr>ml_pending_withdrawal_shares := 0,
                                 ml_min_assets_out := 0\<rparr>))\<rparr>) = st'"
    by (rule cancel_withdrawal_InrD [OF assms(2)])
  have L: "st_markets st (mw_market a) = Some m" "st_liquidity st (mw_user_liquidity a) = Some ul"
    using load_manage_withdrawal_InrD [OF l] load_market_InrD load_liquidity_InrD by metis+
  show ?thesis
    unfolding st' [symmetric] using market_mut_SomeD [OF i]
    by (intro entry_change_inv [OF assms(1) L(2) _ _ _ _ L(1)]) simp_all
qed

section \<open>Payments out of a pool\<close>

lemma market_transfer_effect:
  assumes "env_laws e" "market_transfer e signers mk m from to amount ts = Inr ts'"
  obtains sg where "transfer_effect \<lparr>tr_from = from, tr_to = to, tr_authority = mk,
      tr_signers = sg, tr_amount = amount\<rparr> ts ts'"
  using assms(2) token_lawsD(1) [OF env_lawsD(2) [OF assms(1)]]
  unfolding market_transfer_def result_simps by blast

lemma market_transfer_facts:
  assumes laws: "env_laws e" and nd: "no_delegates e ts"
    and t: "market_transfer e signers mk m from to amount ts = Inr ts'"
  shows "no_delegates e ts'"
    "holds ts from mk n \<Longrightarrow> holds ts' from mk (n - unat amount)"
    "j \<noteq> mk \<Longrightarrow> program_address e j \<Longrightarrow> holds ts k j n \<Longrightarrow> holds ts' k j n"
    "\<exists>f. ts from = Some f \<and> amount \<le> ta_amount f"
proof -
  obtain sg where te: "transfer_effect \<lparr>tr_from = from, tr_to = to, tr_authority = mk,
      tr_signers = sg, tr_amount = amount\<rparr> ts ts'" (is "transfer_effect ?r ts ts'")
    by (rule market_transfer_effect [OF laws t])
  show "no_delegates e ts'" by (rule transfer_no_delegates [OF te nd])
  show "holds ts' from mk (n - unat amount)" if "holds ts from mk n"
    using transfer_holds_from [OF te, of mk n] that by simp
  show "holds ts' k j n" if "j \<noteq> mk" "program_address e j" "holds ts k j n"
    by (rule transfer_holds_owner [OF te nd that(3,2)]) (use that(1) in simp)
  show "\<exists>f. ts from = Some f \<and> amount \<le> ta_amount f" using te by (auto simp: transfer_effect_def)
qed

text \<open>The address of a market's own pool, as the account constraints establish it.\<close>

definition pool_key :: "env \<Rightarrow> chain \<Rightarrow> pubkey \<Rightarrow> pubkey" where
  "pool_key e st mk =
     associated_token_address e mk (cfg_collateral_mint (the (st_configs st (config_key e))))"

lemma pool_keyI:
  assumes "inv_keys e st" "load_config e st ck = Inr config" "cfg_collateral_mint config = mint"
    and "load_associated e st mk mint k = Inr t"
  shows "k = pool_key e st mk" "st_configs st (config_key e) = Some config" "st_tokens st k = Some t"
    "ta_owner t = mk"
proof -
  show c: "st_configs st (config_key e) = Some config"
    using load_config_InrD [OF assms(2)] assms(1) by (auto simp: inv_keys_def)
  show "k = pool_key e st mk" "st_tokens st k = Some t" "ta_owner t = mk"
    using load_associated_InrD [OF assms(4)] assms(3) c unfolding pool_key_def
    by (auto simp del: fun_upd_apply)
qed

lemma pool_coveredD:
  assumes "inv_keys e st" "pool_covered e st" "st_markets st k = Some m"
  shows "holds (st_tokens st) (pool_key e st k) k (6 * unat (mkt_open_collateral m))"
  using assms unfolding pool_covered_def pool_key_def inv_keys_def by fastforce

lemma market_addressD:
  "inv_keys e st \<Longrightarrow> st_markets st k = Some m \<Longrightarrow> program_address e k"
  unfolding inv_keys_def by (metis program_address_keys(2))

lemma execute_withdrawal_inv:
  assumes "env_laws e" "chain_inv e st" "execute_withdrawal e signers a st = Inr st'"
  shows "chain_inv e st'"
proof -
  obtain l s assets rs ts ul where l: "load_execute_withdrawal e a st = Inr l"
    and w: "withdrawal_terms (dll_market l) (dll_liquidity l) (ta_amount (dll_pool l)) = Inr (s, assets, rs)"
    and t: "market_transfer e signers (ew_market a) (dll_market l) (ew_pool_token_account a)
       (ew_user_token_account a) assets (st_tokens st) = Inr ts"
    and d: "debit_shares (dll_liquidity l) (mkt_market_id (dll_market l)) s = Inr ul"
    and st': "emit (WithdrawalExecuted (mkt_market_id (dll_market l)) (ew_user a) s assets)
       (st\<lparr>st_tokens := ts,
           st_markets := (st_markets st)(ew_market a \<mapsto> (dll_market l)\<lparr>mkt_total_shares := rs\<rparr>),
           st_liquidity := (st_liquidity st)(ew_user_liquidity a \<mapsto> ul)\<rparr>) = st'"
    by (rule execute_withdrawal_InrD [OF assms(3)])
  note I = assms(2) [unfolded chain_inv_def]
  obtain config where C: "load_config e st (ew_protocol_config a) = Inr config"
    "cfg_collateral_mint config = ew_collateral_mint a"
    "load_market e st (ew_market a) = Inr (dll_market l)"
    "load_liquidity e st (ew_user a) (ew_user_liquidity a) = Inr (dll_liquidity l)"
    "load_associated e st (ew_market a) (ew_collateral_mint a) (ew_pool_token_account a) = Inr (dll_pool l)"
    by (rule load_execute_withdrawal_InrD [OF l])
  have L: "st_markets st (ew_market a) = Some (dll_market l)"
    "st_liquidity st (ew_user_liquidity a) = Some (dll_liquidity l)"
    using load_market_InrD [OF C(3)] load_liquidity_InrD [OF C(4)] by blast+
  have keys: "inv_keys e st" using I by blast
  have pool: "ew_pool_token_account a = pool_key e st (ew_market a)"
    by (rule pool_keyI(1) [OF keys C(1,2,5)])
  have wf: "liquidity_wf (dll_liquidity l)" using I L(2) by (simp add: inv_shares_def)
  have norisk: "mkt_open_collateral (dll_market l) = 0"
    "unat rs = unat (mkt_total_shares (dll_market l)) - unat s" "unat s \<le> unat (mkt_total_shares (dll_market l))"
  proof -
    obtain entry :: market_liquidity and assets' rs' where "is_no_risk (dll_market l)"
      "checked_sub (mkt_total_shares (dll_market l)) (ml_pending_withdrawal_shares entry) = Some rs'"
      "(ml_pending_withdrawal_shares entry, assets', rs') = (s, assets, rs)"
      by (rule withdrawal_terms_InrD [OF w]) (rule that; assumption)
    then show "mkt_open_collateral (dll_market l) = 0"
      "unat rs = unat (mkt_total_shares (dll_market l)) - unat s" "unat s \<le> unat (mkt_total_shares (dll_market l))"
      by (simp_all add: is_no_risk_def checked_sub_eq_Some)
  qed
  note D = debit_shares_effect [OF d wf]
  have nd: "no_delegates e (st_tokens st)" using I by (simp add: inv_pools_def)
  note T = market_transfer_facts [OF assms(1) nd t]
  show ?thesis
  proof (rule chain_inv_liquidity [OF assms(2) L(1), where t = rs])
    show "inv_shares st'"
    proof (rule inv_shares_update [OF keys _ L(2) _ D(1) L(1),
          where m' = "(dll_market l)\<lparr>mkt_total_shares := rs\<rparr>" and a = "unat s" and b = 0])
      show "ml_market_id x = mkt_market_id (dll_market l)
          \<or> ml_market_id x \<in> ml_market_id ` set (ul_markets (dll_liquidity l))"
        if "x \<in> set (ul_markets ul)" for x using D(3) that by blast
    qed (use I D(2) norisk in \<open>auto simp: st' [symmetric]\<close>)
    show "no_delegates e (st_tokens st')" using T(1) by (simp add: st' [symmetric])
    show "holds (st_tokens st') (associated_token_address e j (cfg_collateral_mint c)) j
        (6 * unat (mkt_open_collateral x))"
      if x: "st_markets st j = Some x" "st_configs st (config_key e) = Some c" for j x c
    proof -
      have h: "holds (st_tokens st) (associated_token_address e j (cfg_collateral_mint c)) j
        (6 * unat (mkt_open_collateral x))" using I x by (simp add: inv_pools_def pool_covered_def)
      have "holds ts (associated_token_address e j (cfg_collateral_mint c)) j
        (6 * unat (mkt_open_collateral x))"
      proof (cases "j = ew_market a")
        case True
        then show ?thesis
          using T(2) [of 0] h x L(1) norisk(1) pool by (auto simp: pool_key_def)
      next
        case False
        show ?thesis by (rule T(3) [OF False market_addressD [OF keys x(1)] h])
      qed
      then show ?thesis by (simp add: st' [symmetric])
    qed
  qed (use I in \<open>auto simp: st' [symmetric] inv_keys_def\<close>)
qed

section \<open>Opening and settling\<close>

lemma position_sums [simp]:
  "collateral_in i {#} = 0"
  "collateral_in i (add_mset p M) = (if pos_market_id p = i then unat (pos_collateral p) else 0) + collateral_in i M"
  "collateral_in i (M + N) = collateral_in i M + collateral_in i N"
  "count_where (in_market i) (add_mset p M) = (if pos_market_id p = i then 1 else 0) + count_where (in_market i) M"
  by (simp_all add: collateral_in_def in_market_def)

lemma open_positions_push:
  assumes "finite (dom (st_positions st))" "st_positions st k = Some up"
    and "st_positions st' = (st_positions st)(k \<mapsto> \<lparr>up_positions = up_positions up @ [p]\<rparr>)"
  shows "open_positions st' = add_mset p (open_positions st)"
  using map_elems_replace [OF assms(1,2), of up_positions "\<lparr>up_positions = up_positions up @ [p]\<rparr>"]
  unfolding open_positions_def assms(3) by simp

lemma open_positions_remove:
  assumes "finite (dom (st_positions st))" "st_positions st k = Some up" "i < length (up_positions up)"
    and "st_positions st' = (st_positions st)(k \<mapsto> \<lparr>up_positions = swap_remove i (up_positions up)\<rparr>)"
  shows "add_mset (up_positions up ! i) (open_positions st') = open_positions st"
proof -
  have "open_positions st' + mset (up_positions up)
      = open_positions st + mset (swap_remove i (up_positions up))"
    using map_elems_replace [OF assms(1,2), of up_positions
        "\<lparr>up_positions = swap_remove i (up_positions up)\<rparr>"]
    unfolding open_positions_def assms(4) by simp
  then have "add_mset (up_positions up ! i) (open_positions st') + mset (swap_remove i (up_positions up))
      = open_positions st + mset (swap_remove i (up_positions up))"
    using mset_swap_remove_plus [OF assms(3)] by (metis add_mset_add_single union_mset_add_mset_left union_mset_add_mset_right)
  then show ?thesis by simp
qed

lemma open_positions_memI:
  "finite (dom (st_positions st)) \<Longrightarrow> st_positions st k = Some up \<Longrightarrow> p \<in> set (up_positions up)
   \<Longrightarrow> p \<in># open_positions st"
  unfolding open_positions_def by (rule map_elems_memI)

lemma compact_position_values_InrD:
  "compact_position_values c x = Inr (cc, ce) \<Longrightarrow> unat cc = unat c \<and> int (unat ce) = sint x"
  unfolding compact_position_values_def result_simps by (auto simp: result_simps rust_simps)

text \<open>What an opening changes, in terms of the invariant's components.\<close>

lemma open_position_effect:
  assumes "env_laws e" "chain_inv e st" "open_position e signers a args st = Inr st'"
    and signers: "\<forall>s \<in> set signers. \<not> program_address e s"
  obtains m m' up p ts where
    "st_markets st (op_market a) = Some m" "st_positions st (op_user_positions a) = Some up"
    "st_markets st' = (st_markets st)(op_market a \<mapsto> m')"
    "st_positions st' = (st_positions st)(op_user_positions a \<mapsto> \<lparr>up_positions = up_positions up @ [p]\<rparr>)"
    "st_configs st' = st_configs st" "st_liquidity st' = st_liquidity st" "st_tokens st' = ts"
    "mkt_market_id m' = mkt_market_id m" "mkt_total_shares m' = mkt_total_shares m"
    "unat (mkt_open_collateral m') = unat (mkt_open_collateral m) + unat (pos_collateral p)"
    "unat (mkt_active_positions m) < 8"
    "unat (mkt_active_positions m') = unat (mkt_active_positions m) + 1"
    "pos_nonce p = mkt_next_position_nonce m"
    "unat (mkt_next_position_nonce m') = unat (mkt_next_position_nonce m) + 1"
    "length (up_positions up) < USER_POSITIONS_CAPACITY"
    "pos_market_id p = mkt_market_id m" "position_wf p" "no_delegates e ts"
    "\<forall>k i n. holds (st_tokens st) k (market_key e i) n \<longrightarrow> holds ts k (market_key e i) n"
    "holds ts (pool_key e st (op_market a)) (op_market a) (6 * unat (mkt_open_collateral m'))"
proof -
  obtain l sample ee oc' task ts expires cc ce act nn where
    l: "load_open e signers a st = Inr l"
    and adm: "admit_position e a args l st = Inr (sample, ee, oc')"
    and t: "token_transfer e \<lparr>tr_from = op_user_token_account a, tr_to = op_pool_token_account a,
        tr_authority = op_session_signer a, tr_signers = signers, tr_amount = oa_collateral args\<rparr>
       (st_tokens st) = Inr ts"
    and cv: "compact_position_values (oa_collateral args) expires = Inr (cc, ce)"
    and act: "checked_add (mkt_active_positions (ol_market l)) 1 = Some act"
    and nn: "checked_add (oa_nonce args) 1 = Some nn"
    and st': "emit (PositionCreated (mkt_market_id (ol_market l)) (oa_nonce args) (op_user a)
             (pr_price sample) cc (oa_direction args) ce)
       (st\<lparr>st_tokens := ts,
           st_tasks := st_tasks st @ [task],
           st_positions := (st_positions st)(op_user_positions a \<mapsto>
             \<lparr>up_positions = up_positions (ol_positions l) @
               [\<lparr>pos_market_id = mkt_market_id (ol_market l), pos_nonce = oa_nonce args,
                 pos_task_salt = oa_task_salt args, pos_collateral = cc,
                 pos_entry_price = pr_price sample, pos_expires_at = ce,
                 pos_direction = oa_direction args\<rparr>]\<rparr>),
           st_markets := (st_markets st)(op_market a \<mapsto>
             (ol_market l)\<lparr>mkt_risk_epoch_equity := ee, mkt_open_collateral := oc',
                mkt_active_positions := act, mkt_next_position_nonce := nn\<rparr>)\<rparr>) = st'"
    by (rule open_position_InrD [OF assms(3)]) (rule that; assumption)
  define m where "m = ol_market l"
  define p where "p = \<lparr>pos_market_id = mkt_market_id m, pos_nonce = oa_nonce args,
                 pos_task_salt = oa_task_salt args, pos_collateral = cc,
                 pos_entry_price = pr_price sample, pos_expires_at = ce,
                 pos_direction = oa_direction args\<rparr>"
  define m' where "m' = m\<lparr>mkt_risk_epoch_equity := ee, mkt_open_collateral := oc',
                mkt_active_positions := act, mkt_next_position_nonce := nn\<rparr>"
  obtain config where C: "op_session_signer a \<in> set signers"
    "load_config e st (op_protocol_config a) = Inr config"
    "cfg_collateral_mint config = op_collateral_mint a"
    "load_market e st (op_market a) = Inr m"
    "load_positions e st (op_user a) (op_user_positions a) = Inr (ol_positions l)"
    "load_associated e st (op_market a) (op_collateral_mint a) (op_pool_token_account a) = Inr (ol_pool l)"
    "op_pool_token_account a \<noteq> op_user_token_account a"
    by (rule load_open_InrD [OF l, folded m_def]) (rule that; assumption)
  obtain s1 e1 o1 reading u2 where A: "(s1, e1, o1) = (sample, ee, oc')"
    "oa_task_salt args \<noteq> zero32"
    "MIN_POSITION_COLLATERAL \<le> oa_collateral args" "oa_collateral args \<le> MAX_POSITION_COLLATERAL"
    "oa_nonce args = mkt_next_position_nonce m"
    "mkt_active_positions m < MAX_MARKET_FINANCIALLY_ACTIVE_POSITIONS"
    "length (up_positions (ol_positions l)) < USER_POSITIONS_CAPACITY"
    "read_oracle_price e st (op_price_update a) (mkt_oracle_feed_id m) = Inr reading"
    "reading = Some s1"
    "checked_add (mkt_open_collateral m) (oa_collateral args) = Some o1"
    "require_post_open_solvency (ta_amount (ol_pool l)) (mkt_open_collateral m) o1
       SAFETY_BUFFER_BPS = Inr u2"
    by (rule admit_position_InrD [OF adm, folded m_def]) (rule that; assumption)
  note I = assms(2) [unfolded chain_inv_def]
  have keys: "inv_keys e st" and nd: "no_delegates e (st_tokens st)" using I by (simp_all add: inv_pools_def)
  note P = pool_keyI [OF keys C(2,3,6)]
  note te = token_lawsD(1) [OF env_lawsD(2) [OF assms(1)] t]
  have cc: "unat cc = unat (oa_collateral args)" using compact_position_values_InrD [OF cv] by blast
  then have ucc: "ucast cc = oa_collateral args" by (metis widen(3) word_unat_eq_iff)
  have oc: "unat oc' = unat (mkt_open_collateral m) + unat (oa_collateral args)"
    using A(1,10) by (simp add: checked_add_eq_Some)
  have ns: "op_session_signer a \<noteq> k" if "program_address e k" for k
    using that signers C(1) by blast
  have keep: "holds ts k (market_key e i) n" if "holds (st_tokens st) k (market_key e i) n" for k i n
    by (rule transfer_holds_owner [OF te nd that]) (simp_all add: ns)
  have covered: "holds ts (pool_key e st (op_market a)) (op_market a) (6 * unat oc')"
  proof -
    have "6 * unat oc' \<le> unat (ta_amount (ol_pool l)) + unat (oa_collateral args)"
      using program_rule.opens [OF A(11), of "unat (oa_collateral args)"] A(1) oc by simp
    moreover have "holds (st_tokens st) (op_pool_token_account a) (op_market a) (unat (ta_amount (ol_pool l)))"
      unfolding holds_def using P(3,4) by blast
    from transfer_holds_to [OF te, of "op_market a" "unat (ta_amount (ol_pool l))"] this C(7)
    have "holds ts (op_pool_token_account a) (op_market a)
        (unat (ta_amount (ol_pool l)) + unat (oa_collateral args))" by auto
    ultimately show ?thesis using holds_mono unfolding P(1) [symmetric] by blast
  qed
  show thesis
  proof (rule that [of m "ol_positions l" m' p ts])
    show "st_markets st (op_market a) = Some m" "st_positions st (op_user_positions a) = Some (ol_positions l)"
      using load_market_InrD [OF C(4)] load_positions_InrD [OF C(5)] by blast+
    show "position_wf p"
      using A(2,3,4) oracle_price_positive A(8,9) A(1) unfolding position_wf_def p_def
      by (auto simp: ucc)
    show "no_delegates e ts" by (rule transfer_no_delegates [OF te nd])
    show "unat (mkt_active_positions m) < 8"
      using A(6) by (simp add: word_less_nat_alt const_defs)
    show "unat (mkt_active_positions m') = unat (mkt_active_positions m) + 1"
      "unat (mkt_next_position_nonce m') = unat (mkt_next_position_nonce m) + 1"
      using act nn A(5) unfolding m'_def by (simp_all add: checked_add_eq_Some m_def)
    show "unat (mkt_open_collateral m') = unat (mkt_open_collateral m) + unat (pos_collateral p)"
      using oc cc by (simp add: m'_def p_def)
    show "holds ts (pool_key e st (op_market a)) (op_market a) (6 * unat (mkt_open_collateral m'))"
      using covered by (simp add: m'_def)
    show "\<forall>k i n. holds (st_tokens st) k (market_key e i) n \<longrightarrow> holds ts k (market_key e i) n"
      using keep by blast
  qed (simp_all add: st' [symmetric] m_def [symmetric] p_def m'_def A(5,7))
qed

lemma u32_succ_less: "unat y = unat x + 1 \<Longrightarrow> x < (y :: u32)"
  by (simp add: word_less_nat_alt)

lemma open_position_inv:
  assumes "env_laws e" "chain_inv e st" "open_position e signers a args st = Inr st'"
    and "\<forall>s \<in> set signers. \<not> program_address e s"
  shows "chain_inv e st'"
proof -
  obtain m m' up p ts where
    m: "st_markets st (op_market a) = Some m" and up: "st_positions st (op_user_positions a) = Some up"
    and M: "st_markets st' = (st_markets st)(op_market a \<mapsto> m')"
    and U: "st_positions st' = (st_positions st)(op_user_positions a \<mapsto> \<lparr>up_positions = up_positions up @ [p]\<rparr>)"
    and F: "st_configs st' = st_configs st" "st_liquidity st' = st_liquidity st" "st_tokens st' = ts"
    and id: "mkt_market_id m' = mkt_market_id m" "mkt_total_shares m' = mkt_total_shares m"
    and oc: "unat (mkt_open_collateral m') = unat (mkt_open_collateral m) + unat (pos_collateral p)"
    and act: "unat (mkt_active_positions m) < 8"
      "unat (mkt_active_positions m') = unat (mkt_active_positions m) + 1"
    and nonce: "pos_nonce p = mkt_next_position_nonce m"
      "unat (mkt_next_position_nonce m') = unat (mkt_next_position_nonce m) + 1"
    and cap: "length (up_positions up) < USER_POSITIONS_CAPACITY"
    and p: "pos_market_id p = mkt_market_id m" "position_wf p" and nd: "no_delegates e ts"
    and keep: "\<forall>k i n. holds (st_tokens st) k (market_key e i) n \<longrightarrow> holds ts k (market_key e i) n"
    and covered: "holds ts (pool_key e st (op_market a)) (op_market a) (6 * unat (mkt_open_collateral m'))"
    by (rule open_position_effect [OF assms])
  note I = assms(2) [unfolded chain_inv_def]
  have keys: "inv_keys e st" and fin: "finite (dom (st_positions st))" using I by (simp_all add: inv_keys_def)
  note push = open_positions_push [OF fin up U]
  have mine: "x = op_market a \<and> y = m" if "st_markets st x = Some y" "mkt_market_id y = mkt_market_id m" for x y
    using market_unique [OF keys that(1) m that(2)] that(1) m by simp
  have "inv_keys e st'"
    by (rule inv_keys_market [OF keys m id(1) F(1) M]) (use I U F in \<open>simp_all add: inv_keys_def\<close>)
  moreover have "inv_risk st'"
    unfolding inv_risk_def
  proof (intro conjI allI impI)
    fix k x
    assume x: "st_markets st' k = Some x"
    have risk: "unat (mkt_open_collateral y) = collateral_in (mkt_market_id y) (open_positions st)
      \<and> unat (mkt_active_positions y) = count_where (in_market (mkt_market_id y)) (open_positions st)
      \<and> count_where (in_market (mkt_market_id y)) (open_positions st) \<le> 8"
      if "st_markets st j = Some y" for j y using I that by (simp add: inv_risk_def)
    have "unat (mkt_open_collateral x) = collateral_in (mkt_market_id x) (open_positions st')
      \<and> unat (mkt_active_positions x) = count_where (in_market (mkt_market_id x)) (open_positions st')
      \<and> count_where (in_market (mkt_market_id x)) (open_positions st') \<le> 8"
    proof (cases "k = op_market a")
      case True
      then have "x = m'" using x M by simp
      then show ?thesis using risk [OF m] oc act id(1) p(1) push by (simp add: in_market_def)
    next
      case False
      then have xs: "st_markets st k = Some x" using x M by simp
      then have "pos_market_id p \<noteq> mkt_market_id x" using mine False p(1) by metis
      then show ?thesis using risk [OF xs] push by (simp add: in_market_def)
    qed
    then show "unat (mkt_open_collateral x) = collateral_in (mkt_market_id x) (open_positions st')"
      "unat (mkt_active_positions x) = count_where (in_market (mkt_market_id x)) (open_positions st')"
      "count_where (in_market (mkt_market_id x)) (open_positions st') \<le> 8" by blast+
  next
    fix k u assume "st_positions st' k = Some u"
    then show "length (up_positions u) \<le> USER_POSITIONS_CAPACITY"
      using I cap U by (auto simp: inv_risk_def split: if_splits)
  qed
  moreover have "inv_positions st'"
    unfolding inv_positions_def
  proof (intro conjI ballI allI)
    have grow: "\<exists>k m. st_markets st' k = Some m \<and> mkt_market_id m = i \<and> n < mkt_next_position_nonce m"
      if "\<exists>k m. st_markets st k = Some m \<and> mkt_market_id m = i \<and> n < mkt_next_position_nonce m" for i n
      unfolding M by (rule market_exists_mono [OF that])
        (use m id(1) u32_succ_less [OF nonce(2)] in auto)
    fix x assume x: "x \<in># open_positions st'"
    have "position_wf x \<and> (\<exists>k m. st_markets st' k = Some m \<and> mkt_market_id m = pos_market_id x
        \<and> pos_nonce x < mkt_next_position_nonce m)"
    proof (cases "x = p")
      case True
      have "st_markets st' (op_market a) = Some m'" using M by simp
      then show ?thesis using True p id(1) nonce(1) u32_succ_less [OF nonce(2)] by auto
    next
      case False
      then have "x \<in># open_positions st" using x push by simp
      then show ?thesis using I grow unfolding inv_positions_def by blast
    qed
    then show "position_wf x" "\<exists>k m. st_markets st' k = Some m \<and> mkt_market_id m = pos_market_id x
        \<and> pos_nonce x < mkt_next_position_nonce m" by blast+
  next
    fix i n
    have "count_where (has_id i n) (open_positions st) = 0" if "has_id i n p"
    proof -
      have "\<not> has_id i n q" if q: "q \<in># open_positions st" for q
      proof
        assume h: "has_id i n q"
        obtain k x where kx: "st_markets st k = Some x" "mkt_market_id x = pos_market_id q"
          "pos_nonce q < mkt_next_position_nonce x" using I q unfolding inv_positions_def by blast
        have "mkt_market_id x = mkt_market_id m" "pos_nonce q = mkt_next_position_nonce m"
          using kx(2) h \<open>has_id i n p\<close> p(1) nonce(1) by (simp_all add: has_id_def)
        then show False using kx mine by auto
      qed
      then show ?thesis using count_where_none by blast
    qed
    then show "count_where (has_id i n) (open_positions st') \<le> 1"
      using I push by (auto simp: inv_positions_def)
  qed
  moreover have "inv_shares st'"
    by (rule inv_shares_frame [OF _ m M F(2) id]) (use I in simp)
  moreover have "pool_covered e st'"
  proof (rule pool_covered_market [OF keys m id(1) F(1) M])
    fix j x c assume x: "st_markets st j = Some x" "st_configs st (config_key e) = Some c"
    then have "holds (st_tokens st) (associated_token_address e j (cfg_collateral_mint c)) j
        (6 * unat (mkt_open_collateral x))" "j = market_key e (mkt_market_id x)"
      using I by (simp_all add: inv_pools_def pool_covered_def inv_keys_def)
    then show "holds (st_tokens st') (associated_token_address e j (cfg_collateral_mint c)) j
        (6 * unat (mkt_open_collateral x))" unfolding F(3) using keep by metis
  next
    fix c assume "st_configs st (config_key e) = Some c"
    then show "holds (st_tokens st') (associated_token_address e (op_market a) (cfg_collateral_mint c))
        (op_market a) (6 * unat (mkt_open_collateral m'))"
      using covered unfolding F(3) by (simp add: pool_key_def)
  qed
  ultimately show ?thesis using nd by (simp add: chain_inv_def inv_pools_def F(3))
qed

lemma priced_terms_InrD:
  assumes "priced_terms e a m p x y st = Inr (Some (pay, pf, lf, oc))"
  obtains sample amounts where
    "read_oracle_price e st (sp_price_update a) (mkt_oracle_feed_id m) = Inr (Some sample)"
    "sint x \<le> sint (pr_publish_time sample)" "sint (pr_publish_time sample) < sint y"
    "calculate_settlement (ucast (pos_collateral p)) (pos_entry_price p) (pr_price sample)
       (pos_direction p) LEVERAGE PROFIT_FEE_BPS PROTOCOL_FEE_SHARE_BPS = Inr amounts"
    "pay = sa_user_payout amounts" "pf = sa_protocol_fee amounts" "lf = sa_lp_fee amounts"
    "oc = outcome_of False (sa_gross_profit amounts) (sa_loss amounts)"
proof -
  obtain reading where r: "read_oracle_price e st (sp_price_update a) (mkt_oracle_feed_id m) = Inr reading"
    using assms unfolding priced_terms_def result_simps by blast
  obtain sample where s: "reading = Some sample"
    using assms r by (cases reading) (simp_all add: priced_terms_def)
  show thesis
    using assms that [of sample] unfolding priced_terms_def r s and_then_Inr option.case
    by (auto simp: result_simps not_less not_le r s split: if_splits)
qed

lemma settlement_terms_outflow:
  assumes "settlement_terms_of e a m p salt st = Inr (Some (pay, pf, lf, oc))"
  shows "unat pay + unat pf \<le> 6 * unat (pos_collateral p)"
proof -
  let ?c = "ucast (pos_collateral p) :: u64" and ?x = "ucast (pos_expires_at p) :: i64"
  obtain refund_at where r: "schecked_add ?x SETTLEMENT_BUFFER_SECONDS = Some refund_at"
    using assms unfolding settlement_terms_of_def Let_def result_simps by blast
  consider "pay = ?c" "pf = 0" | "priced_terms e a m p ?x refund_at st = Inr (Some (pay, pf, lf, oc))"
    using assms r unfolding settlement_terms_of_def Let_def
    by (auto simp: result_simps split: if_splits)
  then show ?thesis
  proof cases
    case 1
    then show ?thesis using widen(3) [of "pos_collateral p"] by simp
  next
    case 2
    obtain sample :: price and amounts where
      "calculate_settlement ?c (pos_entry_price p) (pr_price sample) (pos_direction p) LEVERAGE
         PROFIT_FEE_BPS PROTOCOL_FEE_SHARE_BPS = Inr amounts"
      "pay = sa_user_payout amounts" "pf = sa_protocol_fee amounts"
      by (rule priced_terms_InrD [OF 2]) (rule that; assumption)
    then show ?thesis using program_rule.outflow widen(3) [of "pos_collateral p"] by metis
  qed
qed

lemma pay_settlement_facts:
  assumes laws: "env_laws e" and nd: "no_delegates e (st_tokens st)"
    and t: "pay_settlement e signers a m pay pf st = Inr ts"
  shows "no_delegates e ts"
    "holds (st_tokens st) (sp_pool_token_account a) (sp_market a) n \<Longrightarrow>
       holds ts (sp_pool_token_account a) (sp_market a) (n - unat pf - unat pay)"
    "j \<noteq> sp_market a \<Longrightarrow> program_address e j \<Longrightarrow> holds (st_tokens st) k j n \<Longrightarrow> holds ts k j n"
proof -
  let ?pool = "sp_pool_token_account a" and ?mk = "sp_market a"
  obtain ts1 to where ts1: "(if 0 < pf then market_transfer e signers ?mk m ?pool (sp_fee_token_account a) pf
      (st_tokens st) else Inr (st_tokens st)) = Inr ts1"
    and ts: "(if 0 < pay then market_transfer e signers ?mk m ?pool to pay ts1 else Inr ts1) = Inr ts"
    using t unfolding pay_settlement_def result_simps by blast
  have step: "no_delegates e ts' \<and> (\<forall>n. holds ts0 ?pool ?mk n \<longrightarrow> holds ts' ?pool ?mk (n - unat x))
      \<and> (\<forall>j k n. j \<noteq> ?mk \<longrightarrow> program_address e j \<longrightarrow> holds ts0 k j n \<longrightarrow> holds ts' k j n)"
    if "no_delegates e ts0" "(if 0 < x then market_transfer e signers ?mk m ?pool d x ts0 else Inr ts0) = Inr ts'"
    for ts0 ts' x d
  proof (cases "0 < x")
    case True
    then show ?thesis using that market_transfer_facts [OF laws that(1)] by simp
  next
    case False
    then show ?thesis using that by (auto intro: holds_mono)
  qed
  note s1 = step [OF nd ts1]
  note s2 = step [OF conjunct1 [OF s1] ts]
  show "no_delegates e ts" using s2 by blast
  show "holds ts ?pool ?mk (n - unat pf - unat pay)" if "holds (st_tokens st) ?pool ?mk n"
    using s1 s2 that by blast
  show "holds ts k j n" if "j \<noteq> ?mk" "program_address e j" "holds (st_tokens st) k j n"
    using s1 s2 that by blast
qed

lemma position_index_SomeD:
  "position_index up i n = Some k \<Longrightarrow> k < length (up_positions up)
    \<and> pos_market_id (up_positions up ! k) = i \<and> pos_nonce (up_positions up ! k) = n"
  unfolding position_index_def by (drule position_SomeD) simp

lemma settle_position_inv:
  assumes "env_laws e" "chain_inv e st" "settle_position e signers a nonce salt st = Inr st'"
  shows "chain_inv e st'"
  using assms(3)
proof (cases rule: settle_position_InrD)
  case unknown
  with assms(2) show ?thesis by simp
next
  case noop
  with assms(2) show ?thesis by simp
next
  case (closed l i pay pf lf oc ts oc' act)
  define m where "m = sl_market l"
  define up where "up = sl_positions l"
  define p where "p = up_positions up ! i"
  define m' where "m' = m\<lparr>mkt_open_collateral := oc', mkt_active_positions := act\<rparr>"
  obtain config pool where C: "load_config e st (sp_protocol_config a) = Inr config"
    "cfg_collateral_mint config = sp_collateral_mint a"
    "load_market e st (sp_market a) = Inr m"
    "load_positions e st (sp_user a) (sp_user_positions a) = Inr up"
    "load_associated e st (sp_market a) (sp_collateral_mint a) (sp_pool_token_account a) = Inr pool"
    using load_settle_InrD [OF closed(1)] unfolding m_def up_def by (metis settle_loaded.select_convs)
  note I = assms(2) [unfolded chain_inv_def]
  have keys: "inv_keys e st" and fin: "finite (dom (st_positions st))"
    and nd: "no_delegates e (st_tokens st)" using I by (simp_all add: inv_keys_def inv_pools_def)
  have m: "st_markets st (sp_market a) = Some m" and up: "st_positions st (sp_user_positions a) = Some up"
    using load_market_InrD [OF C(3)] load_positions_InrD [OF C(4)] by blast+
  have pool: "sp_pool_token_account a = pool_key e st (sp_market a)" by (rule pool_keyI(1) [OF keys C(1,2,5)])
  have idx: "i < length (up_positions up)" "pos_market_id p = mkt_market_id m" "pos_nonce p = nonce"
    using position_index_SomeD [OF closed(2)] by (simp_all add: m_def up_def p_def)
  have M: "st_markets st' = (st_markets st)(sp_market a \<mapsto> m')"
    and U: "st_positions st' = (st_positions st)(sp_user_positions a \<mapsto> \<lparr>up_positions = swap_remove i (up_positions up)\<rparr>)"
    and F: "st_configs st' = st_configs st" "st_liquidity st' = st_liquidity st" "st_tokens st' = ts"
    by (simp_all add: closed(7) m'_def m_def up_def)
  have id: "mkt_market_id m' = mkt_market_id m" "mkt_total_shares m' = mkt_total_shares m"
    "mkt_next_position_nonce m' = mkt_next_position_nonce m" by (simp_all add: m'_def)
  have oc: "unat (pos_collateral p) \<le> unat (mkt_open_collateral m)"
    "unat (mkt_open_collateral m') = unat (mkt_open_collateral m) - unat (pos_collateral p)"
    using closed(5) widen(3) [of "pos_collateral p"]
    by (simp_all add: checked_sub_eq_Some m'_def m_def p_def up_def)
  have act: "1 \<le> unat (mkt_active_positions m)"
    "unat (mkt_active_positions m') = unat (mkt_active_positions m) - 1"
    using closed(6) by (simp_all add: checked_sub_eq_Some m'_def m_def)
  have out: "unat pay + unat pf \<le> 6 * unat (pos_collateral p)"
    using settlement_terms_outflow [OF closed(3)] by (simp add: p_def up_def)
  note T = pay_settlement_facts [OF assms(1) nd closed(4)]
  have rem: "add_mset p (open_positions st') = open_positions st"
    unfolding p_def by (rule open_positions_remove [OF fin up idx(1) U])
  have "inv_keys e st'"
    by (rule inv_keys_market [OF keys m id(1) F(1) M]) (use I U F in \<open>simp_all add: inv_keys_def\<close>)
  moreover have "inv_risk st'"
    unfolding inv_risk_def
  proof (intro conjI allI impI)
    fix k x
    assume x: "st_markets st' k = Some x"
    have risk: "unat (mkt_open_collateral y) = collateral_in (mkt_market_id y) (add_mset p (open_positions st'))
      \<and> unat (mkt_active_positions y) = count_where (in_market (mkt_market_id y)) (add_mset p (open_positions st'))
      \<and> count_where (in_market (mkt_market_id y)) (add_mset p (open_positions st')) \<le> 8"
      if "st_markets st j = Some y" for j y using I that unfolding rem by (simp add: inv_risk_def)
    have "unat (mkt_open_collateral x) = collateral_in (mkt_market_id x) (open_positions st')
      \<and> unat (mkt_active_positions x) = count_where (in_market (mkt_market_id x)) (open_positions st')
      \<and> count_where (in_market (mkt_market_id x)) (open_positions st') \<le> 8"
    proof (cases "k = sp_market a")
      case True
      then have "x = m'" using x M by simp
      then show ?thesis using risk [OF m] oc act id(1) idx(2) by (auto simp: in_market_def)
    next
      case False
      then have xs: "st_markets st k = Some x" using x M by simp
      have "pos_market_id p \<noteq> mkt_market_id x"
        using market_unique [OF keys xs m] False idx(2) by auto
      then show ?thesis using risk [OF xs] by (simp add: in_market_def)
    qed
    then show "unat (mkt_open_collateral x) = collateral_in (mkt_market_id x) (open_positions st')"
      "unat (mkt_active_positions x) = count_where (in_market (mkt_market_id x)) (open_positions st')"
      "count_where (in_market (mkt_market_id x)) (open_positions st') \<le> 8" by blast+
  next
    fix k u assume "st_positions st' k = Some u"
    moreover have "length (up_positions up) \<le> USER_POSITIONS_CAPACITY" using I up by (simp add: inv_risk_def)
    ultimately show "length (up_positions u) \<le> USER_POSITIONS_CAPACITY"
      using I U by (auto simp: inv_risk_def split: if_splits)
  qed
  moreover have "inv_positions st'"
    unfolding inv_positions_def
  proof (intro conjI ballI allI)
    have grow: "\<exists>k m. st_markets st' k = Some m \<and> mkt_market_id m = i \<and> n < mkt_next_position_nonce m"
      if "\<exists>k m. st_markets st k = Some m \<and> mkt_market_id m = i \<and> n < mkt_next_position_nonce m" for i n
      unfolding M by (rule market_exists_mono [OF that]) (simp add: m id)
    fix x assume x: "x \<in># open_positions st'"
    then have "x \<in># open_positions st" by (simp add: rem [symmetric])
    then show "position_wf x" "\<exists>k m. st_markets st' k = Some m \<and> mkt_market_id m = pos_market_id x
        \<and> pos_nonce x < mkt_next_position_nonce m"
      using I grow unfolding inv_positions_def by blast+
  next
    fix i n
    have "count_where (has_id i n) (add_mset p (open_positions st')) \<le> 1"
      using I unfolding rem by (simp add: inv_positions_def)
    then show "count_where (has_id i n) (open_positions st') \<le> 1" by (simp split: if_splits)
  qed
  moreover have "inv_shares st'"
    by (rule inv_shares_frame [OF _ m M F(2) id(1,2)]) (use I in simp)
  moreover have "pool_covered e st'"
  proof (rule pool_covered_market [OF keys m id(1) F(1) M])
    fix j x c assume x: "st_markets st j = Some x" "st_configs st (config_key e) = Some c" "j \<noteq> sp_market a"
    then have "holds (st_tokens st) (associated_token_address e j (cfg_collateral_mint c)) j
        (6 * unat (mkt_open_collateral x))" using I by (simp add: inv_pools_def pool_covered_def)
    then show "holds (st_tokens st') (associated_token_address e j (cfg_collateral_mint c)) j
        (6 * unat (mkt_open_collateral x))"
      unfolding F(3) by (rule T(3) [OF x(3) market_addressD [OF keys x(1)]])
  next
    fix c assume c: "st_configs st (config_key e) = Some c"
    have "pool_covered e st" using I by (simp add: inv_pools_def)
    from T(2) [unfolded pool, OF pool_coveredD [OF keys this m]]
    have "holds ts (pool_key e st (sp_market a)) (sp_market a)
        (6 * unat (mkt_open_collateral m) - unat pf - unat pay)" .
    then have "holds ts (pool_key e st (sp_market a)) (sp_market a) (6 * unat (mkt_open_collateral m'))"
      by (rule holds_mono) (use out oc in linarith)
    then show "holds (st_tokens st') (associated_token_address e (sp_market a) (cfg_collateral_mint c))
        (sp_market a) (6 * unat (mkt_open_collateral m'))"
      using c unfolding F(3) by (simp add: pool_key_def)
  qed
  ultimately show ?thesis using T(1) by (simp add: chain_inv_def inv_pools_def F(3))
qed

section \<open>Reachable chains\<close>

lemma process_inv:
  assumes "env_laws e" "chain_inv e st" "process e signers r st = Inr st'"
    and "\<forall>s \<in> set signers. \<not> program_address e s"
  shows "chain_inv e st'"
  using assms
  by (cases r)
    (auto intro: initialize_protocol_config_inv initialize_market_inv set_market_mode_inv
      delegate_market_inv delegate_user_positions_inv delegate_user_liquidity_inv
      undelegate_user_liquidity_inv initialize_user_positions_inv initialize_user_liquidity_inv
      deposit_liquidity_inv request_withdrawal_inv cancel_withdrawal_inv execute_withdrawal_inv
      open_position_inv settle_position_inv withdraw_protocol_fees_inv claim_fallback_payout_inv)

lemma chain_step_inv:
  assumes "env_laws e" "chain_inv e st" "chain_step e st st'"
  shows "chain_inv e st'"
  using assms(3)
proof cases
  case (instruction signers r)
  then show ?thesis using process_inv [OF assms(1,2)] by blast
next
  case (environment now' ts' prices' mints' authority')
  then show ?thesis using environment_inv [OF assms(2)] by blast
qed

interpretation chain_machine: transition_system
  "\<lambda>st. env_laws e \<and> initial_chain e st" "chain_step e" "\<lambda>st. env_laws e \<and> chain_inv e st" for e
  by unfold_locales (auto intro: initial_chain_inv chain_step_inv)

definition chain_reachable :: "env \<Rightarrow> chain \<Rightarrow> bool" where
  "chain_reachable e st \<longleftrightarrow> reachable (\<lambda>st. env_laws e \<and> initial_chain e st) (chain_step e) st"

lemma reachable_chain_inv: "chain_reachable e st \<Longrightarrow> env_laws e \<and> chain_inv e st"
  unfolding chain_reachable_def by (rule chain_machine.reachable_inv)

end
