(* ===== verification/Reference_Run.thy ===== *)
theory Reference_Run
  imports Chain_Invariant
begin

text \<open>
  One run of the program in the reference environment, from the empty chain to a settled
  position: configuration, market, a liquidity deposit of 100,000 USDC, a position of 1 USDC
  opened at price 100000, and its settlement at 100010 with a profit of 10 percent, less the fee.
  A second branch lets the settlement window close without a price. Every state of the run is
  reachable, so the theorems about reachable chains can be applied to them.
\<close>


section \<open>Keys\<close>

text \<open>Wallets are 32 bytes and start with 0, so none is a program address.\<close>

definition wallet_tail :: bytes where "wallet_tail = replicate 30 0"

definition admin_w :: pubkey where "admin_w = 0 # 1 # wallet_tail"
definition lp_w :: pubkey where "lp_w = 0 # 2 # wallet_tail"
definition trader_w :: pubkey where "trader_w = 0 # 3 # wallet_tail"
definition session_w :: pubkey where "session_w = [0, 4]"
definition usdc :: pubkey where "usdc = [0, 9]"
definition oracle_k :: pubkey where "oracle_k = [0, 8]"
definition feed_k :: bytes where "feed_k = [8]"

definition run_config :: pubkey where "run_config = config_key reference_env"
definition run_market :: pubkey where "run_market = market_key reference_env 0"
definition run_fee_authority :: pubkey where "run_fee_authority = fee_authority_key reference_env run_market"
definition run_pool :: pubkey where "run_pool = associated_token_address reference_env run_market usdc"
definition run_fees :: pubkey where "run_fees = associated_token_address reference_env run_fee_authority usdc"
definition lp_token :: pubkey where "lp_token = [0, 12]"
definition trader_token :: pubkey where "trader_token = [0, 13]"

definition run_escrow :: pubkey where
  "run_escrow = associated_token_address reference_env (positions_key reference_env trader_w) usdc"

section \<open>Setting up the market\<close>

definition run0 :: chain where
  "run0 = \<lparr>st_now = 1000, st_upgrade_authority = Some admin_w, st_configs = Map.empty,
     st_markets = Map.empty, st_positions = Map.empty, st_liquidity = Map.empty,
     st_tokens = [lp_token \<mapsto> \<lparr>ta_mint = usdc, ta_owner = lp_w, ta_amount = 200000000000,
          ta_delegate = None, ta_delegated_amount = 0, ta_state = Initialized\<rparr>,
        trader_token \<mapsto> \<lparr>ta_mint = usdc, ta_owner = trader_w, ta_amount = 5000000,
          ta_delegate = Some session_w, ta_delegated_amount = 5000000, ta_state = Initialized\<rparr>,
        run_escrow \<mapsto> fresh_token_account (positions_key reference_env trader_w) usdc],
     st_mints = [usdc \<mapsto> 6],
     st_prices = [oracle_k \<mapsto> \<lparr>pa_owner = oracle_program_id reference_env, pa_update = Some
        \<lparr>pu_feed_id = feed_k, pu_verification_level = [], pu_price = 100000, pu_conf = 1,
         pu_exponent = 8, pu_publish_time = 1000, pu_posted_slot = 1\<rparr>\<rparr>],
     st_events = [], st_tasks = [], st_delegations = [], st_undelegated = []\<rparr>"

definition run1 :: chain where
  "run1 = run0\<lparr>st_configs := [run_config \<mapsto> \<lparr>cfg_admin = admin_w, cfg_fee_authority = admin_w,
     cfg_collateral_mint = usdc, cfg_bump = 255\<rparr>]\<rparr>"

definition fresh_market :: market where
  "fresh_market = \<lparr>mkt_market_id = 0, mkt_oracle = oracle_k, mkt_oracle_feed_id = feed_k,
     mkt_total_shares = 0, mkt_open_collateral = 0, mkt_risk_epoch_equity = 0,
     mkt_active_positions = 0, mkt_next_position_nonce = 0, mkt_mode = Open, mkt_bump = 255\<rparr>"

definition run2 :: chain where
  "run2 = run1\<lparr>st_tokens := (st_tokens run0)(run_pool \<mapsto> fresh_token_account run_market usdc,
       run_fees \<mapsto> fresh_token_account run_fee_authority usdc),
     st_markets := [run_market \<mapsto> fresh_market]\<rparr>"

lemma zero32_list: "zero32 = [0, 0, 0, 0, 0, 0, 0, 0, 0, 0, 0, 0, 0, 0, 0, 0,
    0, 0, 0, 0, 0, 0, 0, 0, 0, 0, 0, 0, 0, 0, 0, 0]"
  by (simp add: zero32_def numeral_eq_Suc)

lemmas run_defs = admin_w_def lp_w_def trader_w_def session_w_def usdc_def oracle_k_def feed_k_def
  run_config_def run_market_def run_fee_authority_def run_pool_def run_fees_def run_escrow_def lp_token_def
  trader_token_def config_key_def market_key_def positions_key_def liquidity_key_def
  fee_authority_key_def market_seeds_def u16_le_bytes_def zero32_list

lemma run_step1:
  "process reference_env [admin_w] (InitializeProtocolConfig \<lparr>ipc_admin = admin_w, ipc_fee_authority = admin_w,
        ipc_collateral_mint = usdc, ipc_protocol_config = run_config\<rparr>) run0 = Inr run1"
  by (simp add: run1_def run0_def run_defs reference_env_def initialize_protocol_config_def
    init_account_def require_signer_def require_seeds_def load_account_def require_valid_fee_authority_def fresh_token_account_def
    COLLATERAL_DECIMALS_def cpi_unit_def)

lemma run_step2:
  "process reference_env [admin_w] (InitializeMarket \<lparr>im_admin = admin_w, im_collateral_mint = usdc,
        im_protocol_config = run_config, im_market = run_market, im_pool_token_account = run_pool,
        im_derived_fee_authority = run_fee_authority, im_fee_token_account = run_fees,
        im_token_program = token_program_id reference_env\<rparr> 0 oracle_k feed_k 0) run1 = Inr run2"
  by (simp add: run2_def run1_def run0_def run_defs reference_env_def initialize_market_def fresh_market_def
    init_account_def init_associated_def load_defs cpi_def cpi_unit_def fresh_token_account_def)


definition run3 :: chain where
  "run3 = run2\<lparr>st_liquidity := [liquidity_key reference_env lp_w \<mapsto> \<lparr>ul_markets = []\<rparr>]\<rparr>"

lemma run_step3:
  "process reference_env [lp_w] (InitializeUserLiquidity \<lparr>ua_user = lp_w, ua_account = liquidity_key reference_env lp_w\<rparr>) run2
    = Inr run3"
  by (simp add: run3_def run2_def run1_def run0_def run_defs reference_env_def
    initialize_user_liquidity_def load_defs cpi_unit_def)

definition funded_market :: market where
  "funded_market = fresh_market\<lparr>mkt_total_shares := 100000000000\<rparr>"

definition run4 :: chain where
  "run4 = run3\<lparr>st_tokens := (st_tokens run2)(
       lp_token \<mapsto> \<lparr>ta_mint = usdc, ta_owner = lp_w, ta_amount = 100000000000,
          ta_delegate = None, ta_delegated_amount = 0, ta_state = Initialized\<rparr>,
       run_pool \<mapsto> (fresh_token_account run_market usdc)\<lparr>ta_amount := 100000000000\<rparr>),
     st_markets := [run_market \<mapsto> funded_market],
     st_liquidity := [liquidity_key reference_env lp_w \<mapsto> \<lparr>ul_markets = [\<lparr>ml_market_id = 0,
        ml_shares = 100000000000, ml_pending_withdrawal_shares = 0, ml_min_assets_out = 0\<rparr>]\<rparr>],
     st_events := [LiquidityDeposited 0 lp_w 100000000000 100000000000]\<rparr>"

lemma run_deposit_shares:
  "deposit_shares fresh_market \<lparr>ul_markets = []\<rparr> 0 100000000000 1 = Inr 100000000000"
  by (simp add: deposit_shares_def fresh_market_def is_no_risk_def MIN_MARKET_EQUITY_def
    MAX_MARKET_EQUITY_def require_deposit_capacity_def checked_add_def shares_for_deposit_def
    market_or_insert_mut_def USER_LIQUIDITY_MARKET_CAPACITY_def)

lemma run_credit_shares:
  "credit_shares fresh_market \<lparr>ul_markets = []\<rparr> 100000000000 =
     Inr (funded_market, \<lparr>ul_markets = [\<lparr>ml_market_id = 0,
        ml_shares = 100000000000, ml_pending_withdrawal_shares = 0, ml_min_assets_out = 0\<rparr>]\<rparr>)"
  by (simp add: credit_shares_def fresh_market_def funded_market_def checked_add_def
    market_or_insert_mut_def USER_LIQUIDITY_MARKET_CAPACITY_def set_entry_def)

definition run_deposit :: deposit_accounts where
  "run_deposit = \<lparr>dl_user = lp_w, dl_protocol_config = run_config,
        dl_market = run_market, dl_user_liquidity = liquidity_key reference_env lp_w,
        dl_pool_token_account = run_pool, dl_user_token_account = lp_token,
        dl_collateral_mint = usdc, dl_token_program = token_program_id reference_env\<rparr>"

lemma run_load_deposit:
  "load_deposit reference_env [lp_w] run_deposit run3 = Inr \<lparr>dll_market = fresh_market,
     dll_liquidity = \<lparr>ul_markets = []\<rparr>, dll_pool = fresh_token_account run_market usdc\<rparr>"
  by (simp add: load_deposit_def run_deposit_def run3_def run2_def run1_def run0_def run_defs
    reference_env_def load_defs fresh_market_def fresh_token_account_def)

lemma run_deposit_transfer:
  "token_transfer reference_env \<lparr>tr_from = lp_token, tr_to = run_pool, tr_authority = lp_w, tr_signers = [lp_w],
     tr_amount = 100000000000\<rparr> (st_tokens run3) = Inr (st_tokens run4)"
  by (simp add: run4_def run3_def run2_def run1_def run0_def run_defs
    reference_env_def reference_transfer_def fresh_token_account_def fun_upd_twist)

lemma run_step4: "process reference_env [lp_w] (DepositLiquidity run_deposit 100000000000 1) run3 = Inr run4"
  using run_deposit_transfer run_deposit_shares run_credit_shares
  by (simp add: deposit_liquidity_def run_load_deposit fresh_token_account_def)
    (simp add: run_deposit_def cpi_def run4_def emit_def run3_def run2_def run1_def run0_def fresh_market_def funded_market_def)

section \<open>A position\<close>

definition run5 :: chain where
  "run5 = run4\<lparr>st_positions := [positions_key reference_env trader_w \<mapsto> \<lparr>up_positions = []\<rparr>]\<rparr>"

lemma run_step5:
  "process reference_env [trader_w] (InitializeUserPositions \<lparr>ua_user = trader_w, ua_account = positions_key reference_env trader_w\<rparr>)
     run4 = Inr run5"
  by (simp add: run5_def run4_def run3_def run2_def run1_def run0_def run_defs reference_env_def
    initialize_user_positions_def load_defs cpi_unit_def)

definition run_open :: open_accounts where
  "run_open = \<lparr>op_user = trader_w, op_session_signer = session_w, op_protocol_config = run_config,
     op_market = run_market, op_user_positions = positions_key reference_env trader_w,
     op_pool_token_account = run_pool, op_derived_fee_authority = run_fee_authority,
     op_fee_token_account = run_fees, op_user_token_account = trader_token,
     op_payout_escrow_token_account = run_escrow, op_collateral_mint = usdc,
     op_price_update = oracle_k, op_token_program = token_program_id reference_env,
     op_crank_signer = settlement_crank_signer reference_env run_market,
     op_magic_program = magic_program_id reference_env, op_session_token = Some [0, 14]\<rparr>"

definition run_args :: open_args where
  "run_args = \<lparr>oa_nonce = 0, oa_task_salt = [1], oa_direction = Up, oa_collateral = 1000000,
     oa_min_entry_price = 99999, oa_max_entry_price = 100001\<rparr>"

definition run_price :: "i64 \<Rightarrow> i64 \<Rightarrow> price" where
  "run_price price time = \<lparr>pr_price = price, pr_conf = 1, pr_exponent = 8, pr_publish_time = time\<rparr>"

definition run_position :: compact_position where
  "run_position = \<lparr>pos_market_id = 0, pos_nonce = 0, pos_task_salt = [1], pos_collateral = 1000000,
     pos_entry_price = 100000, pos_expires_at = 1010, pos_direction = Up\<rparr>"

definition risk_market :: market where
  "risk_market = funded_market\<lparr>mkt_risk_epoch_equity := 100000000000, mkt_open_collateral := 1000000,
     mkt_active_positions := 1, mkt_next_position_nonce := 1\<rparr>"

definition run_loaded :: open_loaded where
  "run_loaded = \<lparr>ol_market = funded_market, ol_positions = \<lparr>up_positions = []\<rparr>,
     ol_pool = (fresh_token_account run_market usdc)\<lparr>ta_amount := 100000000000\<rparr>,
     ol_user_token = \<lparr>ta_mint = usdc, ta_owner = trader_w, ta_amount = 5000000,
       ta_delegate = Some session_w, ta_delegated_amount = 5000000, ta_state = Initialized\<rparr>\<rparr>"

lemmas run_states = run5_def run4_def run3_def run2_def run1_def run0_def

lemma run_load_open: "load_open reference_env [session_w] run_open run5 = Inr run_loaded"
  by (simp add: load_open_def run_open_def run_loaded_def run_states run_defs
    reference_env_def load_defs require_session_def fresh_market_def funded_market_def fresh_token_account_def
    settlement_crank_signer_def)

lemma run_price5: "read_oracle_price reference_env run5 oracle_k feed_k = Inr (Some (run_price 100000 1000))"
  unfolding oracle_gate
  by (simp add: run_states run_defs reference_env_def run_price_def const_defs fresh_price_def tight_price_def)

lemma run_admit:
  "admit_position reference_env run_open run_args run_loaded run5 =
     Inr (run_price 100000 1000, 100000000000, 1000000)"
proof -
  have o: "op_price_update run_open = oracle_k" "mkt_oracle_feed_id funded_market = feed_k"
    by (simp_all add: run_open_def funded_market_def fresh_market_def)
  have m: "mkt_mode funded_market = Open" "mkt_next_position_nonce funded_market = 0"
    "mkt_active_positions funded_market = 0" "mkt_total_shares funded_market = 100000000000"
    "mkt_open_collateral funded_market = 0"
    by (simp_all add: funded_market_def fresh_market_def)
  have c: "bounded_risk_epoch_equity 100000000000 MAX_MARKET_EQUITY = 100000000000"
    by (simp add: bounded_risk_epoch_equity_def MAX_MARKET_EQUITY_def)
  have g: "require_collateral_bounds 1000000 MIN_POSITION_COLLATERAL MAX_POSITION_COLLATERAL = Inr ()"
    "require_market_financial_capacity 0 = Inr ()" "require_capacity \<lparr>up_positions = []\<rparr> = Inr ()"
    "require_session_token_delegate (Some session_w) 5000000 session_w 1000000 = Inr ()"
    "require_open_liquidity 100000000000 100000000000 100000000000 MIN_MARKET_EQUITY = Inr ()"
    "open_collateral \<lparr>up_positions = []\<rparr> i = Inr 0" for i
    by (simp_all add: require_collateral_bounds_def require_market_financial_capacity_def
      require_capacity_def require_session_token_delegate_def require_open_liquidity_def
      open_collateral_def const_defs)
  have u: "require_user_open_collateral_capacity 0 1000000 100000000000 USER_OPEN_COLLATERAL_BPS = Inr 1000000"
    by (simp add: require_user_open_collateral_capacity_def const_defs checked_add_def checked_mul_def)
  have s: "require_post_open_solvency 100000000000 0 1000000 SAFETY_BUFFER_BPS = Inr ()"
    by (simp add: require_post_open_solvency_def const_defs checked_add_def checked_mul_def checked_div_def)
  have a: "checked_add (0 :: u64) 1000000 = Some 1000000" by (simp add: checked_add_def)
  show ?thesis
    unfolding admit_position_def Let_def
    by (simp add: run_loaded_def o m run_price5 c g s u a run_args_def zero32_list)
      (simp add: run_price_def run_open_def g)
qed

definition run6 :: chain where
  "run6 = run5\<lparr>st_tokens := (st_tokens run4)(
       trader_token \<mapsto> \<lparr>ta_mint = usdc, ta_owner = trader_w, ta_amount = 4000000,
          ta_delegate = Some session_w, ta_delegated_amount = 5000000, ta_state = Initialized\<rparr>,
       run_pool \<mapsto> (fresh_token_account run_market usdc)\<lparr>ta_amount := 100001000000\<rparr>),
     st_markets := [run_market \<mapsto> risk_market],
     st_positions := [positions_key reference_env trader_w \<mapsto> \<lparr>up_positions = [run_position]\<rparr>],
     st_tasks := [\<lparr>sr_authority = run_market,
        sr_task_id = settlement_task_id reference_env run_market trader_w 0 [1],
        sr_interval_millis = 1000, sr_iterations = 25,
        sr_instruction = \<lparr>in_program_id = [7],
          in_accounts = settle_account_metas (settlement_accounts_of run_open), in_nonce = 0, in_task_salt = [1]\<rparr>,
        sr_accounts = run_market # map am_pubkey (settle_account_metas (settlement_accounts_of run_open))\<rparr>],
     st_events := [LiquidityDeposited 0 lp_w 100000000000 100000000000,
       PositionCreated 0 0 trader_w 100000 1000000 Up 1010]\<rparr>"

lemma run_schedule:
  "schedule_settlement reference_env run_open funded_market 0 [1] = Inr (hd (st_tasks run6))"
  by (simp add: schedule_settlement_def settlement_instruction_def settle_account_metas_def
    settlement_accounts_of_def run_open_def run6_def funded_market_def fresh_market_def const_defs
    seed_signers_def reference_env_def)
    (simp add: run_defs reference_env_def)

lemma run_open_transfer:
  "token_transfer reference_env \<lparr>tr_from = trader_token, tr_to = run_pool, tr_authority = session_w,
     tr_signers = [session_w], tr_amount = 1000000\<rparr> (st_tokens run5) = Inr (st_tokens run6)"
  by (simp add: run6_def run_states run_defs reference_env_def reference_transfer_def
    fresh_token_account_def fun_upd_twist)

lemma run_step6: "process reference_env [session_w] (OpenPosition run_open run_args) run5 = Inr run6"
proof -
  have v: "compact_position_values 1000000 1010 = Inr (1000000, 1010)"
    by (simp add: compact_position_values_def try_from_unsigned_def try_from_signed_def)
  have x: "schecked_add (1000 :: i64) 10 = Some 1010" by (simp add: schecked_add_def checked_of_int_def signed_fits_def)
  have o: "op_user_token_account run_open = trader_token" "op_pool_token_account run_open = run_pool"
    "op_session_signer run_open = session_w" "op_market run_open = run_market"
    "op_user_positions run_open = positions_key reference_env trader_w" "op_user run_open = trader_w"
    by (simp_all add: run_open_def)
  have n: "st_now run5 = 1000" by (simp add: run_states)
  have ad: "checked_add (0 :: u32) 1 = Some 1" by (simp add: checked_add_def)
  have m: "mkt_active_positions funded_market = 0" "mkt_market_id funded_market = 0"
    by (simp_all add: funded_market_def fresh_market_def)
  have l: "ol_market run_loaded = funded_market" "ol_positions run_loaded = \<lparr>up_positions = []\<rparr>"
    "oa_collateral run_args = 1000000" "oa_nonce run_args = 0" "oa_task_salt run_args = [1]"
    "oa_direction run_args = Up" "pr_price (run_price p t) = p" for p t
    by (simp_all add: run_loaded_def run_args_def run_price_def)
  show ?thesis
    unfolding process.simps open_position_def Let_def
    by (simp add: run_load_open run_admit o n m v x ad POSITION_DURATION_SECONDS_def l
      run_schedule run_open_transfer cpi_def)
      (simp add: run6_def run_states emit_def run_position_def risk_market_def funded_market_def fresh_market_def)
qed

text \<open>The price moves up by one basis point and is published at the position's expiry.\<close>

definition run7 :: chain where
  "run7 = run6\<lparr>st_now := 1010, st_prices := [oracle_k \<mapsto> \<lparr>pa_owner = oracle_program_id reference_env, pa_update = Some
        \<lparr>pu_feed_id = feed_k, pu_verification_level = [], pu_price = 100010, pu_conf = 1,
         pu_exponent = 8, pu_publish_time = 1010, pu_posted_slot = 1\<rparr>\<rparr>]\<rparr>"

lemma run_step7: "chain_step reference_env run6 run7"
proof -
  have "run7 = run6\<lparr>st_now := 1010, st_tokens := st_tokens run6, st_prices := st_prices run7,
     st_mints := st_mints run6, st_upgrade_authority := st_upgrade_authority run6\<rparr>"
    by (simp add: run7_def)
  moreover have "sint (st_now run6) \<le> sint (1010 :: i64)" by (simp add: run6_def run_states)
  moreover have "external_tokens reference_env (st_tokens run6) (st_tokens run6)"
    by (simp add: external_tokens_def)
  ultimately show ?thesis using chain_step.environment by metis
qed

abbreviation run_settle :: settle_accounts where "run_settle \<equiv> settlement_accounts_of run_open"

lemmas run_settle_defs = settlement_accounts_of_def run_open_def

definition closed_market :: market where
  "closed_market = risk_market\<lparr>mkt_open_collateral := 0, mkt_active_positions := 0\<rparr>"

definition run8 :: chain where
  "run8 = run7\<lparr>st_tokens := (st_tokens run6)(
       run_fees \<mapsto> (fresh_token_account run_fee_authority usdc)\<lparr>ta_amount := 2000\<rparr>,
       run_pool \<mapsto> (fresh_token_account run_market usdc)\<lparr>ta_amount := 99999908000\<rparr>,
       trader_token \<mapsto> \<lparr>ta_mint = usdc, ta_owner = trader_w, ta_amount = 5090000,
          ta_delegate = Some session_w, ta_delegated_amount = 5000000, ta_state = Initialized\<rparr>),
     st_markets := [run_market \<mapsto> closed_market],
     st_positions := [positions_key reference_env trader_w \<mapsto> \<lparr>up_positions = []\<rparr>],
     st_events := st_events run6 @ [PositionClosed 0 0 Won 1090000 8000 2000]\<rparr>"

lemma run_load_settle: "load_settle reference_env [settlement_crank_signer reference_env run_market] run_settle run7 =
    Inr \<lparr>sl_market = risk_market, sl_positions = \<lparr>up_positions = [run_position]\<rparr>\<rparr>"
  by (simp add: load_settle_def run_settle_defs run7_def run6_def run_states run_defs
    reference_env_def load_defs fresh_market_def funded_market_def risk_market_def fresh_token_account_def
    settlement_crank_signer_def)

lemma run_price7: "read_oracle_price reference_env run7 oracle_k feed_k = Inr (Some (run_price 100010 1010))"
  unfolding oracle_gate
  by (simp add: run7_def run6_def run_states run_defs reference_env_def run_price_def const_defs fresh_price_def tight_price_def)

lemma run_amounts:
  "calculate_settlement 1000000 100000 100010 Up LEVERAGE PROFIT_FEE_BPS PROTOCOL_FEE_SHARE_BPS =
     Inr \<lparr>sa_user_payout = 1090000, sa_protocol_fee = 2000, sa_lp_fee = 8000, sa_gross_profit = 100000, sa_loss = 0\<rparr>"
proof -
  have raw: "schecked_sub (100010 :: i128) 100000 = Some 10"
    "schecked_mul (1000000 :: i128) 1000 = Some 1000000000"
    "schecked_mul (1000000000 :: i128) 10 = Some 10000000000"
    "schecked_div (10000000000 :: i128) 100000 = Some 100000"
    by (simp_all add: schecked_sub_def schecked_mul_def schecked_div_def checked_of_int_def signed_fits_def)
  show ?thesis
    by (simp add: calculate_settlement_def const_defs raw winning_amounts_def checked_mul_def checked_div_def
      checked_add_def checked_sub_def smin_def try_from_signed_def try_from_unsigned_def)
qed


lemma run_terms:
  "settlement_terms_of reference_env run_settle risk_market run_position [1] run7 = Inr (Some (1090000, 2000, 8000, Won))"
proof -
  have x: "schecked_add (1010 :: i64) 10 = Some 1020"
    by (simp add: schecked_add_def checked_of_int_def signed_fits_def)
  have f: "sp_price_update run_settle = oracle_k" "mkt_oracle_feed_id risk_market = feed_k" "st_now run7 = 1010"
    by (simp_all add: run_settle_defs risk_market_def funded_market_def fresh_market_def run7_def)
  show ?thesis
    unfolding settlement_terms_of_def priced_terms_def f run_price7 Let_def
    by (simp add: run_position_def SETTLEMENT_BUFFER_SECONDS_def x run_price_def run_amounts outcome_of_def)
qed

lemma run_pay:
  "pay_settlement reference_env [settlement_crank_signer reference_env run_market] run_settle risk_market 1090000 2000 run7 = Inr (st_tokens run8)"
  by (simp add: pay_settlement_def market_transfer_def run_settle_defs run8_def run7_def run6_def run_states run_defs
    reference_env_def reference_transfer_def seed_signers_def risk_market_def funded_market_def fresh_market_def
    fresh_token_account_def fun_upd_twist is_usable_payout_destination_def cpi_def)

lemma run_step8:
  "process reference_env [settlement_crank_signer reference_env run_market] (SettlePosition run_settle 0 [1]) run7 = Inr run8"
proof -
  have m: "mkt_market_id risk_market = 0" "mkt_open_collateral risk_market = 1000000"
    "mkt_active_positions risk_market = 1" by (simp_all add: risk_market_def funded_market_def fresh_market_def)
  have i: "position_index \<lparr>up_positions = [run_position]\<rparr> 0 0 = Some 0"
    by (simp add: position_index_def run_position_def)
  have p: "pos_collateral run_position = 1000000" by (simp add: run_position_def)
  have c: "checked_sub (1000000 :: u64) 1000000 = Some 0" "checked_sub (1 :: u32) 1 = Some 0"
    by (simp_all add: checked_sub_def)
  have a: "sp_market run_settle = run_market" "sp_user_positions run_settle = positions_key reference_env trader_w"
    by (simp_all add: run_settle_defs)
  show ?thesis
    by (simp add: settle_position_def run_load_settle m i p c a run_terms run_pay)
      (simp add: run8_def emit_def run7_def run6_def closed_market_def swap_remove_def)
qed


section \<open>The states of the run are reachable\<close>

lemma run_wallets:
  "\<not> program_address reference_env admin_w" "\<not> program_address reference_env lp_w" "\<not> program_address reference_env trader_w"
  "\<not> program_address reference_env session_w" "\<not> program_address reference_env (settlement_crank_signer reference_env run_market)"
  unfolding reference_program_address
  by (simp_all add: run_defs settlement_crank_signer_def reference_env_def)

lemma run_initial: "initial_chain reference_env run0"
  unfolding initial_chain_def no_delegates_def reference_program_address
  by (simp add: run0_def run_defs reference_env_def fresh_token_account_def)

lemma run_reach_instruction:
  assumes "chain_reachable reference_env st" "process reference_env [s] r st = Inr st'" "\<not> program_address reference_env s"
  shows "chain_reachable reference_env st'"
  using assms(1) unfolding chain_reachable_def
  by (rule reachable.next_step) (use assms(2,3) in \<open>auto intro: chain_step.instruction\<close>)

lemma run_reachable:
  "chain_reachable reference_env run0" "chain_reachable reference_env run1" "chain_reachable reference_env run2" "chain_reachable reference_env run3"
  "chain_reachable reference_env run4" "chain_reachable reference_env run5" "chain_reachable reference_env run6" "chain_reachable reference_env run7"
  "chain_reachable reference_env run8"
proof -
  show r0: "chain_reachable reference_env run0"
    unfolding chain_reachable_def by (rule reachable.start) (simp add: run_initial reference_env_laws)
  note step = run_reach_instruction
  show r1: "chain_reachable reference_env run1" by (rule step [OF r0 run_step1 run_wallets(1)])
  show r2: "chain_reachable reference_env run2" by (rule step [OF r1 run_step2 run_wallets(1)])
  show r3: "chain_reachable reference_env run3" by (rule step [OF r2 run_step3 run_wallets(2)])
  show r4: "chain_reachable reference_env run4" by (rule step [OF r3 run_step4 run_wallets(2)])
  show r5: "chain_reachable reference_env run5" by (rule step [OF r4 run_step5 run_wallets(3)])
  show r6: "chain_reachable reference_env run6" by (rule step [OF r5 run_step6 run_wallets(4)])
  show r7: "chain_reachable reference_env run7"
    using r6 run_step7 unfolding chain_reachable_def by (rule reachable.next_step)
  show "chain_reachable reference_env run8" by (rule step [OF r7 run_step8 run_wallets(5)])
qed


text \<open>The branch of the run in which no price arrives before the settlement window closes.\<close>

definition run7_late :: chain where
  "run7_late = run6\<lparr>st_now := 1020\<rparr>"

lemma run7_late_reachable: "chain_reachable reference_env run7_late"
proof -
  have "run7_late = run6\<lparr>st_now := 1020, st_tokens := st_tokens run6, st_prices := st_prices run6,
     st_mints := st_mints run6, st_upgrade_authority := st_upgrade_authority run6\<rparr>"
    by (simp add: run7_late_def)
  moreover have "sint (st_now run6) \<le> sint (1020 :: i64)" by (simp add: run6_def run_states)
  moreover have "external_tokens reference_env (st_tokens run6) (st_tokens run6)"
    by (simp add: external_tokens_def)
  ultimately have "chain_step reference_env run6 run7_late" using chain_step.environment by metis
  then show ?thesis using run_reachable(7) unfolding chain_reachable_def by (rule reachable.next_step [rotated])
qed

end
