(* ===== verification/Solvency.thy ===== *)
theory Solvency
  imports Reference_Run
begin

text \<open>
  What the invariant of the chain means for the people who use the program: pools are solvent,
  counters are exact, positions are uniquely identified, a settlement whose terms say to pay does
  pay, and a refund cannot be withheld. Each theorem is about reachable chains and is applied to
  the run of \<open>Reference_Run\<close>.
\<close>


section \<open>What every reachable chain satisfies\<close>

text \<open>C1: Pool solvency. In every reachable chain, whatever the transactions, prices and foreign token
  movements were, each market's pool account exists, belongs to the market and holds at least six
  times the collateral of all open positions: the most they can be paid at settlement.\<close>
theorem pool_solvency:
  assumes "chain_reachable e st" "st_markets st k = Some m"
  shows "\<exists>c t. st_configs st (config_key e) = Some c
    \<and> st_tokens st (associated_token_address e k (cfg_collateral_mint c)) = Some t
    \<and> ta_owner t = k \<and> 6 * unat (mkt_open_collateral m) \<le> unat (ta_amount t)"
proof -
  have "inv_keys e st" "pool_covered e st"
    using reachable_chain_inv [OF assms(1)] by (simp_all add: chain_inv_def inv_pools_def)
  moreover from this(1) obtain c where "st_configs st (config_key e) = Some c"
    using assms(2) unfolding inv_keys_def by blast
  ultimately show ?thesis using assms(2) by (auto simp: pool_covered_def holds_def)
qed

lemma run6_market: "st_markets run6 run_market = Some risk_market"
  by (simp add: run6_def)

theorem pool_solvency_witness:
  "\<exists>c t. st_configs run6 (config_key reference_env) = Some c
    \<and> st_tokens run6 (associated_token_address reference_env run_market (cfg_collateral_mint c)) = Some t
    \<and> 6000000 \<le> unat (ta_amount t)"
proof -
  have "unat (mkt_open_collateral risk_market) = 1000000" by (simp add: risk_market_def)
  then show ?thesis using pool_solvency [OF run_reachable(7) run6_market] by auto
qed

text \<open>C10: Exact accounting. In every reachable chain a market's counters are the totals over the
  accounts of all users: its open collateral is the sum of the open positions' collaterals, its
  active positions are their number, never more than eight, and its share supply is the sum of
  the liquidity providers' shares.\<close>
theorem counters_are_totals:
  assumes "chain_reachable e st" "st_markets st k = Some m"
  shows "unat (mkt_open_collateral m) =
      (\<Sum>p \<in># filter_mset (in_market (mkt_market_id m)) (open_positions st). unat (pos_collateral p))
    \<and> unat (mkt_active_positions m) =
        size (filter_mset (in_market (mkt_market_id m)) (open_positions st))
    \<and> mkt_active_positions m \<le> MAX_MARKET_FINANCIALLY_ACTIVE_POSITIONS
    \<and> unat (mkt_total_shares m) =
        (\<Sum>x \<in># filter_mset (entry_in (mkt_market_id m)) (share_entries st). unat (ml_shares x))"
proof -
  have I: "inv_risk st" "inv_shares st"
    using reachable_chain_inv [OF assms(1)] by (simp_all add: chain_inv_def)
  have R: "unat (mkt_open_collateral m) = collateral_in (mkt_market_id m) (open_positions st)"
    "unat (mkt_active_positions m) = count_where (in_market (mkt_market_id m)) (open_positions st)"
    "count_where (in_market (mkt_market_id m)) (open_positions st) \<le> 8"
    "unat (mkt_total_shares m) = shares_in (mkt_market_id m) (share_entries st)"
    using I assms(2) by (auto simp: inv_risk_def inv_shares_def)
  have "mkt_active_positions m \<le> MAX_MARKET_FINANCIALLY_ACTIVE_POSITIONS"
    using R(2,3) by (simp add: word_le_nat_alt MAX_MARKET_FINANCIALLY_ACTIVE_POSITIONS_def)
  then show ?thesis
    using R by (simp add: collateral_in_def shares_in_def total_where_def count_where_def)
qed


theorem counters_are_totals_witness:
  "size (filter_mset (in_market 0) (open_positions run6)) = 1"
  using counters_are_totals [OF run_reachable(7) run6_market]
  by (simp add: risk_market_def funded_market_def fresh_market_def
    MAX_MARKET_FINANCIALLY_ACTIVE_POSITIONS_def)

text \<open>C11: Identity of positions. In every reachable chain no two open positions of all users together
  have the same market and nonce, each belongs to an existing market whose next nonce is larger
  than its own, and each is one the admission checks allow: collateral within bounds, a positive
  entry price and a nonzero task salt.\<close>
theorem positions_identified:
  assumes "chain_reachable e st"
  shows "(\<forall>p \<in># open_positions st. position_wf p \<and>
        (\<exists>k m. st_markets st k = Some m \<and> mkt_market_id m = pos_market_id p
             \<and> pos_nonce p < mkt_next_position_nonce m))
   \<and> (\<forall>i n. size (filter_mset (has_id i n) (open_positions st)) \<le> 1)
   \<and> (\<forall>k up. st_positions st k = Some up \<longrightarrow> length (up_positions up) \<le> 8)"
proof -
  have "inv_positions st" "inv_risk st"
    using reachable_chain_inv [OF assms] by (simp_all add: chain_inv_def)
  then show ?thesis
    by (simp add: inv_positions_def inv_risk_def count_where_def USER_POSITIONS_CAPACITY_def)
qed

theorem positions_identified_witness:
  "run_position \<in># open_positions run6 \<and> position_wf run_position
     \<and> size (filter_mset (has_id 0 0) (open_positions run6)) \<le> 1"
proof -
  have "run_position \<in># open_positions run6"
    by (simp add: open_positions_def map_elems_def run6_def)
  then show ?thesis using positions_identified [OF run_reachable(7)] by blast
qed

text \<open>C23: Withdrawable shares. In every reachable chain a provider has at most one entry per market,
  never an empty one, and never asks to withdraw more shares than the entry holds.\<close>
theorem liquidity_entries_sound:
  assumes "chain_reachable e st" "st_liquidity st k = Some ul"
  shows "distinct (map ml_market_id (ul_markets ul)) \<and> length (ul_markets ul) \<le> 8
    \<and> (\<forall>x \<in> set (ul_markets ul). 0 < ml_shares x \<and> ml_pending_withdrawal_shares x \<le> ml_shares x
         \<and> (\<exists>j m. st_markets st j = Some m \<and> mkt_market_id m = ml_market_id x
              \<and> ml_shares x \<le> mkt_total_shares m))"
proof -
  have I: "inv_shares st" "inv_keys e st"
    using reachable_chain_inv [OF assms(1)] by (simp_all add: chain_inv_def)
  have wf: "liquidity_wf ul" using I(1) assms(2) unfolding inv_shares_def by blast
  have "\<exists>j m. st_markets st j = Some m \<and> mkt_market_id m = ml_market_id x \<and> ml_shares x \<le> mkt_total_shares m"
    if x: "x \<in> set (ul_markets ul)" for x
  proof -
    have mem: "x \<in># share_entries st"
      using I(2) x assms(2) map_elems_memI [of "st_liquidity st" k ul x ul_markets]
      by (simp add: share_entries_def inv_keys_def)
    then obtain j m where m: "st_markets st j = Some m" "mkt_market_id m = ml_market_id x"
      using I(1) unfolding inv_shares_def by blast
    have "unat (mkt_total_shares m) = shares_in (ml_market_id x) (share_entries st)"
      using I(1) m unfolding inv_shares_def by metis
    moreover have "unat (ml_shares x) \<le> shares_in (ml_market_id x) (share_entries st)"
      unfolding shares_in_def by (rule total_where_memI [OF mem, of _ "\<lambda>x. unat (ml_shares x)"]) (simp add: entry_in_def)
    ultimately have "ml_shares x \<le> mkt_total_shares m" by (simp add: word_le_nat_alt)
    then show ?thesis using m by blast
  qed
  then show ?thesis
    using wf by (simp add: liquidity_wf_def USER_LIQUIDITY_MARKET_CAPACITY_def)
qed


theorem liquidity_entries_sound_witness:
  "\<exists>j m. st_markets run6 j = Some m \<and> 100000000000 \<le> mkt_total_shares m"
proof -
  have "st_liquidity run6 (liquidity_key reference_env lp_w) = Some \<lparr>ul_markets = [\<lparr>ml_market_id = 0,
        ml_shares = 100000000000, ml_pending_withdrawal_shares = 0, ml_min_assets_out = 0\<rparr>]\<rparr>"
    by (simp add: run6_def run5_def run4_def)
  from liquidity_entries_sound [OF run_reachable(7) this] show ?thesis by auto
qed

section \<open>Payments that cannot fail\<close>

text \<open>An account that can take \<open>n\<close> more of the mint.\<close>

definition can_receive :: "tokens \<Rightarrow> pubkey \<Rightarrow> pubkey \<Rightarrow> nat \<Rightarrow> bool" where
  "can_receive ts k mint n \<longleftrightarrow>
     (\<exists>t. ts k = Some t \<and> ta_mint t = mint \<and> ta_state t = Initialized \<and> unat (ta_amount t) + n < 2 ^ 64)"

definition balance :: "tokens \<Rightarrow> pubkey \<Rightarrow> nat" where
  "balance ts k = (case ts k of None \<Rightarrow> 0 | Some t \<Rightarrow> unat (ta_amount t))"

lemma can_receive_mono: "can_receive ts k mint n \<Longrightarrow> n' \<le> n \<Longrightarrow> can_receive ts k mint n'"
  unfolding can_receive_def by fastforce

lemma transfer_can_receive:
  assumes "transfer_effect r ts ts'" "can_receive ts k mint (n + unat (tr_amount r))"
  shows "can_receive ts' k mint n"
proof -
  obtain t where t: "ts k = Some t" "ta_mint t = mint" "ta_state t = Initialized"
    "unat (ta_amount t) + n + unat (tr_amount r) < 2 ^ 64"
    using assms(2) by (auto simp: can_receive_def add.assoc)
  have "\<exists>t'. ts' k = Some t' \<and> same_token_account t t' \<and> unat (ta_amount t') \<le> unat (ta_amount t) + unat (tr_amount r)"
    using assms(1) t(1) unfolding transfer_effect_def
    by (cases "k = tr_from r"; cases "k = tr_to r") (auto simp: same_token_account_def split: if_splits)
  then show ?thesis using t by (fastforce simp: can_receive_def same_token_account_def)
qed

lemma transfer_usable:
  assumes "transfer_effect r (st_tokens st) ts'"
  shows "is_usable_payout_destination (st\<lparr>st_tokens := ts'\<rparr>) k mint = is_usable_payout_destination st k mint"
proof (cases "k = tr_from r \<or> k = tr_to r")
  case True
  then obtain t t' where "st_tokens st k = Some t" "ts' k = Some t'" "same_token_account t t'"
    using assms unfolding transfer_effect_def by blast
  then show ?thesis by (simp add: is_usable_payout_destination_def same_token_account_def)
next
  case False
  then have "ts' k = st_tokens st k" using assms unfolding transfer_effect_def by metis
  then show ?thesis by (simp add: is_usable_payout_destination_def)
qed

lemma transfer_balance:
  assumes "transfer_effect r ts ts'" "tr_from r \<noteq> tr_to r"
  shows "balance ts' (tr_from r) = balance ts (tr_from r) - unat (tr_amount r)"
    "balance ts' (tr_to r) = balance ts (tr_to r) + unat (tr_amount r)"
    "k \<noteq> tr_from r \<Longrightarrow> k \<noteq> tr_to r \<Longrightarrow> balance ts' k = balance ts k"
  using assms unfolding transfer_effect_def balance_def by auto

lemma holds_balance: "holds ts k owner n \<Longrightarrow> n \<le> balance ts k"
  by (auto simp: holds_def balance_def)

text \<open>A transfer out of a market's pool that the pool can pay.\<close>

lemma market_transfer_total:
  assumes laws: "token_laws e"
    and seed: "create_program_address e (market_seeds (mkt_market_id m) @ [[mkt_bump m]]) = Some mk"
    and pool: "holds ts from mk (unat n)" "can_receive ts from mint 0"
    and dest: "can_receive ts to mint (unat n)" "from \<noteq> to"
  obtains ts' r where "market_transfer e signers mk m from to n ts = Inr ts'"
    "tr_from r = from" "tr_to r = to" "tr_amount r = n" "transfer_effect r ts ts'"
proof -
  define r where "r = \<lparr>tr_from = from, tr_to = to, tr_authority = mk,
        tr_signers = signers @ seed_signers e (market_seeds (mkt_market_id m) @ [[mkt_bump m]]),
        tr_amount = n\<rparr>"
  have "mk \<in> set (tr_signers r)" by (simp add: r_def seed_signers_def seed)
  then have "transfer_enabled r ts"
    using pool dest(1) unfolding transfer_enabled_def holds_def can_receive_def
    by (auto simp: r_def word_le_nat_alt)
  then obtain ts' where ts': "token_transfer e r ts = Inr ts'" using token_lawsD(2) [OF laws] by blast
  then have "market_transfer e signers mk m from to n ts = Inr ts'"
    by (simp add: market_transfer_def r_def [symmetric] cpi_def)
  moreover have "transfer_effect r ts ts'" by (rule token_lawsD(1) [OF laws ts'])
  ultimately show thesis using that [of ts' r] by (simp add: r_def)
qed

text \<open>The account a settlement pays to.\<close>

definition payout_destination :: "settle_accounts \<Rightarrow> chain \<Rightarrow> pubkey" where
  "payout_destination a st =
     (if is_usable_payout_destination st (sp_user_token_account a) (sp_collateral_mint a)
      then sp_user_token_account a else sp_payout_escrow_token_account a)"

lemma pay_settlement_total:
  assumes laws: "token_laws e"
    and seed: "create_program_address e (market_seeds (mkt_market_id m) @ [[mkt_bump m]]) = Some (sp_market a)"
    and pool: "holds (st_tokens st) (sp_pool_token_account a) (sp_market a) (unat pay + unat pf)"
      "can_receive (st_tokens st) (sp_pool_token_account a) (sp_collateral_mint a) (unat pf)"
    and fee: "can_receive (st_tokens st) (sp_fee_token_account a) (sp_collateral_mint a) (unat pf)"
      "sp_fee_token_account a \<noteq> sp_pool_token_account a"
    and dest: "can_receive (st_tokens st) (payout_destination a st) (sp_collateral_mint a) (unat pay + unat pf)"
      "payout_destination a st \<noteq> sp_pool_token_account a" "payout_destination a st \<noteq> sp_fee_token_account a"
  obtains ts where "pay_settlement e signers a m pay pf st = Inr ts"
    "balance ts (payout_destination a st) = balance (st_tokens st) (payout_destination a st) + unat pay"
    "balance ts (sp_fee_token_account a) = balance (st_tokens st) (sp_fee_token_account a) + unat pf"
    "balance ts (sp_pool_token_account a) = balance (st_tokens st) (sp_pool_token_account a) - unat pf - unat pay"
proof -
  let ?pool = "sp_pool_token_account a" and ?fee = "sp_fee_token_account a" and ?mint = "sp_collateral_mint a"
    and ?dest = "payout_destination a st"
  obtain ts1 where t1: "(if 0 < pf then market_transfer e signers (sp_market a) m ?pool ?fee pf (st_tokens st)
        else Inr (st_tokens st)) = Inr ts1"
    and h1: "holds ts1 ?pool (sp_market a) (unat pay)" "can_receive ts1 ?pool ?mint 0"
      "can_receive ts1 ?dest ?mint (unat pay)" "payout_destination a (st\<lparr>st_tokens := ts1\<rparr>) = ?dest"
    and b1: "balance ts1 ?dest = balance (st_tokens st) ?dest"
      "balance ts1 ?fee = balance (st_tokens st) ?fee + unat pf"
      "balance ts1 ?pool = balance (st_tokens st) ?pool - unat pf"
  proof (cases "0 < pf")
    case True
    have "holds (st_tokens st) ?pool (sp_market a) (unat pf)" by (rule holds_mono [OF pool(1)]) simp
    moreover have "can_receive (st_tokens st) ?pool ?mint 0" by (rule can_receive_mono [OF pool(2)]) simp
    ultimately obtain ts1 r where r: "market_transfer e signers (sp_market a) m ?pool ?fee pf (st_tokens st) = Inr ts1"
      "tr_from r = ?pool" "tr_to r = ?fee" "tr_amount r = pf" "transfer_effect r (st_tokens st) ts1"
      using fee(2) by (elim market_transfer_total [OF laws seed _ _ fee(1)]) auto
    show thesis
    proof (rule that [of ts1])
      show "holds ts1 ?pool (sp_market a) (unat pay)"
        using transfer_holds_from [OF r(5), unfolded r(2,4), OF pool(1)] by simp
      show "can_receive ts1 ?pool ?mint 0" "can_receive ts1 ?dest ?mint (unat pay)"
        using transfer_can_receive [OF r(5), unfolded r(4)] pool(2) dest(1) by simp_all
      show "payout_destination a (st\<lparr>st_tokens := ts1\<rparr>) = ?dest"
        by (simp add: payout_destination_def transfer_usable [OF r(5)])
      show "balance ts1 ?dest = balance (st_tokens st) ?dest"
        "balance ts1 ?fee = balance (st_tokens st) ?fee + unat pf"
        "balance ts1 ?pool = balance (st_tokens st) ?pool - unat pf"
        using transfer_balance [OF r(5), unfolded r(2-4)] fee(2) dest(2,3) by auto
    qed (use True r in simp)
  next
    case False
    then have pf: "unat pf = 0" by (simp add: word_less_nat_alt)
    show thesis
      by (rule that [of "st_tokens st"])
        (use pool(1) pool(2) dest(1) in \<open>simp_all add: False pf\<close>)
  qed
  show thesis
  proof (cases "0 < pay")
    case True
    obtain ts2 r where r: "market_transfer e signers (sp_market a) m ?pool ?dest pay ts1 = Inr ts2"
      "tr_from r = ?pool" "tr_to r = ?dest" "tr_amount r = pay" "transfer_effect r ts1 ts2"
      by (rule market_transfer_total [OF laws seed h1(1,2,3)]) (use dest(2) in auto)
    have "pay_settlement e signers a m pay pf st = Inr ts2"
      unfolding pay_settlement_def t1 using True r(1) h1(4) [unfolded payout_destination_def, folded payout_destination_def]
      by (simp add: payout_destination_def)
    then show thesis
      by (rule that) (use transfer_balance [OF r(5), unfolded r(2-4)] b1 dest(2,3) fee(2) in auto)
  next
    case False
    then have "unat pay = 0" by (simp add: word_less_nat_alt)
    moreover have "pay_settlement e signers a m pay pf st = Inr ts1"
      unfolding pay_settlement_def t1 using False by simp
    ultimately show thesis using that [of ts1] b1 by simp
  qed
qed

section \<open>Settlement succeeds\<close>

text \<open>The token accounts of a settlement exist with the collateral's mint, are not frozen and have
  room for \<open>n\<close> more; the user's own account, whatever it is, does not overflow and is neither the
  pool nor the fee account.\<close>

definition settlement_accounts_ready :: "settle_accounts \<Rightarrow> chain \<Rightarrow> nat \<Rightarrow> bool" where
  "settlement_accounts_ready a st n \<longleftrightarrow>
     can_receive (st_tokens st) (sp_pool_token_account a) (sp_collateral_mint a) n
   \<and> can_receive (st_tokens st) (sp_fee_token_account a) (sp_collateral_mint a) n
   \<and> can_receive (st_tokens st) (sp_payout_escrow_token_account a) (sp_collateral_mint a) n
   \<and> balance (st_tokens st) (sp_user_token_account a) + n < 2 ^ 64
   \<and> sp_user_token_account a \<noteq> sp_pool_token_account a
   \<and> sp_user_token_account a \<noteq> sp_fee_token_account a"

lemma payout_destination_ready:
  assumes "settlement_accounts_ready a st n"
    and "distinct [sp_pool_token_account a, sp_payout_escrow_token_account a, sp_fee_token_account a]"
  shows "can_receive (st_tokens st) (payout_destination a st) (sp_collateral_mint a) n"
    "payout_destination a st \<noteq> sp_pool_token_account a" "payout_destination a st \<noteq> sp_fee_token_account a"
  using assms
  by (auto simp: settlement_accounts_ready_def payout_destination_def is_usable_payout_destination_def
      can_receive_def balance_def split: option.splits)

text \<open>What a settlement needs of the chain, from its accounts and the invariant.\<close>

lemma settlement_facts:
  assumes I: "chain_inv e st" and l: "load_settle e signers a st = Inr l"
    and i: "position_index (sl_positions l) (mkt_market_id (sl_market l)) nonce = Some i"
  defines "p \<equiv> up_positions (sl_positions l) ! i"
  shows "create_program_address e (market_seeds (mkt_market_id (sl_market l)) @ [[mkt_bump (sl_market l)]])
      = Some (sp_market a)"
    "st_markets st (sp_market a) = Some (sl_market l)"
    "st_positions st (sp_user_positions a) = Some (sl_positions l)"
    "holds (st_tokens st) (sp_pool_token_account a) (sp_market a) (6 * unat (mkt_open_collateral (sl_market l)))"
    "p \<in># open_positions st" "position_wf p"
    "unat (pos_collateral p) \<le> unat (mkt_open_collateral (sl_market l))"
    "1 \<le> unat (mkt_active_positions (sl_market l))"
    "distinct [sp_pool_token_account a, sp_payout_escrow_token_account a, sp_fee_token_account a]"
proof -
  obtain config pool where C: "load_config e st (sp_protocol_config a) = Inr config"
    "cfg_collateral_mint config = sp_collateral_mint a"
    "load_market e st (sp_market a) = Inr (sl_market l)"
    "load_positions e st (sp_user a) (sp_user_positions a) = Inr (sl_positions l)"
    "load_associated e st (sp_market a) (sp_collateral_mint a) (sp_pool_token_account a) = Inr pool"
    "distinct [sp_pool_token_account a, sp_payout_escrow_token_account a, sp_fee_token_account a]"
    using load_settle_InrD [OF l] by (metis settle_loaded.select_convs)
  note inv = I [unfolded chain_inv_def]
  have keys: "inv_keys e st" and fin: "finite (dom (st_positions st))"
    using inv by (simp_all add: inv_keys_def)
  show seed: "create_program_address e (market_seeds (mkt_market_id (sl_market l)) @ [[mkt_bump (sl_market l)]])
      = Some (sp_market a)" and m: "st_markets st (sp_market a) = Some (sl_market l)"
    using load_market_InrD [OF C(3)] by blast+
  show up: "st_positions st (sp_user_positions a) = Some (sl_positions l)"
    using load_positions_InrD [OF C(4)] by blast
  have "sp_pool_token_account a = pool_key e st (sp_market a)" by (rule pool_keyI(1) [OF keys C(1,2,5)])
  then show "holds (st_tokens st) (sp_pool_token_account a) (sp_market a) (6 * unat (mkt_open_collateral (sl_market l)))"
    using pool_coveredD [OF keys _ m] inv by (simp add: inv_pools_def)
  have idx: "i < length (up_positions (sl_positions l))" "pos_market_id p = mkt_market_id (sl_market l)"
    using position_index_SomeD [OF i] by (simp_all add: p_def)
  show mem: "p \<in># open_positions st"
    unfolding open_positions_def p_def by (rule map_elems_memI [OF fin up]) (use idx(1) in simp)
  then show "position_wf p" using inv by (simp add: inv_positions_def)
  have risk: "unat (mkt_open_collateral (sl_market l)) = collateral_in (mkt_market_id (sl_market l)) (open_positions st)"
    "unat (mkt_active_positions (sl_market l)) = count_where (in_market (mkt_market_id (sl_market l))) (open_positions st)"
    using inv m by (simp_all add: inv_risk_def)
  have "in_market (mkt_market_id (sl_market l)) p" by (simp add: in_market_def idx)
  then show "unat (pos_collateral p) \<le> unat (mkt_open_collateral (sl_market l))"
    "1 \<le> unat (mkt_active_positions (sl_market l))"
    unfolding risk collateral_in_def
    using total_where_memI [OF mem, of _ "\<lambda>p. unat (pos_collateral p)"] count_where_memI [OF mem]
    by (simp_all add: Suc_le_eq)
  show "distinct [sp_pool_token_account a, sp_payout_escrow_token_account a, sp_fee_token_account a]" by (rule C(6))
qed

lemma settlement_total:
  assumes I: "chain_inv e st" and laws: "env_laws e" and l: "load_settle e signers a st = Inr l"
    and i: "position_index (sl_positions l) (mkt_market_id (sl_market l)) nonce = Some i"
    and t: "settlement_terms_of e a (sl_market l) (up_positions (sl_positions l) ! i) salt st
      = Inr (Some (pay, pf, lf, outcome))"
    and ready: "settlement_accounts_ready a st (unat pay + unat pf)"
  shows "\<exists>st'. settle_position e signers a nonce salt st = Inr st'
    \<and> balance (st_tokens st') (payout_destination a st) = balance (st_tokens st) (payout_destination a st) + unat pay
    \<and> balance (st_tokens st') (sp_fee_token_account a) = balance (st_tokens st) (sp_fee_token_account a) + unat pf
    \<and> balance (st_tokens st') (sp_pool_token_account a) + unat pay + unat pf = balance (st_tokens st) (sp_pool_token_account a)
    \<and> add_mset (up_positions (sl_positions l) ! i) (open_positions st') = open_positions st
    \<and> st_events st' = st_events st @ [PositionClosed (mkt_market_id (sl_market l)) nonce outcome pay lf pf]"
proof -
  let ?p = "up_positions (sl_positions l) ! i" and ?m = "sl_market l"
  note F = settlement_facts [OF I l i]
  note D = payout_destination_ready [OF ready F(9)]
  have out: "unat pay + unat pf \<le> 6 * unat (mkt_open_collateral ?m)"
    using settlement_terms_outflow [OF t] F(7) by linarith
  have pool: "holds (st_tokens st) (sp_pool_token_account a) (sp_market a) (unat pay + unat pf)"
    by (rule holds_mono [OF F(4) out])
  have pcr: "can_receive (st_tokens st) (sp_pool_token_account a) (sp_collateral_mint a) (unat pf)"
    and fcr: "can_receive (st_tokens st) (sp_fee_token_account a) (sp_collateral_mint a) (unat pf)"
    using ready unfolding settlement_accounts_ready_def by (auto elim: can_receive_mono)
  obtain ts where ts: "pay_settlement e signers a ?m pay pf st = Inr ts"
    and b: "balance ts (payout_destination a st) = balance (st_tokens st) (payout_destination a st) + unat pay"
    "balance ts (sp_fee_token_account a) = balance (st_tokens st) (sp_fee_token_account a) + unat pf"
    "balance ts (sp_pool_token_account a) = balance (st_tokens st) (sp_pool_token_account a) - unat pf - unat pay"
    by (rule pay_settlement_total [OF env_lawsD(2) [OF laws] F(1) pool pcr fcr _ D]) (use F(9) in auto)
  obtain oc' act where c: "checked_sub (mkt_open_collateral ?m) (ucast (pos_collateral ?p)) = Some oc'"
    "checked_sub (mkt_active_positions ?m) 1 = Some act"
    using F(7,8) widen(3) [of "pos_collateral ?p"]
    by (simp add: checked_sub_def word_le_nat_alt)
  define st' where "st' = emit (PositionClosed (mkt_market_id ?m) nonce outcome pay lf pf)
        (st\<lparr>st_tokens := ts,
            st_positions := (st_positions st)(sp_user_positions a \<mapsto>
              \<lparr>up_positions = swap_remove i (up_positions (sl_positions l))\<rparr>),
            st_markets := (st_markets st)(sp_market a \<mapsto>
              ?m\<lparr>mkt_open_collateral := oc', mkt_active_positions := act\<rparr>)\<rparr>)"
  have "settle_position e signers a nonce salt st = Inr st'"
    by (simp add: settle_position_def Let_def l i t ts c st'_def)
  moreover have "add_mset ?p (open_positions st') = open_positions st"
    by (rule open_positions_remove [OF _ F(3)])
      (use I position_index_SomeD [OF i] in \<open>auto simp: chain_inv_def inv_keys_def st'_def\<close>)
  moreover have "unat pay + unat pf \<le> balance (st_tokens st) (sp_pool_token_account a)"
    by (rule holds_balance [OF pool])
  ultimately show ?thesis using b by (intro exI [of _ st']) (simp add: st'_def)
qed

text \<open>The deadlines of a position as the handler computes them.\<close>

lemma deadline_values:
  "sint (ucast (x :: u32) :: i64) = int (unat x)"
  "\<exists>r. schecked_add (ucast x :: i64) SETTLEMENT_BUFFER_SECONDS = Some r \<and> sint r = int (unat x) + 10"
proof -
  have lt: "0 \<le> uint x" "uint x < 4294967296" using unsigned_less [of x, where 'a=int] by simp_all
  have fits: "signed_fits TYPE(64) (int (unat x) + 10)"
    using lt by (simp add: signed_fits_def)
  show x: "sint (ucast x :: i64) = int (unat x)" by (simp add: sint_ucast_up)
  show "\<exists>r. schecked_add (ucast x :: i64) SETTLEMENT_BUFFER_SECONDS = Some r \<and> sint r = int (unat x) + 10"
    using fits sint_word_of_int_fits [OF fits]
    by (simp add: schecked_add_def x SETTLEMENT_BUFFER_SECONDS_def checked_of_int_def)
qed

text \<open>From then on the terms are a full refund, whatever the price account holds.\<close>

lemma refund_terms:
  assumes "pos_task_salt p = salt" "int (unat (pos_expires_at p)) + 10 \<le> sint (st_now st)"
  shows "settlement_terms_of e a m p salt st = Inr (Some (ucast (pos_collateral p), 0, 0, Refunded))"
proof -
  obtain r where r: "schecked_add (ucast (pos_expires_at p) :: i64) SETTLEMENT_BUFFER_SECONDS = Some r"
    "sint r = int (unat (pos_expires_at p)) + 10"
    using deadline_values(2) by blast
  then show ?thesis
    using assms by (simp add: settlement_terms_of_def Let_def deadline_values(1))
qed

lemma early_terms:
  assumes "pos_task_salt p = salt" "sint (st_now st) < int (unat (pos_expires_at p))"
  shows "settlement_terms_of e a m p salt st = Inr None"
proof -
  obtain r where r: "schecked_add (ucast (pos_expires_at p) :: i64) SETTLEMENT_BUFFER_SECONDS = Some r"
    using deadline_values(2) by blast
  then show ?thesis
    using assms by (simp add: settlement_terms_of_def Let_def deadline_values(1))
qed


text \<open>C2: Settlements are paid. In every reachable chain, when a settlement is triggered with the
  program's own account set for an open position and its terms say to pay, and the token accounts
  involved can take the money, the instruction succeeds: exactly the payout reaches the user's
  account (or the escrow when that account is unusable), exactly the protocol fee reaches the fee
  account, both leave the pool, only that position is closed, and the close is logged once. A
  lack of funds or a counter underflow is impossible.\<close>
theorem settlement_pays:
  assumes "chain_reachable e st" "load_settle e signers a st = Inr l"
    and "position_index (sl_positions l) (mkt_market_id (sl_market l)) nonce = Some i"
    and "settlement_terms_of e a (sl_market l) (up_positions (sl_positions l) ! i) salt st
      = Inr (Some (pay, pf, lf, outcome))"
    and "settlement_accounts_ready a st (unat pay + unat pf)"
  shows "\<exists>st'. settle_position e signers a nonce salt st = Inr st'
    \<and> balance (st_tokens st') (payout_destination a st) = balance (st_tokens st) (payout_destination a st) + unat pay
    \<and> balance (st_tokens st') (sp_fee_token_account a) = balance (st_tokens st) (sp_fee_token_account a) + unat pf
    \<and> balance (st_tokens st') (sp_pool_token_account a) + unat pay + unat pf
        = balance (st_tokens st) (sp_pool_token_account a)
    \<and> add_mset (up_positions (sl_positions l) ! i) (open_positions st') = open_positions st
    \<and> st_events st' = st_events st @ [PositionClosed (mkt_market_id (sl_market l)) nonce outcome pay lf pf]"
  using settlement_total [OF _ _ assms(2-5)] reachable_chain_inv [OF assms(1)] by blast

lemma run_ready:
  assumes "n < 1000000000"
  shows "settlement_accounts_ready run_settle run6 n"
    "settlement_accounts_ready run_settle run7 n" "settlement_accounts_ready run_settle run7_late n"
proof -
  show "settlement_accounts_ready run_settle run6 n"
    using assms by (simp add: settlement_accounts_ready_def can_receive_def balance_def run_settle_defs
      run6_def run_states fresh_token_account_def)
      (simp add: run_defs reference_env_def)
  then show "settlement_accounts_ready run_settle run7 n" "settlement_accounts_ready run_settle run7_late n"
    by (simp_all add: settlement_accounts_ready_def run7_def run7_late_def)
qed

lemma run_index: "position_index \<lparr>up_positions = [run_position]\<rparr> (mkt_market_id risk_market) 0 = Some 0"
  by (simp add: position_index_def run_position_def risk_market_def funded_market_def fresh_market_def)

theorem settlement_pays_witness:
  "\<exists>st'. settle_position reference_env [settlement_crank_signer reference_env run_market] run_settle 0 [1] run7
      = Inr st' \<and> add_mset run_position (open_positions st') = open_positions run7"
  using settlement_pays [OF run_reachable(8) run_load_settle, of 0 0 "[1]" 1090000 2000 8000 Won]
    run_terms run_index run_ready(2) by simp metis

text \<open>C4: The refund cannot be withheld. In every reachable chain, ten seconds after a position's expiry
  a settlement triggered with its salt returns the whole collateral and closes the position as
  refunded, without any condition on the price account or the market's mode.\<close>
theorem refund_guaranteed:
  assumes "chain_reachable e st" "load_settle e signers a st = Inr l"
    and "position_index (sl_positions l) (mkt_market_id (sl_market l)) nonce = Some i"
    and "p = up_positions (sl_positions l) ! i" "pos_task_salt p = salt"
    and "int (unat (pos_expires_at p)) + 10 \<le> sint (st_now st)"
    and "settlement_accounts_ready a st (unat (pos_collateral p))"
  shows "\<exists>st'. settle_position e signers a nonce salt st = Inr st'
    \<and> balance (st_tokens st') (payout_destination a st)
        = balance (st_tokens st) (payout_destination a st) + unat (pos_collateral p)
    \<and> add_mset p (open_positions st') = open_positions st
    \<and> st_events st' = st_events st @
        [PositionClosed (mkt_market_id (sl_market l)) nonce Refunded (ucast (pos_collateral p)) 0 0]"
proof -
  have "settlement_terms_of e a (sl_market l) (up_positions (sl_positions l) ! i) salt st
      = Inr (Some (ucast (pos_collateral p), 0, 0, Refunded))"
    using refund_terms assms(4-6) by blast
  from settlement_total [OF _ _ assms(2,3) this] show ?thesis
    using reachable_chain_inv [OF assms(1)] assms(4,7) by (auto simp: widen)
qed

lemma run_load_settle_late:
  "load_settle reference_env [settlement_crank_signer reference_env run_market] run_settle run7_late =
    Inr \<lparr>sl_market = risk_market, sl_positions = \<lparr>up_positions = [run_position]\<rparr>\<rparr>"
  by (simp add: load_settle_def run_settle_defs run7_late_def run6_def run_states run_defs
    reference_env_def load_defs fresh_market_def funded_market_def risk_market_def fresh_token_account_def
    settlement_crank_signer_def)

theorem refund_guaranteed_witness:
  "\<exists>st'. settle_position reference_env [settlement_crank_signer reference_env run_market] run_settle 0 [1] run7_late
      = Inr st' \<and> st_events st' = st_events run7_late @ [PositionClosed 0 0 Refunded 1000000 0 0]"
proof -
  have p: "pos_task_salt run_position = [1]" "pos_collateral run_position = 1000000" "pos_expires_at run_position = 1010"
    by (simp_all add: run_position_def)
  have n: "st_now run7_late = 1020" by (simp add: run7_late_def)
  have m: "mkt_market_id risk_market = 0" by (simp add: risk_market_def funded_market_def fresh_market_def)
  show ?thesis
    using refund_guaranteed [OF run7_late_reachable run_load_settle_late, of 0 0 run_position "[1]"]
      run_index run_ready(3) by (simp add: p n m) metis
qed

text \<open>C21: Before a position expires its settlement does nothing, and a trigger with the wrong salt is
  rejected whatever the time.\<close>
theorem settlement_not_early:
  assumes "load_settle e signers a st = Inr l"
    and "position_index (sl_positions l) (mkt_market_id (sl_market l)) nonce = Some i"
    and "p = up_positions (sl_positions l) ! i"
  shows "(sint (st_now st) < int (unat (pos_expires_at p)) \<and> pos_task_salt p = salt
      \<longrightarrow> settle_position e signers a nonce salt st = Inr st)
    \<and> (pos_task_salt p \<noteq> salt
      \<longrightarrow> settle_position e signers a nonce salt st = Inl (Code InvalidSettlementTrigger))"
  using early_terms [of p salt st e a "sl_market l"] assms
  by (auto simp: settle_position_def Let_def settlement_terms_of_def require_def and_then_def)

theorem settlement_not_early_witness:
  "settle_position reference_env [settlement_crank_signer reference_env run_market] run_settle 0 [2] run7
     = Inl (Code InvalidSettlementTrigger)"
  using settlement_not_early [OF run_load_settle, of 0 0 run_position "[2]"] run_index
  by (simp add: run_position_def)

text \<open>The terms of a settlement over the integers: nothing before the expiry, the collateral back
  from ten seconds after it, and in between the reference payoff at the oracle price.\<close>

definition terms_spec ::
    "env \<Rightarrow> market \<Rightarrow> compact_position \<Rightarrow> chain \<Rightarrow> u64 \<Rightarrow> u64 \<Rightarrow> u64 \<Rightarrow> position_outcome \<Rightarrow> bool" where
  "terms_spec e m p st pay pf lf outcome \<longleftrightarrow>
     int (unat (pos_expires_at p)) \<le> sint (st_now st)
   \<and> (if int (unat (pos_expires_at p)) + 10 \<le> sint (st_now st)
      then unat pay = unat (pos_collateral p) \<and> pf = 0 \<and> lf = 0 \<and> outcome = Refunded
      else \<exists>sample. read_oracle_price e st (mkt_oracle m) (mkt_oracle_feed_id m) = Inr (Some sample)
        \<and> int (unat (pos_expires_at p)) \<le> sint (pr_publish_time sample)
        \<and> sint (pr_publish_time sample) < int (unat (pos_expires_at p)) + 10
        \<and> (let r = ref_settlement (unat (pos_collateral p)) (sint (pos_entry_price p))
                     (sint (pr_price sample)) (pos_direction p) 1000 1000 2000
           in unat pay = ra_payout r \<and> unat pf = ra_protocol r \<and> unat lf = ra_lp r
            \<and> outcome = (if 0 < ra_gross r then Won else if 0 < ra_loss r then Lost else Breakeven)))"

lemma outcome_of_ref:
  assumes "amounts_nat a = r"
  shows "outcome_of False (sa_gross_profit a) (sa_loss a)
    = (if 0 < ra_gross r then Won else if 0 < ra_loss r then Lost else Breakeven)"
  unfolding assms [symmetric] by (simp add: amounts_nat_def outcome_of_def word_less_nat_alt)

lemma settlement_terms_spec:
  assumes t: "settlement_terms_of e a m p salt st = Inr (Some (pay, pf, lf, outcome))"
    and source: "sp_price_update a = mkt_oracle m"
  shows "pos_task_salt p = salt \<and> terms_spec e m p st pay pf lf outcome"
proof -
  let ?x = "pos_expires_at p"
  obtain r where r: "schecked_add (ucast ?x :: i64) SETTLEMENT_BUFFER_SECONDS = Some r"
    "sint r = int (unat ?x) + 10" using deadline_values(2) by blast
  have salt: "pos_task_salt p = salt" and now: "int (unat ?x) \<le> sint (st_now st)"
    using t r(1) by (auto simp: settlement_terms_of_def Let_def result_simps deadline_values(1) split: if_splits)
  show ?thesis
  proof (cases "int (unat ?x) + 10 \<le> sint (st_now st)")
    case True
    then show ?thesis
      using t refund_terms [OF salt True] salt now by (auto simp: terms_spec_def widen)
  next
    case False
    then have "priced_terms e a m p (ucast ?x) r st = Inr (Some (pay, pf, lf, outcome))"
      using t r salt now by (simp add: settlement_terms_of_def Let_def deadline_values(1))
    then obtain sample :: price and amounts where
      s: "read_oracle_price e st (sp_price_update a) (mkt_oracle_feed_id m) = Inr (Some sample)"
      "sint (ucast ?x :: i64) \<le> sint (pr_publish_time sample)" "sint (pr_publish_time sample) < sint r"
      and c: "calculate_settlement (ucast (pos_collateral p)) (pos_entry_price p) (pr_price sample)
        (pos_direction p) LEVERAGE PROFIT_FEE_BPS PROTOCOL_FEE_SHARE_BPS = Inr amounts"
      and out: "pay = sa_user_payout amounts" "pf = sa_protocol_fee amounts" "lf = sa_lp_fee amounts"
      "outcome = outcome_of False (sa_gross_profit amounts) (sa_loss amounts)"
      by (rule priced_terms_InrD) (rule that; assumption)
    define rs where "rs = ref_settlement (unat (pos_collateral p)) (sint (pos_entry_price p))
        (sint (pr_price sample)) (pos_direction p) 1000 1000 2000"
    have rs: "amounts_nat amounts = rs"
      using calculate_settlement_InrD(4) [OF c] by (simp add: rs_def widen const_defs)
    have "unat pay = ra_payout rs \<and> unat pf = ra_protocol rs \<and> unat lf = ra_lp rs"
      unfolding rs [symmetric] by (simp add: amounts_nat_def out)
    then have "\<exists>sample. read_oracle_price e st (mkt_oracle m) (mkt_oracle_feed_id m) = Inr (Some sample)
        \<and> int (unat ?x) \<le> sint (pr_publish_time sample)
        \<and> sint (pr_publish_time sample) < int (unat ?x) + 10
        \<and> (let r = ref_settlement (unat (pos_collateral p)) (sint (pos_entry_price p))
                     (sint (pr_price sample)) (pos_direction p) 1000 1000 2000
           in unat pay = ra_payout r \<and> unat pf = ra_protocol r \<and> unat lf = ra_lp r
            \<and> outcome = (if 0 < ra_gross r then Won else if 0 < ra_loss r then Lost else Breakeven))"
      using s r(2) outcome_of_ref [OF rs] out(4)
      by (intro exI [of _ sample]) (simp add: source deadline_values(1) rs_def [symmetric] Let_def)
    then show ?thesis using salt now False unfolding terms_spec_def by (simp only: if_False simp_thms)
  qed
qed



end
