(* ===== verification/Ledger.thy ===== *)
theory Ledger
  imports Reference_Run
begin

text \<open>
  What a step may change and what it may not: a configuration and a market's identity never
  change, nonces only grow, events are only appended, and every position ever created is either
  open or was closed exactly once.
\<close>


section \<open>The frame of a step\<close>

definition same_identity :: "market \<Rightarrow> market \<Rightarrow> bool" where
  "same_identity m m' \<longleftrightarrow>
     mkt_market_id m' = mkt_market_id m \<and> mkt_oracle m' = mkt_oracle m
   \<and> mkt_oracle_feed_id m' = mkt_oracle_feed_id m \<and> mkt_bump m' = mkt_bump m
   \<and> mkt_next_position_nonce m \<le> mkt_next_position_nonce m'"

definition step_frame :: "chain \<Rightarrow> chain \<Rightarrow> bool" where
  "step_frame st st' \<longleftrightarrow>
     (\<forall>k c. st_configs st k = Some c \<longrightarrow> st_configs st' k = Some c)
   \<and> (\<forall>k m. st_markets st k = Some m \<longrightarrow> (\<exists>m'. st_markets st' k = Some m' \<and> same_identity m m'))
   \<and> (\<exists>evs. st_events st' = st_events st @ evs)"

lemma same_identity_refl [simp]: "same_identity m m"
  by (simp add: same_identity_def)

lemma same_identity_trans: "same_identity a b \<Longrightarrow> same_identity b c \<Longrightarrow> same_identity a c"
  by (auto simp: same_identity_def)

lemma step_frame_trans:
  assumes "step_frame a b" "step_frame b c"
  shows "step_frame a c"
  unfolding step_frame_def
proof (intro conjI allI impI)
  show "st_configs c k = Some x" if "st_configs a k = Some x" for k x
    using assms that by (simp add: step_frame_def)
  show "\<exists>m'. st_markets c k = Some m' \<and> same_identity m m'" if "st_markets a k = Some m" for k m
    using assms that same_identity_trans unfolding step_frame_def by meson
  show "\<exists>evs. st_events c = st_events a @ evs"
    using assms unfolding step_frame_def by (metis append.assoc)
qed

text \<open>Events about positions, and a step that has none of them.\<close>

fun opens :: "u16 \<Rightarrow> u32 \<Rightarrow> event \<Rightarrow> bool" where
  "opens i n (PositionCreated market_id position_id _ _ _ _ _) \<longleftrightarrow> market_id = i \<and> position_id = n"
| "opens i n _ \<longleftrightarrow> False"

fun closes :: "u16 \<Rightarrow> u32 \<Rightarrow> event \<Rightarrow> bool" where
  "closes i n (PositionClosed market_id position_id _ _ _ _) \<longleftrightarrow> market_id = i \<and> position_id = n"
| "closes i n _ \<longleftrightarrow> False"

definition opened :: "u16 \<Rightarrow> u32 \<Rightarrow> chain \<Rightarrow> nat" where
  "opened i n st = length (filter (opens i n) (st_events st))"

definition closed :: "u16 \<Rightarrow> u32 \<Rightarrow> chain \<Rightarrow> nat" where
  "closed i n st = length (filter (closes i n) (st_events st))"

definition quiet_step :: "chain \<Rightarrow> chain \<Rightarrow> bool" where
  "quiet_step st st' \<longleftrightarrow> step_frame st st' \<and> open_positions st' = open_positions st
     \<and> (\<forall>i n. opened i n st' = opened i n st \<and> closed i n st' = closed i n st)"

lemma quiet_step_refl [simp]: "quiet_step st st"
  by (simp add: quiet_step_def step_frame_def)

text \<open>A step that leaves the positions alone, changes at most one market and logs at most one
  event, none about positions.\<close>

lemma quiet_stepI:
  assumes "st_positions st' = st_positions st" "st_configs st' = st_configs st"
    and "st_markets st' = st_markets st \<or>
      (\<exists>k m m'. st_markets st k = Some m \<and> same_identity m m' \<and> st_markets st' = (st_markets st)(k \<mapsto> m'))"
    and "st_events st' = st_events st \<or> (\<exists>ev. st_events st' = st_events st @ [ev]
      \<and> (\<forall>i n. \<not> opens i n ev \<and> \<not> closes i n ev))"
  shows "quiet_step st st'"
proof -
  have "step_frame st st'"
    using assms(2-4) by (auto simp: step_frame_def)
  moreover have "opened i n st' = opened i n st \<and> closed i n st' = closed i n st" for i n
    using assms(4) by (auto simp: opened_def closed_def)
  ultimately show ?thesis using assms(1) by (simp add: quiet_step_def open_positions_def)
qed

lemma quiet_market_stepI:
  assumes "st_markets st k = Some m" "same_identity m m'" "st_markets st' = (st_markets st)(k \<mapsto> m')"
    and "st_positions st' = st_positions st" "st_configs st' = st_configs st"
    and "st_events st' = st_events st @ [ev]" "\<forall>i n. \<not> opens i n ev \<and> \<not> closes i n ev"
  shows "quiet_step st st'"
  by (rule quiet_stepI) (use assms in blast)+

lemma delegate_cpi_quiet: "delegate_cpi e k payer seeds config st = Inr st' \<Longrightarrow> quiet_step st st'"
  by (rule quiet_stepI) (auto simp: delegate_cpi_def Let_def result_simps)

lemma initialize_protocol_config_quiet:
  assumes "initialize_protocol_config e signers a st = Inr st'"
  shows "quiet_step st st'"
proof -
  obtain c where "st_configs st (ipc_protocol_config a) = None"
    and st': "st' = st\<lparr>st_configs := (st_configs st)(ipc_protocol_config a \<mapsto> c)\<rparr>"
    using assms unfolding initialize_protocol_config_def init_account_def
    by (auto simp: result_simps require_seeds_def config_key_def)
  then show ?thesis
    by (auto simp: quiet_step_def step_frame_def open_positions_def opened_def closed_def)
qed

lemma initialize_market_quiet:
  assumes "initialize_market e signers a market_id oracle feed sponsor st = Inr st'"
  shows "quiet_step st st'"
proof -
  obtain bump m ts' where b: "init_account e (st_markets st) (im_admin a) (market_seeds market_id) (im_market a) = Inr bump"
    and st': "st\<lparr>st_tokens := ts', st_markets := (st_markets st)(im_market a \<mapsto> m)\<rparr> = st'"
    by (rule initialize_market_InrD [OF assms]) (rule that; assumption)
  have "st_markets st (im_market a) = None"
    using b by (auto simp: init_account_def result_simps)
  then show ?thesis
    unfolding st' [symmetric]
    by (auto simp: quiet_step_def step_frame_def open_positions_def opened_def closed_def)
qed

lemma set_market_mode_quiet:
  assumes "set_market_mode e signers a mode st = Inr st'"
  shows "quiet_step st st'"
proof -
  obtain m where m: "st_markets st (sm_market a) = Some m"
    and st': "st' = emit (MarketModeChanged (mkt_market_id m) mode)
       (st\<lparr>st_markets := (st_markets st)(sm_market a \<mapsto> m\<lparr>mkt_mode := mode\<rparr>)\<rparr>)"
    using assms unfolding set_market_mode_def by (auto simp: result_simps dest!: load_market_InrD)
  show ?thesis
    by (rule quiet_market_stepI [OF m, where m' = "m\<lparr>mkt_mode := mode\<rparr>"]) (simp add: st' same_identity_def)+
qed

lemma initialize_user_positions_quiet:
  assumes "finite (dom (st_positions st))" "initialize_user_positions e signers a st = Inr st'"
  shows "quiet_step st st'"
proof (cases "st_positions st (ua_account a)")
  case (Some up)
  then have "st' = st" using assms(2) by (simp add: initialize_user_positions_def result_simps)
  then show ?thesis by simp
next
  case None
  then have st': "st' = st\<lparr>st_positions := (st_positions st)(ua_account a \<mapsto> \<lparr>up_positions = []\<rparr>)\<rparr>"
    using assms(2) by (auto simp: initialize_user_positions_def result_simps)
  have "open_positions st' = open_positions st"
    using map_elems_fresh [of "st_positions st" "ua_account a" up_positions, OF assms(1) None]
    by (simp add: open_positions_def st')
  then show ?thesis by (simp add: quiet_step_def step_frame_def opened_def closed_def st')
qed

lemma initialize_user_liquidity_quiet:
  "initialize_user_liquidity e signers a st = Inr st' \<Longrightarrow> quiet_step st st'"
  by (rule quiet_stepI) (auto simp: initialize_user_liquidity_def result_simps split: option.splits)

lemma undelegate_user_liquidity_quiet:
  "undelegate_user_liquidity e signers a st = Inr st' \<Longrightarrow> quiet_step st st'"
  by (rule quiet_stepI) (auto simp: undelegate_user_liquidity_def result_simps)

lemma deposit_liquidity_quiet:
  assumes "deposit_liquidity e signers a amount mins st = Inr st'"
  shows "quiet_step st st'"
proof -
  obtain l s ts m ul where l: "load_deposit e signers a st = Inr l"
    and c: "credit_shares (dll_market l) (dll_liquidity l) s = Inr (m, ul)"
    and st': "emit (LiquidityDeposited (mkt_market_id m) (dl_user a) amount s)
       (st\<lparr>st_tokens := ts, st_markets := (st_markets st)(dl_market a \<mapsto> m),
           st_liquidity := (st_liquidity st)(dl_user_liquidity a \<mapsto> ul)\<rparr>) = st'"
    by (rule deposit_liquidity_InrD [OF assms]) (rule that; assumption)
  have m: "st_markets st (dl_market a) = Some (dll_market l)"
    using load_deposit_InrD [OF l] load_market_InrD by metis
  have "\<exists>n. (dll_market l)\<lparr>mkt_total_shares := n\<rparr> = m"
    using c unfolding credit_shares_def Let_def result_simps cpi_pair_case sum.inject prod.inject by blast
  then have "same_identity (dll_market l) m" by (auto simp: same_identity_def)
  then show ?thesis
    by (rule quiet_market_stepI [OF m]) (simp add: st' [symmetric])+
qed

lemma request_withdrawal_quiet:
  "request_withdrawal e signers a s mins st = Inr st' \<Longrightarrow> quiet_step st st'"
  by (erule request_withdrawal_InrD, rule quiet_stepI) (auto simp: emit_def)

lemma cancel_withdrawal_quiet:
  "cancel_withdrawal e signers a st = Inr st' \<Longrightarrow> quiet_step st st'"
  by (erule cancel_withdrawal_InrD, rule quiet_stepI) (auto simp: emit_def)

lemma execute_withdrawal_quiet:
  assumes "execute_withdrawal e signers a st = Inr st'"
  shows "quiet_step st st'"
proof -
  obtain l s assets rs ts ul where l: "load_execute_withdrawal e a st = Inr l"
    and st': "emit (WithdrawalExecuted (mkt_market_id (dll_market l)) (ew_user a) s assets)
       (st\<lparr>st_tokens := ts,
           st_markets := (st_markets st)(ew_market a \<mapsto> (dll_market l)\<lparr>mkt_total_shares := rs\<rparr>),
           st_liquidity := (st_liquidity st)(ew_user_liquidity a \<mapsto> ul)\<rparr>) = st'"
    by (rule execute_withdrawal_InrD [OF assms]) (rule that; assumption)
  have m: "st_markets st (ew_market a) = Some (dll_market l)"
    using load_execute_withdrawal_InrD [OF l] load_market_InrD by metis
  show ?thesis
    by (rule quiet_market_stepI [OF m, where m' = "(dll_market l)\<lparr>mkt_total_shares := rs\<rparr>"])
      (simp add: st' [symmetric] same_identity_def)+
qed

lemma withdraw_protocol_fees_quiet:
  "withdraw_protocol_fees e signers a amount st = Inr st' \<Longrightarrow> quiet_step st st'"
  by (erule withdraw_protocol_fees_InrD, rule quiet_stepI) (auto simp: emit_def)

lemma claim_fallback_payout_quiet:
  "claim_fallback_payout e signers a st = Inr st' \<Longrightarrow> quiet_step st st'"
  by (erule claim_fallback_payout_InrD, rule quiet_stepI) (auto simp: emit_def)

lemmas quiet_instructions = initialize_protocol_config_quiet initialize_market_quiet set_market_mode_quiet
  initialize_user_positions_quiet initialize_user_liquidity_quiet undelegate_user_liquidity_quiet
  deposit_liquidity_quiet request_withdrawal_quiet cancel_withdrawal_quiet execute_withdrawal_quiet
  withdraw_protocol_fees_quiet claim_fallback_payout_quiet

lemma delegate_quiet:
  "delegate_market e signers a1 i v st = Inr st' \<Longrightarrow> quiet_step st st'"
  "delegate_user_positions e signers a2 v st = Inr st' \<Longrightarrow> quiet_step st st'"
  "delegate_user_liquidity e signers a2 v st = Inr st' \<Longrightarrow> quiet_step st st'"
  unfolding delegate_market_def delegate_user_positions_def delegate_user_liquidity_def result_simps
  by (blast intro: delegate_cpi_quiet)+

text \<open>The two instructions that are about positions.\<close>

lemma open_position_trace:
  assumes fin: "finite (dom (st_positions st))" and o: "open_position e signers a args st = Inr st'"
  obtains k m m' p ev where
    "st_markets st k = Some m" "same_identity m m'" "mkt_next_position_nonce m < mkt_next_position_nonce m'"
    "st_markets st' = (st_markets st)(k \<mapsto> m')" "st_configs st' = st_configs st"
    "open_positions st' = add_mset p (open_positions st)"
    "has_id (mkt_market_id m) (mkt_next_position_nonce m) p"
    "st_events st' = st_events st @ [ev]"
    "\<forall>i n. opens i n ev \<longleftrightarrow> mkt_market_id m = i \<and> mkt_next_position_nonce m = n" "\<forall>i n. \<not> closes i n ev"
proof -
  obtain l sample ee oc' task ts expires cc ce act nn where
    l: "load_open e signers a st = Inr l"
    and adm: "admit_position e a args l st = Inr (sample, ee, oc')"
    and nn: "checked_add (oa_nonce args) 1 = Some nn"
    and st': "emit (PositionCreated (mkt_market_id (ol_market l)) (oa_nonce args) (op_user a)
             (pr_price sample) cc (oa_direction args) ce)
       (st\<lparr>st_tokens := ts,
           st_tasks := st_tasks st @ [task],
           st_positions := (st_positions st)(op_user_positions a \<mapsto>
             \<lparr>up_positions = up_positions (ol_positions l) @
               [\<lparr>pos_market_id = mkt_market_id (ol_market l), pos_nonce = oa_nonce args,
                 pos_task_salt = oa_task_salt args, pos_collateral = cc,
                 pos_entry_price = pr_price sample, pos_expires_at = ce,
                 pos_direction = oa_direction args\<rparr>]\<rparr>),
           st_markets := (st_markets st)(op_market a \<mapsto>
             (ol_market l)\<lparr>mkt_risk_epoch_equity := ee, mkt_open_collateral := oc',
                mkt_active_positions := act, mkt_next_position_nonce := nn\<rparr>)\<rparr>) = st'"
    by (rule open_position_InrD [OF o]) (rule that; assumption)
  define p where "p = \<lparr>pos_market_id = mkt_market_id (ol_market l), pos_nonce = oa_nonce args,
                 pos_task_salt = oa_task_salt args, pos_collateral = cc,
                 pos_entry_price = pr_price sample, pos_expires_at = ce,
                 pos_direction = oa_direction args\<rparr>"
  have C: "load_market e st (op_market a) = Inr (ol_market l)"
    "load_positions e st (op_user a) (op_user_positions a) = Inr (ol_positions l)"
    by (rule load_open_InrD [OF l], assumption)+
  have m: "st_markets st (op_market a) = Some (ol_market l)"
    and up: "st_positions st (op_user_positions a) = Some (ol_positions l)"
    using load_market_InrD [OF C(1)] load_positions_InrD [OF C(2)] by blast+
  have nonce: "oa_nonce args = mkt_next_position_nonce (ol_market l)"
    by (rule admit_position_InrD [OF adm]) assumption
  have lt: "mkt_next_position_nonce (ol_market l) < nn"
    using nn by (simp add: nonce checked_add_eq_Some word_less_nat_alt)
  have "open_positions st' = add_mset p (open_positions st)"
    using map_elems_replace [OF fin up, of up_positions "\<lparr>up_positions = up_positions (ol_positions l) @ [p]\<rparr>"]
    by (simp add: open_positions_def st' [symmetric] p_def)
  moreover have "has_id (mkt_market_id (ol_market l)) (mkt_next_position_nonce (ol_market l)) p"
    by (simp add: has_id_def p_def nonce)
  ultimately show thesis
    by (rule that [OF m, where m' = "(ol_market l)\<lparr>mkt_risk_epoch_equity := ee, mkt_open_collateral := oc',
                mkt_active_positions := act, mkt_next_position_nonce := nn\<rparr>", rotated 4])
      (use lt in \<open>auto simp: st' [symmetric] same_identity_def nonce\<close>)
qed

lemma settle_position_trace:
  assumes fin: "finite (dom (st_positions st))" and s: "settle_position e signers a nonce salt st = Inr st'"
  obtains "st' = st" | k m m' p ev where
    "st_markets st k = Some m" "same_identity m m'"
    "st_markets st' = (st_markets st)(k \<mapsto> m')" "st_configs st' = st_configs st"
    "open_positions st = add_mset p (open_positions st')"
    "has_id (mkt_market_id m) nonce p"
    "st_events st' = st_events st @ [ev]"
    "\<forall>i n. closes i n ev \<longleftrightarrow> mkt_market_id m = i \<and> nonce = n" "\<forall>i n. \<not> opens i n ev"
  using s
proof (cases rule: settle_position_InrD)
  case (closed l i pay pf lf oc ts oc' act)
  have C: "load_market e st (sp_market a) = Inr (sl_market l)"
    "load_positions e st (sp_user a) (sp_user_positions a) = Inr (sl_positions l)"
    using load_settle_InrD [OF closed(1)] by (metis settle_loaded.select_convs)+
  have m: "st_markets st (sp_market a) = Some (sl_market l)"
    and up: "st_positions st (sp_user_positions a) = Some (sl_positions l)"
    using load_market_InrD [OF C(1)] load_positions_InrD [OF C(2)] by blast+
  note idx = position_index_SomeD [OF closed(2)]
  have "add_mset (up_positions (sl_positions l) ! i) (open_positions st') = open_positions st"
    by (rule open_positions_remove [OF fin up]) (use idx closed(7) in simp_all)
  then show thesis
    by (intro that(2) [OF m, where m' = "(sl_market l)\<lparr>mkt_open_collateral := oc', mkt_active_positions := act\<rparr>"])
      (use idx in \<open>auto simp: closed(7) same_identity_def has_id_def\<close>)
qed (use that(1) in blast)+

lemma quiet_step_frame: "quiet_step st st' \<Longrightarrow> step_frame st st'"
  by (simp add: quiet_step_def)

lemma market_update_frame:
  assumes "st_markets st k = Some m" "same_identity m m'" "st_markets st' = (st_markets st)(k \<mapsto> m')"
    and "st_configs st' = st_configs st" "st_events st' = st_events st @ evs"
  shows "step_frame st st'"
  using assms by (auto simp: step_frame_def)

text \<open>Every instruction is quiet, opens a position or settles one.\<close>

lemma process_cases:
  assumes fin: "finite (dom (st_positions st))" and p: "process e signers r st = Inr st'"
  obtains (quiet) "quiet_step st st'"
  | (open_one) a args where "open_position e signers a args st = Inr st'"
  | (settle_one) a nonce salt where "settle_position e signers a nonce salt st = Inr st'"
proof (cases r)
  case (OpenPosition a args)
  then show thesis using p open_one by simp
next
  case (SettlePosition a nonce salt)
  then show thesis using p settle_one by simp
qed (use p fin quiet quiet_instructions delegate_quiet in auto)

lemma process_frame:
  assumes fin: "finite (dom (st_positions st))" and p: "process e signers r st = Inr st'"
  shows "step_frame st st'"
  using fin p
proof (cases rule: process_cases)
  case quiet
  then show ?thesis by (rule quiet_step_frame)
next
  case (open_one a args)
  show ?thesis by (rule open_position_trace [OF fin open_one]) (rule market_update_frame; assumption)
next
  case (settle_one a nonce salt)
  show ?thesis
  proof (cases rule: settle_position_trace [OF fin settle_one])
    case 1
    then show ?thesis by (simp add: step_frame_def)
  next
    case (2 k m m' p ev)
    show ?thesis by (rule market_update_frame [OF 2(1,2,3,4,7)])
  qed
qed

section \<open>The ledger of positions\<close>

definition ledger_inv :: "chain \<Rightarrow> bool" where
  "ledger_inv st \<longleftrightarrow>
     (\<forall>i n. opened i n st = count_where (has_id i n) (open_positions st) + closed i n st
        \<and> opened i n st \<le> 1
        \<and> (0 < opened i n st \<longrightarrow> (\<exists>k m. st_markets st k = Some m \<and> mkt_market_id m = i
             \<and> n < mkt_next_position_nonce m)))"

lemma ledger_initial: "initial_chain e st \<Longrightarrow> ledger_inv st"
  by (simp add: initial_chain_def ledger_inv_def opened_def closed_def open_positions_def)

lemma ledger_market:
  assumes "step_frame st st'" "\<exists>k m. st_markets st k = Some m \<and> mkt_market_id m = i \<and> n < mkt_next_position_nonce m"
  shows "\<exists>k m. st_markets st' k = Some m \<and> mkt_market_id m = i \<and> n < mkt_next_position_nonce m"
proof -
  obtain k m where m: "st_markets st k = Some m" "mkt_market_id m = i" "n < mkt_next_position_nonce m"
    using assms(2) by blast
  then obtain m' where "st_markets st' k = Some m'" "same_identity m m'"
    using assms(1) unfolding step_frame_def by blast
  then show ?thesis using m by (intro exI [of _ k]) (auto simp: same_identity_def)
qed

lemma ledger_step:
  assumes I: "chain_inv e st" and L: "ledger_inv st" and p: "process e signers r st = Inr st'"
  shows "ledger_inv st'"
proof -
  have keys: "inv_keys e st" and fin: "finite (dom (st_positions st))"
    using I by (simp_all add: chain_inv_def inv_keys_def)
  note frame = process_frame [OF fin p]
  note grow = ledger_market [OF frame]
  show ?thesis
    using fin p
  proof (cases rule: process_cases)
    case quiet
    then have "open_positions st' = open_positions st" "opened i n st' = opened i n st"
      "closed i n st' = closed i n st" for i n by (simp_all add: quiet_step_def)
    then show ?thesis using L grow unfolding ledger_inv_def by metis
  next
    case (open_one a args)
    obtain k m m' q ev where T: "st_markets st k = Some m" "same_identity m m'"
      "mkt_next_position_nonce m < mkt_next_position_nonce m'"
      "st_markets st' = (st_markets st)(k \<mapsto> m')"
      "open_positions st' = add_mset q (open_positions st)"
      "has_id (mkt_market_id m) (mkt_next_position_nonce m) q"
      "st_events st' = st_events st @ [ev]"
      "\<forall>i n. opens i n ev \<longleftrightarrow> mkt_market_id m = i \<and> mkt_next_position_nonce m = n" "\<forall>i n. \<not> closes i n ev"
      by (rule open_position_trace [OF fin open_one]) (rule that; assumption)
    have fresh: "opened (mkt_market_id m) (mkt_next_position_nonce m) st = 0"
    proof (rule ccontr)
      assume "opened (mkt_market_id m) (mkt_next_position_nonce m) st \<noteq> 0"
      then obtain j x where x: "st_markets st j = Some x" "mkt_market_id x = mkt_market_id m"
        "mkt_next_position_nonce m < mkt_next_position_nonce x" using L unfolding ledger_inv_def by blast
      have "j = k" by (rule market_unique [OF keys x(1) T(1) x(2)])
      then show False using x T(1) by simp
    qed
    have q: "has_id i n q \<longleftrightarrow> mkt_market_id m = i \<and> mkt_next_position_nonce m = n" for i n
      using T(6) by (auto simp: has_id_def)
    have cnt: "opened i n st' = opened i n st + (if has_id i n q then 1 else 0)"
      "closed i n st' = closed i n st" for i n
      using T(8,9) q by (simp_all add: opened_def closed_def T(7))
    have new: "\<exists>k m. st_markets st' k = Some m \<and> mkt_market_id m = i \<and> n < mkt_next_position_nonce m"
      if "has_id i n q" for i n
      using that T(2,3) by (intro exI [of _ k] exI [of _ m']) (auto simp: T(4) q same_identity_def)
    show ?thesis
      unfolding ledger_inv_def
    proof (intro allI)
      fix i n
      have L': "opened i n st = count_where (has_id i n) (open_positions st) + closed i n st"
        "opened i n st \<le> 1" "0 < opened i n st \<Longrightarrow> \<exists>k m. st_markets st k = Some m \<and> mkt_market_id m = i
             \<and> n < mkt_next_position_nonce m" using L unfolding ledger_inv_def by blast+
      show "opened i n st' = count_where (has_id i n) (open_positions st') + closed i n st'
        \<and> opened i n st' \<le> 1
        \<and> (0 < opened i n st' \<longrightarrow> (\<exists>k m. st_markets st' k = Some m \<and> mkt_market_id m = i
             \<and> n < mkt_next_position_nonce m))"
      proof (cases "has_id i n q")
        case True
        then have "opened i n st = 0" using fresh q by simp
        then show ?thesis using L'(1) new [OF True] True by (simp add: cnt T(5))
      next
        case False
        then show ?thesis using L' grow by (simp add: cnt T(5))
      qed
    qed
  next
    case (settle_one a nonce salt)
    show ?thesis
    proof (cases rule: settle_position_trace [OF fin settle_one])
      case 1
      then show ?thesis using L by simp
    next
      case (2 k m m' q ev)
      have q: "has_id i n q \<longleftrightarrow> mkt_market_id m = i \<and> nonce = n" for i n
        using 2(6) by (auto simp: has_id_def)
      have cnt: "opened i n st' = opened i n st"
        "closed i n st' = closed i n st + (if has_id i n q then 1 else 0)"
        "count_where (has_id i n) (open_positions st) = count_where (has_id i n) (open_positions st') + (if has_id i n q then 1 else 0)" for i n
        using 2(8,9) q by (simp_all add: opened_def closed_def 2(5,7))
      show ?thesis
        unfolding ledger_inv_def cnt(1)
      proof (intro allI conjI)
        fix i n
        show "opened i n st = count_where (has_id i n) (open_positions st') + closed i n st'"
          using L cnt(2,3) [of i n] unfolding ledger_inv_def by simp
      qed (use L grow in \<open>unfold ledger_inv_def, blast+\<close>)
    qed
  qed
qed

lemma ledger_inv_cong:
  assumes "ledger_inv st" "st_positions st' = st_positions st" "st_markets st' = st_markets st"
    and "st_events st' = st_events st"
  shows "ledger_inv st'"
  using assms(1) unfolding ledger_inv_def opened_def closed_def open_positions_def assms(2-4) .

interpretation ledger_machine: transition_system
  "\<lambda>st. env_laws e \<and> initial_chain e st" "chain_step e"
  "\<lambda>st. env_laws e \<and> chain_inv e st \<and> ledger_inv st" for e
proof unfold_locales
  fix st st'
  assume inv: "env_laws e \<and> chain_inv e st \<and> ledger_inv st" and s: "chain_step e st st'"
  have "ledger_inv st'"
    using s
  proof cases
    case (instruction signers r)
    then show ?thesis using ledger_step inv by blast
  next
    case environment
    then show ?thesis using inv by (auto intro: ledger_inv_cong)
  qed
  then show "env_laws e \<and> chain_inv e st' \<and> ledger_inv st'" using chain_step_inv inv s by blast
qed (auto intro: initial_chain_inv ledger_initial)

lemma reachable_ledger: "chain_reachable e st \<Longrightarrow> chain_inv e st \<and> ledger_inv st"
  unfolding chain_reachable_def using ledger_machine.reachable_inv by blast

lemma step_frame_step:
  assumes "chain_inv e st" "chain_step e st st'"
  shows "step_frame st st'"
  using assms(2)
proof cases
  case (instruction signers r)
  then show ?thesis using process_frame assms(1) unfolding chain_inv_def inv_keys_def by blast
next
  case environment
  then show ?thesis by (simp add: step_frame_def)
qed

lemma reachable_steps:
  assumes "(chain_step e)\<^sup>*\<^sup>* st st'" "chain_reachable e st"
  shows "chain_reachable e st' \<and> step_frame st st'"
  using assms(1)
proof (induction rule: rtranclp_induct)
  case base
  then show ?case using assms(2) by (simp add: step_frame_def)
next
  case (step y z)
  then have "chain_reachable e z" unfolding chain_reachable_def by (blast intro: reachable.next_step)
  moreover have "step_frame y z" using step reachable_ledger step_frame_step by blast
  ultimately show ?case using step.IH step_frame_trans by blast
qed


text \<open>C6: The ledger. In every reachable chain every position ever created, identified by its market
  and nonce, was created once and is now either open in exactly one place or was closed exactly
  once; nothing was closed that was not created.\<close>
theorem position_ledger:
  assumes "chain_reachable e st"
  shows "opened i n st = size (filter_mset (has_id i n) (open_positions st)) + closed i n st
    \<and> opened i n st \<le> 1"
  using reachable_ledger [OF assms] unfolding ledger_inv_def count_where_def by blast

theorem position_ledger_witness:
  "opened 0 0 run8 = 1 \<and> closed 0 0 run8 = 1 \<and> size (filter_mset (has_id 0 0) (open_positions run8)) = 0"
proof -
  have "closed 0 0 run8 = 1" by (simp add: closed_def run8_def run6_def)
  then show ?thesis using position_ledger [OF run_reachable(9), of 0 0] by auto
qed

text \<open>C5: No double settlement, ever. Once a position was closed, then after any further sequence of
  transactions and outside events it is not open again, its close stays the only one, and every
  further settlement of it that passes the account checks succeeds without changing anything.\<close>
theorem closed_is_final:
  assumes "chain_reachable e st" "0 < closed i n st" "(chain_step e)\<^sup>*\<^sup>* st st'"
  shows "closed i n st' = 1 \<and> (\<forall>p \<in># open_positions st'. \<not> has_id i n p)
    \<and> (\<forall>signers a salt l. load_settle e signers a st' = Inr l \<and> mkt_market_id (sl_market l) = i
        \<longrightarrow> settle_position e signers a n salt st' = Inr st')"
proof -
  have R: "chain_reachable e st'" "step_frame st st'" using reachable_steps [OF assms(3,1)] by blast+
  have "closed i n st \<le> closed i n st'"
    using R(2) by (auto simp: step_frame_def closed_def)
  moreover have "opened i n st' = count_where (has_id i n) (open_positions st') + closed i n st'"
    "opened i n st' \<le> 1"
    using reachable_ledger [OF R(1)] unfolding ledger_inv_def by blast+
  ultimately have c: "closed i n st' = 1" "count_where (has_id i n) (open_positions st') = 0"
    using assms(2) by linarith+
  have none: "\<forall>p \<in># open_positions st'. \<not> has_id i n p" using c(2) by (simp add: count_where_none)
  have "settle_position e signers a n salt st' = Inr st'"
    if l: "load_settle e signers a st' = Inr l" "mkt_market_id (sl_market l) = i" for signers a salt l
  proof -
    have "load_positions e st' (sp_user a) (sp_user_positions a) = Inr (sl_positions l)"
      using load_settle_InrD [OF l(1)] by (metis settle_loaded.select_convs)
    then have up: "st_positions st' (sp_user_positions a) = Some (sl_positions l)"
      using load_positions_InrD by blast
    have fin: "finite (dom (st_positions st'))"
      using reachable_ledger [OF R(1)] by (simp add: chain_inv_def inv_keys_def)
    have "position_index (sl_positions l) i n = None"
    proof (rule ccontr)
      assume "position_index (sl_positions l) i n \<noteq> None"
      then obtain j where "position_index (sl_positions l) i n = Some j" by blast
      from position_index_SomeD [OF this] have "up_positions (sl_positions l) ! j \<in># open_positions st'"
        "has_id i n (up_positions (sl_positions l) ! j)"
        using open_positions_memI [OF fin up] by (auto simp: has_id_def)
      then show False using none by blast
    qed
    then show ?thesis by (simp add: settle_position_def l Let_def)
  qed
  then show ?thesis using c none by blast
qed

theorem closed_is_final_witness:
  "settle_position reference_env [settlement_crank_signer reference_env run_market] run_settle 0 [1] run8 = Inr run8"
proof -
  have l: "load_settle reference_env [settlement_crank_signer reference_env run_market] run_settle run8
      = Inr \<lparr>sl_market = closed_market, sl_positions = \<lparr>up_positions = []\<rparr>\<rparr>"
    by (simp add: load_settle_def run_settle_defs run8_def run7_def run6_def run_states run_defs closed_market_def
      reference_env_def load_defs fresh_market_def funded_market_def risk_market_def fresh_token_account_def
      settlement_crank_signer_def)
  have c: "0 < closed 0 0 run8" by (simp add: closed_def run8_def run6_def)
  have "mkt_market_id closed_market = 0"
    by (simp add: closed_market_def risk_market_def funded_market_def fresh_market_def)
  then show ?thesis using closed_is_final [OF run_reachable(9) c rtranclp.rtrancl_refl] l by simp
qed

text \<open>C22: What is fixed stays fixed. After any sequence of steps a configuration is unchanged, a market
  still has its identity, oracle, feed and bump, its nonce has not decreased, and the event log
  has only grown.\<close>
theorem configuration_final:
  assumes "chain_reachable e st" "(chain_step e)\<^sup>*\<^sup>* st st'"
  shows "(\<forall>k c. st_configs st k = Some c \<longrightarrow> st_configs st' k = Some c)
   \<and> (\<forall>k m. st_markets st k = Some m \<longrightarrow> (\<exists>m'. st_markets st' k = Some m' \<and> same_identity m m'))
   \<and> (\<exists>evs. st_events st' = st_events st @ evs)"
  using reachable_steps [OF assms(2,1)] by (simp add: step_frame_def)

theorem configuration_final_witness:
  "\<exists>m'. st_markets run8 run_market = Some m' \<and> same_identity risk_market m'"
proof -
  have "chain_step reference_env run7 run8"
    by (rule chain_step.instruction [OF run_step8]) (use run_wallets(5) in simp)
  then have "(chain_step reference_env)\<^sup>*\<^sup>* run7 run8" by blast
  from configuration_final [OF run_reachable(8) this] show ?thesis by (simp add: run7_def run6_def)
qed

end
