(* ===== verification/Lifecycle.thy ===== *)
theory Lifecycle
  imports Solvency Ledger
begin

text \<open>
  What each instruction promises: who may open a position and when, that its settlement is
  scheduled with accounts that will be accepted, that liquidity cannot move while risk is open,
  what a deposit and a withdrawal move exactly, and which transactions can spend a pool at all.
\<close>


section \<open>Opening a position\<close>

lemma require_user_capacity_InrD:
  assumes "require_user_open_collateral_capacity old c equity bps = Inr x"
  shows "(unat old + unat c) * 10000 \<le> unat equity * unat bps"
proof -
  obtain t :: u64 and lhs rhs :: u128 where "unat t = unat old + unat c" "unat lhs = unat t * 10000"
    "unat rhs = unat equity * unat bps" "unat lhs \<le> unat rhs"
    using assms unfolding require_user_open_collateral_capacity_def result_simps
    by (simp only: rust_simps) (elim exE conjE, rule that; assumption)
  then show ?thesis by simp
qed

text \<open>C12: Admission. A position opens only in an open market, with the market's next nonce and a nonzero
  salt, when the session key signed, holds a valid session token and is the delegate of the user's
  token account with enough allowance; at an oracle price that passed the gate and lies within the
  user's bounds; with collateral between 1 and 1000 USDC; with fewer than eight positions open in
  the market and in the account; with the user's collateral in the market at most one percent of
  the risk epoch's equity; and with a pool that can cover the existing collateral, five times the
  collateral after the opening, and a reserve of a tenth of the pool.\<close>
theorem opening_guarded:
  assumes "open_position e signers a args st = Inr st'"
  shows "\<exists>m up pool account sample token equity user_total.
      st_markets st (op_market a) = Some m \<and> st_positions st (positions_key e (op_user a)) = Some up
    \<and> st_tokens st (op_pool_token_account a) = Some pool
    \<and> st_tokens st (op_user_token_account a) = Some account
    \<and> op_session_signer a \<in> set signers \<and> op_session_token a = Some token
    \<and> session_valid e token (op_session_signer a) (op_user a) (st_now st)
    \<and> ta_owner account = op_user a \<and> ta_delegate account = Some (op_session_signer a)
    \<and> oa_collateral args \<le> ta_delegated_amount account
    \<and> mkt_mode m = Open \<and> oa_nonce args = mkt_next_position_nonce m \<and> oa_task_salt args \<noteq> zero32
    \<and> mkt_active_positions m < 8 \<and> length (up_positions up) < 8
    \<and> 1000000 \<le> unat (oa_collateral args) \<and> unat (oa_collateral args) \<le> 1000000000
    \<and> read_oracle_price e st (mkt_oracle m) (mkt_oracle_feed_id m) = Inr (Some sample)
    \<and> sint (oa_min_entry_price args) \<le> sint (pr_price sample)
    \<and> sint (pr_price sample) \<le> sint (oa_max_entry_price args)
    \<and> equity = (if mkt_active_positions m = 0 then min (ta_amount pool) MAX_MARKET_EQUITY
                else mkt_risk_epoch_equity m)
    \<and> open_collateral up (mkt_market_id m) = Inr user_total
    \<and> 100 * (unat user_total + unat (oa_collateral args)) \<le> unat equity
    \<and> unat (mkt_open_collateral m) + 5 * (unat (mkt_open_collateral m) + unat (oa_collateral args))
        + unat (ta_amount pool) div 10 \<le> unat (ta_amount pool)"
proof -
  obtain l r where l: "load_open e signers a st = Inr l" and adm: "admit_position e a args l st = Inr r"
    by (rule open_position_InrD [OF assms]) (rule that; assumption)
  obtain config where C: "op_session_signer a \<in> set signers"
    "load_market e st (op_market a) = Inr (ol_market l)"
    "load_positions e st (op_user a) (op_user_positions a) = Inr (ol_positions l)"
    "load_associated e st (op_market a) (op_collateral_mint a) (op_pool_token_account a) = Inr (ol_pool l)"
    "st_tokens st (op_user_token_account a) = Some (ol_user_token l)"
    "ta_owner (ol_user_token l) = op_user a" "op_price_update a = mkt_oracle (ol_market l)"
    "require_session e st a = Inr ()"
    by (rule load_open_InrD [OF l]) (rule that; assumption)
  obtain s1 :: price and ee o1 reading u2 uoc x where A: "oa_task_salt args \<noteq> zero32" "mkt_mode (ol_market l) = Open"
    "MIN_POSITION_COLLATERAL \<le> oa_collateral args" "oa_collateral args \<le> MAX_POSITION_COLLATERAL"
    "oa_nonce args = mkt_next_position_nonce (ol_market l)"
    "mkt_active_positions (ol_market l) < MAX_MARKET_FINANCIALLY_ACTIVE_POSITIONS"
    "length (up_positions (ol_positions l)) < USER_POSITIONS_CAPACITY"
    "read_oracle_price e st (op_price_update a) (mkt_oracle_feed_id (ol_market l)) = Inr reading"
    "reading = Some s1"
    "sint (oa_min_entry_price args) \<le> sint (pr_price s1)"
    "sint (pr_price s1) \<le> sint (oa_max_entry_price args)"
    "ta_delegate (ol_user_token l) = Some (op_session_signer a)"
    "oa_collateral args \<le> ta_delegated_amount (ol_user_token l)"
    "ee = (if mkt_active_positions (ol_market l) = 0
           then bounded_risk_epoch_equity (ta_amount (ol_pool l)) MAX_MARKET_EQUITY
           else mkt_risk_epoch_equity (ol_market l))"
    "open_collateral (ol_positions l) (mkt_market_id (ol_market l)) = Inr uoc"
    "require_user_open_collateral_capacity uoc (oa_collateral args) ee USER_OPEN_COLLATERAL_BPS = Inr x"
    "checked_add (mkt_open_collateral (ol_market l)) (oa_collateral args) = Some o1"
    "require_post_open_solvency (ta_amount (ol_pool l)) (mkt_open_collateral (ol_market l)) o1
       SAFETY_BUFFER_BPS = Inr u2"
    by (rule admit_position_InrD [OF adm]) (rule that; assumption)
  obtain token where token: "op_session_token a = Some token"
    "session_valid e token (op_session_signer a) (op_user a) (st_now st)"
    using C(8) by (auto simp: require_session_def result_simps split: option.splits)
  have user: "100 * (unat uoc + unat (oa_collateral args)) \<le> unat ee"
    using require_user_capacity_InrD [OF A(16)] by (simp add: USER_OPEN_COLLATERAL_BPS_def)
  have o1: "unat o1 = unat (mkt_open_collateral (ol_market l)) + unat (oa_collateral args)"
    using A(17) by (simp add: checked_add_eq_Some)
  have solvent: "unat (mkt_open_collateral (ol_market l)) + 5 * (unat (mkt_open_collateral (ol_market l)) + unat (oa_collateral args))
        + unat (ta_amount (ol_pool l)) div 10 \<le> unat (ta_amount (ol_pool l))"
    using require_post_open_solvency_InrD [OF A(18)] o1 by (simp add: SAFETY_BUFFER_BPS_def)
  have M: "st_markets st (op_market a) = Some (ol_market l)"
    and P: "st_positions st (positions_key e (op_user a)) = Some (ol_positions l)"
    and T: "st_tokens st (op_pool_token_account a) = Some (ol_pool l)"
    using load_market_InrD [OF C(2)] load_positions_InrD [OF C(3)] load_associated_InrD [OF C(4)] by auto
  have B: "1000000 \<le> unat (oa_collateral args) \<and> unat (oa_collateral args) \<le> 1000000000"
    "mkt_active_positions (ol_market l) < 8" "length (up_positions (ol_positions l)) < 8"
    using A(3,4,6,7) by (simp_all add: word_le_nat_alt const_defs)
  show ?thesis
    by (rule exI [of _ "ol_market l"], rule exI [of _ "ol_positions l"], rule exI [of _ "ol_pool l"],
        rule exI [of _ "ol_user_token l"], rule exI [of _ s1], rule exI [of _ token], rule exI [of _ ee],
        rule exI [of _ uoc])
      (intro conjI; (rule M P T C token user solvent B A | use B A C in \<open>simp add: bounded_risk_epoch_equity_def\<close>))
qed

theorem opening_guarded_witness:
  "\<exists>sample. read_oracle_price reference_env run5 oracle_k feed_k = Inr (Some sample)
     \<and> sint (pr_price sample) \<le> 100001"
proof -
  have "open_position reference_env [session_w] run_open run_args run5 = Inr run6" using run_step6 by simp
  from opening_guarded [OF this] obtain m sample where "st_markets run5 (op_market run_open) = Some m"
    "read_oracle_price reference_env run5 (mkt_oracle m) (mkt_oracle_feed_id m) = Inr (Some sample)"
    "sint (pr_price sample) \<le> sint (oa_max_entry_price run_args)" by blast
  moreover have "st_markets run5 (op_market run_open) = Some funded_market"
    by (simp add: run5_def run4_def run_open_def)
  ultimately show ?thesis by (auto simp: funded_market_def fresh_market_def run_args_def)
qed

section \<open>The scheduled settlement\<close>

lemma settlement_task_id_positive: "1 \<le> sint (settlement_task_id e market user nonce salt)"
proof -
  define id where "id = and (u64_from_le_bytes (take 8 (hashv e [byte_string ''leveraged_prediction_position'',
    market, user, u32_le_bytes nonce, salt]))) (2 ^ 63 - 1)"
  have "id \<le> 2 ^ 63 - 1" unfolding id_def by (rule word_and_le1)
  then have ub: "uint id < 2 ^ 63" by (simp add: word_le_def)
  have m: "uint (max id 1) = max (uint id) 1"
    by (simp add: max_def word_le_def)
  have "uint (max id 1) < 2 ^ 63" "1 \<le> uint (max id 1)" using ub by (simp_all add: m)
  moreover from this have "sint (word_of_int (uint (max id 1)) :: i64) = uint (max id 1)"
    by (intro sint_word_of_int_fits) (simp add: signed_fits_def)
  ultimately have "1 \<le> sint (max id 1)" by simp
  then show ?thesis by (simp add: settlement_task_id_def Let_def id_def)
qed


lemma transfer_load_associated:
  assumes "transfer_effect r (st_tokens st) (st_tokens st')" "load_associated e st a m k = Inr t"
  shows "\<exists>t'. load_associated e st' a m k = Inr t'"
proof -
  note L = load_associated_InrD [OF assms(2)]
  then obtain t' where "st_tokens st' k = Some t'" "ta_owner t' = a"
    using assms(1) unfolding transfer_effect_def
    by (cases "k = tr_from r \<or> k = tr_to r") (auto simp: same_token_account_def)
  with L have "load_associated e st' a m k = Inr t'"
    by (simp add: load_associated_def load_account_def)
  then show ?thesis by blast
qed

text \<open>All that \<open>load_open\<close> checks and the settlement's accounts need again.\<close>

lemma load_open_settlement:
  assumes "load_open e signers a st = Inr l"
  obtains config escrow fee mint where
    "load_config e st (op_protocol_config a) = Inr config"
    "cfg_collateral_mint config = op_collateral_mint a"
    "load_market e st (op_market a) = Inr (ol_market l)"
    "load_positions e st (op_user a) (op_user_positions a) = Inr (ol_positions l)"
    "load_associated e st (op_market a) (op_collateral_mint a) (op_pool_token_account a) = Inr (ol_pool l)"
    "require_seeds e [FEE_AUTHORITY_SEED, op_market a] (op_derived_fee_authority a) = Inr ()"
    "load_associated e st (op_derived_fee_authority a) (op_collateral_mint a) (op_fee_token_account a) = Inr fee"
    "load_associated e st (op_user_positions a) (op_collateral_mint a) (op_payout_escrow_token_account a) = Inr escrow"
    "load_account (st_mints st) (op_collateral_mint a) = Inr mint"
    "op_price_update a = mkt_oracle (ol_market l)"
    "require_token_program e (op_token_program a) = Inr ()"
    "op_crank_signer a = settlement_crank_signer e (op_market a)"
    "distinct [op_pool_token_account a, op_fee_token_account a, op_user_token_account a, op_payout_escrow_token_account a]"
  using assms unfolding load_open_def result_simps require_distinct_def sum.inject
  by (elim exE conjE) (rule that; (assumption | force))

lemma settlement_accounts_of_simps [simp]:
  "sp_user (settlement_accounts_of a) = op_user a"
  "sp_protocol_config (settlement_accounts_of a) = op_protocol_config a"
  "sp_market (settlement_accounts_of a) = op_market a"
  "sp_user_positions (settlement_accounts_of a) = op_user_positions a"
  "sp_pool_token_account (settlement_accounts_of a) = op_pool_token_account a"
  "sp_user_token_account (settlement_accounts_of a) = op_user_token_account a"
  "sp_payout_escrow_token_account (settlement_accounts_of a) = op_payout_escrow_token_account a"
  "sp_derived_fee_authority (settlement_accounts_of a) = op_derived_fee_authority a"
  "sp_fee_token_account (settlement_accounts_of a) = op_fee_token_account a"
  "sp_collateral_mint (settlement_accounts_of a) = op_collateral_mint a"
  "sp_price_update (settlement_accounts_of a) = op_price_update a"
  "sp_token_program (settlement_accounts_of a) = op_token_program a"
  "sp_crank_signer (settlement_accounts_of a) = op_crank_signer a"
  by (simp_all add: settlement_accounts_of_def)

lemma load_settle_after_open:
  assumes l: "load_open e signers a st = Inr l" and t: "transfer_effect r (st_tokens st) (st_tokens st')"
    and st': "st_configs st' = st_configs st" "st_mints st' = st_mints st"
      "st_markets st' = (st_markets st)(op_market a \<mapsto> m')"
      "st_positions st' = (st_positions st)(op_user_positions a \<mapsto> up')"
    and m': "same_identity (ol_market l) m'"
  shows "load_settle e [op_crank_signer a] (settlement_accounts_of a) st' = Inr \<lparr>sl_market = m', sl_positions = up'\<rparr>"
proof -
  obtain config escrow fee mint where C:
    "load_config e st (op_protocol_config a) = Inr config"
    "cfg_collateral_mint config = op_collateral_mint a"
    "load_market e st (op_market a) = Inr (ol_market l)"
    "load_positions e st (op_user a) (op_user_positions a) = Inr (ol_positions l)"
    "load_associated e st (op_market a) (op_collateral_mint a) (op_pool_token_account a) = Inr (ol_pool l)"
    "require_seeds e [FEE_AUTHORITY_SEED, op_market a] (op_derived_fee_authority a) = Inr ()"
    "load_associated e st (op_derived_fee_authority a) (op_collateral_mint a) (op_fee_token_account a) = Inr fee"
    "load_associated e st (op_user_positions a) (op_collateral_mint a) (op_payout_escrow_token_account a) = Inr escrow"
    "load_account (st_mints st) (op_collateral_mint a) = Inr mint"
    "op_price_update a = mkt_oracle (ol_market l)"
    "require_token_program e (op_token_program a) = Inr ()"
    "op_crank_signer a = settlement_crank_signer e (op_market a)"
    "distinct [op_pool_token_account a, op_fee_token_account a, op_user_token_account a, op_payout_escrow_token_account a]"
    by (rule load_open_settlement [OF l]) (rule that; assumption)
  note keep = transfer_load_associated [OF t]
  obtain pool' fee' escrow' where K:
    "load_associated e st' (op_market a) (op_collateral_mint a) (op_pool_token_account a) = Inr pool'"
    "load_associated e st' (op_derived_fee_authority a) (op_collateral_mint a) (op_fee_token_account a) = Inr fee'"
    "load_associated e st' (op_user_positions a) (op_collateral_mint a) (op_payout_escrow_token_account a) = Inr escrow'"
    using keep [OF C(5)] keep [OF C(7)] keep [OF C(8)] by blast
  have cfg: "load_config e st' (op_protocol_config a) = Inr config"
    using C(1) by (simp add: load_config_def st')
  have mkt: "load_market e st' (op_market a) = Inr m'"
    using C(3) m' by (auto simp: load_market_def load_account_def st' same_identity_def result_simps)
  have pos: "load_positions e st' (op_user a) (op_user_positions a) = Inr up'"
    using C(4) by (auto simp: load_positions_def load_account_def st' result_simps)
  have d: "distinct [op_pool_token_account a, op_payout_escrow_token_account a, op_fee_token_account a]"
    using C(13) by auto
  have oracle': "op_price_update a = mkt_oracle m'" using C(10) m' by (simp add: same_identity_def)
  show ?thesis
    unfolding load_settle_def settlement_accounts_of_simps
    by (simp only: cfg C(2) mkt pos K C(6) C(9) [folded st'(2)] oracle' C(11) C(12) d require_signer_def
        require_distinct_def and_then_Inr require_True list.set insert_iff simp_thms)
qed

lemma position_append_new:
  "\<forall>y \<in> set xs. \<not> p y \<Longrightarrow> p x \<Longrightarrow> position p (xs @ [x]) = Some (length xs)"
  by (induction xs) auto

lemma schedule_settlement_InrD:
  assumes "schedule_settlement e a m nonce salt = Inr task"
  shows "sr_authority task = op_market a \<and> sr_task_id task = settlement_task_id e (op_market a) (op_user a) nonce salt
    \<and> sr_interval_millis task = SETTLEMENT_TASK_INTERVAL_MILLIS \<and> sr_iterations task = SETTLEMENT_TASK_ITERATIONS
    \<and> sr_instruction task = \<lparr>in_program_id = program_id e,
        in_accounts = settle_account_metas (settlement_accounts_of a), in_nonce = nonce, in_task_salt = salt\<rparr>
    \<and> schedule_task e task"
  using assms unfolding schedule_settlement_def settlement_instruction_def Let_def result_simps by auto

lemma settle_metas_signers:
  "\<forall>m \<in> set (settle_account_metas a). am_is_signer m \<longrightarrow> am_pubkey m = sp_crank_signer a \<and> \<not> am_is_writable m"
  by (simp add: settle_account_metas_def)

text \<open>C8: Every opening schedules a settlement that can run. The scheduler accepted one new task, under
  the market's authority and a positive task id, that calls \<open>settle_position\<close> with the position's
  nonce and salt, in which only the market's crank signer signs and no signing account is writable;
  its 25 runs a second apart outlast the ten seconds to the expiry and the ten seconds of the
  settlement window. With the crank's signature the scheduled accounts pass every constraint of
  \<open>settle_position\<close>, which finds the new position under that nonce and salt, ten seconds before
  its expiry.\<close>
theorem settlement_is_scheduled:
  assumes "chain_reachable e st" "open_position e signers a args st = Inr st'"
  shows "\<exists>task l i p. st_tasks st' = st_tasks st @ [task] \<and> schedule_task e task
    \<and> sr_authority task = op_market a \<and> 1 \<le> sint (sr_task_id task)
    \<and> sint (sr_interval_millis task) * (sint (sr_iterations task) - 1) \<ge>
        1000 * (sint POSITION_DURATION_SECONDS + sint SETTLEMENT_BUFFER_SECONDS)
    \<and> in_accounts (sr_instruction task) = settle_account_metas (settlement_accounts_of a)
    \<and> (\<forall>x \<in> set (in_accounts (sr_instruction task)). am_is_signer x \<longrightarrow>
          am_pubkey x = settlement_crank_signer e (op_market a) \<and> \<not> am_is_writable x)
    \<and> in_nonce (sr_instruction task) = oa_nonce args \<and> in_task_salt (sr_instruction task) = oa_task_salt args
    \<and> load_settle e [settlement_crank_signer e (op_market a)] (settlement_accounts_of a) st' = Inr l
    \<and> position_index (sl_positions l) (mkt_market_id (sl_market l)) (oa_nonce args) = Some i
    \<and> p = up_positions (sl_positions l) ! i \<and> pos_task_salt p = oa_task_salt args
    \<and> unat (pos_collateral p) = unat (oa_collateral args) \<and> pos_direction p = oa_direction args
    \<and> int (unat (pos_expires_at p)) = sint (st_now st) + 10"
proof -
  obtain l sample ee oc' task ts expires cc ce act nn where
    l: "load_open e signers a st = Inr l"
    and adm: "admit_position e a args l st = Inr (sample, ee, oc')"
    and sch: "schedule_settlement e a (ol_market l) (oa_nonce args) (oa_task_salt args) = Inr task"
    and t: "token_transfer e \<lparr>tr_from = op_user_token_account a, tr_to = op_pool_token_account a,
        tr_authority = op_session_signer a, tr_signers = signers, tr_amount = oa_collateral args\<rparr>
       (st_tokens st) = Inr ts"
    and ex: "schecked_add (st_now st) POSITION_DURATION_SECONDS = Some expires"
    and cv: "compact_position_values (oa_collateral args) expires = Inr (cc, ce)"
    and nn: "checked_add (oa_nonce args) 1 = Some nn"
    and st': "emit (PositionCreated (mkt_market_id (ol_market l)) (oa_nonce args) (op_user a)
             (pr_price sample) cc (oa_direction args) ce)
       (st\<lparr>st_tokens := ts,
           st_tasks := st_tasks st @ [task],
           st_positions := (st_positions st)(op_user_positions a \<mapsto>
             \<lparr>up_positions = up_positions (ol_positions l) @
               [\<lparr>pos_market_id = mkt_market_id (ol_market l), pos_nonce = oa_nonce args,
                 pos_task_salt = oa_task_salt args, pos_collateral = cc,
                 pos_entry_price = pr_price sample, pos_expires_at = ce,
                 pos_direction = oa_direction args\<rparr>]\<rparr>),
           st_markets := (st_markets st)(op_market a \<mapsto>
             (ol_market l)\<lparr>mkt_risk_epoch_equity := ee, mkt_open_collateral := oc',
                mkt_active_positions := act, mkt_next_position_nonce := nn\<rparr>)\<rparr>) = st'"
    by (rule open_position_InrD [OF assms(2)]) (rule that; assumption)
  define p where "p = \<lparr>pos_market_id = mkt_market_id (ol_market l), pos_nonce = oa_nonce args,
                 pos_task_salt = oa_task_salt args, pos_collateral = cc,
                 pos_entry_price = pr_price sample, pos_expires_at = ce,
                 pos_direction = oa_direction args\<rparr>"
  define m' where "m' = (ol_market l)\<lparr>mkt_risk_epoch_equity := ee, mkt_open_collateral := oc',
                mkt_active_positions := act, mkt_next_position_nonce := nn\<rparr>"
  have laws: "env_laws e" and I: "chain_inv e st" using reachable_chain_inv [OF assms(1)] by blast+
  have keys: "inv_keys e st" "finite (dom (st_positions st))" "inv_positions st"
    using I by (simp_all add: chain_inv_def inv_keys_def)
  have C: "load_market e st (op_market a) = Inr (ol_market l)"
    "load_positions e st (op_user a) (op_user_positions a) = Inr (ol_positions l)"
    "op_crank_signer a = settlement_crank_signer e (op_market a)"
    by (rule load_open_InrD [OF l], assumption)+
  have m: "st_markets st (op_market a) = Some (ol_market l)"
    and up: "st_positions st (op_user_positions a) = Some (ol_positions l)"
    using load_market_InrD [OF C(1)] load_positions_InrD [OF C(2)] by blast+
  have nonce: "oa_nonce args = mkt_next_position_nonce (ol_market l)"
    by (rule admit_position_InrD [OF adm]) assumption
  have lt: "oa_nonce args \<le> nn" using nn by (simp add: checked_add_eq_Some word_le_nat_alt)
  have old: "\<not> (pos_market_id q = mkt_market_id (ol_market l) \<and> pos_nonce q = oa_nonce args)"
    if q: "q \<in> set (up_positions (ol_positions l))" for q
  proof
    assume id: "pos_market_id q = mkt_market_id (ol_market l) \<and> pos_nonce q = oa_nonce args"
    have "q \<in># open_positions st" by (rule open_positions_memI [OF keys(2) up q])
    then obtain j x where x: "st_markets st j = Some x" "mkt_market_id x = pos_market_id q"
      "pos_nonce q < mkt_next_position_nonce x" using keys(3) unfolding inv_positions_def by blast
    have "j = op_market a" by (rule market_unique [OF keys(1) x(1) m]) (use x id in simp)
    then show False using x m id nonce by simp
  qed
  have idx: "position_index \<lparr>up_positions = up_positions (ol_positions l) @ [p]\<rparr>
      (mkt_market_id m') (oa_nonce args) = Some (length (up_positions (ol_positions l)))"
    unfolding position_index_def user_positions.simps
    by (rule position_append_new) (use old in \<open>auto simp: m'_def p_def\<close>)
  have te: "transfer_effect \<lparr>tr_from = op_user_token_account a, tr_to = op_pool_token_account a,
        tr_authority = op_session_signer a, tr_signers = signers, tr_amount = oa_collateral args\<rparr>
       (st_tokens st) (st_tokens st')"
    using token_lawsD(1) [OF env_lawsD(2) [OF laws] t] by (simp add: st' [symmetric])
  have ld: "load_settle e [op_crank_signer a] (settlement_accounts_of a) st'
      = Inr \<lparr>sl_market = m', sl_positions = \<lparr>up_positions = up_positions (ol_positions l) @ [p]\<rparr>\<rparr>"
    by (rule load_settle_after_open [OF l te])
      (use lt nonce in \<open>simp_all add: st' [symmetric] m'_def p_def same_identity_def emit_def\<close>)
  have exp: "int (unat ce) = sint (st_now st) + 10" "unat cc = unat (oa_collateral args)"
    using compact_position_values_InrD [OF cv] ex
    by (simp_all add: schecked_add_def checked_of_int_eq_Some POSITION_DURATION_SECONDS_def)
  have tasks: "st_tasks st' = st_tasks st @ [task]" by (simp add: st' [symmetric] emit_def)
  note S = schedule_settlement_InrD [OF sch]
  have window: "sint (sr_interval_millis task) * (sint (sr_iterations task) - 1) \<ge>
        1000 * (sint POSITION_DURATION_SECONDS + sint SETTLEMENT_BUFFER_SECONDS)"
    using S by (simp add: const_defs)
  show ?thesis
    by (rule exI [of _ task], rule exI [of _ "\<lparr>sl_market = m', sl_positions = \<lparr>up_positions = up_positions (ol_positions l) @ [p]\<rparr>\<rparr>"],
        rule exI [of _ "length (up_positions (ol_positions l))"], rule exI [of _ p])
      (use tasks S window settlement_task_id_positive settle_metas_signers [of "settlement_accounts_of a"]
          ld [unfolded C(3)] idx exp C(3) in \<open>simp add: p_def [symmetric]\<close>, simp add: p_def exp)
qed

theorem settlement_is_scheduled_witness:
  "\<exists>task. st_tasks run6 = [task] \<and> 1 \<le> sint (sr_task_id task)"
proof -
  have "open_position reference_env [session_w] run_open run_args run5 = Inr run6" using run_step6 by simp
  moreover have "st_tasks run5 = []" by (simp add: run_states)
  ultimately show ?thesis using settlement_is_scheduled [OF run_reachable(6)] by fastforce
qed

section \<open>Liquidity\<close>

text \<open>C19: Liquidity is frozen while risk is open. With an open position in the market a deposit fails, as
  closed or as at risk, and a withdrawal fails as at risk, whoever asks and whatever the amounts.\<close>
theorem liquidity_frozen_at_risk:
  assumes "mkt_active_positions m \<noteq> 0 \<or> mkt_open_collateral m \<noteq> 0"
  shows "(load_deposit e signers d st = Inr l \<and> dll_market l = m \<longrightarrow>
      deposit_liquidity e signers d amount mins st
        = Inl (Code (if mkt_mode m = Open then ActiveRisk else MarketCloseOnly)))
   \<and> (load_execute_withdrawal e w st = Inr l \<and> dll_market l = m \<longrightarrow>
      execute_withdrawal e signers w st = Inl (Code ActiveRisk))"
  using assms
  by (auto simp: deposit_liquidity_def deposit_shares_def execute_withdrawal_def withdrawal_terms_def
      is_no_risk_def require_def and_then_def Let_def)

lemma run_load_deposit6:
  "load_deposit reference_env [lp_w] run_deposit run6 = Inr \<lparr>dll_market = risk_market,
     dll_liquidity = \<lparr>ul_markets = [\<lparr>ml_market_id = 0,
        ml_shares = 100000000000, ml_pending_withdrawal_shares = 0, ml_min_assets_out = 0\<rparr>]\<rparr>,
     dll_pool = (fresh_token_account run_market usdc)\<lparr>ta_amount := 100001000000\<rparr>\<rparr>"
  by (simp add: load_deposit_def run_deposit_def run6_def run_states run_defs
    reference_env_def load_defs risk_market_def funded_market_def fresh_market_def fresh_token_account_def)

theorem liquidity_frozen_at_risk_witness:
  "deposit_liquidity reference_env [lp_w] run_deposit 5000000 1 run6 = Inl (Code ActiveRisk)"
proof -
  have m: "mkt_mode risk_market = Open" and r: "mkt_active_positions risk_market \<noteq> 0 \<or> mkt_open_collateral risk_market \<noteq> 0"
    by (simp_all add: risk_market_def funded_market_def fresh_market_def)
  show ?thesis
    using liquidity_frozen_at_risk [OF r, THEN conjunct1, rule_format, OF conjI, OF run_load_deposit6] m by simp
qed

lemma position_list_update:
  "position p xs = Some i \<Longrightarrow> p y \<Longrightarrow> position p (xs[i := y]) = Some i"
proof (induction xs arbitrary: i)
  case (Cons x xs)
  then show ?case by (cases i) (auto split: if_splits)
qed simp

text \<open>C20: Request and cancel. Cancelling a withdrawal request brings the share account back to what it was,
  with the minimum of the cancelled request forgotten, and changes no market, token or other account.\<close>
theorem cancel_undoes_request:
  assumes "request_withdrawal e signers a shares mins st = Inr st1"
  shows "\<exists>m ul i. load_manage_withdrawal e signers a st = Inr (m, ul) \<and> market_mut ul (mkt_market_id m) = Some i
    \<and> ml_pending_withdrawal_shares (ul_markets ul ! i) = 0
    \<and> cancel_withdrawal e signers a st1 = Inr (st
        \<lparr>st_liquidity := (st_liquidity st)(mw_user_liquidity a \<mapsto>
            set_entry ul i ((ul_markets ul ! i)\<lparr>ml_min_assets_out := 0\<rparr>)),
         st_events := st_events st @ [WithdrawalRequested (mkt_market_id m) (mw_user a) shares mins,
            WithdrawalCancelled (mkt_market_id m) (mw_user a) shares]\<rparr>)"
proof -
  obtain m ul i where l: "load_manage_withdrawal e signers a st = Inr (m, ul)"
    and i: "market_mut ul (mkt_market_id m) = Some i"
    and s: "0 < shares" "ml_pending_withdrawal_shares (ul_markets ul ! i) = 0"
    and st1: "emit (WithdrawalRequested (mkt_market_id m) (mw_user a) shares mins)
       (st\<lparr>st_liquidity := (st_liquidity st)(mw_user_liquidity a \<mapsto>
           set_entry ul i ((ul_markets ul ! i)\<lparr>ml_pending_withdrawal_shares := shares,
                                 ml_min_assets_out := mins\<rparr>))\<rparr>) = st1"
    by (rule request_withdrawal_InrD [OF assms]) (rule that; assumption)
  define entry where "entry = (ul_markets ul ! i)\<lparr>ml_pending_withdrawal_shares := shares, ml_min_assets_out := mins\<rparr>"
  define ul1 where "ul1 = set_entry ul i entry"
  have idx: "i < length (ul_markets ul)" "ml_market_id (ul_markets ul ! i) = mkt_market_id m"
    using position_SomeD [OF i [unfolded market_mut_def]] by simp_all
  have "load_manage_withdrawal e signers a st1 = Inr (m, ul1)"
    using l unfolding st1 [symmetric]
    by (auto simp: load_manage_withdrawal_def load_market_def load_liquidity_def load_account_def
        result_simps emit_def ul1_def entry_def)
  moreover have "market_mut ul1 (mkt_market_id m) = Some i"
    using position_list_update [OF i [unfolded market_mut_def], of entry] idx
    by (simp add: market_mut_def ul1_def set_entry_def entry_def)
  moreover have upd: "(ul_markets ul ! i)\<lparr>ml_pending_withdrawal_shares := 0, ml_min_assets_out := 0\<rparr>
      = (ul_markets ul ! i)\<lparr>ml_min_assets_out := 0\<rparr>"
    using s(2) by (cases "ul_markets ul ! i") simp
  ultimately have "cancel_withdrawal e signers a st1 = Inr (st
        \<lparr>st_liquidity := (st_liquidity st)(mw_user_liquidity a \<mapsto>
            set_entry ul i ((ul_markets ul ! i)\<lparr>ml_min_assets_out := 0\<rparr>)),
         st_events := st_events st @ [WithdrawalRequested (mkt_market_id m) (mw_user a) shares mins,
            WithdrawalCancelled (mkt_market_id m) (mw_user a) shares]\<rparr>)"
    using s idx unfolding st1 [symmetric]
    by (simp add: cancel_withdrawal_def Let_def ul1_def set_entry_def entry_def emit_def upd)
  then show ?thesis using l i s by blast
qed


definition run_withdrawal :: manage_withdrawal_accounts where
  "run_withdrawal = \<lparr>mw_user = lp_w, mw_market = run_market, mw_user_liquidity = liquidity_key reference_env lp_w\<rparr>"

lemma run_request:
  "\<exists>st1. request_withdrawal reference_env [lp_w] run_withdrawal 1000 1 run4 = Inr st1"
  by (simp add: request_withdrawal_def run_withdrawal_def load_manage_withdrawal_def load_defs run_states
      run_defs reference_env_def market_mut_def funded_market_def fresh_market_def Let_def)

theorem cancel_undoes_request_witness:
  "\<exists>st1 st2. request_withdrawal reference_env [lp_w] run_withdrawal 1000 1 run4 = Inr st1
     \<and> cancel_withdrawal reference_env [lp_w] run_withdrawal st1 = Inr st2"
  using run_request cancel_undoes_request by metis




text \<open>A withdrawal in the run: the market is closed, the provider opens an associated account, asks
  for a tenth of the shares and gets a tenth of the pool.\<close>

definition lp_account :: pubkey where "lp_account = associated_token_address reference_env lp_w usdc"

definition exit1 :: chain where
  "exit1 = run4\<lparr>st_tokens := (st_tokens run4)(lp_account \<mapsto> fresh_token_account lp_w usdc)\<rparr>"

definition exit2 :: chain where
  "exit2 = exit1\<lparr>st_markets := [run_market \<mapsto> funded_market\<lparr>mkt_mode := CloseOnly\<rparr>],
     st_events := st_events run4 @ [MarketModeChanged 0 CloseOnly]\<rparr>"

definition exit3 :: chain where
  "exit3 = exit2\<lparr>st_liquidity := [liquidity_key reference_env lp_w \<mapsto> \<lparr>ul_markets = [\<lparr>ml_market_id = 0,
        ml_shares = 100000000000, ml_pending_withdrawal_shares = 10000000000, ml_min_assets_out = 1\<rparr>]\<rparr>],
     st_events := st_events exit2 @ [WithdrawalRequested 0 lp_w 10000000000 1]\<rparr>"

lemma exit_step1: "chain_step reference_env run4 exit1"
proof -
  have "exit1 = run4\<lparr>st_now := st_now run4, st_tokens := st_tokens exit1, st_prices := st_prices run4,
     st_mints := st_mints run4, st_upgrade_authority := st_upgrade_authority run4\<rparr>"
    by (simp add: exit1_def)
  moreover have "external_tokens reference_env (st_tokens run4) (st_tokens exit1)"
    unfolding external_tokens_def no_delegates_def exit1_def
    by (simp add: lp_account_def reference_program_address fresh_token_account_def)
      (simp add: run_states run_defs reference_env_def)
  ultimately show ?thesis using chain_step.environment order_refl by metis
qed

lemma exit_step2:
  "process reference_env [admin_w] (SetMarketMode \<lparr>sm_admin = admin_w, sm_protocol_config = run_config,
      sm_market = run_market\<rparr> CloseOnly) exit1 = Inr exit2"
  by (simp add: set_market_mode_def load_defs exit1_def exit2_def run_states run_defs reference_env_def
      funded_market_def fresh_market_def emit_def)

lemma exit_step3:
  "process reference_env [lp_w] (RequestWithdrawal run_withdrawal 10000000000 1) exit2 = Inr exit3"
  by (simp add: request_withdrawal_def run_withdrawal_def load_manage_withdrawal_def load_defs exit1_def exit2_def
      exit3_def run_states run_defs reference_env_def market_mut_def funded_market_def fresh_market_def Let_def
      emit_def set_entry_def)

lemma exit_reachable: "chain_reachable reference_env exit3"
proof -
  have "chain_reachable reference_env exit1"
    using run_reachable(5) exit_step1 unfolding chain_reachable_def by (rule reachable.next_step)
  from run_reach_instruction [OF this exit_step2 run_wallets(1)]
  have "chain_reachable reference_env exit2" .
  from run_reach_instruction [OF this exit_step3 run_wallets(2)] show ?thesis .
qed

definition run_exit :: execute_withdrawal_accounts where
  "run_exit = \<lparr>ew_user = lp_w, ew_protocol_config = run_config, ew_market = run_market,
     ew_user_liquidity = liquidity_key reference_env lp_w, ew_pool_token_account = run_pool,
     ew_user_token_account = lp_account, ew_collateral_mint = usdc, ew_token_program = token_program_id reference_env\<rparr>"

lemma exit_load: "load_execute_withdrawal reference_env run_exit exit3 = Inr
    \<lparr>dll_market = funded_market\<lparr>mkt_mode := CloseOnly\<rparr>,
     dll_liquidity = \<lparr>ul_markets = [\<lparr>ml_market_id = 0,
        ml_shares = 100000000000, ml_pending_withdrawal_shares = 10000000000, ml_min_assets_out = 1\<rparr>]\<rparr>,
     dll_pool = (fresh_token_account run_market usdc)\<lparr>ta_amount := 100000000000\<rparr>\<rparr>"
  by (simp add: load_execute_withdrawal_def run_exit_def lp_account_def load_defs exit1_def exit2_def exit3_def run_states
      run_defs reference_env_def funded_market_def fresh_market_def fresh_token_account_def)

lemma exit_terms: "withdrawal_terms (funded_market\<lparr>mkt_mode := CloseOnly\<rparr>) \<lparr>ul_markets = [\<lparr>ml_market_id = 0,
        ml_shares = 100000000000, ml_pending_withdrawal_shares = 10000000000, ml_min_assets_out = 1\<rparr>]\<rparr> 100000000000
    = Inr (10000000000, 10000000000, 90000000000)"
  by (simp add: withdrawal_terms_def funded_market_def fresh_market_def is_no_risk_def liquidity_market_def
      Let_def assets_for_shares_def checked_mul_def checked_div_def checked_sub_def try_from_unsigned_def
      require_valid_withdrawal_remainder_def)

lemma exit_done: "\<exists>st'. execute_withdrawal reference_env [] run_exit exit3 = Inr st'"
proof -
  have "\<exists>ts. market_transfer reference_env [] run_market (funded_market\<lparr>mkt_mode := CloseOnly\<rparr>) run_pool lp_account
      10000000000 (st_tokens exit3) = Inr ts"
    by (simp add: market_transfer_def seed_signers_def exit3_def exit2_def exit1_def lp_account_def run_states run_defs
        reference_env_def reference_transfer_def funded_market_def fresh_market_def fresh_token_account_def cpi_def)
  then obtain ts where ts: "market_transfer reference_env [] run_market (funded_market\<lparr>mkt_mode := CloseOnly\<rparr>)
      run_pool lp_account 10000000000 (st_tokens exit3) = Inr ts" by blast
  have g: "ew_market run_exit = run_market" "ew_pool_token_account run_exit = run_pool"
    "ew_user_token_account run_exit = lp_account" by (simp_all add: run_exit_def)
  have "\<exists>ul. debit_shares \<lparr>ul_markets = [\<lparr>ml_market_id = 0, ml_shares = 100000000000,
      ml_pending_withdrawal_shares = 10000000000, ml_min_assets_out = 1\<rparr>]\<rparr>
      (mkt_market_id (funded_market\<lparr>mkt_mode := CloseOnly\<rparr>)) 10000000000 = Inr ul"
    by (simp add: debit_shares_def market_mut_def funded_market_def fresh_market_def checked_sub_def Let_def)
  then show ?thesis
    unfolding execute_withdrawal_def exit_load Let_def and_then_Inr deposit_loaded.simps g
    by (auto simp: exit_terms ts fresh_token_account_def)
qed


section \<open>The money of the pool\<close>

lemma token_transfer_keeps_pool:
  assumes I: "env_laws e" "chain_inv e st" and m: "st_markets st k = Some m"
    and t: "token_transfer e r (st_tokens st) = Inr ts" and auth: "tr_authority r \<noteq> k"
    and h: "holds (st_tokens st) key k n"
  shows "holds ts key k n"
proof (rule transfer_holds_owner [OF token_lawsD(1) [OF env_lawsD(2) [OF I(1)] t] _ h _ auth])
  show "no_delegates e (st_tokens st)" "program_address e k"
    using I(2) m market_addressD unfolding chain_inv_def inv_pools_def by blast+
qed

text \<open>Requests that may take money out of the pool of the market at \<open>k\<close>.\<close>

fun pays_from :: "pubkey \<Rightarrow> request \<Rightarrow> bool" where
  "pays_from k (ExecuteWithdrawal a) \<longleftrightarrow> ew_market a = k"
| "pays_from k (SettlePosition a _ _) \<longleftrightarrow> sp_market a = k"
| "pays_from k _ \<longleftrightarrow> False"

lemma delegate_cpi_tokens: "delegate_cpi e k payer seeds config st = Inr st' \<Longrightarrow> st_tokens st' = st_tokens st"
  by (auto simp: delegate_cpi_def Let_def result_simps)

lemma tokens_unchanged:
  "initialize_protocol_config e signers a1 st = Inr st' \<Longrightarrow> st_tokens st' = st_tokens st"
  "set_market_mode e signers a2 mode st = Inr st' \<Longrightarrow> st_tokens st' = st_tokens st"
  "delegate_market e signers a3 i v st = Inr st' \<Longrightarrow> st_tokens st' = st_tokens st"
  "initialize_user_positions e signers a4 st = Inr st' \<Longrightarrow> st_tokens st' = st_tokens st"
  "initialize_user_liquidity e signers a4 st = Inr st' \<Longrightarrow> st_tokens st' = st_tokens st"
  "delegate_user_positions e signers a4 v st = Inr st' \<Longrightarrow> st_tokens st' = st_tokens st"
  "delegate_user_liquidity e signers a4 v st = Inr st' \<Longrightarrow> st_tokens st' = st_tokens st"
  "undelegate_user_liquidity e signers a4 st = Inr st' \<Longrightarrow> st_tokens st' = st_tokens st"
  "request_withdrawal e signers a5 s mins st = Inr st' \<Longrightarrow> st_tokens st' = st_tokens st"
  "cancel_withdrawal e signers a5 st = Inr st' \<Longrightarrow> st_tokens st' = st_tokens st"
proof -
  show "st_tokens st' = st_tokens st" if "initialize_protocol_config e signers a1 st = Inr st'"
    using that unfolding initialize_protocol_config_def init_account_def by (auto simp: result_simps)
  show "st_tokens st' = st_tokens st" if "set_market_mode e signers a2 mode st = Inr st'"
    using that unfolding set_market_mode_def by (auto simp: result_simps)
  show "st_tokens st' = st_tokens st" if "delegate_market e signers a3 i v st = Inr st'"
    using that unfolding delegate_market_def result_simps by (blast intro: delegate_cpi_tokens)
  show "st_tokens st' = st_tokens st" if "initialize_user_positions e signers a4 st = Inr st'"
    using that by (auto simp: initialize_user_positions_def result_simps split: option.splits)
  show "st_tokens st' = st_tokens st" if "initialize_user_liquidity e signers a4 st = Inr st'"
    using that by (auto simp: initialize_user_liquidity_def result_simps split: option.splits)
  show "st_tokens st' = st_tokens st" if "delegate_user_positions e signers a4 v st = Inr st'"
    using that unfolding delegate_user_positions_def result_simps by (blast intro: delegate_cpi_tokens)
  show "st_tokens st' = st_tokens st" if "delegate_user_liquidity e signers a4 v st = Inr st'"
    using that unfolding delegate_user_liquidity_def result_simps by (blast intro: delegate_cpi_tokens)
  show "st_tokens st' = st_tokens st" if "undelegate_user_liquidity e signers a4 st = Inr st'"
    using that by (auto simp: undelegate_user_liquidity_def result_simps)
  show "st_tokens st' = st_tokens st" if "request_withdrawal e signers a5 s mins st = Inr st'"
    by (rule request_withdrawal_InrD [OF that]) (auto simp: emit_def)
  show "st_tokens st' = st_tokens st" if "cancel_withdrawal e signers a5 st = Inr st'"
    by (rule cancel_withdrawal_InrD [OF that]) (auto simp: emit_def)
qed

lemma market_transfer_keeps_other:
  assumes I: "env_laws e" "chain_inv e st" and m: "st_markets st k = Some m" and k: "mk \<noteq> k"
    and t: "market_transfer e signers mk x from to amount ts = Inr ts'"
    and nd: "no_delegates e ts" and h: "holds ts key k n"
  shows "holds ts' key k n"
proof -
  obtain r where "transfer_effect r ts ts'" "tr_authority r = mk"
    using t token_lawsD(1) [OF env_lawsD(2) [OF I(1)]] unfolding market_transfer_def result_simps
    by (metis transfer_request.select_convs(3))
  moreover have "program_address e k" using I(2) m market_addressD unfolding chain_inv_def by blast
  ultimately show ?thesis using transfer_holds_owner nd h k by metis
qed

lemma process_keeps_pool:
  assumes I: "env_laws e" "chain_inv e st" and m: "st_markets st k = Some m"
    and p: "process e signers r st = Inr st'" and s: "\<forall>s \<in> set signers. \<not> program_address e s"
    and quiet: "\<not> pays_from k r" and h: "holds (st_tokens st) key k n"
  shows "holds (st_tokens st') key k n"
proof -
  note inv = I(2) [unfolded chain_inv_def]
  have keys: "inv_keys e st" and nd: "no_delegates e (st_tokens st)" using inv by (simp_all add: inv_pools_def)
  have pk: "program_address e k" by (rule market_addressD [OF keys m])
  have mk: "k = market_key e (mkt_market_id m)" using keys m by (simp add: inv_keys_def)
  note keep = token_transfer_keeps_pool [OF I m]
  show ?thesis
  proof (cases r)
    case (InitializeMarket a market_id feed source sponsor)
    then have "initialize_market e signers a market_id feed source sponsor st = Inr st'" using p by simp
    then obtain ts ts' x where t: "init_associated e (im_market a) (im_collateral_mint a) (im_pool_token_account a)
       (st_tokens st) = Inr ts"
      "init_associated e (im_derived_fee_authority a) (im_collateral_mint a) (im_fee_token_account a) ts = Inr ts'"
      "st\<lparr>st_tokens := ts', st_markets := (st_markets st)(im_market a \<mapsto> x)\<rparr> = st'"
      by (rule initialize_market_InrD) (rule that; assumption)
    note A = init_associated_InrD(3) [OF env_lawsD(2) [OF I(1)]]
    have "holds ts' key k n" by (rule A [OF t(2) A [OF t(1) h]])
    then show ?thesis by (simp add: t(3) [symmetric])
  next
    case (DepositLiquidity a amount mins)
    then have "deposit_liquidity e signers a amount mins st = Inr st'" using p by simp
    then obtain l ts mm ul sh where l: "load_deposit e signers a st = Inr l"
      and t: "token_transfer e \<lparr>tr_from = dl_user_token_account a, tr_to = dl_pool_token_account a,
        tr_authority = dl_user a, tr_signers = signers, tr_amount = amount\<rparr> (st_tokens st) = Inr ts"
      and st': "emit (LiquidityDeposited (mkt_market_id mm) (dl_user a) amount sh)
       (st\<lparr>st_tokens := ts, st_markets := (st_markets st)(dl_market a \<mapsto> mm),
           st_liquidity := (st_liquidity st)(dl_user_liquidity a \<mapsto> ul)\<rparr>) = st'"
      by (rule deposit_liquidity_InrD) (rule that; assumption)
    have "dl_user a \<in> set signers" by (rule load_deposit_InrD [OF l])
    then have "dl_user a \<noteq> k" using s pk by blast
    then show ?thesis using keep [OF t _ h] by (simp add: st' [symmetric])
  next
    case (ExecuteWithdrawal a)
    then have "execute_withdrawal e signers a st = Inr st'" "ew_market a \<noteq> k" using p quiet by simp_all
    from this(1) obtain l :: deposit_loaded and sh assets rs ts ul where
      t: "market_transfer e signers (ew_market a) (dll_market l) (ew_pool_token_account a)
       (ew_user_token_account a) assets (st_tokens st) = Inr ts"
      and st': "emit (WithdrawalExecuted (mkt_market_id (dll_market l)) (ew_user a) sh assets)
       (st\<lparr>st_tokens := ts,
           st_markets := (st_markets st)(ew_market a \<mapsto> (dll_market l)\<lparr>mkt_total_shares := rs\<rparr>),
           st_liquidity := (st_liquidity st)(ew_user_liquidity a \<mapsto> ul)\<rparr>) = st'"
      by (rule execute_withdrawal_InrD) (rule that; assumption)
    show ?thesis
      using market_transfer_keeps_other [OF I m \<open>ew_market a \<noteq> k\<close> t nd h] by (simp add: st' [symmetric])
  next
    case (OpenPosition a args)
    then have "open_position e signers a args st = Inr st'" using p by simp
    from open_position_effect [OF I this s] obtain ts where "st_tokens st' = ts"
      "\<forall>k i n. holds (st_tokens st) k (market_key e i) n \<longrightarrow> holds ts k (market_key e i) n" by metis
    then show ?thesis using h mk by metis
  next
    case (SettlePosition a nonce salt)
    then have "settle_position e signers a nonce salt st = Inr st'" "sp_market a \<noteq> k" using p quiet by simp_all
    from this(1) show ?thesis
    proof (cases rule: settle_position_InrD)
      case (closed l i pay pf lf oc ts oc' act)
      have "holds ts key k n"
        by (rule pay_settlement_facts(3) [OF I(1) nd closed(4) _ pk h]) (use \<open>sp_market a \<noteq> k\<close> in blast)
      then show ?thesis by (simp add: closed(7))
    qed (use h in simp_all)
  next
    case (WithdrawProtocolFees a amount)
    then have "withdraw_protocol_fees e signers a amount st = Inr st'" using p by simp
    then obtain mm ts where l: "load_withdraw_fees e signers a st = Inr mm"
      and t: "fee_transfer e signers (wf_market a) (wf_derived_fee_authority a)
       (wf_fee_token_account a) (wf_destination_token_account a) amount
       (snd (find_program_address e [FEE_AUTHORITY_SEED, wf_market a])) (st_tokens st) = Inr ts"
      and st': "emit (ProtocolFeesWithdrawn (mkt_market_id mm) (wf_destination_token_account a) amount)
       (st\<lparr>st_tokens := ts\<rparr>) = st'"
      by (rule withdraw_protocol_fees_InrD) (rule that; assumption)
    have "wf_derived_fee_authority a = fee_authority_key e (wf_market a)"
      using load_withdraw_fees_InrD [OF l] unfolding fee_authority_key_def by metis
    then have "wf_derived_fee_authority a \<noteq> k"
      using market_key_not_fee_authority [OF env_lawsD(1) [OF I(1)]] mk by metis
    moreover obtain r where "token_transfer e r (st_tokens st) = Inr ts" "tr_authority r = wf_derived_fee_authority a"
      using t unfolding fee_transfer_def result_simps by (metis transfer_request.select_convs(3))
    ultimately have "holds ts key k n" using keep [OF _ _ h] by metis
    then show ?thesis by (simp add: st' [symmetric])
  next
    case (ClaimFallbackPayout a)
    then have "claim_fallback_payout e signers a st = Inr st'" using p by simp
    then obtain escrow ts sg where l: "load_claim_fallback e signers a st = Inr escrow"
      and t: "token_transfer e \<lparr>tr_from = cf_payout_escrow_token_account a, tr_to = cf_user_token_account a,
        tr_authority = cf_user_positions a, tr_signers = sg,
        tr_amount = ta_amount escrow\<rparr> (st_tokens st) = Inr ts"
      and st': "emit (FallbackPayoutClaimed (cf_user a) (cf_user_token_account a) (ta_amount escrow))
       (st\<lparr>st_tokens := ts\<rparr>) = st'"
      by (rule claim_fallback_payout_InrD) (rule that; assumption)
    have "cf_user_positions a = positions_key e (cf_user a)"
      using load_claim_fallback_InrD [OF l] load_positions_InrD by metis
    then have "cf_user_positions a \<noteq> k"
      using market_key_not_positions [OF env_lawsD(1) [OF I(1)]] mk by metis
    then show ?thesis using keep [OF t _ h] by (simp add: st' [symmetric])
  qed (use p h tokens_unchanged in simp_all)
qed

text \<open>C9: Who can spend a pool. A transaction signed by outsiders (no key of the program signs, which
  nobody outside it can) leaves every market's pool with at least what it held, unless it executes
  a withdrawal from that market or settles a position in it.\<close>
theorem pool_spent_only_by_payouts:
  assumes "chain_reachable e st" "process e signers r st = Inr st'"
    and "\<forall>s \<in> set signers. \<not> program_address e s"
    and "st_markets st k = Some m" "st_tokens st key = Some t" "ta_owner t = k"
    and "balance (st_tokens st') key < balance (st_tokens st) key"
  shows "(\<exists>a. r = ExecuteWithdrawal a \<and> ew_market a = k) \<or> (\<exists>a n salt. r = SettlePosition a n salt \<and> sp_market a = k)"
proof (rule ccontr)
  assume no: "\<not> ?thesis"
  then have quiet: "\<not> pays_from k r" by (cases r) auto
  have I: "env_laws e" "chain_inv e st" using reachable_chain_inv [OF assms(1)] by blast+
  have "holds (st_tokens st) key k (balance (st_tokens st) key)"
    using assms(5,6) by (simp add: holds_def balance_def)
  from process_keeps_pool [OF I assms(4,2,3) quiet this]
  have "balance (st_tokens st) key \<le> balance (st_tokens st') key" by (rule holds_balance)
  then show False using assms(7) by simp
qed

theorem pool_spent_only_by_payouts_witness:
  "\<exists>a n salt. SettlePosition run_settle 0 [1] = SettlePosition a n salt \<and> sp_market a = run_market"
proof -
  have b: "balance (st_tokens run8) run_pool < balance (st_tokens run7) run_pool"
    by (simp add: balance_def run8_def run7_def run6_def run_pool_def trader_token_def reference_env_def
        fresh_token_account_def)
  have t: "st_markets run7 run_market = Some risk_market"
    "st_tokens run7 run_pool = Some ((fresh_token_account run_market usdc)\<lparr>ta_amount := 100001000000\<rparr>)"
    by (simp_all add: run7_def run6_def)
  show ?thesis
    using pool_spent_only_by_payouts [OF run_reachable(8) run_step8 _ t _ b] run_wallets(5)
    by (simp add: fresh_token_account_def)
qed

end
