(* ===== verification/Storage.thy ===== *)
theory Storage
  imports Program_Math
begin

text \<open>
  The indexer's storage (\<open>crates/storage/src/lib.rs\<close>) over its Postgres schema. A table is a map
  from its primary key to its row, with the columns the code writes; BIGINT, INTEGER and NUMERIC
  columns are integers, timestamps are microseconds, \<open>now()\<close> is \<open>db_now\<close>. A statement maps the
  database to the next one or to the error it raises, and a transaction is the composition of its
  statements: an error leaves the caller with the database it started from.
\<close>


section \<open>Values\<close>

datatype storage_error =
    MixedBatch | InvalidPubkey | BigintOverflow | CheckViolation | ForeignKeyViolation
  | NumericOutOfRange | JsonOutOfRange | InvalidRow | UniqueViolation

type_synonym 'a db_result = "storage_error + 'a"

definition EVENT_CONTRACT_VERSION :: int where "EVENT_CONTRACT_VERSION = 2"
definition LEGACY_EVENT_CONTRACT_VERSION :: int where "LEGACY_EVENT_CONTRACT_VERSION = 1"
definition SCHEMA_MIGRATION_VERSION :: int where "SCHEMA_MIGRATION_VERSION = 5"

record source =
  src_id :: int
  src_network :: string
  src_layer :: string
  src_endpoint :: string

datatype domain_event =
    PositionCreatedEv u16 u32 string i64 u32 direction u32
  | PositionClosedEv u16 u32 position_outcome u64 u64 u64
  | LiquidityDepositedEv u16 string u64 u128
  | WithdrawalRequestedEv u16 string u128 u64
  | WithdrawalCancelledEv u16 string u128
  | WithdrawalExecutedEv u16 string u128 u64
  | ProtocolFeesWithdrawnEv u16 string u64
  | FallbackPayoutClaimedEv string string u64

record observation =
  ob_source :: source
  ob_program_id :: string
  ob_signature :: string
  ob_slot :: i64
  ob_block_time :: "int option"
  ob_instruction_path :: string
  ob_cursor_name :: string
  ob_cursor_value :: string
  ob_event :: domain_event

fun direction_str :: "direction \<Rightarrow> string" where
  "direction_str Up = ''up''"
| "direction_str Down = ''down''"

fun outcome_str :: "position_outcome \<Rightarrow> string" where
  "outcome_str Won = ''won''"
| "outcome_str Lost = ''lost''"
| "outcome_str Breakeven = ''breakeven''"
| "outcome_str Refunded = ''refunded''"

fun lifecycle_status :: "position_outcome \<Rightarrow> string" where
  "lifecycle_status Refunded = ''refunded''"
| "lifecycle_status _ = ''settled''"

fun event_name :: "domain_event \<Rightarrow> string" where
  "event_name (PositionCreatedEv _ _ _ _ _ _ _) = ''position_created''"
| "event_name (PositionClosedEv _ _ _ _ _ _) = ''position_closed''"
| "event_name (LiquidityDepositedEv _ _ _ _) = ''liquidity_deposited''"
| "event_name (WithdrawalRequestedEv _ _ _ _) = ''withdrawal_requested''"
| "event_name (WithdrawalCancelledEv _ _ _) = ''withdrawal_cancelled''"
| "event_name (WithdrawalExecutedEv _ _ _ _) = ''withdrawal_executed''"
| "event_name (ProtocolFeesWithdrawnEv _ _ _) = ''protocol_fees_withdrawn''"
| "event_name (FallbackPayoutClaimedEv _ _ _) = ''fallback_payout_claimed''"

text \<open>The libraries a caller supplies: \<open>Pubkey::from_str\<close>, \<open>Pubkey::to_string\<close>,
  \<open>Pubkey::find_program_address(seeds, program_id)\<close> and \<open>serde_json::to_value(event)\<close>, which may
  refuse a number.\<close>

record client =
  parse_pubkey :: "string \<Rightarrow> pubkey option"
  show_pubkey :: "pubkey \<Rightarrow> string"
  program_account :: "bytes list \<Rightarrow> pubkey \<Rightarrow> pubkey"
  to_json :: "domain_event \<Rightarrow> string option"


section \<open>Tables\<close>

record cursor_row =
  cu_value :: string
  cu_slot :: "int option"
  cu_signature :: "string option"
  cu_updated_at :: int

record transaction_row =
  tx_slot :: int
  tx_block_time :: "int option"
  tx_succeeded :: bool
  tx_version :: int
  tx_partial :: bool
  tx_metadata :: string

record instruction_row =
  in_program :: string
  in_variant_payload :: string
  in_version :: int

record position_row =
  pr_user :: "string option"
  pr_entry_price :: "int option"
  pr_collateral :: "int option"
  pr_direction :: "string option"
  pr_expires_at :: "int option"
  pr_status :: string
  pr_outcome :: "string option"
  pr_payout :: "int option"
  pr_lp_fee :: "int option"
  pr_platform_fee :: "int option"
  pr_opened_at :: "int option"
  pr_closed_at :: "int option"
  pr_version :: int
  pr_partial :: bool
  pr_created_source :: "int option"
  pr_created_signature :: "string option"
  pr_closed_source :: "int option"
  pr_closed_signature :: "string option"
  pr_last_slot :: int
  pr_checkpoint_status :: string
  pr_checkpoint_source :: "int option"
  pr_checkpoint_slot :: "int option"
  pr_checkpoint_observed_at :: "int option"
  pr_updated_at :: int

record liquidity_event_row =
  le_network :: string
  le_program :: string
  le_market_id :: int
  le_user :: string
  le_assets :: "int option"
  le_shares :: int
  le_min_assets_out :: "int option"
  le_occurred_at :: "int option"
  le_version :: int

record fee_event_row =
  fe_network :: string
  fe_program :: string
  fe_market_id :: "int option"
  fe_user :: "string option"
  fe_destination :: string
  fe_assets :: int
  fe_occurred_at :: "int option"
  fe_version :: int

record tracked_row =
  tk_account_type :: string
  tk_market_id :: "int option"
  tk_user :: "string option"
  tk_er_source :: "int option"
  tk_er_endpoint :: "string option"
  tk_generation :: int
  tk_checked_at :: "int option"
  tk_updated_at :: int

datatype account_payload = SnapshotPayload int int | AccountJson string | NoPayload

record account_observation_row =
  ao_owner :: string
  ao_type :: string
  ao_payload :: account_payload

record market_row =
  mr_pubkey :: "string option"
  mr_mode :: "string option"
  mr_total_shares :: "int option"
  mr_open_collateral :: "int option"
  mr_active_positions :: "int option"
  mr_pool_balance :: "int option"
  mr_last_source :: "int option"
  mr_last_slot :: "int option"
  mr_updated_at :: int

record dead_letter_row =
  dl_slot_at :: int
  dl_discriminator :: "bytes option"
  dl_payload :: bytes
  dl_details :: string
  dl_first_at :: int
  dl_last_at :: int
  dl_attempts :: int

record route_observation_row =
  ro_delegated :: bool
  ro_source :: "int option"
  ro_endpoint :: "string option"

record run_row =
  rr_source :: int
  rr_datasource :: string
  rr_observed_slot :: "int option"
  rr_requested :: int
  rr_found :: int
  rr_inserted :: int
  rr_completed_at :: "int option"

text \<open>The one row of \<open>projection_refresh_state\<close>. The leaderboards are materialized views: what they
  show is the positions table and the clock at their last refresh.\<close>

record refresh_row =
  rf_version :: int
  rf_last_attempt :: "int option"
  rf_last_success :: "int option"
  rf_duration_ms :: "int option"
  rf_high_water :: "int option"
  rf_day :: "int option"
  rf_week :: "int option"
  rf_month :: "int option"
  rf_error :: "string option"

text \<open>Keys: the source rows are a list in the order of their insertion; an event row is found by
  \<open>(source_id, signature, instruction_path, kind)\<close>; a position by
  \<open>(network, program_id, market_id, position_id)\<close>.\<close>

type_synonym event_key = "int \<times> string \<times> string \<times> string"
type_synonym position_key = "string \<times> string \<times> int \<times> int"

record database =
  db_now :: int
  db_next_source :: int
  db_sources :: "source list"
  db_cursors :: "(int \<times> string) \<rightharpoonup> cursor_row"
  db_transactions :: "(int \<times> string) \<rightharpoonup> transaction_row"
  db_instructions :: "event_key \<rightharpoonup> instruction_row"
  db_positions :: "position_key \<rightharpoonup> position_row"
  db_liquidity_events :: "event_key \<rightharpoonup> liquidity_event_row"
  db_fee_events :: "event_key \<rightharpoonup> fee_event_row"
  db_tracked :: "(string \<times> string \<times> string) \<rightharpoonup> tracked_row"
  db_observations :: "(int \<times> string \<times> int \<times> string) \<rightharpoonup> account_observation_row"
  db_markets :: "(string \<times> string \<times> int) \<rightharpoonup> market_row"
  db_dead_letters :: "event_key \<rightharpoonup> dead_letter_row"
  db_routes :: "(string \<times> string \<times> string \<times> int) \<rightharpoonup> route_observation_row"
  db_next_run :: int
  db_runs :: "int \<rightharpoonup> run_row"
  db_refresh :: refresh_row
  db_market_board :: "(position_key \<rightharpoonup> position_row) \<times> int"
  db_global_board :: "(position_key \<rightharpoonup> position_row) \<times> int"

text \<open>\<open>INSERT .. ON CONFLICT (key)\<close>: \<open>on_conflict\<close> returns the updated row, or \<open>None\<close> for
  \<open>DO NOTHING\<close> and for a \<open>WHERE\<close> that does not hold.\<close>

definition upsert :: "'k \<Rightarrow> 'v \<Rightarrow> ('v \<Rightarrow> 'v option) \<Rightarrow> ('k \<rightharpoonup> 'v) \<Rightarrow> ('k \<rightharpoonup> 'v)" where
  "upsert k excluded on_conflict t =
     (case t k of
        None \<Rightarrow> t(k \<mapsto> excluded)
      | Some row \<Rightarrow> (case on_conflict row of None \<Rightarrow> t | Some row' \<Rightarrow> t(k \<mapsto> row')))"

definition do_nothing :: "'v \<Rightarrow> 'v option" where "do_nothing row = None"

text \<open>\<open>source_id REFERENCES chain_sources(id)\<close>.\<close>

definition known_source :: "int \<Rightarrow> database \<Rightarrow> bool" where
  "known_source i db \<longleftrightarrow> list_ex (\<lambda>s. src_id s = i) (db_sources db)"

definition bigint :: "int \<Rightarrow> bool" where
  "bigint n \<longleftrightarrow> - (2 ^ 63) \<le> n \<and> n < 2 ^ 63"

text \<open>\<open>i64::try_from(u64)\<close>, and the same under \<open>Option\<close> with \<open>transpose\<close>.\<close>

definition to_bigint :: "u64 \<Rightarrow> int db_result" where
  "to_bigint a = (if unat a < 2 ^ 63 then Inr (int (unat a)) else Inl BigintOverflow)"

fun to_bigint_opt :: "u64 option \<Rightarrow> int option db_result" where
  "to_bigint_opt None = Inr None"
| "to_bigint_opt (Some a) = and_then (to_bigint a) (\<lambda>n. Inr (Some n))"

definition to_timestamp :: "int \<Rightarrow> int" where "to_timestamp seconds = seconds * 1000000"


section \<open>Sources and cursors\<close>

text \<open>\<open>INSERT .. ON CONFLICT\<close> draws a value from the id sequence whether or not it inserts.\<close>

definition ensure_source :: "string \<Rightarrow> string \<Rightarrow> string \<Rightarrow> database \<Rightarrow> (source \<times> database) db_result" where
  "ensure_source network layer endpoint db =
     and_then (require (layer = ''base'' \<or> layer = ''er'') CheckViolation) (\<lambda>_.
     let next_id = db_next_source db; db = db\<lparr>db_next_source := next_id + 1\<rparr> in
     case find (\<lambda>s. src_network s = network \<and> src_layer s = layer \<and> src_endpoint s = endpoint)
            (db_sources db) of
       Some s \<Rightarrow> Inr (s, db)
     | None \<Rightarrow>
         let s = \<lparr>src_id = next_id, src_network = network, src_layer = layer, src_endpoint = endpoint\<rparr>
         in Inr (s, db\<lparr>db_sources := db_sources db @ [s]\<rparr>))"

definition upsert_cursor ::
    "int \<Rightarrow> string \<Rightarrow> string \<Rightarrow> int \<Rightarrow> string option \<Rightarrow> database \<Rightarrow> database db_result" where
  "upsert_cursor source_id datasource cursor_value slot signature db =
     and_then (require (0 \<le> slot) CheckViolation) (\<lambda>_.
     and_then (require (known_source source_id db) ForeignKeyViolation) (\<lambda>_.
     let excluded = \<lparr>cu_value = cursor_value, cu_slot = Some slot, cu_signature = signature,
                     cu_updated_at = db_now db\<rparr> in
     Inr (db\<lparr>db_cursors := upsert (source_id, datasource) excluded
       (\<lambda>row. if (case cu_slot row of None \<Rightarrow> True | Some current \<Rightarrow> current \<le> slot)
              then Some excluded else None) (db_cursors db)\<rparr>)))"

text \<open>\<open>Storage::advance_cursor\<close>, the private \<open>advance_cursor\<close> of a batch, and \<open>cursors::advance\<close>
  run the same statement.\<close>

definition storage_advance_cursor ::
    "source \<Rightarrow> string \<Rightarrow> string \<Rightarrow> i64 \<Rightarrow> string option \<Rightarrow> database \<Rightarrow> database db_result" where
  "storage_advance_cursor s cursor_name cursor_value slot signature db =
     upsert_cursor (src_id s) cursor_name cursor_value (sint slot) signature db"

definition advance_cursor :: "observation \<Rightarrow> database \<Rightarrow> database db_result" where
  "advance_cursor ob db =
     upsert_cursor (src_id (ob_source ob)) (ob_cursor_name ob) (ob_cursor_value ob)
       (sint (ob_slot ob)) (Some (ob_signature ob)) db"

definition storage_cursor ::
    "int \<Rightarrow> string \<Rightarrow> database \<Rightarrow> (string \<times> int option \<times> string option) option" where
  "storage_cursor source_id cursor_name db =
     map_option (\<lambda>row. (cu_value row, cu_slot row, cu_signature row))
       (db_cursors db (source_id, cursor_name))"


section \<open>Events\<close>

text \<open>The two inserts that keep the transaction and the event itself, once each.\<close>

definition insert_raw_observation :: "client \<Rightarrow> observation \<Rightarrow> database \<Rightarrow> database db_result" where
  "insert_raw_observation c ob db =
     and_then (require (0 \<le> sint (ob_slot ob)) CheckViolation) (\<lambda>_.
     and_then (require (known_source (src_id (ob_source ob)) db) ForeignKeyViolation) (\<lambda>_.
     and_then (ok_or (to_json c (ob_event ob)) JsonOutOfRange) (\<lambda>payload.
     Inr (db\<lparr>
       db_transactions := upsert (src_id (ob_source ob), ob_signature ob)
         \<lparr>tx_slot = sint (ob_slot ob), tx_block_time = ob_block_time ob, tx_succeeded = True,
          tx_version = EVENT_CONTRACT_VERSION, tx_partial = False, tx_metadata = ''{}''\<rparr>
         do_nothing (db_transactions db),
       db_instructions := upsert
         (src_id (ob_source ob), ob_signature ob, ob_instruction_path ob, event_name (ob_event ob))
         \<lparr>in_program = ob_program_id ob, in_variant_payload = payload,
          in_version = EVENT_CONTRACT_VERSION\<rparr>
         do_nothing (db_instructions db)\<rparr>))))"

definition event_key_of :: "observation \<Rightarrow> string \<Rightarrow> event_key" where
  "event_key_of ob kind =
     (src_id (ob_source ob), ob_signature ob, ob_instruction_path ob, kind)"

definition insert_liquidity_event ::
    "observation \<Rightarrow> string \<Rightarrow> u16 \<Rightarrow> string \<Rightarrow> u64 option \<Rightarrow> u128 \<Rightarrow> u64 option \<Rightarrow>
     database \<Rightarrow> database db_result" where
  "insert_liquidity_event ob kind market_id user assets shares min_assets_out db =
     and_then (to_bigint_opt assets) (\<lambda>assets.
     and_then (to_bigint_opt min_assets_out) (\<lambda>min_assets_out.
     Inr (db\<lparr>db_liquidity_events := upsert (event_key_of ob kind)
       \<lparr>le_network = src_network (ob_source ob), le_program = ob_program_id ob,
        le_market_id = int (unat market_id), le_user = user, le_assets = assets,
        le_shares = int (unat shares), le_min_assets_out = min_assets_out,
        le_occurred_at = ob_block_time ob, le_version = EVENT_CONTRACT_VERSION\<rparr>
       do_nothing (db_liquidity_events db)\<rparr>)))"

definition insert_fee_event ::
    "observation \<Rightarrow> string \<Rightarrow> u16 option \<Rightarrow> string option \<Rightarrow> string \<Rightarrow> u64 \<Rightarrow>
     database \<Rightarrow> database db_result" where
  "insert_fee_event ob kind market_id user destination assets db =
     and_then (to_bigint assets) (\<lambda>assets.
     Inr (db\<lparr>db_fee_events := upsert (event_key_of ob kind)
       \<lparr>fe_network = src_network (ob_source ob), fe_program = ob_program_id ob,
        fe_market_id = map_option (\<lambda>m. int (unat m)) market_id, fe_user = user,
        fe_destination = destination, fe_assets = assets,
        fe_occurred_at = ob_block_time ob, fe_version = EVENT_CONTRACT_VERSION\<rparr>
       do_nothing (db_fee_events db)\<rparr>))"


section \<open>Positions\<close>

definition position_key_of :: "observation \<Rightarrow> u16 \<Rightarrow> u32 \<Rightarrow> position_key" where
  "position_key_of ob market_id position_id =
     (src_network (ob_source ob), ob_program_id ob, int (unat market_id), int (unat position_id))"

text \<open>The row of \<open>INSERT .. VALUES\<close> (SQL's \<open>EXCLUDED\<close>), the \<open>SET\<close> clause and the
  \<open>WHERE (..) IS DISTINCT FROM (..)\<close> of \<open>upsert_position_created\<close>.\<close>

definition created_row ::
    "observation \<Rightarrow> string \<Rightarrow> i64 \<Rightarrow> u32 \<Rightarrow> direction \<Rightarrow> u32 \<Rightarrow> int \<Rightarrow> position_row" where
  "created_row ob user entry_price collateral direction expires_at now =
     \<lparr>pr_user = Some user, pr_entry_price = Some (sint entry_price),
      pr_collateral = Some (int (unat collateral)), pr_direction = Some (direction_str direction),
      pr_expires_at = Some (to_timestamp (int (unat expires_at))), pr_status = ''open'',
      pr_outcome = None, pr_payout = None, pr_lp_fee = None, pr_platform_fee = None,
      pr_opened_at = Some (to_timestamp (int (unat expires_at) - 10)), pr_closed_at = None,
      pr_version = EVENT_CONTRACT_VERSION, pr_partial = False,
      pr_created_source = Some (src_id (ob_source ob)), pr_created_signature = Some (ob_signature ob),
      pr_closed_source = None, pr_closed_signature = None, pr_last_slot = sint (ob_slot ob),
      pr_checkpoint_status = ''er_only'', pr_checkpoint_source = None, pr_checkpoint_slot = None,
      pr_checkpoint_observed_at = None, pr_updated_at = now\<rparr>"

definition set_created :: "position_row \<Rightarrow> position_row \<Rightarrow> position_row" where
  "set_created excluded row = row\<lparr>
     pr_user := pr_user excluded, pr_entry_price := pr_entry_price excluded,
     pr_collateral := pr_collateral excluded, pr_direction := pr_direction excluded,
     pr_expires_at := pr_expires_at excluded, pr_opened_at := pr_opened_at excluded,
     pr_created_source := pr_created_source excluded,
     pr_created_signature := pr_created_signature excluded,
     pr_version := max (pr_version row) (pr_version excluded), pr_partial := False,
     pr_last_slot := max (pr_last_slot row) (pr_last_slot excluded),
     pr_updated_at := pr_updated_at excluded\<rparr>"

definition created_distinct :: "position_row \<Rightarrow> position_row \<Rightarrow> bool" where
  "created_distinct excluded row \<longleftrightarrow>
     (pr_user row, pr_entry_price row, pr_collateral row, pr_direction row, pr_expires_at row,
      pr_opened_at row, pr_created_source row, pr_created_signature row, pr_version row,
      pr_partial row, pr_last_slot row) \<noteq>
     (pr_user excluded, pr_entry_price excluded, pr_collateral excluded, pr_direction excluded,
      pr_expires_at excluded, pr_opened_at excluded, pr_created_source excluded,
      pr_created_signature excluded, pr_version excluded, False,
      max (pr_last_slot row) (pr_last_slot excluded))"

definition upsert_position_created ::
    "observation \<Rightarrow> u16 \<Rightarrow> u32 \<Rightarrow> string \<Rightarrow> i64 \<Rightarrow> u32 \<Rightarrow> direction \<Rightarrow> u32 \<Rightarrow> database \<Rightarrow> database" where
  "upsert_position_created ob market_id position_id user entry_price collateral direction expires_at db =
     (let excluded = created_row ob user entry_price collateral direction expires_at (db_now db) in
      db\<lparr>db_positions := upsert (position_key_of ob market_id position_id) excluded
        (\<lambda>row. if created_distinct excluded row then Some (set_created excluded row) else None)
        (db_positions db)\<rparr>)"

text \<open>The same for \<open>upsert_position_closed\<close>. A first row made by a closing event is partial. The
  stored column \<open>total_fee_amount = lp_fee_amount + platform_fee_amount\<close> must fit BIGINT;
  \<open>net_pnl = payout_amount - collateral\<close> always does.\<close>

definition closed_row ::
    "observation \<Rightarrow> position_outcome \<Rightarrow> int \<Rightarrow> int \<Rightarrow> int \<Rightarrow> int \<Rightarrow> position_row" where
  "closed_row ob outcome payout lp_fee platform_fee now =
     \<lparr>pr_user = None, pr_entry_price = None, pr_collateral = None, pr_direction = None,
      pr_expires_at = None, pr_status = lifecycle_status outcome,
      pr_outcome = Some (outcome_str outcome), pr_payout = Some payout, pr_lp_fee = Some lp_fee,
      pr_platform_fee = Some platform_fee, pr_opened_at = None, pr_closed_at = ob_block_time ob,
      pr_version = EVENT_CONTRACT_VERSION, pr_partial = True,
      pr_created_source = None, pr_created_signature = None,
      pr_closed_source = Some (src_id (ob_source ob)), pr_closed_signature = Some (ob_signature ob),
      pr_last_slot = sint (ob_slot ob),
      pr_checkpoint_status = ''er_only'', pr_checkpoint_source = None, pr_checkpoint_slot = None,
      pr_checkpoint_observed_at = None, pr_updated_at = now\<rparr>"

definition set_closed :: "position_row \<Rightarrow> position_row \<Rightarrow> position_row" where
  "set_closed excluded row = row\<lparr>
     pr_status := pr_status excluded, pr_outcome := pr_outcome excluded,
     pr_payout := pr_payout excluded, pr_lp_fee := pr_lp_fee excluded,
     pr_platform_fee := pr_platform_fee excluded,
     pr_closed_at := (case pr_closed_at row of None \<Rightarrow> pr_closed_at excluded | Some t \<Rightarrow> Some t),
     pr_closed_source := pr_closed_source excluded,
     pr_closed_signature := pr_closed_signature excluded,
     pr_version := max (pr_version row) (pr_version excluded),
     pr_partial := (pr_user row = None),
     pr_last_slot := max (pr_last_slot row) (pr_last_slot excluded),
     pr_updated_at := pr_updated_at excluded\<rparr>"

definition closed_distinct :: "position_row \<Rightarrow> position_row \<Rightarrow> bool" where
  "closed_distinct excluded row \<longleftrightarrow>
     (pr_status row, pr_outcome row, pr_payout row, pr_lp_fee row, pr_platform_fee row,
      pr_closed_source row, pr_closed_signature row, pr_version row, pr_partial row,
      pr_last_slot row) \<noteq>
     (pr_status excluded, pr_outcome excluded, pr_payout excluded, pr_lp_fee excluded,
      pr_platform_fee excluded, pr_closed_source excluded, pr_closed_signature excluded,
      pr_version excluded, pr_user row = None, max (pr_last_slot row) (pr_last_slot excluded))"

definition upsert_position_closed ::
    "observation \<Rightarrow> u16 \<Rightarrow> u32 \<Rightarrow> position_outcome \<Rightarrow> u64 \<Rightarrow> u64 \<Rightarrow> u64 \<Rightarrow>
     database \<Rightarrow> database db_result" where
  "upsert_position_closed ob market_id position_id outcome payout lp_fee platform_fee db =
     and_then (to_bigint payout) (\<lambda>payout.
     and_then (to_bigint lp_fee) (\<lambda>lp_fee.
     and_then (to_bigint platform_fee) (\<lambda>platform_fee.
     and_then (require (bigint (lp_fee + platform_fee)) NumericOutOfRange) (\<lambda>_.
     let excluded = closed_row ob outcome payout lp_fee platform_fee (db_now db) in
     Inr (db\<lparr>db_positions := upsert (position_key_of ob market_id position_id) excluded
       (\<lambda>row. if closed_distinct excluded row then Some (set_closed excluded row) else None)
       (db_positions db)\<rparr>)))))"


section \<open>Projections and batches\<close>

definition track_user_account ::
    "client \<Rightarrow> observation \<Rightarrow> u16 \<Rightarrow> string \<Rightarrow> string \<Rightarrow> bytes \<Rightarrow> database \<Rightarrow> database db_result" where
  "track_user_account c ob market_id user account_type seed db =
     and_then (ok_or (parse_pubkey c (ob_program_id ob)) InvalidPubkey) (\<lambda>program_id.
     and_then (ok_or (parse_pubkey c user) InvalidPubkey) (\<lambda>user_pubkey.
     let account = program_account c [seed, user_pubkey] program_id in
     Inr (db\<lparr>db_tracked := upsert
       (src_network (ob_source ob), ob_program_id ob, show_pubkey c account)
       \<lparr>tk_account_type = account_type, tk_market_id = Some (int (unat market_id)),
        tk_user = Some user, tk_er_source = None, tk_er_endpoint = None, tk_generation = 0,
        tk_checked_at = None, tk_updated_at = db_now db\<rparr>
       (\<lambda>row. Some (row\<lparr>tk_account_type := account_type, tk_market_id := Some (int (unat market_id)),
          tk_user := Some user, tk_updated_at := db_now db\<rparr>))
       (db_tracked db)\<rparr>)))"

fun apply_projection :: "client \<Rightarrow> observation \<Rightarrow> domain_event \<Rightarrow> database \<Rightarrow> database db_result" where
  "apply_projection c ob
     (PositionCreatedEv market_id position_id user entry_price collateral direction expires_at) db =
     track_user_account c ob market_id user ''user_positions'' (byte_string ''user_positions'')
       (upsert_position_created ob market_id position_id user entry_price collateral direction
          expires_at db)"
| "apply_projection c ob
     (PositionClosedEv market_id position_id outcome payout lp_fee platform_fee) db =
     upsert_position_closed ob market_id position_id outcome payout lp_fee platform_fee db"
| "apply_projection c ob (LiquidityDepositedEv market_id user assets shares) db =
     and_then (insert_liquidity_event ob ''deposit'' market_id user (Some assets) shares None db)
       (track_user_account c ob market_id user ''user_liquidity'' (byte_string ''user_liquidity''))"
| "apply_projection c ob (WithdrawalRequestedEv market_id user shares min_assets_out) db =
     and_then (insert_liquidity_event ob ''withdrawal_requested'' market_id user None shares
       (Some min_assets_out) db)
       (track_user_account c ob market_id user ''user_liquidity'' (byte_string ''user_liquidity''))"
| "apply_projection c ob (WithdrawalCancelledEv market_id user shares) db =
     and_then (insert_liquidity_event ob ''withdrawal_cancelled'' market_id user None shares None db)
       (track_user_account c ob market_id user ''user_liquidity'' (byte_string ''user_liquidity''))"
| "apply_projection c ob (WithdrawalExecutedEv market_id user shares assets) db =
     and_then (insert_liquidity_event ob ''withdrawal_executed'' market_id user (Some assets) shares
       None db)
       (track_user_account c ob market_id user ''user_liquidity'' (byte_string ''user_liquidity''))"
| "apply_projection c ob (ProtocolFeesWithdrawnEv market_id destination assets) db =
     insert_fee_event ob ''protocol_withdrawal'' (Some market_id) None destination assets db"
| "apply_projection c ob (FallbackPayoutClaimedEv user destination assets) db =
     insert_fee_event ob ''fallback_claim'' None (Some user) destination assets db"

text \<open>A batch is one transaction: what its observations share, then both steps for each, then the
  cursor.\<close>

definition same_batch :: "observation \<Rightarrow> observation \<Rightarrow> bool" where
  "same_batch first ob \<longleftrightarrow>
     src_id (ob_source ob) = src_id (ob_source first) \<and> ob_signature ob = ob_signature first \<and>
     ob_slot ob = ob_slot first \<and> ob_cursor_name ob = ob_cursor_name first \<and>
     ob_cursor_value ob = ob_cursor_value first"

fun apply_observations :: "client \<Rightarrow> observation list \<Rightarrow> database \<Rightarrow> database db_result" where
  "apply_observations c [] db = Inr db"
| "apply_observations c (ob # obs) db =
     and_then (insert_raw_observation c ob db) (\<lambda>db.
     and_then (apply_projection c ob (ob_event ob) db) (\<lambda>db.
     apply_observations c obs db))"

fun apply_batch :: "client \<Rightarrow> observation list \<Rightarrow> database \<Rightarrow> database db_result" where
  "apply_batch c [] db = Inr db"
| "apply_batch c (first # rest) db =
     and_then (require (list_all (same_batch first) (first # rest)) MixedBatch) (\<lambda>_.
     and_then (apply_observations c (first # rest) db) (\<lambda>db.
     advance_cursor first db))"

definition storage_apply :: "client \<Rightarrow> observation \<Rightarrow> database \<Rightarrow> database db_result" where
  "storage_apply c ob = apply_batch c [ob]"


section \<open>Legacy transactions, market snapshots and history\<close>

definition record_legacy_transaction ::
    "source \<Rightarrow> string \<Rightarrow> i64 \<Rightarrow> int option \<Rightarrow> string \<Rightarrow> database \<Rightarrow> database db_result" where
  "record_legacy_transaction s signature slot block_time raw_metadata db =
     and_then (require (0 \<le> sint slot) CheckViolation) (\<lambda>_.
     and_then (require (known_source (src_id s) db) ForeignKeyViolation) (\<lambda>_.
     Inr (db\<lparr>db_transactions := upsert (src_id s, signature)
       \<lparr>tx_slot = sint slot, tx_block_time = block_time, tx_succeeded = True,
        tx_version = LEGACY_EVENT_CONTRACT_VERSION, tx_partial = True, tx_metadata = raw_metadata\<rparr>
       do_nothing (db_transactions db)\<rparr>)))"

definition record_market_snapshot ::
    "source \<Rightarrow> string \<Rightarrow> u16 \<Rightarrow> string \<Rightarrow> i64 \<Rightarrow> string \<Rightarrow> u128 \<Rightarrow> u64 \<Rightarrow> database \<Rightarrow> database db_result" where
  "record_market_snapshot s program_id market_id market_pubkey slot data_hash total_shares
       pool_balance db =
     and_then (to_bigint pool_balance) (\<lambda>pool_balance.
     and_then (require (0 \<le> sint slot) CheckViolation) (\<lambda>_.
     and_then (require (known_source (src_id s) db) ForeignKeyViolation) (\<lambda>_.
     Inr (db\<lparr>
       db_observations := upsert (src_id s, market_pubkey, sint slot, data_hash)
         \<lparr>ao_owner = program_id, ao_type = ''market_pool_snapshot'',
          ao_payload = SnapshotPayload (int (unat total_shares)) pool_balance\<rparr> do_nothing (db_observations db),
       db_markets := upsert (src_network s, program_id, int (unat market_id))
         \<lparr>mr_pubkey = Some market_pubkey, mr_mode = None,
          mr_total_shares = Some (int (unat total_shares)), mr_open_collateral = None,
          mr_active_positions = None, mr_pool_balance = Some pool_balance,
          mr_last_source = Some (src_id s), mr_last_slot = Some (sint slot),
          mr_updated_at = db_now db\<rparr>
         (\<lambda>row. if (case mr_last_slot row of None \<Rightarrow> True | Some current \<Rightarrow> current \<le> sint slot)
            then Some (row\<lparr>mr_pubkey := Some market_pubkey,
              mr_total_shares := Some (int (unat total_shares)), mr_pool_balance := Some pool_balance,
              mr_last_source := Some (src_id s), mr_last_slot := Some (sint slot),
              mr_updated_at := db_now db\<rparr>)
            else None)
         (db_markets db)\<rparr>))))"

text \<open>The generated columns \<open>total_fee_amount\<close> and \<open>net_pnl\<close>.\<close>

fun sql_add :: "int option \<Rightarrow> int option \<Rightarrow> int option" where
  "sql_add (Some a) (Some b) = Some (a + b)"
| "sql_add _ _ = None"

definition total_fee_amount :: "position_row \<Rightarrow> int option" where
  "total_fee_amount row = sql_add (pr_lp_fee row) (pr_platform_fee row)"

definition net_pnl :: "position_row \<Rightarrow> int option" where
  "net_pnl row = sql_add (pr_payout row) (map_option uminus (pr_collateral row))"

text \<open>\<open>ORDER BY position_id DESC\<close>: each id with its row.\<close>

definition user_position_history ::
    "string \<Rightarrow> string \<Rightarrow> u16 \<Rightarrow> string \<Rightarrow> database \<Rightarrow> (int \<times> position_row) list" where
  "user_position_history network program_id market_id user db =
     (let row = (\<lambda>i. db_positions db (network, program_id, int (unat market_id), i)) in
      map (\<lambda>i. (i, the (row i)))
        (rev (sorted_list_of_set {i. \<exists>r. row i = Some r \<and> pr_user r = Some user})))"

end
