(* ===== verification/Decoder.thy ===== *)
theory Decoder
  imports Platform
begin

text \<open>
  The client decoder (\<open>crates/decoder\<close>): the discriminator and field layout of every event,
  account and instruction of the program, and the dispatch over them. The generated
  \<open>Self::deserialize\<close> is Borsh's and a parameter: \<open>deserialize tys bytes\<close> reads the fields of the
  given types off the front of the bytes. The decoded structs have the fields of the program's own
  types, which they are read into.
\<close>


section \<open>Wire types\<close>

datatype wire_type =
    U8 | U16 | U32 | U64 | U128 | I64 | Key | Array32 | Enum nat | Vec "wire_type list"

datatype wire_value =
    VU8 u8 | VU16 u16 | VU32 u32 | VU64 u64 | VU128 u128 | VI64 i64 | VKey pubkey | VArray32 bytes
  | VEnum nat | VVec "wire_value list list"

type_synonym deserializer = "wire_type list \<Rightarrow> bytes \<Rightarrow> wire_value list option"

text \<open>An enum is the index of its variant, in the order of its declaration.\<close>

definition DIRECTIONS :: "direction list" where "DIRECTIONS = [Up, Down]"
definition MARKET_MODES :: "market_mode list" where "MARKET_MODES = [Open, CloseOnly]"
definition POSITION_OUTCOMES :: "position_outcome list" where
  "POSITION_OUTCOMES = [Won, Lost, Breakeven, Refunded]"

definition variant :: "'a list \<Rightarrow> nat \<Rightarrow> 'a option" where
  "variant xs i = (if i < length xs then Some (xs ! i) else None)"

text \<open>Reading the fields of a struct one after the other: the next value must have the field's type.\<close>

fun get_u8 :: "wire_value list \<Rightarrow> (u8 \<Rightarrow> wire_value list \<Rightarrow> 'a option) \<Rightarrow> 'a option" where
  "get_u8 (VU8 x # vs) k = k x vs"
| "get_u8 _ k = None"

fun get_u16 :: "wire_value list \<Rightarrow> (u16 \<Rightarrow> wire_value list \<Rightarrow> 'a option) \<Rightarrow> 'a option" where
  "get_u16 (VU16 x # vs) k = k x vs"
| "get_u16 _ k = None"

fun get_u32 :: "wire_value list \<Rightarrow> (u32 \<Rightarrow> wire_value list \<Rightarrow> 'a option) \<Rightarrow> 'a option" where
  "get_u32 (VU32 x # vs) k = k x vs"
| "get_u32 _ k = None"

fun get_u64 :: "wire_value list \<Rightarrow> (u64 \<Rightarrow> wire_value list \<Rightarrow> 'a option) \<Rightarrow> 'a option" where
  "get_u64 (VU64 x # vs) k = k x vs"
| "get_u64 _ k = None"

fun get_u128 :: "wire_value list \<Rightarrow> (u128 \<Rightarrow> wire_value list \<Rightarrow> 'a option) \<Rightarrow> 'a option" where
  "get_u128 (VU128 x # vs) k = k x vs"
| "get_u128 _ k = None"

fun get_i64 :: "wire_value list \<Rightarrow> (i64 \<Rightarrow> wire_value list \<Rightarrow> 'a option) \<Rightarrow> 'a option" where
  "get_i64 (VI64 x # vs) k = k x vs"
| "get_i64 _ k = None"

fun get_key :: "wire_value list \<Rightarrow> (pubkey \<Rightarrow> wire_value list \<Rightarrow> 'a option) \<Rightarrow> 'a option" where
  "get_key (VKey x # vs) k = k x vs"
| "get_key _ k = None"

fun get_array32 :: "wire_value list \<Rightarrow> (bytes \<Rightarrow> wire_value list \<Rightarrow> 'a option) \<Rightarrow> 'a option" where
  "get_array32 (VArray32 x # vs) k = k x vs"
| "get_array32 _ k = None"

fun get_enum :: "wire_value list \<Rightarrow> (nat \<Rightarrow> wire_value list \<Rightarrow> 'a option) \<Rightarrow> 'a option" where
  "get_enum (VEnum x # vs) k = k x vs"
| "get_enum _ k = None"

fun get_vec :: "wire_value list \<Rightarrow> (wire_value list list \<Rightarrow> wire_value list \<Rightarrow> 'a option) \<Rightarrow> 'a option" where
  "get_vec (VVec xs # vs) k = k xs vs"
| "get_vec _ k = None"

definition get_end :: "wire_value list \<Rightarrow> 'a option \<Rightarrow> 'a option" where
  "get_end vs r = (if vs = [] then r else None)"

text \<open>The body every generated \<open>decode\<close> shares.\<close>

definition decode_tagged ::
    "deserializer \<Rightarrow> bytes \<Rightarrow> wire_type list \<Rightarrow> (wire_value list \<Rightarrow> 'a option) \<Rightarrow> bytes \<Rightarrow> 'a option" where
  "decode_tagged deserialize discriminator tys build data =
     (if length data < 8 then None
      else if take 8 data \<noteq> discriminator then None
      else Option.bind (deserialize tys (drop 8 data)) build)"


section \<open>Events\<close>

definition fallback_payout_claimed_fields :: "wire_value list \<Rightarrow> event option" where
  "fallback_payout_claimed_fields vs =
     get_key vs (\<lambda>user vs. get_key vs (\<lambda>destination vs.
     get_u64 vs (\<lambda>assets vs.
     get_end vs (Some (FallbackPayoutClaimed user destination assets)))))"

definition FallbackPayoutClaimedEvent_decode :: "deserializer \<Rightarrow> bytes \<Rightarrow> event option" where
  "FallbackPayoutClaimedEvent_decode deserialize = decode_tagged deserialize
     [180, 60, 123, 94, 7, 16, 234, 28]
     [Key, Key, U64] fallback_payout_claimed_fields"

definition liquidity_deposited_fields :: "wire_value list \<Rightarrow> event option" where
  "liquidity_deposited_fields vs =
     get_u16 vs (\<lambda>market_id vs. get_key vs (\<lambda>user vs.
     get_u64 vs (\<lambda>assets vs. get_u128 vs (\<lambda>shares vs.
     get_end vs (Some (LiquidityDeposited market_id user assets shares))))))"

definition LiquidityDepositedEvent_decode :: "deserializer \<Rightarrow> bytes \<Rightarrow> event option" where
  "LiquidityDepositedEvent_decode deserialize = decode_tagged deserialize
     [218, 155, 74, 193, 59, 66, 94, 122]
     [U16, Key, U64, U128] liquidity_deposited_fields"

definition market_mode_changed_fields :: "wire_value list \<Rightarrow> event option" where
  "market_mode_changed_fields vs =
     get_u16 vs (\<lambda>market_id vs. get_enum vs (\<lambda>mode vs.
     get_end vs (map_option (MarketModeChanged market_id) (variant MARKET_MODES mode))))"

definition MarketModeChangedEvent_decode :: "deserializer \<Rightarrow> bytes \<Rightarrow> event option" where
  "MarketModeChangedEvent_decode deserialize = decode_tagged deserialize
     [102, 84, 205, 59, 243, 49, 7, 130]
     [U16, Enum 2] market_mode_changed_fields"

definition position_closed_fields :: "wire_value list \<Rightarrow> event option" where
  "position_closed_fields vs =
     get_u16 vs (\<lambda>market_id vs. get_u32 vs (\<lambda>position_id vs.
     get_enum vs (\<lambda>outcome vs. get_u64 vs (\<lambda>payout vs.
     get_u64 vs (\<lambda>lp_fee vs. get_u64 vs (\<lambda>platform_fee vs.
     get_end vs (map_option
       (\<lambda>outcome. PositionClosed market_id position_id outcome payout lp_fee platform_fee)
       (variant POSITION_OUTCOMES outcome))))))))"

definition PositionClosedEvent_decode :: "deserializer \<Rightarrow> bytes \<Rightarrow> event option" where
  "PositionClosedEvent_decode deserialize = decode_tagged deserialize
     [157, 163, 227, 228, 13, 97, 138, 121]
     [U16, U32, Enum 4, U64, U64, U64] position_closed_fields"

definition position_created_fields :: "wire_value list \<Rightarrow> event option" where
  "position_created_fields vs =
     get_u16 vs (\<lambda>market_id vs. get_u32 vs (\<lambda>position_id vs.
     get_key vs (\<lambda>user vs. get_i64 vs (\<lambda>entry_price vs.
     get_u32 vs (\<lambda>collateral vs. get_enum vs (\<lambda>direction vs.
     get_u32 vs (\<lambda>expires_at vs.
     get_end vs (map_option
       (\<lambda>direction. PositionCreated market_id position_id user entry_price collateral direction
          expires_at) (variant DIRECTIONS direction)))))))))"

definition PositionCreatedEvent_decode :: "deserializer \<Rightarrow> bytes \<Rightarrow> event option" where
  "PositionCreatedEvent_decode deserialize = decode_tagged deserialize
     [63, 226, 54, 63, 141, 22, 31, 221]
     [U16, U32, Key, I64, U32, Enum 2, U32] position_created_fields"

definition protocol_fees_withdrawn_fields :: "wire_value list \<Rightarrow> event option" where
  "protocol_fees_withdrawn_fields vs =
     get_u16 vs (\<lambda>market_id vs. get_key vs (\<lambda>destination vs.
     get_u64 vs (\<lambda>assets vs.
     get_end vs (Some (ProtocolFeesWithdrawn market_id destination assets)))))"

definition ProtocolFeesWithdrawnEvent_decode :: "deserializer \<Rightarrow> bytes \<Rightarrow> event option" where
  "ProtocolFeesWithdrawnEvent_decode deserialize = decode_tagged deserialize
     [202, 213, 134, 216, 108, 14, 84, 99]
     [U16, Key, U64] protocol_fees_withdrawn_fields"

definition withdrawal_cancelled_fields :: "wire_value list \<Rightarrow> event option" where
  "withdrawal_cancelled_fields vs =
     get_u16 vs (\<lambda>market_id vs. get_key vs (\<lambda>user vs.
     get_u128 vs (\<lambda>shares vs.
     get_end vs (Some (WithdrawalCancelled market_id user shares)))))"

definition WithdrawalCancelledEvent_decode :: "deserializer \<Rightarrow> bytes \<Rightarrow> event option" where
  "WithdrawalCancelledEvent_decode deserialize = decode_tagged deserialize
     [119, 175, 207, 80, 186, 237, 229, 9]
     [U16, Key, U128] withdrawal_cancelled_fields"

definition withdrawal_executed_fields :: "wire_value list \<Rightarrow> event option" where
  "withdrawal_executed_fields vs =
     get_u16 vs (\<lambda>market_id vs. get_key vs (\<lambda>user vs.
     get_u128 vs (\<lambda>shares vs. get_u64 vs (\<lambda>assets vs.
     get_end vs (Some (WithdrawalExecuted market_id user shares assets))))))"

definition WithdrawalExecutedEvent_decode :: "deserializer \<Rightarrow> bytes \<Rightarrow> event option" where
  "WithdrawalExecutedEvent_decode deserialize = decode_tagged deserialize
     [37, 78, 199, 192, 51, 68, 173, 162]
     [U16, Key, U128, U64] withdrawal_executed_fields"

definition withdrawal_requested_fields :: "wire_value list \<Rightarrow> event option" where
  "withdrawal_requested_fields vs =
     get_u16 vs (\<lambda>market_id vs. get_key vs (\<lambda>user vs.
     get_u128 vs (\<lambda>shares vs. get_u64 vs (\<lambda>min_assets_out vs.
     get_end vs (Some (WithdrawalRequested market_id user shares min_assets_out))))))"

definition WithdrawalRequestedEvent_decode :: "deserializer \<Rightarrow> bytes \<Rightarrow> event option" where
  "WithdrawalRequestedEvent_decode deserialize = decode_tagged deserialize
     [75, 207, 21, 12, 160, 102, 150, 55]
     [U16, Key, U128, U64] withdrawal_requested_fields"


section \<open>Accounts\<close>

definition Market_types :: "wire_type list" where
  "Market_types = [U16, Key, Array32, U128, U64, U64, U32, U32, Enum 2, U8]"

definition market_fields :: "wire_value list \<Rightarrow> market option" where
  "market_fields vs =
     get_u16 vs (\<lambda>market_id vs. get_key vs (\<lambda>oracle_key vs.
     get_array32 vs (\<lambda>feed vs. get_u128 vs (\<lambda>shares vs.
     get_u64 vs (\<lambda>collateral vs. get_u64 vs (\<lambda>equity vs.
     get_u32 vs (\<lambda>active vs. get_u32 vs (\<lambda>nonce vs.
     get_enum vs (\<lambda>mode vs. get_u8 vs (\<lambda>bump vs.
     get_end vs (map_option (\<lambda>mode. \<lparr>mkt_market_id = market_id, mkt_oracle = oracle_key,
       mkt_oracle_feed_id = feed, mkt_total_shares = shares, mkt_open_collateral = collateral,
       mkt_risk_epoch_equity = equity, mkt_active_positions = active,
       mkt_next_position_nonce = nonce, mkt_mode = mode, mkt_bump = bump\<rparr>)
       (variant MARKET_MODES mode))))))))))))"

definition Market_decode :: "deserializer \<Rightarrow> bytes \<Rightarrow> market option" where
  "Market_decode deserialize = decode_tagged deserialize
     [219, 190, 213, 55, 0, 227, 198, 154]
     Market_types market_fields"

definition protocol_config_fields :: "wire_value list \<Rightarrow> protocol_config option" where
  "protocol_config_fields vs =
     get_key vs (\<lambda>admin vs. get_key vs (\<lambda>fee_authority vs.
     get_key vs (\<lambda>mint vs. get_u8 vs (\<lambda>bump vs.
     get_end vs (Some \<lparr>cfg_admin = admin, cfg_fee_authority = fee_authority, cfg_collateral_mint = mint,
       cfg_bump = bump\<rparr>)))))"

definition ProtocolConfig_decode :: "deserializer \<Rightarrow> bytes \<Rightarrow> protocol_config option" where
  "ProtocolConfig_decode deserialize = decode_tagged deserialize
     [207, 91, 250, 28, 152, 179, 215, 209] [Key, Key, Key, U8] protocol_config_fields"

definition MarketLiquidity_types :: "wire_type list" where
  "MarketLiquidity_types = [U16, U128, U128, U64]"

definition market_liquidity_fields :: "wire_value list \<Rightarrow> market_liquidity option" where
  "market_liquidity_fields vs =
     get_u16 vs (\<lambda>market_id vs. get_u128 vs (\<lambda>shares vs.
     get_u128 vs (\<lambda>pending vs. get_u64 vs (\<lambda>min_assets_out vs.
     get_end vs (Some \<lparr>ml_market_id = market_id, ml_shares = shares, ml_pending_withdrawal_shares = pending,
       ml_min_assets_out = min_assets_out\<rparr>)))))"

definition CompactPosition_types :: "wire_type list" where
  "CompactPosition_types = [U16, U32, Array32, U32, I64, U32, Enum 2]"

definition compact_position_fields :: "wire_value list \<Rightarrow> compact_position option" where
  "compact_position_fields vs =
     get_u16 vs (\<lambda>market_id vs. get_u32 vs (\<lambda>nonce vs.
     get_array32 vs (\<lambda>task_salt vs. get_u32 vs (\<lambda>collateral vs.
     get_i64 vs (\<lambda>entry_price vs. get_u32 vs (\<lambda>expires_at vs.
     get_enum vs (\<lambda>direction vs.
     get_end vs (map_option (\<lambda>direction. \<lparr>pos_market_id = market_id, pos_nonce = nonce,
       pos_task_salt = task_salt, pos_collateral = collateral, pos_entry_price = entry_price,
       pos_expires_at = expires_at, pos_direction = direction\<rparr>) (variant DIRECTIONS direction)))))))))"

text \<open>A vector is read whole or not at all.\<close>

fun collect :: "'a option list \<Rightarrow> 'a list option" where
  "collect [] = Some []"
| "collect (x # xs) = Option.bind x (\<lambda>x. map_option ((#) x) (collect xs))"

definition user_liquidity_fields :: "wire_value list \<Rightarrow> user_liquidity option" where
  "user_liquidity_fields vs =
     get_vec vs (\<lambda>entries vs.
     get_end vs (map_option (\<lambda>es. \<lparr>ul_markets = es\<rparr>) (collect (map market_liquidity_fields entries))))"

definition UserLiquidity_decode :: "deserializer \<Rightarrow> bytes \<Rightarrow> user_liquidity option" where
  "UserLiquidity_decode deserialize = decode_tagged deserialize
     [231, 187, 233, 254, 66, 35, 139, 26] [Vec MarketLiquidity_types] user_liquidity_fields"

definition user_positions_fields :: "wire_value list \<Rightarrow> user_positions option" where
  "user_positions_fields vs =
     get_vec vs (\<lambda>entries vs.
     get_end vs (map_option (\<lambda>ps. \<lparr>up_positions = ps\<rparr>) (collect (map compact_position_fields entries))))"

definition UserPositions_decode :: "deserializer \<Rightarrow> bytes \<Rightarrow> user_positions option" where
  "UserPositions_decode deserialize = decode_tagged deserialize
     [97, 163, 100, 87, 105, 248, 138, 152] [Vec CompactPosition_types] user_positions_fields"

datatype decoded_program_account =
    MarketAccount market | ProtocolConfigAccount protocol_config
  | UserLiquidityAccount user_liquidity | UserPositionsAccount user_positions

text \<open>\<open>or_else m k\<close> is the fall-through of a chain of \<open>if let Some(..) = .. { return .. }\<close>.\<close>

fun or_else :: "'a option \<Rightarrow> 'a option \<Rightarrow> 'a option" where
  "or_else None k = k"
| "or_else (Some x) k = Some x"

definition decode_account ::
    "deserializer \<Rightarrow> pubkey \<Rightarrow> pubkey \<Rightarrow> bytes \<Rightarrow> decoded_program_account option" where
  "decode_account deserialize PROGRAM_ID owner_program data =
     (if owner_program \<noteq> PROGRAM_ID then None
      else or_else (map_option MarketAccount (Market_decode deserialize data))
        (or_else (map_option ProtocolConfigAccount (ProtocolConfig_decode deserialize data))
        (or_else (map_option UserLiquidityAccount (UserLiquidity_decode deserialize data))
          (map_option UserPositionsAccount (UserPositions_decode deserialize data)))))"


section \<open>Instructions\<close>

text \<open>
  An instruction's module gives its discriminator, its arguments and the accounts
  \<open>arrange_accounts\<close> takes in order: the first ones are required, then come those that may be
  missing, and the rest of the list is kept.
\<close>

record instruction_format =
  if_name :: string
  if_discriminator :: bytes
  if_args :: "(string \<times> wire_type) list"
  if_accounts :: "string list"
  if_optional :: "string list"

record arranged_accounts =
  ar_accounts :: "(string \<times> pubkey) list"
  ar_optional :: "(string \<times> pubkey option) list"
  ar_remaining :: "account_meta list"

fun next_optional :: "string list \<Rightarrow> account_meta list \<Rightarrow> (string \<times> pubkey option) list" where
  "next_optional [] _ = []"
| "next_optional (n # ns) [] = (n, None) # next_optional ns []"
| "next_optional (n # ns) (m # ms) = (n, Some (am_pubkey m)) # next_optional ns ms"

definition arrange_accounts :: "instruction_format \<Rightarrow> account_meta list \<Rightarrow> arranged_accounts option" where
  "arrange_accounts f metas =
     (let required = if_accounts f; n = length required in
      if length metas < n then None
      else Some \<lparr>ar_accounts = zip required (map am_pubkey metas),
                ar_optional = next_optional (if_optional f) (drop n metas),
                ar_remaining = drop (n + length (if_optional f)) metas\<rparr>)"

datatype decoded_instruction = Instruction string "wire_value list" | CpiEvent event

definition decode_instruction_as ::
    "deserializer \<Rightarrow> instruction_format \<Rightarrow> bytes \<Rightarrow> decoded_instruction option" where
  "decode_instruction_as deserialize f =
     decode_tagged deserialize (if_discriminator f) (map snd (if_args f))
       (\<lambda>args. Some (Instruction (if_name f) args))"

definition cancel_withdrawal_format :: instruction_format where
  "cancel_withdrawal_format =
     \<lparr>if_name = ''CancelWithdrawal'',
      if_discriminator = [183, 104, 181, 250, 28, 128, 210, 70],
      if_args = [],
      if_accounts = [''user'', ''market'', ''user_liquidity''],
      if_optional = []\<rparr>"

definition claim_fallback_payout_format :: instruction_format where
  "claim_fallback_payout_format =
     \<lparr>if_name = ''ClaimFallbackPayout'',
      if_discriminator = [215, 117, 24, 176, 107, 179, 59, 212],
      if_args = [],
      if_accounts = [''user'', ''protocol_config'', ''user_positions'',
                   ''payout_escrow_token_account'', ''user_token_account'',
                   ''collateral_mint'', ''token_program''],
      if_optional = []\<rparr>"

definition delegate_market_format :: instruction_format where
  "delegate_market_format =
     \<lparr>if_name = ''DelegateMarket'',
      if_discriminator = [223, 125, 110, 148, 99, 176, 143, 72],
      if_args = [(''market_id'', U16), (''validator'', Key)],
      if_accounts = [''payer'', ''protocol_config'', ''buffer_market'',
                   ''delegation_record_market'', ''delegation_metadata_market'', ''market'',
                   ''owner_program'', ''delegation_program'', ''system_program''],
      if_optional = []\<rparr>"

definition delegate_user_liquidity_format :: instruction_format where
  "delegate_user_liquidity_format =
     \<lparr>if_name = ''DelegateUserLiquidity'',
      if_discriminator = [213, 222, 197, 230, 173, 223, 102, 167],
      if_args = [(''validator'', Key)],
      if_accounts = [''user'', ''buffer_user_liquidity'', ''delegation_record_user_liquidity'',
                   ''delegation_metadata_user_liquidity'', ''user_liquidity'',
                   ''owner_program'', ''delegation_program'', ''system_program''],
      if_optional = []\<rparr>"

definition delegate_user_positions_format :: instruction_format where
  "delegate_user_positions_format =
     \<lparr>if_name = ''DelegateUserPositions'',
      if_discriminator = [147, 104, 221, 210, 31, 52, 34, 53],
      if_args = [(''validator'', Key)],
      if_accounts = [''user'', ''buffer_user_positions'', ''delegation_record_user_positions'',
                   ''delegation_metadata_user_positions'', ''user_positions'',
                   ''owner_program'', ''delegation_program'', ''system_program''],
      if_optional = []\<rparr>"

definition deposit_liquidity_format :: instruction_format where
  "deposit_liquidity_format =
     \<lparr>if_name = ''DepositLiquidity'',
      if_discriminator = [245, 99, 59, 25, 151, 71, 233, 249],
      if_args = [(''amount'', U64), (''min_shares_out'', U128)],
      if_accounts = [''user'', ''protocol_config'', ''market'', ''user_liquidity'',
                   ''pool_token_account'', ''user_token_account'', ''collateral_mint'',
                   ''token_program''],
      if_optional = []\<rparr>"

definition execute_withdrawal_format :: instruction_format where
  "execute_withdrawal_format =
     \<lparr>if_name = ''ExecuteWithdrawal'',
      if_discriminator = [113, 121, 203, 232, 137, 139, 248, 249],
      if_args = [],
      if_accounts = [''user'', ''protocol_config'', ''market'', ''user_liquidity'',
                   ''pool_token_account'', ''user_token_account'', ''collateral_mint'',
                   ''token_program''],
      if_optional = []\<rparr>"

definition initialize_market_format :: instruction_format where
  "initialize_market_format =
     \<lparr>if_name = ''InitializeMarket'',
      if_discriminator = [35, 35, 189, 193, 155, 48, 170, 203],
      if_args = [(''market_id'', U16), (''oracle'', Key), (''oracle_feed_id'', Array32),
               (''sponsor_lamports'', U64)],
      if_accounts = [''admin'', ''collateral_mint'', ''protocol_config'', ''market'',
                   ''pool_token_account'', ''derived_fee_authority'', ''fee_token_account'',
                   ''token_program'', ''associated_token_program'', ''system_program''],
      if_optional = []\<rparr>"

definition initialize_protocol_config_format :: instruction_format where
  "initialize_protocol_config_format =
     \<lparr>if_name = ''InitializeProtocolConfig'',
      if_discriminator = [28, 50, 43, 233, 244, 98, 123, 118],
      if_args = [],
      if_accounts = [''admin'', ''fee_authority'', ''program'', ''program_data'',
                   ''collateral_mint'', ''protocol_config'', ''system_program''],
      if_optional = []\<rparr>"

definition initialize_user_liquidity_format :: instruction_format where
  "initialize_user_liquidity_format =
     \<lparr>if_name = ''InitializeUserLiquidity'',
      if_discriminator = [250, 167, 58, 109, 173, 95, 219, 138],
      if_args = [],
      if_accounts = [''user'', ''user_liquidity'', ''system_program''],
      if_optional = []\<rparr>"

definition initialize_user_positions_format :: instruction_format where
  "initialize_user_positions_format =
     \<lparr>if_name = ''InitializeUserPositions'',
      if_discriminator = [6, 119, 238, 168, 19, 38, 23, 113],
      if_args = [],
      if_accounts = [''user'', ''user_positions'', ''system_program''],
      if_optional = []\<rparr>"

definition open_position_format :: instruction_format where
  "open_position_format =
     \<lparr>if_name = ''OpenPosition'',
      if_discriminator = [135, 128, 47, 77, 15, 152, 240, 49],
      if_args = [(''nonce'', U32), (''task_salt'', Array32), (''direction'', Enum 2),
               (''collateral'', U64), (''min_entry_price'', I64), (''max_entry_price'', I64)],
      if_accounts = [''user'', ''session_signer'', ''protocol_config'', ''market'',
                   ''user_positions'', ''pool_token_account'', ''derived_fee_authority'',
                   ''fee_token_account'', ''user_token_account'',
                   ''payout_escrow_token_account'', ''collateral_mint'', ''price_update'',
                   ''token_program'', ''crank_signer'', ''magic_program''],
      if_optional = [''session_token'']\<rparr>"

definition process_undelegation_format :: instruction_format where
  "process_undelegation_format =
     \<lparr>if_name = ''ProcessUndelegation'',
      if_discriminator = [196, 28, 41, 206, 48, 37, 51, 167],
      if_args = [(''account_seeds'', Vec [Vec [U8]])],
      if_accounts = [''base_account'', ''buffer'', ''payer'', ''system_program''],
      if_optional = []\<rparr>"

definition request_withdrawal_format :: instruction_format where
  "request_withdrawal_format =
     \<lparr>if_name = ''RequestWithdrawal'',
      if_discriminator = [251, 85, 121, 205, 56, 201, 12, 177],
      if_args = [(''shares'', U128), (''min_assets_out'', U64)],
      if_accounts = [''user'', ''market'', ''user_liquidity''],
      if_optional = []\<rparr>"

definition set_market_mode_format :: instruction_format where
  "set_market_mode_format =
     \<lparr>if_name = ''SetMarketMode'',
      if_discriminator = [189, 249, 103, 37, 28, 219, 101, 245],
      if_args = [(''mode'', Enum 2)],
      if_accounts = [''admin'', ''protocol_config'', ''market''],
      if_optional = []\<rparr>"

definition settle_position_format :: instruction_format where
  "settle_position_format =
     \<lparr>if_name = ''SettlePosition'',
      if_discriminator = [33, 156, 74, 218, 215, 42, 112, 175],
      if_args = [(''nonce'', U32), (''task_salt'', Array32)],
      if_accounts = [''user'', ''protocol_config'', ''market'', ''user_positions'',
                   ''pool_token_account'', ''user_token_account'',
                   ''payout_escrow_token_account'', ''derived_fee_authority'',
                   ''fee_token_account'', ''collateral_mint'', ''price_update'',
                   ''token_program'', ''crank_signer''],
      if_optional = []\<rparr>"

definition undelegate_user_liquidity_format :: instruction_format where
  "undelegate_user_liquidity_format =
     \<lparr>if_name = ''UndelegateUserLiquidity'',
      if_discriminator = [233, 109, 39, 9, 126, 220, 233, 212],
      if_args = [],
      if_accounts = [''user'', ''user_liquidity'', ''magic_program'', ''magic_context''],
      if_optional = []\<rparr>"

definition withdraw_protocol_fees_format :: instruction_format where
  "withdraw_protocol_fees_format =
     \<lparr>if_name = ''WithdrawProtocolFees'',
      if_discriminator = [11, 68, 165, 98, 18, 208, 134, 73],
      if_args = [(''amount'', U64)],
      if_accounts = [''fee_authority'', ''protocol_config'', ''market'',
                   ''derived_fee_authority'', ''fee_token_account'',
                   ''destination_token_account'', ''collateral_mint'', ''token_program''],
      if_optional = []\<rparr>"

text \<open>Anchor's self-invocation that carries an event behind a second discriminator.\<close>

definition CpiEvent_decode :: "deserializer \<Rightarrow> bytes \<Rightarrow> event option" where
  "CpiEvent_decode deserialize data =
     (if length data < 8 then None
      else if take 8 data \<noteq> [228, 69, 165, 46, 81, 203, 154, 29] then None
      else let event_data = drop 8 data in
        or_else (FallbackPayoutClaimedEvent_decode deserialize event_data)
        (or_else (LiquidityDepositedEvent_decode deserialize event_data)
        (or_else (MarketModeChangedEvent_decode deserialize event_data)
        (or_else (PositionClosedEvent_decode deserialize event_data)
        (or_else (PositionCreatedEvent_decode deserialize event_data)
        (or_else (ProtocolFeesWithdrawnEvent_decode deserialize event_data)
        (or_else (WithdrawalCancelledEvent_decode deserialize event_data)
        (or_else (WithdrawalExecutedEvent_decode deserialize event_data)
          (WithdrawalRequestedEvent_decode deserialize event_data)))))))))"

definition arrange_cpi_event :: "account_meta list \<Rightarrow> (pubkey \<times> pubkey \<times> account_meta list) option" where
  "arrange_cpi_event metas =
     (case metas of
        program # event_authority # remaining \<Rightarrow>
          Some (am_pubkey program, am_pubkey event_authority, remaining)
      | _ \<Rightarrow> None)"

definition instruction_formats :: "instruction_format list" where
  "instruction_formats =
     [cancel_withdrawal_format, claim_fallback_payout_format, delegate_market_format,
      delegate_user_liquidity_format, delegate_user_positions_format, deposit_liquidity_format,
      execute_withdrawal_format, initialize_market_format, initialize_protocol_config_format,
      initialize_user_liquidity_format, initialize_user_positions_format, open_position_format,
      process_undelegation_format, request_withdrawal_format, set_market_mode_format,
      settle_position_format, undelegate_user_liquidity_format, withdraw_protocol_fees_format]"

definition decode_instruction ::
    "deserializer \<Rightarrow> pubkey \<Rightarrow> pubkey \<Rightarrow> account_meta list \<Rightarrow> bytes \<Rightarrow>
     (pubkey \<times> decoded_instruction \<times> account_meta list) option" where
  "decode_instruction deserialize PROGRAM_ID program metas data =
     (if program \<noteq> PROGRAM_ID then None
      else map_option (\<lambda>d. (program, d, metas))
        (foldr or_else (map (\<lambda>f. decode_instruction_as deserialize f data) instruction_formats)
          (map_option CpiEvent (CpiEvent_decode deserialize data))))"

end
