(* ===== verification/Ingest.thy ===== *)
theory Ingest
  imports Storage Decoder "HOL-Library.Sublist"
begin

text \<open>
  Ingestion (\<open>crates/indexer/src/ingest.rs\<close>) and the dead letters it records
  (\<open>reconcile/dead_letters.rs\<close>): the crawl of a source's signatures, the program's data lines in a
  transaction's logs, their decoding into domain events, and what is written for them. An action
  maps the database to its result and the database it leaves: each statement is a transaction, so
  an error keeps what earlier ones wrote.
\<close>


section \<open>Actions\<close>

datatype indexer_error =
    StorageFailed storage_error | RpcFailed | InvalidSignature | SlotOverflow | CatchupGap
  | InvalidUrl | RouterFailed | NotDelegated | NoEndpoint | NoActiveRoute | NotActiveRoute
  | NotSupervised | IncompatibleRoutes | InconsistentRoute | InvalidTrackedKey
  | UnsupportedAccountType | MarketIdRange | NothingTracked | TooManyAccounts | UndecodableAccount
  | AmountOverflow | NoCursor | InvariantFailed | InvalidConfiguration | SubscriptionFailed
  | RefreshFailed

type_synonym 'a action = "database \<Rightarrow> (indexer_error + 'a) \<times> database"

definition return :: "'a \<Rightarrow> 'a action" where
  "return x db = (Inr x, db)"

definition fail :: "indexer_error \<Rightarrow> 'a action" where
  "fail e db = (Inl e, db)"

definition then_do :: "'a action \<Rightarrow> ('a \<Rightarrow> 'b action) \<Rightarrow> 'b action" where
  "then_do m k db = (case m db of (Inl e, db) \<Rightarrow> (Inl e, db) | (Inr x, db) \<Rightarrow> k x db)"

definition expect :: "'a option \<Rightarrow> indexer_error \<Rightarrow> 'a action" where
  "expect m e = (case m of None \<Rightarrow> fail e | Some x \<Rightarrow> return x)"

definition lift :: "indexer_error + 'a \<Rightarrow> 'a action" where
  "lift r db = (r, db)"

text \<open>A transaction that returns a value: all of it or, on an error, nothing.\<close>

definition atomically :: "(database \<Rightarrow> indexer_error + 'a \<times> database) \<Rightarrow> 'a action" where
  "atomically f db = (case f db of Inl e \<Rightarrow> (Inl e, db) | Inr (x, db') \<Rightarrow> (Inr x, db'))"

definition stored :: "'a db_result \<Rightarrow> indexer_error + 'a" where
  "stored r = (case r of Inl e \<Rightarrow> Inl (StorageFailed e) | Inr x \<Rightarrow> Inr x)"

text \<open>A storage call commits its result or, on an error, nothing.\<close>

definition run_statement :: "(database \<Rightarrow> database db_result) \<Rightarrow> unit action" where
  "run_statement f db =
     (case f db of Inl e \<Rightarrow> (Inl (StorageFailed e), db) | Inr db' \<Rightarrow> (Inr (), db'))"

definition to_i64 :: "u64 \<Rightarrow> i64 option" where
  "to_i64 a = (if unat a < 2 ^ 63 then Some a else None)"


section \<open>Dead letters\<close>

datatype failure_kind =
    UnknownDiscriminator | UnsupportedEventVersion | MalformedPayload | RouteMismatch

fun failure_kind_str :: "failure_kind \<Rightarrow> string" where
  "failure_kind_str UnknownDiscriminator = ''unknown_discriminator''"
| "failure_kind_str UnsupportedEventVersion = ''unsupported_event_version''"
| "failure_kind_str MalformedPayload = ''malformed_payload''"
| "failure_kind_str RouteMismatch = ''route_mismatch''"

text \<open>\<open>payload.get(..8)\<close> is absent for a shorter payload; \<open>attempts\<close> is an INTEGER.\<close>

definition record_dead_letter ::
    "source \<Rightarrow> string \<Rightarrow> i64 \<Rightarrow> string \<Rightarrow> failure_kind \<Rightarrow> bytes \<Rightarrow> string \<Rightarrow> database \<Rightarrow> database db_result" where
  "record_dead_letter s signature slot instruction_path kind payload details db =
     (let key = (src_id s, signature, instruction_path, failure_kind_str kind) in
      and_then (require (0 \<le> sint slot) CheckViolation) (\<lambda>_.
      and_then (require (known_source (src_id s) db) ForeignKeyViolation) (\<lambda>_.
      and_then (require (case db_dead_letters db key of None \<Rightarrow> True
                         | Some row \<Rightarrow> dl_attempts row + 1 < 2 ^ 31) NumericOutOfRange) (\<lambda>_.
      Inr (db\<lparr>db_dead_letters := upsert key
        \<lparr>dl_slot_at = sint slot,
         dl_discriminator = (if length payload < 8 then None else Some (take 8 payload)),
         dl_payload = payload, dl_details = details, dl_first_at = db_now db,
         dl_last_at = db_now db, dl_attempts = 1\<rparr>
        (\<lambda>row. Some (row\<lparr>dl_last_at := db_now db, dl_attempts := dl_attempts row + 1,
                         dl_details := details\<rparr>))
        (db_dead_letters db)\<rparr>)))))"


section \<open>The program's data lines\<close>

definition strip_prefix :: "string \<Rightarrow> string \<Rightarrow> string option" where
  "strip_prefix p s = (if take (length p) s = p then Some (drop (length p) s) else None)"

text \<open>\<open>split_once\<close> splits at the first occurrence.\<close>

fun split_once :: "string \<Rightarrow> string \<Rightarrow> (string \<times> string) option" where
  "split_once pat s =
     (case strip_prefix pat s of
        Some rest \<Rightarrow> Some ([], rest)
      | None \<Rightarrow> (case s of
            [] \<Rightarrow> None
          | c # s' \<Rightarrow> map_option (\<lambda>(a, b). (c # a, b)) (split_once pat s')))"

declare split_once.simps [simp del]

definition contains :: "string \<Rightarrow> string \<Rightarrow> bool" where
  "contains pat s \<longleftrightarrow> split_once pat s \<noteq> None"

definition ends_with :: "string \<Rightarrow> string \<Rightarrow> bool" where
  "ends_with p s \<longleftrightarrow> length p \<le> length s \<and> drop (length s - length p) s = p"

text \<open>What one line does to the stack of running programs; \<open>None\<close> leaves the line to the check
  for data.\<close>

definition frame_step :: "string \<Rightarrow> string list \<Rightarrow> string list option" where
  "frame_step log stack =
     (case strip_prefix ''Program '' log of
        None \<Rightarrow> None
      | Some rest \<Rightarrow>
          (case split_once '' invoke ['' rest of
             Some (program, _) \<Rightarrow> Some (program # stack)
           | None \<Rightarrow>
               if ends_with '' success'' rest \<or> contains '' failed: '' rest then Some (tl stack)
               else None))"

definition data_line :: "string \<Rightarrow> string list \<Rightarrow> string \<Rightarrow> string option" where
  "data_line target stack log =
     (case stack of
        program # _ \<Rightarrow> if program = target then strip_prefix ''Program data: '' log else None
      | [] \<Rightarrow> None)"

fun scan_logs :: "string \<Rightarrow> nat \<Rightarrow> string list \<Rightarrow> string list \<Rightarrow> (nat \<times> string) list" where
  "scan_logs target i stack [] = []"
| "scan_logs target i stack (log # logs) =
     (case frame_step log stack of
        Some stack' \<Rightarrow> scan_logs target (Suc i) stack' logs
      | None \<Rightarrow>
          (case data_line target stack log of
             Some encoded \<Rightarrow> (i, encoded) # scan_logs target (Suc i) stack logs
           | None \<Rightarrow> scan_logs target (Suc i) stack logs))"

definition program_data_logs :: "string list \<Rightarrow> string \<Rightarrow> (nat \<times> string) list" where
  "program_data_logs logs target_program = scan_logs target_program 0 [] logs"


section \<open>Decoding an event\<close>

definition PROGRAM_ID :: string where
  "PROGRAM_ID = ''AcvFWjSFrLAAWMynqQmBxeBe8wHRTVhhHtB6byatQLFr''"

definition EVENT_CURSOR :: string where "EVENT_CURSOR = ''transaction_crawler''"

text \<open>The domain event of a decoded one: keys are printed, a mode change has none.\<close>

fun domain_event_of :: "client \<Rightarrow> event \<Rightarrow> domain_event option" where
  "domain_event_of c (PositionCreated m i user price collateral d expires_at) =
     Some (PositionCreatedEv m i (show_pubkey c user) price collateral d expires_at)"
| "domain_event_of c (PositionClosed m i outcome payout lp_fee platform_fee) =
     Some (PositionClosedEv m i outcome payout lp_fee platform_fee)"
| "domain_event_of c (LiquidityDeposited m user assets shares) =
     Some (LiquidityDepositedEv m (show_pubkey c user) assets shares)"
| "domain_event_of c (WithdrawalRequested m user shares min_assets_out) =
     Some (WithdrawalRequestedEv m (show_pubkey c user) shares min_assets_out)"
| "domain_event_of c (WithdrawalCancelled m user shares) =
     Some (WithdrawalCancelledEv m (show_pubkey c user) shares)"
| "domain_event_of c (WithdrawalExecuted m user shares assets) =
     Some (WithdrawalExecutedEv m (show_pubkey c user) shares assets)"
| "domain_event_of c (ProtocolFeesWithdrawn m destination assets) =
     Some (ProtocolFeesWithdrawnEv m (show_pubkey c destination) assets)"
| "domain_event_of c (FallbackPayoutClaimed user destination assets) =
     Some (FallbackPayoutClaimedEv (show_pubkey c user) (show_pubkey c destination) assets)"
| "domain_event_of c (MarketModeChanged _ _) = None"

definition decode_event ::
    "client \<Rightarrow> deserializer \<Rightarrow> bytes \<Rightarrow> failure_kind + domain_event option" where
  "decode_event c d data =
     (let known = (\<lambda>decoded. and_then (ok_or decoded MalformedPayload) (\<lambda>e. Inr (domain_event_of c e)));
          discriminator = take 8 data in
      if length data < 8 then Inl MalformedPayload
      else if discriminator = [63, 226, 54, 63, 141, 22, 31, 221]
        then known (PositionCreatedEvent_decode d data)
      else if discriminator = [157, 163, 227, 228, 13, 97, 138, 121]
        then known (PositionClosedEvent_decode d data)
      else if discriminator = [218, 155, 74, 193, 59, 66, 94, 122]
        then known (LiquidityDepositedEvent_decode d data)
      else if discriminator = [75, 207, 21, 12, 160, 102, 150, 55]
        then known (WithdrawalRequestedEvent_decode d data)
      else if discriminator = [119, 175, 207, 80, 186, 237, 229, 9]
        then known (WithdrawalCancelledEvent_decode d data)
      else if discriminator = [37, 78, 199, 192, 51, 68, 173, 162]
        then known (WithdrawalExecutedEvent_decode d data)
      else if discriminator = [202, 213, 134, 216, 108, 14, 84, 99]
        then known (ProtocolFeesWithdrawnEvent_decode d data)
      else if discriminator = [180, 60, 123, 94, 7, 16, 234, 28]
        then known (FallbackPayoutClaimedEvent_decode d data)
      else if discriminator = [102, 84, 205, 59, 243, 49, 7, 130]
        then known (MarketModeChangedEvent_decode d data)
      else Inl UnknownDiscriminator)"


section \<open>Applying a transaction's logs\<close>

text \<open>The libraries of ingestion: base64, Borsh, \<open>DateTime::from_timestamp\<close>, the printing of the
  log index, and the text a signature is parsed from and printed as.\<close>

record ingest_libraries =
  il_client :: client
  il_deserialize :: deserializer
  il_base64_decode :: "string \<Rightarrow> bytes option"
  il_timestamp :: "int \<Rightarrow> int option"
  il_show_index :: "nat \<Rightarrow> string"
  il_signature :: "string \<Rightarrow> string option"

definition observation_of ::
    "source \<Rightarrow> string \<Rightarrow> i64 \<Rightarrow> int option \<Rightarrow> string \<Rightarrow> domain_event \<Rightarrow> observation" where
  "observation_of s signature slot block_time path event =
     \<lparr>ob_source = s, ob_program_id = PROGRAM_ID, ob_signature = signature, ob_slot = slot,
      ob_block_time = block_time, ob_instruction_path = path, ob_cursor_name = EVENT_CURSOR,
      ob_cursor_value = signature, ob_event = event\<rparr>"

fun collect_observations ::
    "ingest_libraries \<Rightarrow> source \<Rightarrow> string \<Rightarrow> i64 \<Rightarrow> int option \<Rightarrow> (nat \<times> string) list \<Rightarrow>
     observation list action" where
  "collect_observations l s signature slot block_time [] = return []"
| "collect_observations l s signature slot block_time ((log_index, encoded) # entries) =
     (let instruction_path = ''log/'' @ il_show_index l log_index;
          next_entries = collect_observations l s signature slot block_time entries in
      case il_base64_decode l encoded of
        None \<Rightarrow> then_do (run_statement (record_dead_letter s signature slot instruction_path
                  MalformedPayload (byte_string encoded) ''base64'')) (\<lambda>_. next_entries)
      | Some data \<Rightarrow>
          (case decode_event (il_client l) (il_deserialize l) data of
             Inr (Some event) \<Rightarrow> then_do next_entries (\<lambda>obs.
               return (observation_of s signature slot block_time instruction_path event # obs))
           | Inr None \<Rightarrow> next_entries
           | Inl kind \<Rightarrow> then_do (run_statement (record_dead_letter s signature slot instruction_path
                  kind data ''event_contract_version 2'')) (\<lambda>_. next_entries)))"

definition apply_program_logs ::
    "ingest_libraries \<Rightarrow> source \<Rightarrow> string \<Rightarrow> i64 \<Rightarrow> int option \<Rightarrow> string list \<Rightarrow> nat action" where
  "apply_program_logs l s signature slot block_time logs =
     then_do (collect_observations l s signature slot block_time (program_data_logs logs PROGRAM_ID))
       (\<lambda>observations.
        then_do (run_statement
          (if observations = [] then storage_advance_cursor s EVENT_CURSOR signature slot (Some signature)
           else apply_batch (il_client l) observations))
          (\<lambda>_. return (length observations)))"

record live_report =
  lv_events_applied :: nat
  lv_failed_transaction :: bool
  lv_pre_v2_transaction :: bool

definition logs_with_storage ::
    "ingest_libraries \<Rightarrow> source \<Rightarrow> string \<Rightarrow> u64 \<Rightarrow> bool \<Rightarrow> string list \<Rightarrow> int \<Rightarrow> u64 \<Rightarrow> live_report action" where
  "logs_with_storage l s signature slot failed_transaction logs observed_at v2_min_slot =
     then_do (expect (il_signature l signature) InvalidSignature) (\<lambda>signature.
     let pre_v2_transaction = slot < v2_min_slot in
     then_do (expect (to_i64 slot) SlotOverflow) (\<lambda>slot.
     if failed_transaction \<or> pre_v2_transaction then
       then_do (run_statement (storage_advance_cursor s EVENT_CURSOR signature slot (Some signature)))
         (\<lambda>_. return \<lparr>lv_events_applied = 0, lv_failed_transaction = failed_transaction,
                lv_pre_v2_transaction = \<not> failed_transaction \<and> pre_v2_transaction\<rparr>)
     else
       then_do (apply_program_logs l s signature slot (Some observed_at) logs) (\<lambda>events_applied.
         return \<lparr>lv_events_applied = events_applied, lv_failed_transaction = False,
                 lv_pre_v2_transaction = False\<rparr>)))"


section \<open>Crawling a source\<close>

record signature_info =
  si_signature :: string
  si_err :: bool

record transaction_meta =
  tm_err :: bool
  tm_logs :: "string list option"

record fetched_transaction =
  ft_slot :: u64
  ft_block_time :: "int option"
  ft_meta :: "transaction_meta option"

text \<open>The RPC node during one call: \<open>getSignaturesForAddress(before, limit)\<close>, newest first, and
  \<open>getTransaction\<close>; \<open>None\<close> is a failed request.\<close>

record rpc =
  rpc_signatures :: "string option \<Rightarrow> nat \<Rightarrow> signature_info list option"
  rpc_transaction :: "string \<Rightarrow> fetched_transaction option"

definition OVERLAP :: nat where "OVERLAP = 32"

record crawl_state =
  cr_signatures :: "signature_info list"
  cr_cursor_found :: bool
  cr_overlap :: nat

text \<open>One page: \<open>True\<close> with the state is \<open>break 'crawl\<close>. The signatures are kept in the order
  they are pushed.\<close>

fun crawl_page :: "nat \<Rightarrow> string option \<Rightarrow> signature_info list \<Rightarrow> crawl_state \<Rightarrow> bool \<times> crawl_state" where
  "crawl_page maximum cursor [] cr = (False, cr)"
| "crawl_page maximum cursor (item # page) cr =
     (if maximum \<le> length (cr_signatures cr) then (True, cr)
      else if cursor = Some (si_signature item) then
        crawl_page maximum cursor page
          (cr\<lparr>cr_cursor_found := True, cr_signatures := cr_signatures cr @ [item]\<rparr>)
      else if cr_cursor_found cr then
        (let cr = cr\<lparr>cr_overlap := cr_overlap cr + 1\<rparr> in
         if OVERLAP < cr_overlap cr then (True, cr)
         else crawl_page maximum cursor page (cr\<lparr>cr_signatures := cr_signatures cr @ [item]\<rparr>))
      else crawl_page maximum cursor page (cr\<lparr>cr_signatures := cr_signatures cr @ [item]\<rparr>))"

lemma crawl_page_grows:
  "crawl_page maximum cursor page cr = (stop, cr') \<Longrightarrow>
   length (cr_signatures cr) \<le> length (cr_signatures cr') \<and>
   (\<not> stop \<longrightarrow> length (cr_signatures cr') = length (cr_signatures cr) + length page \<and>
      (page \<noteq> [] \<longrightarrow> length (cr_signatures cr) < maximum))"
  by (induction maximum cursor page cr rule: crawl_page.induct)
     (auto simp: Let_def split: if_splits)

lemma crawl_page_decreases:
  assumes "(False, cr') = crawl_page maximum cursor page cr" and "page \<noteq> []"
  shows "maximum - length (cr_signatures cr') < maximum - length (cr_signatures cr)"
proof -
  have "length (cr_signatures cr') = length (cr_signatures cr) + length page"
    and "length (cr_signatures cr) < maximum" and "0 < length page"
    using crawl_page_grows [OF assms(1) [symmetric]] assms(2) by simp_all
  then show ?thesis by linarith
qed

text \<open>The loop over the pages. A page that neither ends the loop nor is empty adds a signature, and
  there are at most \<open>maximum\<close>.\<close>

function (sequential) crawl ::
    "ingest_libraries \<Rightarrow> rpc \<Rightarrow> nat \<Rightarrow> nat \<Rightarrow> string option \<Rightarrow> string option \<Rightarrow> crawl_state \<Rightarrow>
     indexer_error + crawl_state" where
  "crawl l r maximum page_size cursor before cr =
     (case rpc_signatures r before page_size of
        None \<Rightarrow> Inl RpcFailed
      | Some page \<Rightarrow>
          if page = [] then Inr cr
          else (case il_signature l (si_signature (last page)) of
              None \<Rightarrow> Inl InvalidSignature
            | Some signature \<Rightarrow>
                (case crawl_page maximum cursor page cr of
                   (stop, cr') \<Rightarrow>
                     if stop \<or> length page < page_size then Inr cr'
                     else crawl l r maximum page_size cursor (Some signature) cr')))"
  by pat_completeness auto
termination
proof (relation "measure (\<lambda>(l, r, maximum, page_size, cursor, before, cr).
    maximum - length (cr_signatures cr))")
  show "wf (measure (\<lambda>(l, r, maximum, page_size, cursor, before, cr).
    maximum - length (cr_signatures cr)))" by simp
qed (auto dest: crawl_page_decreases)

declare crawl.simps [simp del]

record ingest_report =
  ig_source_id :: int
  ig_cursor_before :: "string option"
  ig_cursor_found :: bool
  ig_overlap :: nat
  ig_scanned :: nat
  ig_successful :: nat
  ig_pre_v2_skipped :: nat
  ig_events_applied :: nat
  ig_first_signature :: "string option"
  ig_last_signature :: "string option"

record ingest_counts =
  ic_successful :: nat
  ic_pre_v2_skipped :: nat
  ic_events_applied :: nat

definition ingest_transaction ::
    "ingest_libraries \<Rightarrow> rpc \<Rightarrow> source \<Rightarrow> u64 \<Rightarrow> signature_info \<Rightarrow> ingest_counts \<Rightarrow> ingest_counts action" where
  "ingest_transaction l r s v2_min_slot info n =
     (if si_err info then return n
      else then_do (expect (il_signature l (si_signature info)) InvalidSignature) (\<lambda>signature.
      then_do (expect (rpc_transaction r signature) RpcFailed) (\<lambda>t.
      case ft_meta t of
        None \<Rightarrow> return n
      | Some meta \<Rightarrow>
          if tm_err meta then return n
          else
            let n = n\<lparr>ic_successful := ic_successful n + 1\<rparr> in
            then_do (expect (to_i64 (ft_slot t)) SlotOverflow) (\<lambda>slot.
            if ft_slot t < v2_min_slot then
              then_do (run_statement
                (storage_advance_cursor s EVENT_CURSOR signature slot (Some signature)))
                (\<lambda>_. return (n\<lparr>ic_pre_v2_skipped := ic_pre_v2_skipped n + 1\<rparr>))
            else
              then_do (apply_program_logs l s signature slot (Option.bind (ft_block_time t) (il_timestamp l))
                 (case tm_logs meta of Some logs \<Rightarrow> logs | None \<Rightarrow> []))
                (\<lambda>events. return (n\<lparr>ic_events_applied := ic_events_applied n + events\<rparr>))))))"

fun ingest_all ::
    "ingest_libraries \<Rightarrow> rpc \<Rightarrow> source \<Rightarrow> u64 \<Rightarrow> signature_info list \<Rightarrow> ingest_counts \<Rightarrow>
     ingest_counts action" where
  "ingest_all l r s v2_min_slot [] n = return n"
| "ingest_all l r s v2_min_slot (info # infos) n =
     then_do (ingest_transaction l r s v2_min_slot info n) (\<lambda>n.
     ingest_all l r s v2_min_slot infos n)"

definition crawl_maximum :: "nat \<Rightarrow> nat" where
  "crawl_maximum limit = min (max limit 1) 10000"

definition recent_with_storage ::
    "ingest_libraries \<Rightarrow> rpc \<Rightarrow> string \<Rightarrow> string \<Rightarrow> string \<Rightarrow> nat \<Rightarrow> u64 \<Rightarrow> ingest_report action" where
  "recent_with_storage l r network layer endpoint limit v2_min_slot db =
     (case ensure_source network layer endpoint db of
        Inl e \<Rightarrow> (Inl (StorageFailed e), db)
      | Inr (s, db) \<Rightarrow>
          (let cursor_before = Option.bind (storage_cursor (src_id s) EVENT_CURSOR db) (\<lambda>(_, _, g). g);
               maximum = crawl_maximum limit in
           case crawl l r maximum (min maximum 1000) cursor_before None
                  \<lparr>cr_signatures = [], cr_cursor_found = False, cr_overlap = 0\<rparr> of
             Inl e \<Rightarrow> (Inl e, db)
           | Inr cr \<Rightarrow>
               then_do (ingest_all l r s v2_min_slot (rev (cr_signatures cr))
                   \<lparr>ic_successful = 0, ic_pre_v2_skipped = 0, ic_events_applied = 0\<rparr>)
                 (\<lambda>n. return
                   \<lparr>ig_source_id = src_id s, ig_cursor_before = cursor_before,
                    ig_cursor_found = cr_cursor_found cr, ig_overlap = cr_overlap cr,
                    ig_scanned = length (cr_signatures cr), ig_successful = ic_successful n,
                    ig_pre_v2_skipped = ic_pre_v2_skipped n, ig_events_applied = ic_events_applied n,
                    ig_first_signature = map_option si_signature (if cr_signatures cr = [] then None
                       else Some (last (cr_signatures cr))),
                    ig_last_signature = map_option si_signature (if cr_signatures cr = [] then None
                       else Some (hd (cr_signatures cr)))\<rparr>) db))"

text \<open>The check \<open>subscription_session\<close> (\<open>runtime.rs\<close>) makes on the report of its catch-up.\<close>

definition catchup_gap :: "nat \<Rightarrow> ingest_report \<Rightarrow> bool" where
  "catchup_gap catchup_limit report \<longleftrightarrow>
     ig_cursor_before report \<noteq> None \<and> \<not> ig_cursor_found report \<and> catchup_limit \<le> ig_scanned report"

end
