(* ===== verification/Sources.thy ===== *)
theory Sources
  imports Ingest
begin

text \<open>
  Where the indexer reads from (\<open>crates/indexer/src/sources\<close>): endpoint URLs, the router's answer
  about an account, the supervisor that follows the accounts' routes through changes, and the route
  kept in the database.
\<close>


section \<open>Endpoints\<close>

text \<open>A \<open>url::Url\<close> by its components; \<open>parse_url\<close> and \<open>show_url\<close> are the crate's parser and
  printer.\<close>

record url =
  url_scheme :: string
  url_username :: string
  url_password :: "string option"
  url_authority :: string
  url_path :: string
  url_query :: "string option"
  url_fragment :: "string option"

record url_library =
  parse_url :: "string \<Rightarrow> url option"
  show_url :: "url \<Rightarrow> string"

definition parse_http_url :: "url_library \<Rightarrow> string \<Rightarrow> indexer_error + url" where
  "parse_http_url u value =
     and_then (ok_or (parse_url u value) InvalidUrl) (\<lambda>url.
     and_then (require (url_scheme url = ''http'' \<or> url_scheme url = ''https'') InvalidUrl) (\<lambda>_.
     let url = url\<lparr>url_query := None, url_fragment := None\<rparr> in
     Inr (if url_path url = '''' then url\<lparr>url_path := ''/''\<rparr> else url)))"

definition starts_with :: "string \<Rightarrow> string \<Rightarrow> bool" where
  "starts_with p s \<longleftrightarrow> strip_prefix p s \<noteq> None"

definition normalize_er_endpoint :: "url_library \<Rightarrow> string \<Rightarrow> indexer_error + url" where
  "normalize_er_endpoint u fqdn =
     parse_http_url u
       (if starts_with ''http://'' fqdn \<or> starts_with ''https://'' fqdn then fqdn
        else ''https://'' @ fqdn)"

text \<open>\<open>set_scheme\<close> between two special schemes always succeeds.\<close>

definition websocket_url :: "url \<Rightarrow> indexer_error + url" where
  "websocket_url http =
     (if url_scheme http = ''http'' then Inr (http\<lparr>url_scheme := ''ws''\<rparr>)
      else if url_scheme http = ''https'' then Inr (http\<lparr>url_scheme := ''wss''\<rparr>)
      else Inl InvalidUrl)"

definition redact_url :: "url_library \<Rightarrow> url \<Rightarrow> string" where
  "redact_url u value =
     show_url u (value\<lparr>url_username := '''', url_password := None, url_query := None,
                       url_fragment := None\<rparr>)"


section \<open>The router\<close>

record delegation_route =
  dr_is_delegated :: bool
  dr_endpoint :: "url option"

text \<open>The JSON answer: \<open>result\<close> with \<open>isDelegated\<close> and \<open>fqdn\<close>, and whether an \<open>error\<close> is present.
  A reply is \<open>None\<close> when the request fails, times out, has an HTTP error or is not such a JSON.\<close>

record router_response =
  rs_result :: "(bool \<times> string option) option"
  rs_error :: bool

type_synonym router = "pubkey \<Rightarrow> router_response option"

definition resolve :: "url_library \<Rightarrow> router \<Rightarrow> pubkey \<Rightarrow> indexer_error + delegation_route" where
  "resolve u router account =
     and_then (ok_or (router account) RouterFailed) (\<lambda>response.
     and_then (require (\<not> rs_error response) RouterFailed) (\<lambda>_.
     and_then (ok_or (rs_result response) RouterFailed) (\<lambda>(is_delegated, fqdn).
     and_then (case fqdn of None \<Rightarrow> Inr None
               | Some f \<Rightarrow> and_then (normalize_er_endpoint u f) (\<lambda>e. Inr (Some e))) (\<lambda>endpoint.
     and_then (require (\<not> (is_delegated \<and> endpoint = None)) NoEndpoint) (\<lambda>_.
     Inr \<lparr>dr_is_delegated = is_delegated, dr_endpoint = endpoint\<rparr>)))))"


section \<open>Following an account's route\<close>

record route_generation =
  rg_generation :: u64
  rg_endpoint :: url
  rg_caught_up :: bool

record account_route_state =
  rt_active :: "route_generation option"
  rt_draining :: "route_generation list"

definition default_route_state :: account_route_state where
  "default_route_state = \<lparr>rt_active = None, rt_draining = []\<rparr>"

datatype route_transition =
    Unchanged | Activated route_generation | OverlapStarted route_generation route_generation
  | Undelegated

definition apply_route ::
    "delegation_route \<Rightarrow> account_route_state \<Rightarrow>
     indexer_error + route_transition \<times> account_route_state" where
  "apply_route route rt =
     (if \<not> dr_is_delegated route then Inr (Undelegated, \<lparr>rt_active = None, rt_draining = []\<rparr>)
      else
        and_then (ok_or (dr_endpoint route) NoEndpoint) (\<lambda>endpoint.
        if map_option rg_endpoint (rt_active rt) = Some endpoint then Inr (Unchanged, rt)
        else
          let generation = (case rt_active rt of None \<Rightarrow> 1
                            | Some active \<Rightarrow> saturating_add (rg_generation active) 1);
              new_active = \<lparr>rg_generation = generation, rg_endpoint = endpoint, rg_caught_up = False\<rparr>
          in case rt_active rt of
               Some previous \<Rightarrow>
                 Inr (OverlapStarted new_active previous,
                      \<lparr>rt_active = Some new_active, rt_draining = rt_draining rt @ [previous]\<rparr>)
             | None \<Rightarrow> Inr (Activated new_active, rt\<lparr>rt_active := Some new_active\<rparr>)))"

definition mark_caught_up ::
    "url \<Rightarrow> account_route_state \<Rightarrow>
     indexer_error + route_generation list \<times> account_route_state" where
  "mark_caught_up endpoint rt =
     and_then (ok_or (rt_active rt) NoActiveRoute) (\<lambda>active.
     and_then (require (rg_endpoint active = endpoint) NotActiveRoute) (\<lambda>_.
     Inr (rt_draining rt,
          \<lparr>rt_active = Some (active\<lparr>rg_caught_up := True\<rparr>), rt_draining = []\<rparr>)))"

text \<open>\<open>SourceSupervisor\<close>: one route state per account.\<close>

type_synonym source_supervisor = "pubkey \<rightharpoonup> account_route_state"

definition supervisor_apply ::
    "pubkey \<Rightarrow> delegation_route \<Rightarrow> source_supervisor \<Rightarrow>
     indexer_error + route_transition \<times> source_supervisor" where
  "supervisor_apply account route accounts =
     and_then (apply_route route (case accounts account of None \<Rightarrow> default_route_state
                                  | Some rt \<Rightarrow> rt)) (\<lambda>(transition, rt).
     Inr (transition, accounts(account \<mapsto> rt)))"

definition supervisor_mark_caught_up ::
    "pubkey \<Rightarrow> url \<Rightarrow> source_supervisor \<Rightarrow>
     indexer_error + route_generation list \<times> source_supervisor" where
  "supervisor_mark_caught_up account endpoint accounts =
     and_then (ok_or (accounts account) NotSupervised) (\<lambda>rt.
     and_then (mark_caught_up endpoint rt) (\<lambda>(retired, rt).
     Inr (retired, accounts(account \<mapsto> rt))))"

definition active_endpoint :: "source_supervisor \<Rightarrow> pubkey \<Rightarrow> url option" where
  "active_endpoint accounts account =
     Option.bind (accounts account) (\<lambda>rt. map_option rg_endpoint (rt_active rt))"

definition unique_active_endpoints :: "source_supervisor \<Rightarrow> url set" where
  "unique_active_endpoints accounts = {e. \<exists>account \<in> dom accounts. active_endpoint accounts account = Some e}"

definition ensure_compatible_routes ::
    "source_supervisor \<Rightarrow> pubkey list \<Rightarrow> indexer_error + url option" where
  "ensure_compatible_routes accounts keys =
     (let routes = remdups (List.map_filter (active_endpoint accounts) keys) in
      case routes of
        [] \<Rightarrow> Inr None
      | [route] \<Rightarrow> Inr (Some route)
      | _ \<Rightarrow> Inl IncompatibleRoutes)"


section \<open>The route in the database\<close>

record persisted_route =
  ps_source :: source
  ps_generation :: int

definition route_generation_of :: "(int \<times> string option) option \<Rightarrow> string option \<Rightarrow> int" where
  "route_generation_of previous endpoint =
     (case previous of
        None \<Rightarrow> 1
      | Some (generation, stored_endpoint) \<Rightarrow>
          if stored_endpoint = endpoint then generation else min (generation + 1) (2 ^ 63 - 1))"

text \<open>The transaction of \<open>persist_route\<close>.\<close>

definition store_route ::
    "string \<Rightarrow> string \<Rightarrow> string \<Rightarrow> string \<Rightarrow> u16 option \<Rightarrow> string option \<Rightarrow> bool \<Rightarrow> source option \<Rightarrow>
     string option \<Rightarrow> database \<Rightarrow> (int \<times> database) db_result" where
  "store_route network program account account_type market_id user is_delegated er_source
       endpoint db =
     (let key = (network, program, account);
          generation = route_generation_of
            (map_option (\<lambda>row. (tk_generation row, tk_er_endpoint row)) (db_tracked db key)) endpoint;
          market = map_option (\<lambda>m. int (unat m)) market_id;
          row = \<lparr>tk_account_type = account_type, tk_market_id = market, tk_user = user,
                 tk_er_source = map_option src_id er_source, tk_er_endpoint = endpoint,
                 tk_generation = generation, tk_checked_at = Some (db_now db),
                 tk_updated_at = db_now db\<rparr> in
      and_then (require (account_type \<in> {''market'', ''user_positions'', ''user_liquidity''})
        CheckViolation) (\<lambda>_.
      Inr (generation, db\<lparr>
        db_tracked := upsert key row (\<lambda>_. Some row) (db_tracked db),
        db_routes := upsert (network, program, account, generation)
          \<lparr>ro_delegated = is_delegated, ro_source = map_option src_id er_source,
           ro_endpoint = endpoint\<rparr> do_nothing (db_routes db)\<rparr>)))"

definition persist_route ::
    "url_library \<Rightarrow> client \<Rightarrow> string \<Rightarrow> string \<Rightarrow> pubkey \<Rightarrow> string \<Rightarrow> u16 option \<Rightarrow> pubkey option \<Rightarrow>
     delegation_route \<Rightarrow> persisted_route option action" where
  "persist_route u c network program account account_type market_id user route =
     then_do (case dr_endpoint route of
         None \<Rightarrow> return None
       | Some endpoint \<Rightarrow>
           atomically (\<lambda>db. and_then (stored (ensure_source network ''er'' (show_url u endpoint) db))
             (\<lambda>(s, db). Inr (Some s, db))))
       (\<lambda>er_source.
     then_do (atomically (\<lambda>db. stored (store_route network program (show_pubkey c account)
         account_type market_id (map_option (show_pubkey c) user) (dr_is_delegated route) er_source
         (map_option (show_url u) (dr_endpoint route)) db)))
       (\<lambda>generation.
     return (map_option (\<lambda>s. \<lparr>ps_source = s, ps_generation = generation\<rparr>) er_source)))"

end
