(* ===== verification/Reconcile.thy ===== *)
theory Reconcile
  imports Sources "HOL-Library.Char_ord" "HOL-Library.List_Lexorder"
begin

text \<open>
  Reconciliation of the tracked accounts against what a node holds
  (\<open>crates/indexer/src/reconcile/exact_accounts.rs\<close>) and the pass over base layer and ephemeral
  rollup that a session makes before it goes live (\<open>smoke.rs\<close>, \<open>run_with_storage\<close>).
\<close>


section \<open>Tracked accounts\<close>

datatype tracked_type = TrackedMarket | TrackedPositions | TrackedLiquidity

fun tracked_type_str :: "tracked_type \<Rightarrow> string" where
  "tracked_type_str TrackedMarket = ''market''"
| "tracked_type_str TrackedPositions = ''user_positions''"
| "tracked_type_str TrackedLiquidity = ''user_liquidity''"

definition tracked_type_from_str :: "string \<Rightarrow> indexer_error + tracked_type" where
  "tracked_type_from_str value =
     (if value = ''market'' then Inr TrackedMarket
      else if value = ''user_positions'' then Inr TrackedPositions
      else if value = ''user_liquidity'' then Inr TrackedLiquidity
      else Inl UnsupportedAccountType)"

record tracked_account =
  tt_pubkey :: pubkey
  tt_type :: tracked_type
  tt_market_id :: "u16 option"
  tt_user :: "pubkey option"

definition tracked_of_row :: "client \<Rightarrow> string \<Rightarrow> tracked_row \<Rightarrow> indexer_error + tracked_account" where
  "tracked_of_row c key row =
     and_then (ok_or (parse_pubkey c key) InvalidTrackedKey) (\<lambda>pubkey.
     and_then (tracked_type_from_str (tk_account_type row)) (\<lambda>account_type.
     and_then (case tk_market_id row of None \<Rightarrow> Inr None
               | Some m \<Rightarrow> if 0 \<le> m \<and> m < 2 ^ 16 then Inr (Some (word_of_int m)) else Inl MarketIdRange)
       (\<lambda>market_id.
     and_then (case tk_user row of None \<Rightarrow> Inr None
               | Some user \<Rightarrow> and_then (ok_or (parse_pubkey c user) InvalidTrackedKey) (\<lambda>k. Inr (Some k)))
       (\<lambda>user.
     Inr \<lparr>tt_pubkey = pubkey, tt_type = account_type, tt_market_id = market_id, tt_user = user\<rparr>))))"

fun collect_results :: "('e + 'a) list \<Rightarrow> 'e + 'a list" where
  "collect_results [] = Inr []"
| "collect_results (r # rs) =
     and_then r (\<lambda>x. and_then (collect_results rs) (\<lambda>xs. Inr (x # xs)))"

text \<open>\<open>ORDER BY pubkey\<close>.\<close>

definition tracked_keys :: "string \<Rightarrow> string \<Rightarrow> database \<Rightarrow> string list" where
  "tracked_keys network program db =
     sorted_list_of_set {key. db_tracked db (network, program, key) \<noteq> None}"

definition load_tracked ::
    "client \<Rightarrow> string \<Rightarrow> string \<Rightarrow> database \<Rightarrow> indexer_error + tracked_account list" where
  "load_tracked c network program db =
     collect_results (map (\<lambda>key. tracked_of_row c key (the (db_tracked db (network, program, key))))
       (tracked_keys network program db))"


section \<open>Projecting an account\<close>

datatype decoded_account =
    DecodedMarket market | DecodedPositions user_positions | DecodedLiquidity user_liquidity

fun decode_tracked :: "deserializer \<Rightarrow> tracked_type \<Rightarrow> bytes \<Rightarrow> decoded_account option" where
  "decode_tracked d TrackedMarket data = map_option DecodedMarket (Market_decode d data)"
| "decode_tracked d TrackedPositions data = map_option DecodedPositions (UserPositions_decode d data)"
| "decode_tracked d TrackedLiquidity data = map_option DecodedLiquidity (UserLiquidity_decode d data)"

text \<open>The libraries: Borsh, \<open>hex(sha256(data))\<close>, \<open>serde_json::to_value(decoded)\<close> and the printing of
  a slot.\<close>

record reconcile_libraries =
  rl_client :: client
  rl_deserialize :: deserializer
  rl_hash :: "bytes \<Rightarrow> string"
  rl_json :: "decoded_account \<Rightarrow> string option"
  rl_show_slot :: "int \<Rightarrow> string"

text \<open>The number of rows inserted, and the database.\<close>

definition insert_account_observation ::
    "reconcile_libraries \<Rightarrow> source \<Rightarrow> tracked_account \<Rightarrow> i64 \<Rightarrow> string \<Rightarrow> string \<Rightarrow> decoded_account \<Rightarrow>
     database \<Rightarrow> (nat \<times> database) db_result" where
  "insert_account_observation l s tracked slot owner_key data_hash decoded db =
     (let key = (src_id s, show_pubkey (rl_client l) (tt_pubkey tracked), sint slot, data_hash) in
      and_then (ok_or (rl_json l decoded) JsonOutOfRange) (\<lambda>payload.
      and_then (require (0 \<le> sint slot) CheckViolation) (\<lambda>_.
      and_then (require (known_source (src_id s) db) ForeignKeyViolation) (\<lambda>_.
      Inr (if db_observations db key = None then 1 else 0,
           db\<lparr>db_observations := upsert key
             \<lparr>ao_owner = owner_key, ao_type = tracked_type_str (tt_type tracked),
              ao_payload = AccountJson payload\<rparr> do_nothing (db_observations db)\<rparr>)))))"

definition source_layer :: "int \<Rightarrow> database \<Rightarrow> string option" where
  "source_layer i db = map_option src_layer (find (\<lambda>s. src_id s = i) (db_sources db))"

fun mode_str :: "market_mode \<Rightarrow> string" where
  "mode_str Open = ''open''"
| "mode_str CloseOnly = ''closeonly''"

text \<open>The \<open>WHERE\<close> of the markets upsert: an unclaimed row, a later slot of the same source, or a
  rollup's state over the base layer's.\<close>

definition market_row_yields :: "source \<Rightarrow> i64 \<Rightarrow> database \<Rightarrow> market_row \<Rightarrow> bool" where
  "market_row_yields s slot db row \<longleftrightarrow>
     (case mr_last_source row of
        None \<Rightarrow> True
      | Some i \<Rightarrow>
          i = src_id s \<and> (case mr_last_slot row of None \<Rightarrow> True | Some current \<Rightarrow> current \<le> sint slot)
          \<or> source_layer i db = Some ''base'' \<and> source_layer (src_id s) db = Some ''er'')"

definition project_market ::
    "reconcile_libraries \<Rightarrow> source \<Rightarrow> tracked_account \<Rightarrow> i64 \<Rightarrow> string \<Rightarrow> market \<Rightarrow> database \<Rightarrow>
     indexer_error + database" where
  "project_market l s tracked slot program m db =
     and_then (require (unat (mkt_open_collateral m) < 2 ^ 63) AmountOverflow) (\<lambda>_.
     and_then (require (unat (mkt_active_positions m) < 2 ^ 31) AmountOverflow) (\<lambda>_.
     let pubkey = Some (show_pubkey (rl_client l) (tt_pubkey tracked));
         mode = Some (mode_str (mkt_mode m));
         shares = Some (int (unat (mkt_total_shares m)));
         collateral = Some (int (unat (mkt_open_collateral m)));
         active = Some (int (unat (mkt_active_positions m))) in
     Inr (db\<lparr>db_markets := upsert (src_network s, program, int (unat (mkt_market_id m)))
       \<lparr>mr_pubkey = pubkey, mr_mode = mode, mr_total_shares = shares,
        mr_open_collateral = collateral, mr_active_positions = active, mr_pool_balance = None,
        mr_last_source = Some (src_id s), mr_last_slot = Some (sint slot), mr_updated_at = db_now db\<rparr>
       (\<lambda>row. if market_row_yields s slot db row
          then Some (row\<lparr>mr_pubkey := pubkey, mr_mode := mode, mr_total_shares := shares,
            mr_open_collateral := collateral, mr_active_positions := active,
            mr_last_source := Some (src_id s), mr_last_slot := Some (sint slot),
            mr_updated_at := db_now db\<rparr>)
          else None)
       (db_markets db)\<rparr>)))"

text \<open>The closed positions of the account's user and market that the account no longer holds have
  been observed by the source.\<close>

definition checkpoint_due ::
    "string \<Rightarrow> int \<Rightarrow> string \<Rightarrow> i64 \<Rightarrow> int set \<Rightarrow> position_key \<Rightarrow> position_row \<Rightarrow> bool" where
  "checkpoint_due program market_id user slot active_ids key row \<longleftrightarrow>
     (case key of (_, p, m, position_id) \<Rightarrow>
        p = program \<and> m = market_id \<and> pr_user row = Some user \<and>
        (pr_status row = ''settled'' \<or> pr_status row = ''refunded'') \<and>
        position_id \<notin> active_ids \<and>
        (case pr_checkpoint_slot row of None \<Rightarrow> True | Some current \<Rightarrow> current \<le> sint slot))"

definition checkpoint_positions ::
    "source \<Rightarrow> i64 \<Rightarrow> string \<Rightarrow> int \<Rightarrow> string \<Rightarrow> int set \<Rightarrow> database \<Rightarrow> database" where
  "checkpoint_positions s slot program market_id user active_ids db =
     db\<lparr>db_positions := (\<lambda>key. map_option
       (\<lambda>row. if fst key = src_network s \<and> checkpoint_due program market_id user slot active_ids key row
          then row\<lparr>pr_checkpoint_status := ''base_observed'',
                   pr_checkpoint_source := Some (src_id s), pr_checkpoint_slot := Some (sint slot),
                   pr_checkpoint_observed_at := Some (db_now db), pr_updated_at := db_now db\<rparr>
          else row) (db_positions db key))\<rparr>"

fun apply_account_projection ::
    "reconcile_libraries \<Rightarrow> source \<Rightarrow> tracked_account \<Rightarrow> i64 \<Rightarrow> string \<Rightarrow> decoded_account \<Rightarrow> database \<Rightarrow>
     indexer_error + database" where
  "apply_account_projection l s tracked slot program (DecodedMarket m) db =
     project_market l s tracked slot program m db"
| "apply_account_projection l s tracked slot program (DecodedPositions up) db =
     (case (tt_user tracked, tt_market_id tracked) of
        (Some user, Some market_id) \<Rightarrow>
          Inr (checkpoint_positions s slot program (int (unat market_id))
            (show_pubkey (rl_client l) user)
            ((\<lambda>p. int (unat (pos_nonce p))) ` {p \<in> set (up_positions up). pos_market_id p = market_id})
            db)
      | _ \<Rightarrow> Inr db)"
| "apply_account_projection l s tracked slot program (DecodedLiquidity _) db = Inr db"


section \<open>One pass over one source\<close>

record node_account =
  na_owner :: pubkey
  na_data :: bytes

text \<open>\<open>getMultipleAccounts\<close> at an endpoint: the slot of the answer and one entry per key.\<close>

type_synonym accounts_rpc = "string \<Rightarrow> pubkey list \<Rightarrow> (u64 \<times> node_account option list) option"

record reconcile_report =
  rc_source_id :: int
  rc_slot :: u64
  rc_requested :: nat
  rc_found :: nat
  rc_inserted :: nat

fun reconcile_each ::
    "reconcile_libraries \<Rightarrow> source \<Rightarrow> i64 \<Rightarrow> string \<Rightarrow> (tracked_account \<times> node_account option) list \<Rightarrow>
     nat \<Rightarrow> nat \<Rightarrow> database \<Rightarrow> indexer_error + (nat \<times> nat) \<times> database" where
  "reconcile_each l s slot program [] found inserted db = Inr ((found, inserted), db)"
| "reconcile_each l s slot program ((tracked, None) # rest) found inserted db =
     reconcile_each l s slot program rest found inserted db"
| "reconcile_each l s slot program ((tracked, Some account) # rest) found inserted db =
     and_then (ok_or (decode_tracked (rl_deserialize l) (tt_type tracked) (na_data account))
       UndecodableAccount) (\<lambda>decoded.
     and_then (stored (insert_account_observation l s tracked slot
       (show_pubkey (rl_client l) (na_owner account)) (rl_hash l (na_data account)) decoded db))
       (\<lambda>(n, db).
     and_then (apply_account_projection l s tracked slot program decoded db) (\<lambda>db.
     reconcile_each l s slot program rest (found + 1) (inserted + n) db)))"

definition start_run :: "source \<Rightarrow> i64 \<Rightarrow> nat \<Rightarrow> database \<Rightarrow> (int \<times> database) db_result" where
  "start_run s slot requested db =
     and_then (require (0 \<le> sint slot) CheckViolation) (\<lambda>_.
     and_then (require (known_source (src_id s) db) ForeignKeyViolation) (\<lambda>_.
     let run_id = db_next_run db in
     Inr (run_id, db\<lparr>db_next_run := run_id + 1, db_runs := (db_runs db)(run_id \<mapsto>
       \<lparr>rr_source = src_id s, rr_datasource = ''exact_accounts'', rr_observed_slot = Some (sint slot),
        rr_requested = int requested, rr_found = 0, rr_inserted = 0, rr_completed_at = None\<rparr>)\<rparr>)))"

definition finish_run :: "int \<Rightarrow> nat \<Rightarrow> nat \<Rightarrow> database \<Rightarrow> database" where
  "finish_run run_id found inserted db =
     db\<lparr>db_runs := (db_runs db)(run_id := map_option (\<lambda>row. row\<lparr>rr_completed_at := Some (db_now db),
       rr_found := int found, rr_inserted := int inserted\<rparr>) (db_runs db run_id))\<rparr>"

definition reconcile ::
    "reconcile_libraries \<Rightarrow> accounts_rpc \<Rightarrow> source \<Rightarrow> string \<Rightarrow> string \<Rightarrow> tracked_account list \<Rightarrow>
     reconcile_report action" where
  "reconcile l rpc s endpoint program accounts =
     then_do (expect (rpc endpoint (map tt_pubkey accounts)) RpcFailed) (\<lambda>(context_slot, values).
     then_do (expect (to_i64 context_slot) SlotOverflow) (\<lambda>slot.
     atomically (\<lambda>db.
       and_then (require (length accounts < 2 ^ 31) TooManyAccounts) (\<lambda>_.
       and_then (stored (start_run s slot (length accounts) db)) (\<lambda>(run_id, db).
       and_then (reconcile_each l s slot program (zip accounts values) 0 0 db)
         (\<lambda>((found, inserted), db).
       and_then (stored (upsert_cursor (src_id s) ''exact_accounts''
         (''slot:'' @ rl_show_slot l (sint slot)) (sint slot) None db)) (\<lambda>db.
       Inr (\<lparr>rc_source_id = src_id s, rc_slot = context_slot, rc_requested = length accounts,
             rc_found = found, rc_inserted = inserted\<rparr>, finish_run run_id found inserted db))))))))"


section \<open>The pass before a session goes live\<close>

record probe_config =
  pc_network :: string
  pc_base_rpc :: url
  pc_program :: pubkey
  pc_market_id :: u16

text \<open>The other accounts are resolved and stored one by one; an account keeps the route the router
  reports now.\<close>

fun route_accounts ::
    "url_library \<Rightarrow> client \<Rightarrow> router \<Rightarrow> string \<Rightarrow> string \<Rightarrow> tracked_account list \<Rightarrow> source_supervisor \<Rightarrow>
     source_supervisor action" where
  "route_accounts u c router network program [] supervisor = return supervisor"
| "route_accounts u c router network program (account # accounts) supervisor =
     then_do (lift (resolve u router (tt_pubkey account))) (\<lambda>route.
     then_do (persist_route u c network program (tt_pubkey account)
       (tracked_type_str (tt_type account)) (tt_market_id account) (tt_user account) route) (\<lambda>_.
     then_do (lift (supervisor_apply (tt_pubkey account) route supervisor)) (\<lambda>(_, supervisor).
     route_accounts u c router network program accounts supervisor)))"

fun catch_up_all ::
    "url \<Rightarrow> tracked_account list \<Rightarrow> source_supervisor \<Rightarrow> indexer_error + source_supervisor" where
  "catch_up_all endpoint [] supervisor = Inr supervisor"
| "catch_up_all endpoint (account # accounts) supervisor =
     and_then (supervisor_mark_caught_up (tt_pubkey account) endpoint supervisor)
       (\<lambda>(_, supervisor). catch_up_all endpoint accounts supervisor)"

fun reconcile_passes ::
    "nat \<Rightarrow> reconcile_report action \<Rightarrow> reconcile_report action \<Rightarrow>
     (reconcile_report \<times> reconcile_report) option \<Rightarrow> (reconcile_report \<times> reconcile_report) option action"
where
  "reconcile_passes 0 base er latest = return latest"
| "reconcile_passes (Suc n) base er latest =
     then_do base (\<lambda>b. then_do er (\<lambda>e. reconcile_passes n base er (Some (b, e))))"

record smoke_report =
  sk_network :: string
  sk_program :: string
  sk_market_id :: u16
  sk_market :: string
  sk_route_generation :: int
  sk_routed_er :: string
  sk_passes :: nat
  sk_base :: reconcile_report
  sk_er :: reconcile_report
  sk_source_count :: nat
  sk_market_count :: nat
  sk_cursor_count :: nat
  sk_duplicate_positions :: nat
  sk_projection_matches :: bool

definition projection_matches :: "string \<Rightarrow> int \<Rightarrow> string \<Rightarrow> int \<Rightarrow> database \<Rightarrow> bool" where
  "projection_matches network market_id market_key source_id db \<longleftrightarrow>
     (case db_markets db (network, PROGRAM_ID, market_id) of
        None \<Rightarrow> False
      | Some row \<Rightarrow> mr_pubkey row = Some market_key \<and> mr_last_source row = Some source_id)"

definition cursor_count :: "int \<Rightarrow> int \<Rightarrow> database \<Rightarrow> nat" where
  "cursor_count a b db =
     length (filter (\<lambda>i. db_cursors db (i, ''exact_accounts'') \<noteq> None) (remdups [a, b]))"

text \<open>\<open>check_reports\<close> is the part after the passes: the counts, the restart check, the cursor. The
  positions are keyed by the columns the duplicates are grouped by, so none is ever counted.\<close>

definition check_reports ::
    "url_library \<Rightarrow> client \<Rightarrow> probe_config \<Rightarrow> pubkey \<Rightarrow> url \<Rightarrow> source \<Rightarrow> persisted_route \<Rightarrow> bool \<Rightarrow>
     (reconcile_report \<times> reconcile_report) option \<Rightarrow> smoke_report action" where
  "check_reports u c config market er_endpoint base_source persisted restart_check reports db =
     (let network = pc_network config;
          market_id = int (unat (pc_market_id config));
          market_key = show_pubkey c market;
          er_id = src_id (ps_source persisted);
          source_count = length (filter (\<lambda>s. src_network s = network) (db_sources db));
          market_count = (if db_markets db (network, PROGRAM_ID, market_id) = None then 0 else 1);
          cursors = cursor_count (src_id base_source) er_id db;
          duplicates = 0;
          matches = projection_matches network market_id market_key er_id db in
      if restart_check \<and> (market_count \<noteq> 1 \<or> cursors \<noteq> 2 \<or> duplicates \<noteq> 0 \<or> \<not> matches)
      then (Inl InvariantFailed, db)
      else
        (case (Option.bind (storage_cursor er_id ''exact_accounts'' db) (\<lambda>(_, slot, _). slot), reports) of
           (Some _, Some (base, er)) \<Rightarrow>
             (Inr \<lparr>sk_network = network, sk_program = show_pubkey c (pc_program config),
                   sk_market_id = pc_market_id config, sk_market = market_key,
                   sk_route_generation = ps_generation persisted,
                   sk_routed_er = redact_url u er_endpoint,
                   sk_passes = (if restart_check then 2 else 1), sk_base = base, sk_er = er,
                   sk_source_count = source_count, sk_market_count = market_count,
                   sk_cursor_count = cursors, sk_duplicate_positions = duplicates,
                   sk_projection_matches = matches\<rparr>, db)
         | _ \<Rightarrow> (Inl NoCursor, db)))"

definition smoke_run ::
    "url_library \<Rightarrow> reconcile_libraries \<Rightarrow> router \<Rightarrow> accounts_rpc \<Rightarrow> (url \<Rightarrow> bool) \<Rightarrow> probe_config \<Rightarrow>
     bool \<Rightarrow> smoke_report action" where
  "smoke_run u l router rpc carbon_ready config restart_check =
     (let c = rl_client l;
          network = pc_network config;
          program = show_pubkey c (pc_program config);
          market = program_account c [byte_string ''market'', u16_le_bytes (pc_market_id config)]
            (pc_program config) in
      then_do (lift (resolve u router market)) (\<lambda>route.
      then_do (lift (require (dr_is_delegated route) NotDelegated)) (\<lambda>_.
      then_do (persist_route u c network program market ''market'' (Some (pc_market_id config)) None
        route) (\<lambda>persisted.
      then_do (expect persisted InconsistentRoute) (\<lambda>persisted.
      then_do (expect (dr_endpoint route) NoEndpoint) (\<lambda>er_endpoint.
      then_do (lift (websocket_url er_endpoint)) (\<lambda>_.
      then_do (lift (require (carbon_ready er_endpoint) InconsistentRoute)) (\<lambda>_.
      then_do (lift (supervisor_apply market route Map.empty)) (\<lambda>(_, supervisor).
      then_do (lift (ensure_compatible_routes supervisor [market])) (\<lambda>market_route.
      then_do (lift (require (card (unique_active_endpoints supervisor) = 1 \<and>
        market_route = Some er_endpoint) InconsistentRoute)) (\<lambda>_.
      then_do (atomically (\<lambda>db. stored (ensure_source network ''base''
        (show_url u (pc_base_rpc config)) db))) (\<lambda>base_source.
      then_do (\<lambda>db. (load_tracked c network program db, db)) (\<lambda>tracked.
      then_do (lift (require (tracked \<noteq> []) NothingTracked)) (\<lambda>_.
      then_do (route_accounts u c router network program
        (filter (\<lambda>a. tt_pubkey a \<noteq> market) tracked) supervisor) (\<lambda>supervisor.
      then_do (lift (ensure_compatible_routes supervisor (map tt_pubkey tracked))) (\<lambda>common.
      then_do (lift (require (common = Some er_endpoint) IncompatibleRoutes)) (\<lambda>_.
      then_do (lift (catch_up_all er_endpoint tracked supervisor)) (\<lambda>_.
      then_do (reconcile_passes (if restart_check then 2 else 1)
        (reconcile l rpc base_source (show_url u (pc_base_rpc config)) program tracked)
        (reconcile l rpc (ps_source persisted) (show_url u er_endpoint) program tracked) None)
        (\<lambda>reports.
      check_reports u c config market er_endpoint base_source persisted restart_check reports)))))))))))))))))))"

end
