(* ===== verification/Runtime.thy ===== *)
theory Runtime
  imports Reconcile
begin

text \<open>
  The running indexer: the leaderboard refresh (\<open>crates/indexer/src/projections/leaderboards.rs\<close>),
  the session over one log subscription, the loop that restarts it and the health it reports
  (\<open>runtime.rs\<close>). What the network and the clock do is the input: a session is given the answers it
  gets and the list of events its \<open>select!\<close> receives, in order.
\<close>


section \<open>Refreshing the leaderboards\<close>

datatype refresh_outcome = Refreshed | Coalesced | LockHeld

record refresh_report =
  rp_outcome :: refresh_outcome
  rp_version :: int
  rp_high_water :: "int option"
  rp_duration_ms :: int

text \<open>\<open>chrono\<close>'s calendar, on microseconds: the UTC day, the Monday of its week, the first of its
  month.\<close>

record calendar =
  cal_day :: "int \<Rightarrow> int"
  cal_week :: "int \<Rightarrow> int"
  cal_month :: "int \<Rightarrow> int"

definition crossed_boundary :: "calendar \<Rightarrow> int \<Rightarrow> refresh_row \<Rightarrow> bool" where
  "crossed_boundary cal now row \<longleftrightarrow>
     rf_day row \<noteq> Some (cal_day cal now) \<or> rf_week row \<noteq> Some (cal_week cal now) \<or>
     rf_month row \<noteq> Some (cal_month cal now)"

text \<open>\<open>to_std\<close> fails on a negative span.\<close>

definition recently_refreshed :: "int \<Rightarrow> int \<Rightarrow> refresh_row \<Rightarrow> bool" where
  "recently_refreshed now minimum_interval row \<longleftrightarrow>
     (case rf_last_success row of None \<Rightarrow> False
      | Some latest \<Rightarrow> 0 \<le> now - latest \<and> now - latest < minimum_interval)"

definition max_slot :: "int set \<Rightarrow> int option" where
  "max_slot slots = (if slots = {} then None else Some (Max slots))"

definition high_water_mark :: "database \<Rightarrow> int option" where
  "high_water_mark db =
     max_slot {s. \<exists>row \<in> ran (db_transactions db). tx_succeeded row \<and> tx_slot row = s}"

text \<open>What happens while the views are rebuilt, the market's first; \<open>milliseconds\<close> is the time it
  takes.\<close>

datatype rebuild_result = Rebuilt | MarketViewFailed string | GlobalViewFailed string

definition refresh_locked ::
    "calendar \<Rightarrow> bool \<Rightarrow> int \<Rightarrow> rebuild_result \<Rightarrow> nat \<Rightarrow> refresh_report action" where
  "refresh_locked cal force minimum_interval rebuild milliseconds db =
     (let current = db_refresh db; now = db_now db in
      if \<not> force \<and> recently_refreshed now minimum_interval current \<and> \<not> crossed_boundary cal now current
      then (Inr \<lparr>rp_outcome = Coalesced, rp_version = rf_version current,
                 rp_high_water = rf_high_water current, rp_duration_ms = 0\<rparr>, db)
      else
        let attempt = current\<lparr>rf_last_attempt := Some now, rf_error := None\<rparr>;
            db = db\<lparr>db_refresh := attempt\<rparr>;
            view = (db_positions db, now);
            stored_ms = Some (min (int milliseconds) (2 ^ 63 - 1));
            failed = (\<lambda>message. attempt\<lparr>rf_duration_ms := stored_ms, rf_error := Some (take 2048 message)\<rparr>)
        in case rebuild of
          MarketViewFailed message \<Rightarrow> (Inl RefreshFailed, db\<lparr>db_refresh := failed message\<rparr>)
        | GlobalViewFailed message \<Rightarrow>
            (Inl RefreshFailed, db\<lparr>db_market_board := view, db_refresh := failed message\<rparr>)
        | Rebuilt \<Rightarrow>
            let db = db\<lparr>db_market_board := view, db_global_board := view\<rparr>;
                high_water = high_water_mark db;
                version = rf_version current + 1 in
            if \<not> bigint version then (Inl (StorageFailed NumericOutOfRange), db)
            else
              (Inr \<lparr>rp_outcome = Refreshed, rp_version = version, rp_high_water = high_water,
                    rp_duration_ms = min (int milliseconds) (2 ^ 64 - 1)\<rparr>,
               db\<lparr>db_refresh := attempt\<lparr>rf_version := version, rf_last_success := Some now,
                 rf_duration_ms := stored_ms, rf_high_water := high_water, rf_day := Some (cal_day cal now),
                 rf_week := Some (cal_week cal now), rf_month := Some (cal_month cal now)\<rparr>\<rparr>))"

text \<open>\<open>locked\<close> is the answer of \<open>pg_try_advisory_lock\<close>; the connection that took the lock still
  holds it at the unlock.\<close>

definition refresh_with_storage ::
    "calendar \<Rightarrow> bool \<Rightarrow> bool \<Rightarrow> int \<Rightarrow> rebuild_result \<Rightarrow> nat \<Rightarrow> refresh_report action" where
  "refresh_with_storage cal locked force minimum_interval rebuild milliseconds db =
     (if \<not> locked then
        (Inr \<lparr>rp_outcome = LockHeld, rp_version = rf_version (db_refresh db),
              rp_high_water = rf_high_water (db_refresh db), rp_duration_ms = 0\<rparr>, db)
      else refresh_locked cal force minimum_interval rebuild milliseconds db)"


section \<open>Configuration and health\<close>

record runtime_config =
  rn_reconnect_delay :: nat
  rn_route_refresh_interval :: nat
  rn_refresh_interval :: nat
  rn_maximum_staleness :: nat
  rn_catchup_limit :: nat
  rn_v2_min_slot :: u64
  rn_once :: bool

definition validate_config :: "runtime_config \<Rightarrow> indexer_error + unit" where
  "validate_config config =
     and_then (require (rn_reconnect_delay config \<noteq> 0) InvalidConfiguration) (\<lambda>_.
     and_then (require (rn_route_refresh_interval config \<noteq> 0) InvalidConfiguration) (\<lambda>_.
     and_then (require (rn_refresh_interval config \<noteq> 0) InvalidConfiguration) (\<lambda>_.
     require (rn_catchup_limit config \<noteq> 0) InvalidConfiguration)))"

record runtime_snapshot =
  sn_started_at :: int
  sn_last_attempt_at :: "int option"
  sn_last_success_at :: "int option"
  sn_connected :: bool
  sn_sessions :: u64
  sn_reconnects :: u64
  sn_failures :: u64
  sn_notifications :: u64
  sn_scanned :: u64
  sn_applied :: u64
  sn_cursor_found :: bool
  sn_high_water :: "int option"
  sn_refresh_ms :: int
  sn_last_error :: "indexer_error option"

definition new_snapshot :: "int \<Rightarrow> runtime_snapshot" where
  "new_snapshot now =
     \<lparr>sn_started_at = now, sn_last_attempt_at = None, sn_last_success_at = None, sn_connected = False,
      sn_sessions = 0, sn_reconnects = 0, sn_failures = 0, sn_notifications = 0, sn_scanned = 0,
      sn_applied = 0, sn_cursor_found = False, sn_high_water = None, sn_refresh_ms = 0,
      sn_last_error = None\<rparr>"

text \<open>\<open>u64::try_from(usize)\<close> cannot fail.\<close>

definition count_up :: "u64 \<Rightarrow> nat \<Rightarrow> u64" where
  "count_up counter n = saturating_add counter (if n < 2 ^ 64 then word_of_nat n else - 1)"

definition mark_success :: "int \<Rightarrow> runtime_snapshot \<Rightarrow> runtime_snapshot" where
  "mark_success now sn = sn\<lparr>sn_last_success_at := Some now, sn_last_error := None\<rparr>"

definition mark_disconnected :: "runtime_snapshot \<Rightarrow> runtime_snapshot" where
  "mark_disconnected sn = sn\<lparr>sn_connected := False\<rparr>"

definition record_failure :: "indexer_error \<Rightarrow> runtime_snapshot \<Rightarrow> runtime_snapshot" where
  "record_failure e sn =
     sn\<lparr>sn_failures := saturating_add (sn_failures sn) 1, sn_last_error := Some e\<rparr>"

definition begin_session :: "int \<Rightarrow> bool \<Rightarrow> runtime_snapshot \<Rightarrow> runtime_snapshot" where
  "begin_session now reconnect sn =
     sn\<lparr>sn_last_attempt_at := Some now, sn_sessions := saturating_add (sn_sessions sn) 1,
        sn_reconnects := (if reconnect then saturating_add (sn_reconnects sn) 1 else sn_reconnects sn)\<rparr>"

definition session_ready ::
    "int \<Rightarrow> ingest_report \<Rightarrow> refresh_report \<Rightarrow> runtime_snapshot \<Rightarrow> runtime_snapshot" where
  "session_ready now catchup refresh sn =
     sn\<lparr>sn_connected := True, sn_last_success_at := Some now,
        sn_scanned := count_up (sn_scanned sn) (ig_scanned catchup),
        sn_applied := count_up (sn_applied sn) (ig_events_applied catchup),
        sn_cursor_found := ig_cursor_found catchup, sn_high_water := rp_high_water refresh,
        sn_refresh_ms := rp_duration_ms refresh, sn_last_error := None\<rparr>"

definition is_stale :: "int \<Rightarrow> int option \<Rightarrow> int \<Rightarrow> bool" where
  "is_stale now last_success maximum =
     (case last_success of None \<Rightarrow> True
      | Some success \<Rightarrow> if 0 \<le> now - success then maximum < now - success else True)"

text \<open>\<open>ready\<close>: 200 with status \<open>ready\<close>, else 503.\<close>

definition snapshot_stale :: "int \<Rightarrow> int \<Rightarrow> runtime_snapshot \<Rightarrow> bool" where
  "snapshot_stale now maximum sn \<longleftrightarrow> \<not> sn_connected sn \<or> is_stale now (sn_last_success_at sn) maximum"

definition is_ready :: "int \<Rightarrow> int \<Rightarrow> bool \<Rightarrow> runtime_snapshot \<Rightarrow> bool" where
  "is_ready now maximum database_ready sn \<longleftrightarrow> database_ready \<and> \<not> snapshot_stale now maximum sn"


text \<open>\<open>/metrics\<close>. The query for the attempts names a column \<open>attempt_count\<close> that no migration creates
  (the column is \<open>attempts\<close>), so it always fails and its fallback is used. \<open>answers\<close> tells whether the
  database answers the first query.\<close>

record indexer_metrics =
  im_sessions :: u64
  im_reconnects :: u64
  im_failures :: u64
  im_notifications :: u64
  im_scanned :: u64
  im_applied :: u64
  im_dead_letters :: int
  im_dead_letter_attempts :: int
  im_cursor_slot :: int
  im_last_success :: int
  im_connected :: bool
  im_stale :: bool
  im_refresh_ms :: int

definition health_metrics :: "bool \<Rightarrow> int \<Rightarrow> int \<Rightarrow> runtime_snapshot \<Rightarrow> database \<Rightarrow> indexer_metrics" where
  "health_metrics answers now maximum sn db =
     (let (cursor_slot, dead_letters) =
            (if answers then (max_slot {s. \<exists>row \<in> ran (db_cursors db). cu_slot row = Some s},
                              int (card (dom (db_dead_letters db))))
             else (None, 0)) in
      \<lparr>im_sessions = sn_sessions sn, im_reconnects = sn_reconnects sn, im_failures = sn_failures sn,
       im_notifications = sn_notifications sn, im_scanned = sn_scanned sn, im_applied = sn_applied sn,
       im_dead_letters = dead_letters, im_dead_letter_attempts = 0,
       im_cursor_slot = (case cursor_slot of None \<Rightarrow> 0 | Some s \<Rightarrow> s),
       im_last_success = (case sn_last_success_at sn of None \<Rightarrow> 0 | Some t \<Rightarrow> t div 1000000),
       im_connected = sn_connected sn, im_stale = snapshot_stale now maximum sn,
       im_refresh_ms = sn_refresh_ms sn\<rparr>)"


section \<open>A session\<close>

datatype session_exit = Shutdown | RouteChanged | StreamEnded

text \<open>What the session's \<open>select!\<close> receives: a log notification (signature, slot, failed, logs), the
  end of the stream, the two timers with the answers they get, and the shutdown signal. The clock
  moves between them.\<close>

datatype session_event =
    Notification string u64 bool "string list"
  | StreamEnd
  | RouteTick "router_response option"
  | LeaderboardTick bool rebuild_result nat
  | ShutdownSignal
  | ClockTick int

record session_libraries =
  sl_url :: url_library
  sl_ingest :: ingest_libraries
  sl_reconcile :: reconcile_libraries
  sl_calendar :: calendar

definition market_address :: "client \<Rightarrow> probe_config \<Rightarrow> pubkey" where
  "market_address c chain =
     program_account c [byte_string ''market'', u16_le_bytes (pc_market_id chain)] (pc_program chain)"

definition resolve_market_endpoint ::
    "url_library \<Rightarrow> client \<Rightarrow> router \<Rightarrow> probe_config \<Rightarrow> indexer_error + url" where
  "resolve_market_endpoint u c router chain =
     and_then (resolve u router (market_address c chain)) (\<lambda>route.
     and_then (require (dr_is_delegated route) NotDelegated) (\<lambda>_.
     ok_or (dr_endpoint route) NoEndpoint))"

text \<open>The state of a session is the health snapshot; the result of an event is to go on or to
  leave.\<close>

fun handle_event ::
    "session_libraries \<Rightarrow> runtime_config \<Rightarrow> probe_config \<Rightarrow> source \<Rightarrow> url \<Rightarrow> session_event \<Rightarrow>
     runtime_snapshot \<Rightarrow> (session_exit option \<times> runtime_snapshot) action" where
  "handle_event l config chain s endpoint (Notification signature slot failed logs) sn =
     (\<lambda>db. then_do (logs_with_storage (sl_ingest l) s signature slot failed logs (db_now db)
         (rn_v2_min_slot config))
       (\<lambda>report db. (Inr (None,
          sn\<lparr>sn_last_success_at := Some (db_now db),
             sn_notifications := saturating_add (sn_notifications sn) 1,
             sn_applied := count_up (sn_applied sn) (lv_events_applied report),
             sn_last_error := None\<rparr>), db)) db)"
| "handle_event l config chain s endpoint StreamEnd sn = return (Some StreamEnded, sn)"
| "handle_event l config chain s endpoint (RouteTick response) sn =
     then_do (lift (resolve_market_endpoint (sl_url l) (il_client (sl_ingest l)) (\<lambda>_. response) chain))
       (\<lambda>latest db. (Inr (if latest \<noteq> endpoint then (Some RouteChanged, sn)
                          else (None, mark_success (db_now db) sn)), db))"
| "handle_event l config chain s endpoint (LeaderboardTick locked rebuild milliseconds) sn =
     then_do (refresh_with_storage (sl_calendar l) locked False (int (rn_refresh_interval config))
         rebuild milliseconds)
       (\<lambda>refresh db. (Inr (None,
          sn\<lparr>sn_last_success_at := Some (db_now db), sn_high_water := rp_high_water refresh,
             sn_refresh_ms := rp_duration_ms refresh, sn_last_error := None\<rparr>), db))"
| "handle_event l config chain s endpoint ShutdownSignal sn = return (Some Shutdown, sn)"
| "handle_event l config chain s endpoint (ClockTick passed) sn =
     (\<lambda>db. (Inr (None, sn), db\<lparr>db_now := db_now db + max passed 0\<rparr>))"

text \<open>The loop: \<open>None\<close> when the events are used up and the session is still open. The snapshot is
  shared with the health server and survives an error.\<close>

fun session_loop ::
    "session_libraries \<Rightarrow> runtime_config \<Rightarrow> probe_config \<Rightarrow> source \<Rightarrow> url \<Rightarrow> session_event list \<Rightarrow>
     runtime_snapshot \<Rightarrow> database \<Rightarrow>
     (indexer_error + session_exit option) \<times> runtime_snapshot \<times> database" where
  "session_loop l config chain s endpoint [] sn db = (Inr None, sn, db)"
| "session_loop l config chain s endpoint (e # es) sn db =
     (case handle_event l config chain s endpoint e sn db of
        (Inl err, db) \<Rightarrow> (Inl err, sn, db)
      | (Inr (Some exit, sn), db) \<Rightarrow> (Inr (Some exit), sn, db)
      | (Inr (None, sn), db) \<Rightarrow> session_loop l config chain s endpoint es sn db)"

text \<open>What one session meets: the router, whether the subscription opens, the node's history and
  accounts, the refresh, and the events.\<close>

record session_input =
  inp_router :: router
  inp_subscribed :: bool
  inp_history :: rpc
  inp_accounts :: accounts_rpc
  inp_carbon_ready :: "url \<Rightarrow> bool"
  inp_refresh :: "bool \<times> rebuild_result \<times> nat"
  inp_events :: "session_event list"

text \<open>Up to the moment the session is ready.\<close>

definition open_session ::
    "session_libraries \<Rightarrow> runtime_config \<Rightarrow> probe_config \<Rightarrow> session_input \<Rightarrow>
     (source \<times> url \<times> ingest_report \<times> refresh_report) action" where
  "open_session l config chain i =
     then_do (lift (resolve_market_endpoint (sl_url l) (il_client (sl_ingest l)) (inp_router i) chain))
       (\<lambda>endpoint.
     then_do (atomically (\<lambda>db. stored (ensure_source (pc_network chain) ''er''
       (show_url (sl_url l) endpoint) db))) (\<lambda>s.
     then_do (lift (websocket_url endpoint)) (\<lambda>_.
     then_do (lift (require (inp_subscribed i) SubscriptionFailed)) (\<lambda>_.
     then_do (recent_with_storage (sl_ingest l) (inp_history i) (pc_network chain) ''er''
       (show_url (sl_url l) endpoint) (rn_catchup_limit config) (rn_v2_min_slot config)) (\<lambda>catchup.
     then_do (lift (require (\<not> catchup_gap (rn_catchup_limit config) catchup) CatchupGap)) (\<lambda>_.
     then_do (smoke_run (sl_url l) (sl_reconcile l) (inp_router i) (inp_accounts i) (inp_carbon_ready i)
       chain False) (\<lambda>_.
     then_do (case inp_refresh i of (locked, rebuild, milliseconds) \<Rightarrow>
         refresh_with_storage (sl_calendar l) locked False (int (rn_refresh_interval config))
           rebuild milliseconds) (\<lambda>refresh.
     return (s, endpoint, catchup, refresh)))))))))"

definition subscription_session ::
    "session_libraries \<Rightarrow> runtime_config \<Rightarrow> probe_config \<Rightarrow> session_input \<Rightarrow>
     runtime_snapshot \<Rightarrow> database \<Rightarrow>
     (indexer_error + session_exit option) \<times> runtime_snapshot \<times> database" where
  "subscription_session l config chain i sn db =
     (case open_session l config chain i db of
        (Inl e, db) \<Rightarrow> (Inl e, sn, db)
      | (Inr (s, endpoint, catchup, refresh), db) \<Rightarrow>
          (let sn = session_ready (db_now db) catchup refresh sn in
           if rn_once config then (Inr (Some Shutdown), sn, db)
           else session_loop l config chain s endpoint (inp_events i) sn db))"

text \<open>The loop of \<open>run\<close>: a session that fails or whose stream ends is recorded as a failure, and the
  next one starts unless the exit is a shutdown or the configuration says once. A session whose
  events are used up is still running. The stream's end is reported with \<open>SubscriptionFailed\<close>.\<close>

fun run_sessions ::
    "session_libraries \<Rightarrow> runtime_config \<Rightarrow> probe_config \<Rightarrow> bool \<Rightarrow> session_input list \<Rightarrow>
     runtime_snapshot \<Rightarrow> database \<Rightarrow> runtime_snapshot \<times> database" where
  "run_sessions l config chain reconnect [] sn db = (sn, db)"
| "run_sessions l config chain reconnect (i # is) sn db =
     (case subscription_session l config chain i (begin_session (db_now db) reconnect sn) db of
        (Inr None, sn, db) \<Rightarrow> (sn, db)
      | (result, sn, db) \<Rightarrow>
          (let sn = mark_disconnected sn;
               sn = (case result of
                  Inl e \<Rightarrow> record_failure e sn
                | Inr exit \<Rightarrow>
                    if exit = Some StreamEnded then record_failure SubscriptionFailed sn else sn) in
           if result = Inr (Some Shutdown) \<or> rn_once config then (sn, db)
           else run_sessions l config chain True is sn db))"

text \<open>\<open>run\<close>: the configuration is checked before anything is touched.\<close>

definition run_indexer ::
    "session_libraries \<Rightarrow> runtime_config \<Rightarrow> probe_config \<Rightarrow> session_input list \<Rightarrow> database \<Rightarrow>
     indexer_error + runtime_snapshot \<times> database" where
  "run_indexer l config chain inputs db =
     and_then (validate_config config) (\<lambda>_.
     Inr (run_sessions l config chain False inputs (new_snapshot (db_now db)) db))"

end
