(* ===== verification/Indexer_Relation.thy ===== *)
theory Indexer_Relation
  imports Runtime
begin

text \<open>
  What a run of the indexer does to its database, from what its statements do. The interface
  \<open>database_relation\<close> asks of a relation that it is a preorder every statement stays within; its
  lemmas carry it through batches, actions, sessions and the whole run. The theories after this one
  interpret it with the relations that matter: cursors that never go back, a history that is only
  added to, positions that never reopen.
\<close>

named_theorems keeps_intros \<open>an action stays within a relation\<close>

definition keeps :: "(database \<Rightarrow> database \<Rightarrow> bool) \<Rightarrow> 'a action \<Rightarrow> bool" where
  "keeps R m \<longleftrightarrow> (\<forall>db r db'. m db = (r, db') \<longrightarrow> R db db')"

lemma keepsD: "keeps R m \<Longrightarrow> m db = (r, db') \<Longrightarrow> R db db'"
  unfolding keeps_def by blast

lemma keepsI: "(\<And>db r db'. m db = (r, db') \<Longrightarrow> R db db') \<Longrightarrow> keeps R m"
  unfolding keeps_def by blast

lemma stored_Inr: "stored r = Inr x \<longleftrightarrow> r = Inr x"
  by (cases r) (auto simp: stored_def)

text \<open>What an action that succeeds did.\<close>

lemma then_do_Inr:
  "then_do m k db = (Inr y, db') \<longleftrightarrow> (\<exists>x db1. m db = (Inr x, db1) \<and> k x db1 = (Inr y, db'))"
  by (auto simp: then_do_def split: prod.split sum.split)

lemma expect_Inr: "expect m e db = (Inr x, db') \<longleftrightarrow> m = Some x \<and> db' = db"
  by (auto simp: expect_def fail_def return_def split: option.split)

lemma return_Inr: "return x db = (r, db') \<longleftrightarrow> r = Inr x \<and> db' = db"
  by (auto simp: return_def)

lemma lift_Inr: "lift r db = (Inr x, db') \<longleftrightarrow> r = Inr x \<and> db' = db"
  by (auto simp: lift_def)

lemma run_statement_Inr: "run_statement f db = (Inr u, db') \<longleftrightarrow> f db = Inr db'"
  by (auto simp: run_statement_def split: sum.split)

lemmas action_simps = then_do_Inr expect_Inr return_Inr lift_Inr run_statement_Inr

locale database_relation =
  fixes R :: "database \<Rightarrow> database \<Rightarrow> bool"
  assumes refl: "R db db"
    and trans: "R db1 db2 \<Longrightarrow> R db2 db3 \<Longrightarrow> R db1 db3"
    and clock: "0 \<le> t \<Longrightarrow> R db (db\<lparr>db_now := db_now db + t\<rparr>)"
    and source: "ensure_source network layer endpoint db = Inr (s, db') \<Longrightarrow> R db db'"
    and cursor: "upsert_cursor i datasource v slot signature db = Inr db' \<Longrightarrow> R db db'"
    and raw: "insert_raw_observation c ob db = Inr db' \<Longrightarrow> R db db'"
    and created: "R db (upsert_position_created ob m p user price collateral d expires_at db)"
    and closed: "upsert_position_closed ob m p outcome payout lp_fee platform_fee db = Inr db' \<Longrightarrow> R db db'"
    and liquidity: "insert_liquidity_event ob kind m user assets shares min_out db = Inr db' \<Longrightarrow> R db db'"
    and fee: "insert_fee_event ob kind m_opt user_opt destination amount db = Inr db' \<Longrightarrow> R db db'"
    and tracked: "track_user_account c ob m user account_type seed db = Inr db' \<Longrightarrow> R db db'"
    and dead_letter: "record_dead_letter s sig sl path failure payload details db = Inr db' \<Longrightarrow> R db db'"
    and route: "store_route network program key account_type m_opt user_opt delegated er ep db
      = Inr (generation, db') \<Longrightarrow> R db db'"
    and account: "insert_account_observation l s tr sl owner_key hash dec db = Inr (n, db') \<Longrightarrow> R db db'"
    and market: "project_market l s tr sl program mk db = Inr db' \<Longrightarrow> R db db'"
    and checkpoint: "R db (checkpoint_positions s sl program mi user ids db)"
    and run_started: "start_run s sl n db = Inr (run_id, db') \<Longrightarrow> R db db'"
    and run_finished: "R db (finish_run run_id n n' db)"
    and refreshed: "R db (db\<lparr>db_refresh := row\<rparr>)"
    and market_board: "R db (db\<lparr>db_market_board := view\<rparr>)"
    and global_board: "R db (db\<lparr>db_global_board := view\<rparr>)"
begin

subsection \<open>Batches\<close>

lemma cursor_advanced:
  "storage_advance_cursor s name v sl g db = Inr db' \<Longrightarrow> R db db'"
  "advance_cursor ob db = Inr db' \<Longrightarrow> R db db'"
  unfolding storage_advance_cursor_def advance_cursor_def by (erule cursor)+

lemma projection: "apply_projection c ob ev db = Inr db' \<Longrightarrow> R db db'"
  by (cases "(c, ob, ev, db)" rule: apply_projection.cases)
     (auto simp: and_then_eq_Inr intro: trans created closed liquidity fee tracked)

lemma observations: "apply_observations c obs db = Inr db' \<Longrightarrow> R db db'"
proof (induction obs arbitrary: db)
  case Nil
  then show ?case by (simp add: refl)
next
  case (Cons ob obs)
  then obtain db1 db2 where "insert_raw_observation c ob db = Inr db1"
    and "apply_projection c ob (ob_event ob) db1 = Inr db2"
    and "apply_observations c obs db2 = Inr db'"
    by (auto simp: and_then_eq_Inr)
  then show ?case using raw projection Cons.IH by (blast intro: trans)
qed

lemma batch: "apply_batch c obs db = Inr db' \<Longrightarrow> R db db'"
  by (cases obs) (auto simp: and_then_eq_Inr intro: refl trans observations cursor_advanced
      simp del: apply_observations.simps)


subsection \<open>Actions\<close>

lemma keeps_return [keeps_intros]: "keeps R (return x)"
  by (rule keepsI) (simp add: return_def refl)

lemma keeps_fail [keeps_intros]: "keeps R (fail e)"
  by (rule keepsI) (simp add: fail_def refl)

lemma keeps_lift [keeps_intros]: "keeps R (lift r)"
  by (rule keepsI) (simp add: lift_def refl)

lemma keeps_expect [keeps_intros]: "keeps R (expect r e)"
  by (cases r) (simp_all add: expect_def keeps_intros)

lemma keeps_then_do [keeps_intros]:
  assumes "keeps R m" and "\<And>x. keeps R (k x)"
  shows "keeps R (then_do m k)"
proof (rule keepsI)
  fix db r db'
  assume h: "then_do m k db = (r, db')"
  obtain y db1 where m: "m db = (y, db1)" by fastforce
  then have 1: "R db db1" using assms(1) by (rule keepsD [rotated])
  show "R db db'"
  proof (cases y)
    case (Inl e)
    with h m 1 show ?thesis by (simp add: then_do_def)
  next
    case (Inr x)
    with h m have "k x db1 = (r, db')" by (simp add: then_do_def)
    with assms(2) have "R db1 db'" by (rule keepsD)
    with 1 show ?thesis by (rule trans)
  qed
qed

lemma then_do_within:
  "then_do m k db = (r, db') \<Longrightarrow> keeps R m \<Longrightarrow> (\<And>x. keeps R (k x)) \<Longrightarrow> R db db'"
  by (rule keepsD [OF keeps_then_do])

lemma keeps_run_statement:
  assumes "\<And>db db'. f db = Inr db' \<Longrightarrow> R db db'"
  shows "keeps R (run_statement f)"
  by (rule keepsI) (auto simp: run_statement_def refl assms split: sum.splits)

lemma keeps_atomically:
  assumes "\<And>db x db'. f db = Inr (x, db') \<Longrightarrow> R db db'"
  shows "keeps R (atomically f)"
  by (rule keepsI) (auto simp: atomically_def refl assms split: sum.splits)

lemma keeps_load: "keeps R (\<lambda>db. (load_tracked c network program db, db))"
  by (rule keepsI) (simp add: refl)

lemma keeps_advance [keeps_intros]: "keeps R (run_statement (storage_advance_cursor s name v sl g))"
  by (rule keeps_run_statement) (rule cursor_advanced)

lemma keeps_dead_letter [keeps_intros]:
  "keeps R (run_statement (record_dead_letter s g sl path failure payload details))"
  by (rule keeps_run_statement) (rule dead_letter)

lemma keeps_prod [keeps_intros]:
  "(\<And>a b. keeps R (k a b)) \<Longrightarrow> keeps R (case x of (a, b) \<Rightarrow> k a b)"
  by (simp split: prod.split)

lemma keeps_source: "keeps R (atomically (\<lambda>db. stored (ensure_source n la e db)))"
  by (rule keeps_atomically) (auto simp: stored_Inr intro: source)


subsection \<open>Ingestion\<close>

lemma keeps_collect: "keeps R (collect_observations l s g sl t entries)"
proof (induction l s g sl t entries rule: collect_observations.induct)
  case (1 l s g sl t)
  show ?case by (simp add: keeps_intros)
next
  case (2 l s g sl t log_index encoded entries)
  then show ?case
    by (auto simp: Let_def intro!: keeps_intros split: option.split sum.split)
qed

lemma keeps_logs: "keeps R (apply_program_logs l s g sl t logs)"
  unfolding apply_program_logs_def
  by (intro keeps_then_do keeps_collect keeps_return keeps_run_statement)
     (auto split: if_splits intro: batch cursor_advanced)

lemma keeps_live: "keeps R (logs_with_storage l s g sl failed logs t v2)"
  unfolding logs_with_storage_def Let_def
  by (intro keeps_then_do keeps_expect) (auto intro!: keeps_intros keeps_logs)

lemma keeps_transaction: "keeps R (ingest_transaction l r s v2 info n)"
  unfolding ingest_transaction_def Let_def
  by (auto intro!: keeps_intros keeps_logs split: option.split)

lemma keeps_ingest_all: "keeps R (ingest_all l r s v2 infos n)"
  by (induction infos arbitrary: n) (auto intro!: keeps_intros keeps_transaction)

lemma keeps_recent: "keeps R (recent_with_storage l r network layer endpoint limit v2)"
proof (rule keepsI)
  fix db res db'
  assume h: "recent_with_storage l r network layer endpoint limit v2 db = (res, db')"
  show "R db db'"
  proof (cases "ensure_source network layer endpoint db")
    case (Inl e)
    with h show ?thesis by (simp add: recent_with_storage_def refl)
  next
    case (Inr p)
    then obtain s db1 where p: "ensure_source network layer endpoint db = Inr (s, db1)"
      by (cases p) simp
    then have "R db db1" by (rule source)
    moreover have "R db1 db'"
      using h unfolding recent_with_storage_def p Let_def
      by (auto simp only: sum.case prod.case split: sum.splits
          intro!: keeps_ingest_all keeps_return refl elim!: then_do_within)
    ultimately show ?thesis by (rule trans)
  qed
qed


subsection \<open>Routes and reconciliation\<close>

lemma keeps_persist: "keeps R (persist_route u c network program account ty mo uo ro)"
  unfolding persist_route_def
  by (intro keeps_then_do keeps_atomically)
     (auto simp: stored_Inr and_then_eq_Inr intro!: keeps_intros keeps_atomically
        intro: route source split: option.split)

lemma account_projected: "apply_account_projection l s tr sl program dec db = Inr db' \<Longrightarrow> R db db'"
  by (cases dec) (auto intro: market checkpoint refl split: option.splits)

lemma each_reconciled:
  "reconcile_each l s sl program xs f i db = Inr (r, db') \<Longrightarrow> R db db'"
proof (induction l s sl program xs f i db rule: reconcile_each.induct)
  case (3 l s sl program tr account rest f i db)
  then show ?case
    by (fastforce simp: and_then_eq_Inr stored_Inr intro: trans account account_projected)
qed (auto intro: refl)

lemma keeps_reconcile: "keeps R (reconcile l rpc s endpoint program accounts)"
  unfolding reconcile_def
proof (rule keeps_then_do, rule keeps_expect, rule keeps_prod, rule keeps_then_do, rule keeps_expect,
    rule keeps_atomically, goal_cases)
  case (1 answer slot_word held sl db report db')
  then obtain run_id db1 found inserted db2 db3
    where 1: "start_run s sl (length accounts) db = Inr (run_id, db1)"
      and 2: "reconcile_each l s sl program (zip accounts held) 0 0 db1 = Inr ((found, inserted), db2)"
      and 3: "upsert_cursor (src_id s) ''exact_accounts'' (''slot:'' @ rl_show_slot l (sint sl)) (sint sl)
        None db2 = Inr db3"
      and 4: "db' = finish_run run_id found inserted db3"
    by (auto simp: and_then_eq_Inr stored_Inr)
  show ?case
    unfolding 4 using trans [OF run_started [OF 1] trans [OF each_reconciled [OF 2] cursor [OF 3]]]
    by (rule trans) (rule run_finished)
qed

lemma keeps_route_accounts: "keeps R (route_accounts u c router network program accounts sv)"
  by (induction accounts arbitrary: sv) (auto intro!: keeps_intros keeps_persist)

lemma keeps_passes: "keeps R b \<Longrightarrow> keeps R e \<Longrightarrow> keeps R (reconcile_passes n b e latest)"
  by (induction n arbitrary: latest) (auto intro!: keeps_intros)

lemma keeps_check_reports: "keeps R (check_reports u c config market er_endpoint b p restart reports)"
  by (rule keepsI) (auto simp: check_reports_def Let_def refl split: if_splits option.splits)

lemma keeps_smoke: "keeps R (smoke_run u l router rpc ready config restart)"
  unfolding smoke_run_def Let_def
  by (rule keeps_then_do keeps_prod keeps_lift keeps_expect keeps_persist keeps_source keeps_load
      keeps_route_accounts keeps_passes keeps_reconcile keeps_check_reports)+


subsection \<open>Sessions\<close>

lemma keeps_refresh: "keeps R (refresh_with_storage cal locked force interval rebuild ms)"
proof (rule keepsI)
  fix db r db'
  assume h: "refresh_with_storage cal locked force interval rebuild ms db = (r, db')"
  have one: "R db (db\<lparr>db_refresh := r1, db_market_board := b, db_refresh := r2\<rparr>)" for r1 b r2
    by (rule trans [OF trans [OF refreshed market_board] refreshed])
  have both: "R db (db\<lparr>db_refresh := r1, db_market_board := b, db_global_board := b'\<rparr>)" for r1 b b'
    by (rule trans [OF trans [OF refreshed market_board] global_board])
  have all: "R db (db\<lparr>db_refresh := r1, db_market_board := b, db_global_board := b', db_refresh := r2\<rparr>)"
    for r1 b b' r2
    by (rule trans [OF both refreshed])
  show "R db db'"
    using h refl one both all refreshed
    by (auto simp: refresh_with_storage_def refresh_locked_def Let_def
        split: if_splits rebuild_result.splits)
qed

lemma keeps_event: "keeps R (handle_event l config chain s endpoint e sn)"
proof (cases e)
  case (Notification g sl failed logs)
  have "R db db'" if "handle_event l config chain s endpoint e sn db = (r, db')" for db r db'
    using that keepsD [OF keeps_live] refl
    by (fastforce simp: Notification then_do_def split: prod.splits sum.splits)
  then show ?thesis by (rule keepsI)
next
  case StreamEnd
  then show ?thesis by (simp add: keeps_return)
next
  case (RouteTick response)
  show ?thesis
    by (rule keepsI) (auto simp: RouteTick then_do_def lift_def refl split: sum.splits if_splits)
next
  case (LeaderboardTick locked rebuild ms)
  have "R db db'" if "handle_event l config chain s endpoint e sn db = (r, db')" for db r db'
    using that keepsD [OF keeps_refresh] refl
    by (fastforce simp: LeaderboardTick then_do_def split: prod.splits sum.splits)
  then show ?thesis by (rule keepsI)
next
  case ShutdownSignal
  then show ?thesis by (simp add: keeps_return)
next
  case (ClockTick passed)
  show ?thesis by (rule keepsI) (auto simp: ClockTick intro: clock)
qed

lemma session_loop_within:
  "session_loop l config chain s endpoint es sn db = (r, sn', db') \<Longrightarrow> R db db'"
proof (induction es arbitrary: sn db)
  case Nil
  then show ?case by (simp add: refl)
next
  case (Cons e es)
  obtain q db1 where q: "handle_event l config chain s endpoint e sn db = (q, db1)" by fastforce
  then have "R db db1" by (rule keepsD [OF keeps_event])
  moreover have "R db1 db'"
    using Cons q refl by (auto split: sum.splits option.splits prod.splits)
  ultimately show ?case by (rule trans)
qed

lemma keeps_open_session: "keeps R (open_session l config chain i)"
  unfolding open_session_def
  by (intro keeps_then_do keeps_lift keeps_source keeps_recent keeps_smoke keeps_return)
     (auto intro: keeps_refresh split: prod.split)

lemma session_within:
  assumes "subscription_session l config chain i sn db = (r, sn', db')"
  shows "R db db'"
proof -
  obtain q db1 where q: "open_session l config chain i db = (q, db1)" by fastforce
  then have "R db db1" by (rule keepsD [OF keeps_open_session])
  moreover have "R db1 db'"
    using assms q refl session_loop_within
    by (auto simp: subscription_session_def Let_def split: sum.splits prod.splits if_splits)
  ultimately show ?thesis by (rule trans)
qed

theorem run_within: "run_sessions l config chain reconnect inputs sn db = (sn', db') \<Longrightarrow> R db db'"
proof (induction inputs arbitrary: reconnect sn db)
  case Nil
  then show ?case by (simp add: refl)
next
  case (Cons i inputs)
  obtain r sn1 db1 where r: "subscription_session l config chain i (begin_session (db_now db) reconnect sn) db
      = (r, sn1, db1)"
    by (metis prod.exhaust)
  then have "R db db1" by (rule session_within)
  moreover have "R db1 db'"
    using Cons r refl by (auto simp: Let_def split: sum.splits option.splits if_splits)
  ultimately show ?case by (rule trans)
qed

end

end
