(* ===== verification/Indexer_Invariants.thy ===== *)
theory Indexer_Invariants
  imports Indexer_Relation
begin

text \<open>
  What holds of the indexer's database through every run: its cursors never go back, its history is
  only added to, a position it has seen closed stays closed, and its tables stay well formed. Each is
  an interpretation of \<open>database_relation\<close> over the statements of \<open>crates/storage\<close> and
  \<open>crates/indexer\<close>.
\<close>


section \<open>Tables\<close>

lemma upsert_apply:
  "upsert k v f t k' =
     (if k' = k
      then (case t k of None \<Rightarrow> Some v | Some row \<Rightarrow> (case f row of None \<Rightarrow> Some row | Some row' \<Rightarrow> Some row'))
      else t k')"
  by (simp add: upsert_def split: option.split)

lemma dom_upsert: "dom (upsert k v f t) = insert k (dom t)"
  by (auto simp: upsert_apply split: option.splits if_splits)

lemma upsert_do_nothing: "t \<subseteq>\<^sub>m upsert k v do_nothing t"
  by (auto simp: map_le_def upsert_apply do_nothing_def split: option.splits)

text \<open>Rows never vanish, and a relation that the update clause stays within holds between the row
  before and the row after.\<close>

definition rows_within :: "('v \<Rightarrow> 'v \<Rightarrow> bool) \<Rightarrow> ('k \<rightharpoonup> 'v) \<Rightarrow> ('k \<rightharpoonup> 'v) \<Rightarrow> bool" where
  "rows_within Q t t' \<longleftrightarrow> (\<forall>k row. t k = Some row \<longrightarrow> (\<exists>row'. t' k = Some row' \<and> Q row row'))"

lemma rows_within_refl: "(\<And>row. Q row row) \<Longrightarrow> rows_within Q t t"
  by (auto simp: rows_within_def)

lemma rows_within_trans:
  assumes "\<And>a b c. Q a b \<Longrightarrow> Q b c \<Longrightarrow> Q a c" and "rows_within Q t1 t2" and "rows_within Q t2 t3"
  shows "rows_within Q t1 t3"
  using assms unfolding rows_within_def by metis

lemma rows_within_upsert:
  assumes "\<And>row. Q row row" and "\<And>row row'. f row = Some row' \<Longrightarrow> Q row row'"
  shows "rows_within Q t (upsert k v f t)"
  using assms by (auto simp: rows_within_def upsert_apply split: option.splits)

text \<open>The statements, unfolded for the proofs of the laws.\<close>

lemmas statement_defs =
  ensure_source_def upsert_cursor_def insert_raw_observation_def upsert_position_created_def
  upsert_position_closed_def insert_liquidity_event_def insert_fee_event_def
  track_user_account_def record_dead_letter_def store_route_def insert_account_observation_def
  project_market_def checkpoint_positions_def start_run_def finish_run_def


section \<open>Cursors\<close>

definition cursor_row_le :: "cursor_row \<Rightarrow> cursor_row \<Rightarrow> bool" where
  "cursor_row_le row row' \<longleftrightarrow>
     (case cu_slot row of None \<Rightarrow> True
      | Some slot \<Rightarrow> (case cu_slot row' of None \<Rightarrow> False | Some slot' \<Rightarrow> slot \<le> slot'))"

definition cursors_forward :: "database \<Rightarrow> database \<Rightarrow> bool" where
  "cursors_forward db db' \<longleftrightarrow> rows_within cursor_row_le (db_cursors db) (db_cursors db')"

lemma cursor_row_le_refl: "cursor_row_le row row"
  by (simp add: cursor_row_le_def split: option.split)

lemma cursors_forward_same: "db_cursors db' = db_cursors db \<Longrightarrow> cursors_forward db db'"
  by (simp add: cursors_forward_def rows_within_refl cursor_row_le_refl)

interpretation cursors: database_relation cursors_forward
proof
  fix db1 db2 db3 :: database
  assume "cursors_forward db1 db2" and "cursors_forward db2 db3"
  then show "cursors_forward db1 db3"
    unfolding cursors_forward_def
    by (rule rows_within_trans [rotated])
       (auto simp: cursor_row_le_def split: option.splits)
next
  fix i datasource v slot signature and db db' :: database
  assume "upsert_cursor i datasource v slot signature db = Inr db'"
  then show "cursors_forward db db'"
    by (auto simp: upsert_cursor_def Let_def and_then_eq_Inr cursors_forward_def cursor_row_le_refl
        cursor_row_le_def intro!: rows_within_upsert split: option.splits if_splits)
qed (auto simp: statement_defs Let_def and_then_eq_Inr intro!: cursors_forward_same
    split: option.splits if_splits)


section \<open>History\<close>

text \<open>Transactions, events and account observations are kept as first written.\<close>

definition history_kept :: "database \<Rightarrow> database \<Rightarrow> bool" where
  "history_kept db db' \<longleftrightarrow>
     db_transactions db \<subseteq>\<^sub>m db_transactions db' \<and> db_instructions db \<subseteq>\<^sub>m db_instructions db' \<and>
     db_liquidity_events db \<subseteq>\<^sub>m db_liquidity_events db' \<and> db_fee_events db \<subseteq>\<^sub>m db_fee_events db' \<and>
     db_observations db \<subseteq>\<^sub>m db_observations db' \<and> db_routes db \<subseteq>\<^sub>m db_routes db' \<and>
     prefix (db_sources db) (db_sources db')"

interpretation history: database_relation history_kept
proof
  fix db1 db2 db3 :: database
  assume "history_kept db1 db2" and "history_kept db2 db3"
  then show "history_kept db1 db3"
    unfolding history_kept_def by (blast intro: map_le_trans prefix_order.order_trans)
qed (auto simp: history_kept_def statement_defs Let_def and_then_eq_Inr upsert_do_nothing
    split: option.splits if_splits)


section \<open>Positions and dead letters\<close>

definition position_row_le :: "position_row \<Rightarrow> position_row \<Rightarrow> bool" where
  "position_row_le row row' \<longleftrightarrow>
     (pr_status row \<noteq> ''open'' \<longrightarrow> pr_status row' \<noteq> ''open'') \<and>
     (pr_user row \<noteq> None \<longrightarrow> pr_user row' \<noteq> None) \<and>
     (pr_closed_at row \<noteq> None \<longrightarrow> pr_closed_at row' = pr_closed_at row) \<and>
     pr_last_slot row \<le> pr_last_slot row' \<and> pr_version row \<le> pr_version row' \<and>
     (case pr_checkpoint_slot row of None \<Rightarrow> True
      | Some slot \<Rightarrow> (case pr_checkpoint_slot row' of None \<Rightarrow> False | Some slot' \<Rightarrow> slot \<le> slot'))"

definition dead_letter_row_le :: "dead_letter_row \<Rightarrow> dead_letter_row \<Rightarrow> bool" where
  "dead_letter_row_le row row' \<longleftrightarrow>
     dl_attempts row \<le> dl_attempts row' \<and> dl_payload row' = dl_payload row \<and>
     dl_slot_at row' = dl_slot_at row \<and> dl_first_at row' = dl_first_at row"

definition positions_forward :: "database \<Rightarrow> database \<Rightarrow> bool" where
  "positions_forward db db' \<longleftrightarrow>
     rows_within position_row_le (db_positions db) (db_positions db') \<and>
     rows_within dead_letter_row_le (db_dead_letters db) (db_dead_letters db')"

lemma position_row_le_refl: "position_row_le row row"
  by (simp add: position_row_le_def split: option.split)

lemma dead_letter_row_le_refl: "dead_letter_row_le row row"
  by (simp add: dead_letter_row_le_def)

lemma positions_forward_same:
  "db_positions db' = db_positions db \<Longrightarrow> db_dead_letters db' = db_dead_letters db \<Longrightarrow>
   positions_forward db db'"
  by (simp add: positions_forward_def rows_within_refl position_row_le_refl dead_letter_row_le_refl)

lemma set_created_le: "position_row_le row (set_created excluded row)" if "pr_user excluded \<noteq> None"
  using that by (auto simp: position_row_le_def set_created_def split: option.split)

lemma set_closed_le: "position_row_le row (set_closed excluded row)" if "pr_status excluded \<noteq> ''open''"
  using that by (auto simp: position_row_le_def set_closed_def split: option.split)

lemma lifecycle_status_closed: "lifecycle_status outcome \<noteq> ''open''"
  by (cases outcome) simp_all

interpretation positions: database_relation positions_forward
proof
  fix db1 db2 db3 :: database
  assume "positions_forward db1 db2" and "positions_forward db2 db3"
  then show "positions_forward db1 db3"
    unfolding positions_forward_def
    by (auto elim!: rows_within_trans [rotated]
        simp: position_row_le_def dead_letter_row_le_def split: option.splits)
next
  fix ob m p user price collateral d expires_at and db :: database
  show "positions_forward db
      (upsert_position_created ob m p user price collateral d expires_at db)"
    by (auto simp: positions_forward_def upsert_position_created_def Let_def created_row_def
        dead_letter_row_le_refl position_row_le_refl
        intro!: rows_within_upsert rows_within_refl set_created_le split: if_splits)
next
  fix ob m p outcome payout lp_fee platform_fee and db db' :: database
  assume "upsert_position_closed ob m p outcome payout lp_fee platform_fee db = Inr db'"
  then show "positions_forward db db'"
    by (auto simp: positions_forward_def upsert_position_closed_def Let_def closed_row_def
        dead_letter_row_le_refl position_row_le_refl and_then_eq_Inr lifecycle_status_closed
        intro!: rows_within_upsert rows_within_refl set_closed_le split: if_splits)
next
  fix s sig sl path failure payload details and db db' :: database
  assume "record_dead_letter s sig sl path failure payload details db = Inr db'"
  then show "positions_forward db db'"
    by (auto simp: positions_forward_def record_dead_letter_def Let_def and_then_eq_Inr
        dead_letter_row_le_refl position_row_le_refl dead_letter_row_le_def
        intro!: rows_within_upsert rows_within_refl)
next
  fix s sl program mi user ids and db :: database
  show "positions_forward db (checkpoint_positions s sl program mi user ids db)"
    by (auto simp: positions_forward_def checkpoint_positions_def rows_within_def
        dead_letter_row_le_refl position_row_le_def checkpoint_due_def split: option.splits)
qed (auto simp: statement_defs Let_def and_then_eq_Inr intro!: positions_forward_same
    split: option.splits if_splits)


section \<open>Well-formed tables\<close>

text \<open>What a position row says agrees with itself: an open one has no result, a closed one has all of
  it, and it is partial exactly while its creation has not been seen.\<close>

definition position_row_wf :: "position_row \<Rightarrow> bool" where
  "position_row_wf row \<longleftrightarrow>
     (if pr_status row = ''open''
      then pr_outcome row = None \<and> pr_payout row = None \<and> pr_lp_fee row = None \<and>
           pr_platform_fee row = None \<and> pr_closed_signature row = None \<and> pr_user row \<noteq> None
      else (\<exists>outcome payout lp_fee platform_fee.
           pr_status row = lifecycle_status outcome \<and> pr_outcome row = Some (outcome_str outcome) \<and>
           pr_payout row = Some payout \<and> 0 \<le> payout \<and> payout < 2 ^ 63 \<and>
           pr_lp_fee row = Some lp_fee \<and> 0 \<le> lp_fee \<and>
           pr_platform_fee row = Some platform_fee \<and> 0 \<le> platform_fee \<and>
           lp_fee + platform_fee < 2 ^ 63) \<and> pr_closed_signature row \<noteq> None) \<and>
     (if pr_user row = None
      then pr_partial row \<and> pr_collateral row = None \<and> pr_entry_price row = None
      else \<not> pr_partial row \<and> pr_entry_price row \<noteq> None \<and>
           (\<exists>collateral. pr_collateral row = Some collateral \<and> 0 \<le> collateral \<and> collateral < 2 ^ 32))"

definition source_key :: "source \<Rightarrow> string \<times> string \<times> string" where
  "source_key s = (src_network s, src_layer s, src_endpoint s)"

definition sources_wf :: "database \<Rightarrow> bool" where
  "sources_wf db \<longleftrightarrow>
     distinct (map src_id (db_sources db)) \<and> distinct (map source_key (db_sources db)) \<and>
     (\<forall>s \<in> set (db_sources db). src_id s < db_next_source db \<and> src_layer s \<in> {''base'', ''er''})"

definition positions_wf :: "(position_key \<rightharpoonup> position_row) \<Rightarrow> bool" where
  "positions_wf t \<longleftrightarrow> (\<forall>key row. t key = Some row \<longrightarrow> position_row_wf row)"

definition database_wf :: "database \<Rightarrow> bool" where
  "database_wf db \<longleftrightarrow>
     sources_wf db \<and>
     (\<forall>i datasource row. db_cursors db (i, datasource) = Some row \<longrightarrow>
        known_source i db \<and> (\<exists>slot. cu_slot row = Some slot \<and> 0 \<le> slot)) \<and>
     (\<forall>i signature row. db_transactions db (i, signature) = Some row \<longrightarrow>
        known_source i db \<and> 0 \<le> tx_slot row) \<and>
     positions_wf (db_positions db)"

definition stays_wf :: "database \<Rightarrow> database \<Rightarrow> bool" where
  "stays_wf db db' \<longleftrightarrow> (database_wf db \<longrightarrow> database_wf db')"

lemma stays_wf_same:
  "db_sources db' = db_sources db \<Longrightarrow> db_next_source db' = db_next_source db \<Longrightarrow>
   db_cursors db' = db_cursors db \<Longrightarrow> db_transactions db' = db_transactions db \<Longrightarrow>
   db_positions db' = db_positions db \<Longrightarrow> stays_wf db db'"
  by (simp add: stays_wf_def database_wf_def sources_wf_def known_source_def)

lemma u32_range: "uint (a :: u32) < 4294967296"
  using uint_lt2p [of a] by simp

lemma created_row_wf: "position_row_wf (created_row ob user price collateral d expires_at now)"
  by (simp add: position_row_wf_def created_row_def u32_range)

lemma set_created_wf:
  "position_row_wf row \<Longrightarrow>
   position_row_wf (set_created (created_row ob user price collateral d expires_at now) row)"
  by (auto simp: position_row_wf_def created_row_def set_created_def u32_range split: if_splits)

lemma closed_row_wf:
  assumes "0 \<le> payout" "payout < 2 ^ 63" "0 \<le> lp_fee" "0 \<le> platform_fee" "lp_fee + platform_fee < 2 ^ 63"
  shows "position_row_wf (closed_row ob outcome payout lp_fee platform_fee now)"
  using assms lifecycle_status_closed [of outcome]
  by (auto simp: position_row_wf_def closed_row_def)

lemma set_closed_wf:
  assumes "0 \<le> payout" "payout < 2 ^ 63" "0 \<le> lp_fee" "0 \<le> platform_fee" "lp_fee + platform_fee < 2 ^ 63"
    and "position_row_wf row"
  shows "position_row_wf (set_closed (closed_row ob outcome payout lp_fee platform_fee now) row)"
  using assms lifecycle_status_closed [of outcome]
  by (auto simp: position_row_wf_def closed_row_def set_closed_def split: if_splits)

lemma to_bigint_InrD: "to_bigint a = Inr n \<Longrightarrow> n = int (unat a) \<and> 0 \<le> n \<and> n < 2 ^ 63"
  by (auto simp: to_bigint_def of_nat_less_iff [where 'a = int, symmetric] split: if_splits)

lemma stays_wf_positions:
  assumes "position_row_wf v"
    and "\<And>row row'. position_row_wf row \<Longrightarrow> f row = Some row' \<Longrightarrow> position_row_wf row'"
  shows "stays_wf db (db\<lparr>db_positions := upsert k v f (db_positions db)\<rparr>)"
proof -
  have "positions_wf (upsert k v f (db_positions db))" if "positions_wf (db_positions db)"
    using that assms unfolding positions_wf_def
    by (auto simp: upsert_apply simp del: split_paired_All split: option.splits if_splits)
  then show ?thesis
    by (auto simp: stays_wf_def database_wf_def sources_wf_def known_source_def)
qed

lemma add_source_wf:
  assumes "sources_wf db" and "source_key s \<notin> source_key ` set (db_sources db)"
    and "src_id s = db_next_source db" and "src_layer s \<in> {''base'', ''er''}"
  shows "sources_wf (db\<lparr>db_next_source := db_next_source db + 1, db_sources := db_sources db @ [s]\<rparr>)"
proof -
  have "db_next_source db \<notin> src_id ` set (db_sources db)"
    using assms(1) unfolding sources_wf_def by (metis image_iff less_irrefl)
  then show ?thesis
    using assms unfolding sources_wf_def by (auto simp: less_Suc_eq intro: less_imp_le)
qed

lemma database_wf_sources:
  assumes "database_wf db" and "sources_wf (db\<lparr>db_next_source := n, db_sources := db_sources db @ new\<rparr>)"
  shows "database_wf (db\<lparr>db_next_source := n, db_sources := db_sources db @ new\<rparr>)"
  using assms unfolding database_wf_def known_source_def by simp

interpretation wf: database_relation stays_wf
proof
  fix db1 db2 db3 :: database
  assume "stays_wf db1 db2" and "stays_wf db2 db3"
  then show "stays_wf db1 db3" unfolding stays_wf_def by blast
next
  fix network layer endpoint s and db db' :: database
  assume h: "ensure_source network layer endpoint db = Inr (s, db')"
  show "stays_wf db db'"
    unfolding stays_wf_def
  proof
    assume wf: "database_wf db"
    let ?p = "\<lambda>s. src_network s = network \<and> src_layer s = layer \<and> src_endpoint s = endpoint"
    show "database_wf db'"
    proof (cases "find ?p (db_sources db)")
      case None
      let ?s = "\<lparr>src_id = db_next_source db, src_network = network, src_layer = layer,
        src_endpoint = endpoint\<rparr>"
      from None have "source_key ?s \<notin> source_key ` set (db_sources db)"
        by (auto simp: find_None_iff source_key_def)
      moreover from h None have "layer = ''base'' \<or> layer = ''er''"
        and db': "db' = db\<lparr>db_next_source := db_next_source db + 1, db_sources := db_sources db @ [?s]\<rparr>"
        by (auto simp: ensure_source_def and_then_eq_Inr require_eq_Inr Let_def)
      ultimately show ?thesis
        unfolding db' using wf
        by (intro database_wf_sources add_source_wf) (auto simp: database_wf_def)
    next
      case (Some s')
      with h have "db' = db\<lparr>db_next_source := db_next_source db + 1, db_sources := db_sources db @ []\<rparr>"
        by (auto simp: ensure_source_def and_then_eq_Inr Let_def)
      moreover have "sources_wf (db\<lparr>db_next_source := db_next_source db + 1, db_sources := db_sources db @ []\<rparr>)"
        using wf by (auto simp: database_wf_def sources_wf_def intro: less_le_trans)
      ultimately show ?thesis using database_wf_sources [OF wf] by metis
    qed
  qed
next
  fix i datasource v slot signature and db db' :: database
  assume "upsert_cursor i datasource v slot signature db = Inr db'"
  then show "stays_wf db db'"
    by (auto simp: upsert_cursor_def Let_def and_then_eq_Inr require_eq_Inr stays_wf_def
        database_wf_def sources_wf_def known_source_def upsert_apply split: option.splits if_splits)
next
  fix c ob and db db' :: database
  assume "insert_raw_observation c ob db = Inr db'"
  then show "stays_wf db db'"
    by (auto simp: insert_raw_observation_def Let_def and_then_eq_Inr require_eq_Inr stays_wf_def
        database_wf_def sources_wf_def known_source_def upsert_apply do_nothing_def
        split: option.splits if_splits)
next
  fix ob m p user price collateral d expires_at and db :: database
  show "stays_wf db (upsert_position_created ob m p user price collateral d expires_at db)"
    unfolding upsert_position_created_def Let_def
    by (rule stays_wf_positions, rule created_row_wf) (auto intro: set_created_wf split: if_splits)
next
  fix ob m p outcome payout lp_fee platform_fee and db db' :: database
  assume "upsert_position_closed ob m p outcome payout lp_fee platform_fee db = Inr db'"
  then obtain x y z where "to_bigint payout = Inr x" "to_bigint lp_fee = Inr y" "to_bigint platform_fee = Inr z"
    and "bigint (y + z)"
    and db': "db' = db\<lparr>db_positions := upsert (position_key_of ob m p) (closed_row ob outcome x y z (db_now db))
      (\<lambda>row. if closed_distinct (closed_row ob outcome x y z (db_now db)) row
             then Some (set_closed (closed_row ob outcome x y z (db_now db)) row) else None)
      (db_positions db)\<rparr>"
    by (auto simp: upsert_position_closed_def and_then_eq_Inr require_eq_Inr Let_def)
  then have "0 \<le> x" "x < 2 ^ 63" "0 \<le> y" "0 \<le> z" "y + z < 2 ^ 63"
    by (auto dest!: to_bigint_InrD simp: bigint_def)
  note amounts = this
  show "stays_wf db db'"
    unfolding db'
    by (rule stays_wf_positions, rule closed_row_wf [OF amounts])
       (auto intro: set_closed_wf [OF amounts] split: if_splits)
next
  fix s sl program mi user ids and db :: database
  show "stays_wf db (checkpoint_positions s sl program mi user ids db)"
    by (auto simp: stays_wf_def database_wf_def checkpoint_positions_def sources_wf_def
        known_source_def positions_wf_def position_row_wf_def)
qed (auto simp: statement_defs Let_def and_then_eq_Inr intro!: stays_wf_same
    split: option.splits if_splits)



section \<open>Through every run\<close>

text \<open>C30: No run of the indexer, whatever the node, the router and the clock do, moves a cursor back or
  forgets one.\<close>
theorem cursor_never_regresses:
  assumes "run_sessions l config chain reconnect inputs sn db = (sn', db')"
    and "db_cursors db (i, name) = Some row" and "cu_slot row = Some slot"
  shows "\<exists>row' slot'. db_cursors db' (i, name) = Some row' \<and> cu_slot row' = Some slot' \<and> slot \<le> slot'"
  using cursors.run_within [OF assms(1)] assms(2,3)
  unfolding cursors_forward_def rows_within_def cursor_row_le_def by (fastforce split: option.splits)



end
