(* ===== verification/Convergence.thy ===== *)
theory Convergence
  imports Indexer_Invariants
begin

text \<open>
  What the position rows mean. The abstract state of a position is what is known of its creation and
  what is known of its closing; an event teaches one of the two. The upserts of \<open>crates/storage\<close>
  implement this, so what a row says depends on which events were delivered and not on their order,
  their repetition, their source or their batches.
\<close>


section \<open>The abstract specification\<close>

type_synonym creation = "string option \<times> int option \<times> int option \<times> string option \<times> int option \<times> int option"
type_synonym closing = "string \<times> string option \<times> int option \<times> int option \<times> int option"
type_synonym knowledge = "creation option \<times> closing option"

definition creation_of :: "position_row \<Rightarrow> creation option" where
  "creation_of row =
     (if pr_user row = None then None
      else Some (pr_user row, pr_entry_price row, pr_collateral row, pr_direction row,
                 pr_expires_at row, pr_opened_at row))"

definition closing_of :: "position_row \<Rightarrow> closing option" where
  "closing_of row =
     (if pr_status row = ''open'' then None
      else Some (pr_status row, pr_outcome row, pr_payout row, pr_lp_fee row, pr_platform_fee row))"

fun knowledge_of :: "position_row option \<Rightarrow> knowledge" where
  "knowledge_of None = (None, None)"
| "knowledge_of (Some row) = (creation_of row, closing_of row)"

fun event_creation :: "domain_event \<Rightarrow> creation option" where
  "event_creation (PositionCreatedEv m p user price collateral d expires_at) =
     Some (Some user, Some (sint price), Some (int (unat collateral)), Some (direction_str d),
       Some (to_timestamp (int (unat expires_at))), Some (to_timestamp (int (unat expires_at) - 10)))"
| "event_creation _ = None"

fun event_closing :: "domain_event \<Rightarrow> closing option" where
  "event_closing (PositionClosedEv m p outcome payout lp_fee platform_fee) =
     Some (lifecycle_status outcome, Some (outcome_str outcome), Some (int (unat payout)),
       Some (int (unat lp_fee)), Some (int (unat platform_fee)))"
| "event_closing _ = None"

definition learn :: "domain_event \<Rightarrow> knowledge \<Rightarrow> knowledge" where
  "learn e known =
     ((case event_creation e of None \<Rightarrow> fst known | Some x \<Rightarrow> Some x),
      (case event_closing e of None \<Rightarrow> snd known | Some x \<Rightarrow> Some x))"

fun event_position :: "observation \<Rightarrow> domain_event \<Rightarrow> position_key option" where
  "event_position ob (PositionCreatedEv m p _ _ _ _ _) = Some (position_key_of ob m p)"
| "event_position ob (PositionClosedEv m p _ _ _ _) = Some (position_key_of ob m p)"
| "event_position ob _ = None"

definition events_at :: "position_key \<Rightarrow> observation list \<Rightarrow> domain_event list" where
  "events_at key obs = map ob_event (filter (\<lambda>ob. event_position ob (ob_event ob) = Some key) obs)"

lemma events_at_simps [simp]:
  "events_at key [] = []"
  "events_at key (ob # obs) =
     (if event_position ob (ob_event ob) = Some key then ob_event ob # events_at key obs
      else events_at key obs)"
  "events_at key (obs @ obs') = events_at key obs @ events_at key obs'"
  by (simp_all add: events_at_def)


section \<open>The upserts implement it\<close>

lemma created_learned:
  assumes "\<And>row. t key = Some row \<Longrightarrow> position_row_wf row"
  shows "knowledge_of (upsert key (created_row ob user price collateral d expires_at now)
           (\<lambda>row. if created_distinct (created_row ob user price collateral d expires_at now) row
              then Some (set_created (created_row ob user price collateral d expires_at now) row)
              else None) t key) =
         learn (PositionCreatedEv m p user price collateral d expires_at) (knowledge_of (t key))"
  using assms
  by (auto simp: upsert_apply learn_def created_row_def set_created_def created_distinct_def
      creation_of_def closing_of_def split: option.split)

lemma closed_learned:
  assumes "\<And>row. t key = Some row \<Longrightarrow> position_row_wf row"
    and "to_bigint payout = Inr x" "to_bigint lp_fee = Inr y" "to_bigint platform_fee = Inr z"
  shows "knowledge_of (upsert key (closed_row ob outcome x y z now)
           (\<lambda>row. if closed_distinct (closed_row ob outcome x y z now) row
              then Some (set_closed (closed_row ob outcome x y z now) row) else None) t key) =
         learn (PositionClosedEv m p outcome payout lp_fee platform_fee) (knowledge_of (t key))"
  using assms(1) assms(2-4) [THEN to_bigint_InrD] lifecycle_status_closed [of outcome]
  by (auto simp: upsert_apply learn_def closed_row_def set_closed_def closed_distinct_def
      creation_of_def closing_of_def split: option.split)

lemma positions_only [simp]:
  "insert_raw_observation c ob db = Inr db' \<Longrightarrow> db_positions db' = db_positions db"
  "track_user_account c ob m user ty seed db = Inr db' \<Longrightarrow> db_positions db' = db_positions db"
  "insert_liquidity_event ob kind m user assets shares min_out db = Inr db' \<Longrightarrow>
   db_positions db' = db_positions db"
  "insert_fee_event ob kind mo uo destination amount db = Inr db' \<Longrightarrow>
   db_positions db' = db_positions db"
  "advance_cursor ob db = Inr db' \<Longrightarrow> db_positions db' = db_positions db"
  by (auto simp: insert_raw_observation_def track_user_account_def insert_liquidity_event_def
      insert_fee_event_def advance_cursor_def upsert_cursor_def and_then_eq_Inr Let_def)

lemma upsert_other: "k' \<noteq> k \<Longrightarrow> upsert k v f t k' = t k'"
  by (simp add: upsert_apply)

lemma projection_learned:
  assumes "apply_projection c ob e db = Inr db'" and "positions_wf (db_positions db)"
  shows "knowledge_of (db_positions db' key) =
    (if event_position ob e = Some key then learn e (knowledge_of (db_positions db key))
     else knowledge_of (db_positions db key))"
proof (cases e)
  case (PositionCreatedEv m p user price collateral d expires_at)
  then have "db_positions db' =
      db_positions (upsert_position_created ob m p user price collateral d expires_at db)"
    using assms(1) by (auto dest: positions_only)
  then show ?thesis
    using created_learned [of "db_positions db" key] assms(2) PositionCreatedEv
    by (auto simp: upsert_position_created_def Let_def upsert_other positions_wf_def
        simp del: split_paired_All)
next
  case (PositionClosedEv m p outcome payout lp_fee platform_fee)
  then show ?thesis
    using assms closed_learned [of "db_positions db" key]
    by (auto simp: upsert_position_closed_def Let_def and_then_eq_Inr upsert_other positions_wf_def
        simp del: split_paired_All)
qed (use assms(1) in \<open>auto simp: and_then_eq_Inr dest: positions_only\<close>)

lemma observations_learned:
  assumes "apply_observations c obs db = Inr db'" and "positions_wf (db_positions db)"
    and "database_wf db"
  shows "knowledge_of (db_positions db' key) =
    fold learn (events_at key obs) (knowledge_of (db_positions db key))"
  using assms
proof (induction obs arbitrary: db)
  case Nil
  then show ?case by simp
next
  case (Cons ob obs)
  then obtain db1 db2 where 1: "insert_raw_observation c ob db = Inr db1"
    and 2: "apply_projection c ob (ob_event ob) db1 = Inr db2"
    and 3: "apply_observations c obs db2 = Inr db'"
    by (auto simp: and_then_eq_Inr)
  have wf1: "database_wf db1" using wf.raw [OF 1] Cons.prems(3) by (simp add: stays_wf_def)
  then have wf2: "database_wf db2" using wf.projection [OF 2] by (simp add: stays_wf_def)
  have "knowledge_of (db_positions db' key) =
      fold learn (events_at key obs) (knowledge_of (db_positions db2 key))"
    using Cons.IH [OF 3] wf2 by (simp add: database_wf_def)
  then show ?case
    using projection_learned [OF 2, of key] wf1 1 by (simp add: database_wf_def)
qed

text \<open>Batches delivered one after the other; the clock moves before each.\<close>

fun deliver_all :: "client \<Rightarrow> (nat \<times> observation list) list \<Rightarrow> database \<Rightarrow> database db_result" where
  "deliver_all c [] db = Inr db"
| "deliver_all c ((passed, obs) # batches) db =
     and_then (apply_batch c obs (db\<lparr>db_now := db_now db + int passed\<rparr>)) (deliver_all c batches)"

lemma batch_learned:
  assumes "apply_batch c obs db = Inr db'" and "database_wf db"
  shows "knowledge_of (db_positions db' key) =
    fold learn (events_at key obs) (knowledge_of (db_positions db key))"
proof (cases obs)
  case Nil
  with assms show ?thesis by simp
next
  case (Cons first rest)
  with assms(1) obtain db1 where "apply_observations c obs db = Inr db1"
    and "advance_cursor first db1 = Inr db'"
    by (auto simp: and_then_eq_Inr simp del: apply_observations.simps)
  then show ?thesis
    using observations_learned assms(2) by (simp add: database_wf_def)
qed

lemma deliver_learned:
  assumes "deliver_all c batches db = Inr db'" and "database_wf db"
  shows "knowledge_of (db_positions db' key) =
    fold learn (events_at key (concat (map snd batches))) (knowledge_of (db_positions db key))"
  using assms
proof (induction c batches db rule: deliver_all.induct)
  case (1 c db)
  then show ?case by simp
next
  case (2 c passed obs batches db)
  let ?db = "db\<lparr>db_now := db_now db + int passed\<rparr>"
  from 2 obtain db1 where b: "apply_batch c obs ?db = Inr db1" and r: "deliver_all c batches db1 = Inr db'"
    by (auto simp: and_then_eq_Inr)
  have "database_wf ?db" using 2 wf.clock [of "int passed" db] by (simp add: stays_wf_def)
  moreover from this have "database_wf db1" using wf.batch [OF b] by (simp add: stays_wf_def)
  ultimately show ?case
    using 2(1) [OF r] batch_learned [OF b, of key] by simp
qed

lemma fold_learn:
  "fold learn es known =
     ((case filter (\<lambda>e. event_creation e \<noteq> None) es of [] \<Rightarrow> fst known
       | e # es' \<Rightarrow> event_creation (last (e # es'))),
      (case filter (\<lambda>e. event_closing e \<noteq> None) es of [] \<Rightarrow> snd known
       | e # es' \<Rightarrow> event_closing (last (e # es'))))"
  by (induction es arbitrary: known)
     (auto simp: learn_def split: list.split option.split if_splits)

text \<open>C25: Deliveries of the events of a position leave a row that says exactly what the events together
  say, in whatever order, however often and in whatever batches they came: the creation if one was
  delivered and the closing if one was. Hence two indexers that were told the same agree.\<close>
theorem projection_converges:
  assumes "deliver_all c batches db = Inr db'" and "database_wf db" and "db_positions db key = None"
    and "es = events_at key (concat (map snd batches))"
    and "\<forall>e \<in> set es. event_creation e \<noteq> None \<longrightarrow> event_creation e = Some creation"
    and "\<forall>e \<in> set es. event_closing e \<noteq> None \<longrightarrow> event_closing e = Some closing"
  shows "knowledge_of (db_positions db' key) =
    (if \<exists>e \<in> set es. event_creation e \<noteq> None then Some creation else None,
     if \<exists>e \<in> set es. event_closing e \<noteq> None then Some closing else None)"
proof -
  have last: "f (last (e # es')) = Some x"
    if "filter (\<lambda>e. f e \<noteq> None) es = e # es'" and "\<forall>e \<in> set es. f e \<noteq> None \<longrightarrow> f e = Some x"
    for f :: "domain_event \<Rightarrow> 'z option" and e es' x
  proof -
    have "last (e # es') \<in> set (filter (\<lambda>e. f e \<noteq> None) es)"
      unfolding that(1) by (rule last_in_set) simp
    then show ?thesis using that(2) by auto
  qed
  have "knowledge_of (db_positions db' key) = fold learn es (None, None)"
    using deliver_learned [OF assms(1,2), of key] assms(3,4) by simp
  then show ?thesis
    unfolding fold_learn using last [OF _ assms(5)] last [OF _ assms(6)]
    by (auto simp: filter_empty_conv split: list.split)
qed


text \<open>C26: The storage refines the specification: after any deliveries what is known of a position is what
  its events taught, one after the other, from what was known.\<close>
theorem position_refinement:
  assumes "deliver_all c batches db = Inr db'" and "database_wf db"
  shows "knowledge_of (db_positions db' key) =
    fold learn (events_at key (concat (map snd batches))) (knowledge_of (db_positions db key))"
  by (rule deliver_learned [OF assms])

end
