(* ===== verification/Batches.thy ===== *)
theory Batches
  imports Indexer_Invariants
begin

text \<open>
  Exactly which batches of observations the storage accepts (\<open>Storage::apply_batch\<close>,
  \<open>crates/storage/src/lib.rs\<close>): what the SQL types and constraints ask of the events. A batch that
  does not meet it leaves the database as it was, and so does the cursor.
\<close>


section \<open>What can be stored\<close>

definition fits_bigint :: "u64 \<Rightarrow> bool" where
  "fits_bigint a \<longleftrightarrow> unat a < 2 ^ 63"

definition trackable :: "client \<Rightarrow> string \<Rightarrow> string \<Rightarrow> bool" where
  "trackable c program user \<longleftrightarrow> parse_pubkey c program \<noteq> None \<and> parse_pubkey c user \<noteq> None"

fun event_storable :: "client \<Rightarrow> string \<Rightarrow> domain_event \<Rightarrow> bool" where
  "event_storable c program (PositionCreatedEv m i user price collateral d expires_at) \<longleftrightarrow> trackable c program user"
| "event_storable c program (PositionClosedEv m i outcome payout lp_fee platform_fee) \<longleftrightarrow>
     fits_bigint payout \<and> unat lp_fee + unat platform_fee < 2 ^ 63"
| "event_storable c program (LiquidityDepositedEv m user assets shares) \<longleftrightarrow>
     fits_bigint assets \<and> trackable c program user"
| "event_storable c program (WithdrawalRequestedEv m user shares min_assets_out) \<longleftrightarrow>
     fits_bigint min_assets_out \<and> trackable c program user"
| "event_storable c program (WithdrawalCancelledEv m user shares) \<longleftrightarrow> trackable c program user"
| "event_storable c program (WithdrawalExecutedEv m user shares assets) \<longleftrightarrow>
     fits_bigint assets \<and> trackable c program user"
| "event_storable c program (ProtocolFeesWithdrawnEv m destination assets) \<longleftrightarrow> fits_bigint assets"
| "event_storable c program (FallbackPayoutClaimedEv user destination assets) \<longleftrightarrow> fits_bigint assets"

definition storable :: "client \<Rightarrow> observation \<Rightarrow> bool" where
  "storable c ob \<longleftrightarrow> to_json c (ob_event ob) \<noteq> None \<and> event_storable c (ob_program_id ob) (ob_event ob)"

definition succeeds :: "'e + 'a \<Rightarrow> bool" where
  "succeeds r \<longleftrightarrow> (\<exists>x. r = Inr x)"

lemma succeeds_simps [simp]: "succeeds (Inr x)" "\<not> succeeds (Inl e)"
  by (simp_all add: succeeds_def)

lemma succeeds_and_then: "succeeds (and_then m k) \<longleftrightarrow> (\<exists>x. m = Inr x \<and> succeeds (k x))"
  by (cases m) (auto simp: and_then_def)

lemma succeeds_to_bigint: "succeeds (to_bigint a) \<longleftrightarrow> fits_bigint a"
  by (simp add: to_bigint_def fits_bigint_def)

lemma to_bigint_eq: "to_bigint a = Inr n \<longleftrightarrow> fits_bigint a \<and> n = int (unat a)"
  by (auto simp: to_bigint_def fits_bigint_def)

lemma to_bigint_opt_eq:
  "to_bigint_opt a = Inr n \<longleftrightarrow> (case a of None \<Rightarrow> n = None | Some a \<Rightarrow> fits_bigint a \<and> n = Some (int (unat a)))"
  by (cases a) (auto simp: and_then_eq_Inr to_bigint_eq)

lemma track_succeeds: "succeeds (track_user_account c ob m user ty seed db) \<longleftrightarrow> trackable c (ob_program_id ob) user"
  by (auto simp: track_user_account_def succeeds_and_then trackable_def ok_or_def Let_def
      split: option.splits)

lemma liquidity_succeeds:
  "succeeds (insert_liquidity_event ob kind m user assets shares min_out db) \<longleftrightarrow>
   (\<forall>a. assets = Some a \<longrightarrow> fits_bigint a) \<and> (\<forall>a. min_out = Some a \<longrightarrow> fits_bigint a)"
  by (auto simp: insert_liquidity_event_def succeeds_and_then to_bigint_opt_eq split: option.splits)

lemma fee_succeeds: "succeeds (insert_fee_event ob kind mo uo destination a db) \<longleftrightarrow> fits_bigint a"
  by (auto simp: insert_fee_event_def succeeds_and_then to_bigint_eq)

lemma bigint_nat: "bigint (int n) \<longleftrightarrow> n < 2 ^ 63"
  by (simp add: bigint_def)

lemma closed_succeeds:
  "succeeds (upsert_position_closed ob m p outcome payout lp_fee platform_fee db) \<longleftrightarrow>
   fits_bigint payout \<and> unat lp_fee + unat platform_fee < 2 ^ 63"
proof -
  have "bigint (int (unat lp_fee) + int (unat platform_fee)) \<longleftrightarrow> unat lp_fee + unat platform_fee < 2 ^ 63"
    using bigint_nat [of "unat lp_fee + unat platform_fee"] by simp
  then show ?thesis
    by (auto simp: upsert_position_closed_def succeeds_and_then to_bigint_eq Let_def require_eq_Inr
        fits_bigint_def)
qed

lemma projection_succeeds:
  "succeeds (apply_projection c ob e db) \<longleftrightarrow> event_storable c (ob_program_id ob) e"
proof -
  have liquidity: "succeeds (and_then (insert_liquidity_event ob kind m user assets shares min_out db) k) \<longleftrightarrow>
      succeeds (insert_liquidity_event ob kind m user assets shares min_out db) \<and> trackable c (ob_program_id ob) user"
    if "\<And>db. succeeds (k db) \<longleftrightarrow> trackable c (ob_program_id ob) user" for kind m user assets shares min_out k
    using that by (auto simp: succeeds_and_then) (auto simp: succeeds_def)
  show ?thesis
    by (cases e) (simp_all add: track_succeeds closed_succeeds fee_succeeds liquidity liquidity_succeeds)
qed

lemma raw_succeeds:
  "succeeds (insert_raw_observation c ob db) \<longleftrightarrow>
   0 \<le> sint (ob_slot ob) \<and> known_source (src_id (ob_source ob)) db \<and> to_json c (ob_event ob) \<noteq> None"
  by (auto simp: insert_raw_observation_def succeeds_and_then require_eq_Inr ok_or_def split: option.splits)

lemma observation_sources:
  "insert_raw_observation c ob db = Inr db' \<Longrightarrow> db_sources db' = db_sources db"
  "apply_projection c ob e db = Inr db' \<Longrightarrow> db_sources db' = db_sources db"
  by (auto simp: insert_raw_observation_def and_then_eq_Inr)
     (cases e; auto simp: and_then_eq_Inr track_user_account_def upsert_position_created_def
       upsert_position_closed_def insert_liquidity_event_def insert_fee_event_def Let_def)

lemma known_source_same: "db_sources db' = db_sources db \<Longrightarrow> known_source i db' = known_source i db"
  by (simp add: known_source_def)

lemma observations_succeed:
  "succeeds (apply_observations c obs db) \<longleftrightarrow>
   (\<forall>ob \<in> set obs. 0 \<le> sint (ob_slot ob) \<and> known_source (src_id (ob_source ob)) db \<and> storable c ob)"
proof (induction obs arbitrary: db)
  case Nil
  then show ?case by simp
next
  case (Cons ob obs)
  let ?later = "\<lambda>db. \<forall>ob \<in> set obs. 0 \<le> sint (ob_slot ob) \<and> known_source (src_id (ob_source ob)) db \<and> storable c ob"
  have same: "?later db2 = ?later db"
    if "insert_raw_observation c ob db = Inr db1" "apply_projection c ob (ob_event ob) db1 = Inr db2" for db1 db2
    using observation_sources(1) [OF that(1)] observation_sources(2) [OF that(2)] by (simp add: known_source_def)
  have "succeeds (apply_observations c (ob # obs) db) \<longleftrightarrow>
      (\<exists>db1 db2. insert_raw_observation c ob db = Inr db1 \<and> apply_projection c ob (ob_event ob) db1 = Inr db2
        \<and> ?later db2)"
    by (auto simp: succeeds_and_then Cons.IH)
  also have "\<dots> \<longleftrightarrow> (\<exists>db1. insert_raw_observation c ob db = Inr db1 \<and>
      succeeds (apply_projection c ob (ob_event ob) db1)) \<and> ?later db"
    unfolding succeeds_def using same by blast
  also have "(\<exists>db1. insert_raw_observation c ob db = Inr db1 \<and> succeeds (apply_projection c ob (ob_event ob) db1))
      \<longleftrightarrow> succeeds (insert_raw_observation c ob db) \<and> event_storable c (ob_program_id ob) (ob_event ob)"
    unfolding projection_succeeds by (auto simp: succeeds_def)
  finally show ?case unfolding raw_succeeds storable_def by auto
qed

lemma observations_keep_sources: "apply_observations c obs db = Inr db' \<Longrightarrow> db_sources db' = db_sources db"
proof (induction obs arbitrary: db)
  case (Cons ob obs)
  then show ?case using observation_sources by (auto simp: and_then_eq_Inr)
qed simp

lemma batch_succeeds:
  "succeeds (apply_batch c (first # rest) db) \<longleftrightarrow>
   list_all (same_batch first) rest \<and> 0 \<le> sint (ob_slot first) \<and>
   known_source (src_id (ob_source first)) db \<and> list_all (storable c) (first # rest)"
proof -
  have cursor: "succeeds (advance_cursor first db') \<longleftrightarrow> 0 \<le> sint (ob_slot first) \<and>
      known_source (src_id (ob_source first)) db'" for db'
    by (auto simp: advance_cursor_def upsert_cursor_def succeeds_and_then require_eq_Inr Let_def)
  have sources: "known_source i db' = known_source i db"
    if "apply_observations c (first # rest) db = Inr db'" for db' i
    using observations_keep_sources [OF that] by (simp add: known_source_def)
  have "succeeds (apply_batch c (first # rest) db) \<longleftrightarrow> list_all (same_batch first) (first # rest) \<and>
      (\<exists>db'. apply_observations c (first # rest) db = Inr db' \<and> succeeds (advance_cursor first db'))"
    unfolding apply_batch.simps succeeds_and_then require_eq_Inr by blast
  also have "\<dots> \<longleftrightarrow> list_all (same_batch first) (first # rest) \<and>
      succeeds (apply_observations c (first # rest) db) \<and> 0 \<le> sint (ob_slot first) \<and>
      known_source (src_id (ob_source first)) db"
    unfolding cursor using sources by (auto simp: succeeds_def simp del: apply_observations.simps)
  finally show ?thesis
    unfolding observations_succeed by (auto simp: list_all_iff same_batch_def)
qed


end
