(* ===== verification/Drills.thy ===== *)
theory Drills
  imports Batches
begin

text \<open>
  The indexer's recovery drill (\<open>recovery.rs\<close>): it resets the rows of two sources of its own, breaks
  off a transaction, repeats a dead letter, delivers cursors out of order and an event twice, and
  checks what the tables say. The drill passes on every database and touches nothing of anyone else.
\<close>


section \<open>The drill\<close>

definition RECOVERY_SCENARIOS :: "string list" where
  "RECOVERY_SCENARIOS = [''duplicate_signature'', ''duplicate_account_data'', ''out_of_order_delivery'',
     ''equal_slots_across_sources'', ''websocket_disconnect_overlap'', ''route_change_overlap'',
     ''postgres_transaction_rollback'', ''decoder_rejection'', ''restart_overlap'']"

record recovery_report =
  rv_scenarios :: "string list"
  rv_rollback_observations :: nat
  rv_rollback_cursors :: nat
  rv_duplicate_dead_letters :: nat
  rv_duplicate_attempts :: int
  rv_source_one_slot :: int
  rv_source_two_slot :: int
  rv_duplicate_positions :: nat

text \<open>\<open>DELETE .. WHERE\<close>.\<close>

definition delete_rows :: "('k \<Rightarrow> bool) \<Rightarrow> ('k \<rightharpoonup> 'v) \<Rightarrow> ('k \<rightharpoonup> 'v)" where
  "delete_rows p t = (\<lambda>k. if p k then None else t k)"

text \<open>Events refer to their transaction with \<open>ON DELETE CASCADE\<close>, so they go with it.\<close>

definition of_sources :: "int list \<Rightarrow> int \<times> 'k \<Rightarrow> bool" where
  "of_sources ids key = (fst key \<in> set ids)"

definition reset_recovery :: "int list \<Rightarrow> database \<Rightarrow> database" where
  "reset_recovery ids db =
     (let of_deleted = (\<lambda>(i, signature, _). i \<in> set ids \<and> db_transactions db (i, signature) \<noteq> None) in
      db\<lparr>db_dead_letters := delete_rows (of_sources ids) (db_dead_letters db),
         db_observations := delete_rows (of_sources ids) (db_observations db),
         db_instructions := delete_rows (of_sources ids) (db_instructions db),
         db_transactions := delete_rows (of_sources ids) (db_transactions db),
         db_liquidity_events := delete_rows of_deleted (db_liquidity_events db),
         db_fee_events := delete_rows of_deleted (db_fee_events db),
         db_positions := delete_rows (\<lambda>key. fst key = ''recovery'') (db_positions db),
         db_cursors := delete_rows (of_sources ids) (db_cursors db)\<rparr>)"

text \<open>The transaction that is rolled back. Its account observation has no payload; the insert has no
  \<open>ON CONFLICT\<close>, so a second row of the key is an error.\<close>

definition fault_transaction :: "source \<Rightarrow> database \<Rightarrow> database db_result" where
  "fault_transaction s db =
     (let key = (src_id s, ''fault-account'', 41, ''fault-hash'') in
      and_then (require (known_source (src_id s) db) ForeignKeyViolation) (\<lambda>_.
      and_then (require (db_observations db key = None) UniqueViolation) (\<lambda>_.
      upsert_cursor (src_id s) ''fault'' ''slot:41'' 41 None
        (db\<lparr>db_observations := (db_observations db)(key \<mapsto>
          \<lparr>ao_owner = ''fault-owner'', ao_type = ''market'', ao_payload = NoPayload\<rparr>)\<rparr>))))"

definition rolled_back :: "(database \<Rightarrow> database db_result) \<Rightarrow> unit action" where
  "rolled_back f db = (case f db of Inl e \<Rightarrow> (Inl (StorageFailed e), db) | Inr _ \<Rightarrow> (Inr (), db))"

definition query :: "(database \<Rightarrow> 'a) \<Rightarrow> 'a action" where
  "query f db = (Inr (f db), db)"

definition count_keys :: "('k \<Rightarrow> bool) \<Rightarrow> ('k \<rightharpoonup> 'v) \<Rightarrow> nat" where
  "count_keys p t = card {k \<in> dom t. p k}"

text \<open>\<open>max(attempts)\<close> is null when there is no row, which the query's type refuses.\<close>

definition recorded_twice :: "source \<Rightarrow> database \<Rightarrow> (nat \<times> int) db_result" where
  "recorded_twice s db =
     (let letters = {k \<in> dom (db_dead_letters db).
        fst k = src_id s \<and> fst (snd k) = ''dead-letter-signature''} in
      if letters = {} then Inl InvalidRow
      else Inr (card letters, Max ((\<lambda>k. dl_attempts (the (db_dead_letters db k))) ` letters)))"

definition recovery_cursor_slot :: "source \<Rightarrow> string \<Rightarrow> int action" where
  "recovery_cursor_slot s name db =
     expect (Option.bind (storage_cursor (src_id s) name db) (\<lambda>(_, slot, _). slot)) NoCursor db"

definition recovery_observation :: "client \<Rightarrow> source \<Rightarrow> observation" where
  "recovery_observation c s =
     \<lparr>ob_source = s, ob_program_id = PROGRAM_ID, ob_signature = ''recovery-position-signature'',
      ob_slot = 101, ob_block_time = None, ob_instruction_path = ''log/0'',
      ob_cursor_name = ''transactions'', ob_cursor_value = ''recovery-position-signature'',
      ob_event = PositionCreatedEv 1 1 (show_pubkey c (replicate 32 42)) 100000 1000000 Up 100\<rparr>"

definition recovery_verify :: "client \<Rightarrow> recovery_report action" where
  "recovery_verify c =
     then_do (atomically (\<lambda>db. stored (ensure_source ''recovery'' ''er''
       ''http://recovery-source-one.invalid/'' db))) (\<lambda>first.
     then_do (atomically (\<lambda>db. stored (ensure_source ''recovery'' ''er''
       ''http://recovery-source-two.invalid/'' db))) (\<lambda>second.
     then_do (run_statement (\<lambda>db. Inr (reset_recovery [src_id first, src_id second] db))) (\<lambda>_.
     then_do (rolled_back (fault_transaction first)) (\<lambda>_.
     then_do (query (\<lambda>db. count_keys (\<lambda>k. fst k = src_id first) (db_observations db))) (\<lambda>rollback_observations.
     then_do (query (\<lambda>db. count_keys (\<lambda>k. k = (src_id first, ''fault'')) (db_cursors db))) (\<lambda>rollback_cursors.
     let letter = run_statement (record_dead_letter first ''dead-letter-signature'' 50 ''log/1''
           UnknownDiscriminator (replicate 16 9) ''{\"fixture\":true}'') in
     then_do letter (\<lambda>_.
     then_do letter (\<lambda>_.
     then_do (\<lambda>db. lift (stored (recorded_twice first db)) db) (\<lambda>(letters, attempts).
     then_do (run_statement (storage_advance_cursor first ''ordering'' ''slot:100'' 100 None)) (\<lambda>_.
     then_do (run_statement (storage_advance_cursor first ''ordering'' ''slot:99'' 99 None)) (\<lambda>_.
     then_do (run_statement (storage_advance_cursor second ''ordering'' ''slot:100'' 100 None)) (\<lambda>_.
     then_do (recovery_cursor_slot first ''ordering'') (\<lambda>slot_one.
     then_do (recovery_cursor_slot second ''ordering'') (\<lambda>slot_two.
     let delivery = run_statement (storage_apply c (recovery_observation c first)) in
     then_do delivery (\<lambda>_.
     then_do delivery (\<lambda>_.
     then_do (query (\<lambda>db. let rows = {k \<in> dom (db_positions db). fst k = ''recovery''} in
       card rows - card ((\<lambda>(network, program, m, i). (network, program, m, i)) ` rows))) (\<lambda>duplicates.
     then_do (lift (require (rollback_observations = 0 \<and> rollback_cursors = 0 \<and> letters = 1 \<and>
       attempts = 2 \<and> slot_one = 100 \<and> slot_two = 100 \<and> duplicates = 0) InvariantFailed)) (\<lambda>_.
     return \<lparr>rv_scenarios = RECOVERY_SCENARIOS, rv_rollback_observations = rollback_observations,
       rv_rollback_cursors = rollback_cursors, rv_duplicate_dead_letters = letters,
       rv_duplicate_attempts = attempts, rv_source_one_slot = slot_one,
       rv_source_two_slot = slot_two, rv_duplicate_positions = duplicates\<rparr>))))))))))))))))))"


section \<open>What it leaves alone\<close>

definition others_untouched :: "int list \<Rightarrow> database \<Rightarrow> database \<Rightarrow> bool" where
  "others_untouched ids db db' \<longleftrightarrow>
     (\<forall>i. i \<notin> set ids \<longrightarrow>
        (\<forall>k. db_cursors db' (i, k) = db_cursors db (i, k)) \<and>
        (\<forall>k. db_transactions db' (i, k) = db_transactions db (i, k)) \<and>
        (\<forall>k. db_instructions db' (i, k) = db_instructions db (i, k)) \<and>
        (\<forall>k. db_liquidity_events db' (i, k) = db_liquidity_events db (i, k)) \<and>
        (\<forall>k. db_fee_events db' (i, k) = db_fee_events db (i, k)) \<and>
        (\<forall>k. db_dead_letters db' (i, k) = db_dead_letters db (i, k)) \<and>
        (\<forall>k. db_observations db' (i, k) = db_observations db (i, k))) \<and>
     (\<forall>network. network \<noteq> ''recovery'' \<longrightarrow>
        (\<forall>k. db_positions db' (network, k) = db_positions db (network, k)) \<and>
        (\<forall>k. db_tracked db' (network, k) = db_tracked db (network, k))) \<and>
     db_markets db' = db_markets db \<and> db_routes db' = db_routes db \<and> db_runs db' = db_runs db \<and>
     db_refresh db' = db_refresh db \<and> db_market_board db' = db_market_board db \<and>
     db_global_board db' = db_global_board db"

lemma untouched_refl: "others_untouched ids db db"
  by (simp add: others_untouched_def)

lemma untouched_trans:
  "others_untouched ids db1 db2 \<Longrightarrow> others_untouched ids db2 db3 \<Longrightarrow> others_untouched ids db1 db3"
  by (simp add: others_untouched_def)

lemma untouched_sources: "others_untouched ids db (db\<lparr>db_next_source := n, db_sources := ss\<rparr>)"
  by (simp add: others_untouched_def)

lemma untouched_reset: "others_untouched ids db (reset_recovery ids db)"
  by (simp add: others_untouched_def reset_recovery_def Let_def delete_rows_def of_sources_def)

lemma untouched_dead_letter:
  assumes "record_dead_letter s g sl path kind payload details db = Inr db'" and "src_id s \<in> set ids"
  shows "others_untouched ids db db'"
  using assms by (auto simp: others_untouched_def record_dead_letter_def Let_def and_then_eq_Inr upsert_apply)

lemma untouched_cursor:
  assumes "upsert_cursor i name v slot g db = Inr db'" and "i \<in> set ids"
  shows "others_untouched ids db db'"
  using assms by (auto simp: others_untouched_def upsert_cursor_def Let_def and_then_eq_Inr upsert_apply)

lemma untouched_raw:
  assumes "insert_raw_observation c ob db = Inr db'" and "src_id (ob_source ob) \<in> set ids"
  shows "others_untouched ids db db'"
  using assms by (auto simp: others_untouched_def insert_raw_observation_def and_then_eq_Inr upsert_apply)

lemma untouched_created:
  assumes "src_network (ob_source ob) = ''recovery''"
  shows "others_untouched ids db (upsert_position_created ob m p user price collateral d expires_at db)"
  using assms by (simp add: others_untouched_def upsert_position_created_def position_key_of_def Let_def upsert_apply)

lemma untouched_tracked:
  assumes "track_user_account c ob m user kind seed db = Inr db'" and "src_network (ob_source ob) = ''recovery''"
  shows "others_untouched ids db db'"
  using assms by (auto simp: others_untouched_def track_user_account_def Let_def and_then_eq_Inr upsert_apply)

lemma untouched_delivery:
  assumes "storage_apply c (recovery_observation c s) db = Inr db'" and "src_id s \<in> set ids"
    and "src_network s = ''recovery''"
  shows "others_untouched ids db db'"
proof -
  let ?ob = "recovery_observation c s"
  have ob: "src_id (ob_source ?ob) \<in> set ids" "src_network (ob_source ?ob) = ''recovery''"
    "ob_event ?ob = PositionCreatedEv 1 1 (show_pubkey c (replicate 32 42)) 100000 1000000 Up 100"
    using assms(2,3) by (simp_all add: recovery_observation_def)
  from assms(1) obtain db1 db2 where raw: "insert_raw_observation c ?ob db = Inr db1"
    and projected: "apply_projection c ?ob (ob_event ?ob) db1 = Inr db2" and cursor: "advance_cursor ?ob db2 = Inr db'"
    by (auto simp: storage_apply_def and_then_eq_Inr)
  have "others_untouched ids db1 db2"
    using projected untouched_trans [OF untouched_created [OF ob(2)] untouched_tracked [OF _ ob(2)]]
    unfolding ob(3) apply_projection.simps by blast
  then show ?thesis
    using untouched_raw [OF raw ob(1)] untouched_cursor [OF cursor [unfolded advance_cursor_def] ob(1)]
    by (blast intro: untouched_trans)
qed


section \<open>Its steps\<close>

lemma ensure_source_er:
  "\<exists>s n ss. ensure_source network ''er'' endpoint db = Inr (s, db\<lparr>db_next_source := n, db_sources := ss\<rparr>) \<and>
     s \<in> set ss \<and> set (db_sources db) \<subseteq> set ss \<and> src_network s = network \<and> src_endpoint s = endpoint"
proof -
  let ?found = "find (\<lambda>s. src_network s = network \<and> src_layer s = ''er'' \<and> src_endpoint s = endpoint)
    (db_sources db)"
  show ?thesis
  proof (cases ?found)
    case None
    then show ?thesis
      by (simp add: ensure_source_def require_def and_then_def Let_def) (rule exI, rule exI, rule conjI, rule refl, auto)
  next
    case (Some s)
    then have "s \<in> set (db_sources db) \<and> src_network s = network \<and> src_endpoint s = endpoint"
      by (auto simp: find_Some_iff)
    moreover from Some have "ensure_source network ''er'' endpoint db =
        Inr (s, db\<lparr>db_next_source := db_next_source db + 1, db_sources := db_sources db\<rparr>)"
      by (simp add: ensure_source_def require_def and_then_def Let_def)
    ultimately show ?thesis by blast
  qed
qed

lemma sources_of_two_endpoints:
  assumes "sources_wf db" and "s \<in> set (db_sources db)" and "s' \<in> set (db_sources db)"
    and "src_endpoint s \<noteq> src_endpoint s'"
  shows "src_id s \<noteq> src_id s'"
proof
  assume "src_id s = src_id s'"
  moreover have "inj_on src_id (set (db_sources db))"
    using assms(1) by (simp add: sources_wf_def distinct_map)
  ultimately have "s = s'" using assms(2,3) by (auto dest: inj_onD)
  then show False using assms(4) by simp
qed

lemma no_keys:
  assumes "\<And>k. t (i, k) = None"
  shows "count_keys (\<lambda>k. fst k = i) t = 0"
proof -
  have "{k \<in> dom t. fst k = i} = {}" using assms by (auto simp: dom_def)
  then show ?thesis unfolding count_keys_def by (simp only: card.empty)
qed

lemma no_key: "t key = None \<Longrightarrow> count_keys (\<lambda>k. k = key) t = 0"
  unfolding count_keys_def by (subst card_eq_0_iff) auto

lemma letter_repeated:
  assumes "known_source (src_id s) db" and "\<And>k. db_dead_letters db (src_id s, k) = None"
  shows "\<exists>db1 db2. run_statement (record_dead_letter s ''dead-letter-signature'' 50 ''log/1''
        UnknownDiscriminator payload details) db = (Inr (), db1) \<and>
    run_statement (record_dead_letter s ''dead-letter-signature'' 50 ''log/1''
        UnknownDiscriminator payload details) db1 = (Inr (), db2) \<and>
    Inr (1, 2) = recorded_twice s db2 \<and> db_sources db2 = db_sources db \<and>
    db_cursors db2 = db_cursors db \<and> others_untouched [src_id s, j] db db2"
proof -
  let ?letter = "record_dead_letter s ''dead-letter-signature'' 50 ''log/1'' UnknownDiscriminator payload details"
  let ?key = "(src_id s, ''dead-letter-signature'', ''log/1'', ''unknown_discriminator'')"
  obtain row where 1: "?letter db = Inr (db\<lparr>db_dead_letters := (db_dead_letters db)(?key \<mapsto> row)\<rparr>)"
    and row: "dl_attempts row = 1"
    using assms by (simp add: record_dead_letter_def Let_def and_then_def require_def upsert_def)
  let ?db1 = "db\<lparr>db_dead_letters := (db_dead_letters db)(?key \<mapsto> row)\<rparr>"
  obtain row' where 2: "?letter ?db1 = Inr (db\<lparr>db_dead_letters := (db_dead_letters db)(?key \<mapsto> row')\<rparr>)"
    and row': "dl_attempts row' = 2"
    using assms(1) row by (simp add: record_dead_letter_def Let_def and_then_def require_def upsert_def known_source_def)
  let ?db2 = "db\<lparr>db_dead_letters := (db_dead_letters db)(?key \<mapsto> row')\<rparr>"
  have "{k \<in> dom (db_dead_letters ?db2). fst k = src_id s \<and> fst (snd k) = ''dead-letter-signature''} = {?key}"
    using assms(2) by auto
  then have "recorded_twice s ?db2 = Inr (1, 2)" by (simp add: recorded_twice_def row')
  moreover have "others_untouched [src_id s, j] db ?db2"
    using untouched_trans [OF untouched_dead_letter [OF 1] untouched_dead_letter [OF 2]] by simp
  ultimately show ?thesis using 1 2 by (intro exI [of _ ?db1] exI [of _ ?db2]) (simp add: run_statement_def)
qed

lemma cursors_in_any_order:
  assumes "known_source (src_id s) db" and "known_source (src_id s') db" and "src_id s \<noteq> src_id s'"
    and "db_cursors db (src_id s, ''ordering'') = None" and "db_cursors db (src_id s', ''ordering'') = None"
  shows "\<exists>db1 db3. run_statement (storage_advance_cursor s ''ordering'' ''slot:100'' 100 None) db = (Inr (), db1) \<and>
    run_statement (storage_advance_cursor s ''ordering'' ''slot:99'' 99 None) db1 = (Inr (), db1) \<and>
    run_statement (storage_advance_cursor s' ''ordering'' ''slot:100'' 100 None) db1 = (Inr (), db3) \<and>
    recovery_cursor_slot s ''ordering'' db3 = (Inr 100, db3) \<and>
    recovery_cursor_slot s' ''ordering'' db3 = (Inr 100, db3) \<and> db_sources db3 = db_sources db \<and>
    others_untouched [src_id s, src_id s'] db db3"
proof -
  let ?row = "\<lparr>cu_value = ''slot:100'', cu_slot = Some 100, cu_signature = None, cu_updated_at = db_now db\<rparr>"
  let ?db1 = "db\<lparr>db_cursors := (db_cursors db)((src_id s, ''ordering'') \<mapsto> ?row)\<rparr>"
  let ?db3 = "db\<lparr>db_cursors := (db_cursors db)((src_id s, ''ordering'') \<mapsto> ?row, (src_id s', ''ordering'') \<mapsto> ?row)\<rparr>"
  have 1: "storage_advance_cursor s ''ordering'' ''slot:100'' 100 None db = Inr ?db1"
    using assms by (simp add: storage_advance_cursor_def upsert_cursor_def Let_def and_then_def require_def upsert_def)
  have 2: "storage_advance_cursor s ''ordering'' ''slot:99'' 99 None ?db1 = Inr ?db1"
    using assms by (simp add: storage_advance_cursor_def upsert_cursor_def Let_def and_then_def require_def
      upsert_def known_source_def)
  have 3: "storage_advance_cursor s' ''ordering'' ''slot:100'' 100 None ?db1 = Inr ?db3"
    using assms by (simp add: storage_advance_cursor_def upsert_cursor_def Let_def and_then_def require_def
      upsert_def known_source_def)
  have "others_untouched [src_id s, src_id s'] db ?db3"
    by (simp add: others_untouched_def)
  moreover have "recovery_cursor_slot s ''ordering'' ?db3 = (Inr 100, ?db3)"
    "recovery_cursor_slot s' ''ordering'' ?db3 = (Inr 100, ?db3)"
    using assms(3) by (simp_all add: recovery_cursor_slot_def expect_def storage_cursor_def return_def)
  ultimately show ?thesis using 1 2 3 by (intro exI [of _ ?db1] exI [of _ ?db3]) (simp add: run_statement_def)
qed

lemma delivered:
  assumes "known_source (src_id s) db" and "storable c (recovery_observation c s)"
    and "src_network s = ''recovery''"
  shows "\<exists>db'. run_statement (storage_apply c (recovery_observation c s)) db = (Inr (), db') \<and>
    known_source (src_id s) db' \<and> db_sources db' = db_sources db \<and> others_untouched [src_id s, j] db db'"
proof -
  have "succeeds (storage_apply c (recovery_observation c s) db)"
    using assms(1,2) unfolding storage_apply_def batch_succeeds by (simp add: recovery_observation_def)
  then obtain db' where db': "storage_apply c (recovery_observation c s) db = Inr db'"
    by (auto simp: succeeds_def)
  from untouched_delivery [OF this] assms(3) have "others_untouched [src_id s, j] db db'" by simp
  moreover have "db_sources db' = db_sources db"
    using db' by (auto simp: storage_apply_def and_then_eq_Inr advance_cursor_def upsert_cursor_def Let_def
        dest!: observation_sources)
  ultimately show ?thesis using db' assms(1) by (simp add: run_statement_def known_source_def)
qed


section \<open>The drill passes\<close>

text \<open>On every well-formed database the recovery drill reports that a rolled back transaction left
  nothing, that a repeated dead letter is one row with two attempts, that cursors delivered out of order
  stand at the highest slot of each source, and that a repeated event made one row. Every row of
  another source, network or table stays as it was.\<close>
theorem recovery_drill_passes:
  assumes "database_wf db" and "parse_pubkey c PROGRAM_ID = Some program"
    and "parse_pubkey c (show_pubkey c (replicate 32 42)) = Some user"
    and "to_json c (ob_event (recovery_observation c s)) = Some json"
  shows "\<exists>db' first second. recovery_verify c db =
      (Inr \<lparr>rv_scenarios = RECOVERY_SCENARIOS, rv_rollback_observations = 0, rv_rollback_cursors = 0,
        rv_duplicate_dead_letters = 1, rv_duplicate_attempts = 2, rv_source_one_slot = 100,
        rv_source_two_slot = 100, rv_duplicate_positions = 0\<rparr>, db') \<and>
    {first, second} \<subseteq> set (db_sources db') \<and> src_network first = ''recovery'' \<and>
    src_network second = ''recovery'' \<and> others_untouched [src_id first, src_id second] db db'"
proof -
  obtain s1 n1 ss1 where 1: "ensure_source ''recovery'' ''er'' ''http://recovery-source-one.invalid/'' db =
      Inr (s1, db\<lparr>db_next_source := n1, db_sources := ss1\<rparr>)"
    and s1: "s1 \<in> set ss1" "src_network s1 = ''recovery''" "src_endpoint s1 = ''http://recovery-source-one.invalid/''"
    using ensure_source_er by blast
  let ?db1 = "db\<lparr>db_next_source := n1, db_sources := ss1\<rparr>"
  obtain s2 n2 ss2 where 2: "ensure_source ''recovery'' ''er'' ''http://recovery-source-two.invalid/'' ?db1 =
      Inr (s2, ?db1\<lparr>db_next_source := n2, db_sources := ss2\<rparr>)"
    and s2: "s2 \<in> set ss2" "set ss1 \<subseteq> set ss2" "src_network s2 = ''recovery''"
      "src_endpoint s2 = ''http://recovery-source-two.invalid/''"
    using ensure_source_er [of "''recovery''" "''http://recovery-source-two.invalid/''" ?db1] by auto
  define db2 where "db2 = db\<lparr>db_next_source := n2, db_sources := ss2\<rparr>"
  from 2 have 2: "ensure_source ''recovery'' ''er'' ''http://recovery-source-two.invalid/'' ?db1 = Inr (s2, db2)"
    by (simp add: db2_def)
  have "database_wf db2" using wf.source [OF 1] wf.source [OF 2] assms(1) by (simp add: stays_wf_def)
  then have "sources_wf db2" by (simp add: database_wf_def)
  then have two: "src_id s1 \<noteq> src_id s2"
    by (rule sources_of_two_endpoints) (use s1 s2 in \<open>auto simp: db2_def\<close>)
  define ids where "ids = [src_id s1, src_id s2]"
  define db3 where "db3 = reset_recovery ids db2"
  have sources3: "db_sources db3 = ss2" by (simp add: db3_def db2_def reset_recovery_def Let_def)
  have known: "known_source (src_id s1) db3" "known_source (src_id s2) db3"
    using s1(1) s2(1,2) by (auto simp: known_source_def sources3 list_ex_iff)
  have gone: "db_observations db3 (src_id s1, k) = None" "db_cursors db3 (src_id s1, name) = None"
    "db_cursors db3 (src_id s2, name) = None" "db_dead_letters db3 (src_id s1, k') = None" for k k' name
    by (simp_all add: db3_def ids_def reset_recovery_def Let_def delete_rows_def of_sources_def)
  have fault: "rolled_back (fault_transaction s1) db3 = (Inr (), db3)"
    using known(1) gone by (simp add: rolled_back_def fault_transaction_def Let_def and_then_def require_def
      upsert_cursor_def known_source_def)
  have none_left: "count_keys (\<lambda>k. fst k = src_id s1) (db_observations db3) = 0"
    "count_keys (\<lambda>k. k = (src_id s1, ''fault'')) (db_cursors db3) = 0"
    using gone(1,2) by (simp_all add: no_keys no_key)
  obtain db4 db5 where letter: "run_statement (record_dead_letter s1 ''dead-letter-signature'' 50 ''log/1''
        UnknownDiscriminator (replicate 16 9) ''{\"fixture\":true}'') db3 = (Inr (), db4)"
      "run_statement (record_dead_letter s1 ''dead-letter-signature'' 50 ''log/1''
        UnknownDiscriminator (replicate 16 9) ''{\"fixture\":true}'') db4 = (Inr (), db5)"
      "Inr (1, 2) = recorded_twice s1 db5"
    and db5: "db_sources db5 = db_sources db3" "db_cursors db5 = db_cursors db3" "others_untouched ids db3 db5"
    using letter_repeated [OF known(1) gone(4)] unfolding ids_def by blast
  have known5: "known_source (src_id s1) db5" "known_source (src_id s2) db5"
    using known db5(1) by (simp_all add: known_source_def)
  obtain db6 db7 where cursors: "run_statement (storage_advance_cursor s1 ''ordering'' ''slot:100'' 100 None) db5 = (Inr (), db6)"
      "run_statement (storage_advance_cursor s1 ''ordering'' ''slot:99'' 99 None) db6 = (Inr (), db6)"
      "run_statement (storage_advance_cursor s2 ''ordering'' ''slot:100'' 100 None) db6 = (Inr (), db7)"
      "recovery_cursor_slot s1 ''ordering'' db7 = (Inr 100, db7)" "recovery_cursor_slot s2 ''ordering'' db7 = (Inr 100, db7)"
    and db7: "db_sources db7 = db_sources db5" "others_untouched ids db5 db7"
    using cursors_in_any_order [OF known5 two] gone(2,3) db5(2) unfolding ids_def by metis
  have known7: "known_source (src_id s1) db7" using known5 db7(1) by (simp add: known_source_def)
  have storable: "storable c (recovery_observation c s1)"
    using assms(2-4) by (simp add: storable_def recovery_observation_def trackable_def)
  obtain db8 where 8: "run_statement (storage_apply c (recovery_observation c s1)) db7 = (Inr (), db8)"
    "known_source (src_id s1) db8" "db_sources db8 = db_sources db7" "others_untouched ids db7 db8"
    using delivered [OF known7 storable s1(2)] unfolding ids_def by blast
  obtain db9 where 9: "run_statement (storage_apply c (recovery_observation c s1)) db8 = (Inr (), db9)"
    "db_sources db9 = db_sources db8" "others_untouched ids db8 db9"
    using delivered [OF 8(2) storable s1(2)] unfolding ids_def by blast
  have once: "card rows - card ((\<lambda>(network, program, m, i). (network, program, m, i)) ` rows) = 0" for rows :: "position_key set"
    by (simp add: case_prod_beta)
  have "recovery_verify c db =
      (Inr \<lparr>rv_scenarios = RECOVERY_SCENARIOS, rv_rollback_observations = 0, rv_rollback_cursors = 0,
        rv_duplicate_dead_letters = 1, rv_duplicate_attempts = 2, rv_source_one_slot = 100,
        rv_source_two_slot = 100, rv_duplicate_positions = 0\<rparr>, db9)"
  proof -
    have e1: "atomically (\<lambda>db. stored (ensure_source ''recovery'' ''er'' ''http://recovery-source-one.invalid/'' db)) db
        = (Inr s1, ?db1)" by (simp add: atomically_def stored_def 1)
    have e2: "atomically (\<lambda>db. stored (ensure_source ''recovery'' ''er'' ''http://recovery-source-two.invalid/'' db)) ?db1
        = (Inr s2, db2)" by (simp add: atomically_def stored_def 2)
    have e3: "run_statement (\<lambda>db. Inr (reset_recovery [src_id s1, src_id s2] db)) db2 = (Inr (), db3)"
      by (simp add: run_statement_def db3_def ids_def)
    have twice: "stored (recorded_twice s1 db5) = Inr (1, 2)" by (simp add: stored_def flip: letter(3))
    show ?thesis
      unfolding recovery_verify_def Let_def
      by (simp only: then_do_def e1 e2 e3 fault query_def none_left letter(1,2) twice lift_def cursors 8(1) 9(1)
        once require_def return_def prod.case sum.case simp_thms if_True)
  qed
  moreover have "others_untouched ids db db9"
    using untouched_sources [of ids db ss2 n2] untouched_reset [of ids db2] db5(3) db7(2) 8(4) 9(3)
    unfolding db3_def db2_def by (blast intro: untouched_trans)
  moreover have "db_sources db9 = ss2" using 9(2) 8(3) db7(1) db5(1) sources3 by simp
  ultimately show ?thesis
    using s1(1,2) s2(1,2,3) unfolding ids_def by (intro exI [of _ db9] exI [of _ s1] exI [of _ s2]) auto
qed

end
