(* ===== verification/Decimal.thy ===== *)
theory Decimal
  imports Rust_Ints
begin

text \<open>
  Decimal numbers as Rust's standard library prints and parses them: \<open>to_string\<close> of an integer and
  \<open>str::parse::<i64>\<close>, with its optional sign and its range check.
\<close>

definition digit_char :: "nat \<Rightarrow> char" where
  "digit_char n = char_of (48 + n)"

fun show_nat :: "nat \<Rightarrow> string" where
  "show_nat n = (if n < 10 then [digit_char n] else show_nat (n div 10) @ [digit_char (n mod 10)])"

definition show_int :: "int \<Rightarrow> string" where
  "show_int i = (if i < 0 then CHR ''-'' # show_nat (nat (- i)) else show_nat (nat i))"

fun parse_digits :: "nat \<Rightarrow> string \<Rightarrow> nat option" where
  "parse_digits n [] = Some n"
| "parse_digits n (c # cs) =
     (let d = of_char c :: nat in
      if 48 \<le> d \<and> d < 58 then parse_digits (n * 10 + (d - 48)) cs else None)"

definition parse_i64 :: "string \<Rightarrow> int option" where
  "parse_i64 s =
     (let negative = (s \<noteq> [] \<and> hd s = CHR ''-'');
          digits = (if s \<noteq> [] \<and> (hd s = CHR ''-'' \<or> hd s = CHR ''+'') then tl s else s) in
      if digits = [] then None
      else Option.bind (parse_digits 0 digits) (\<lambda>n.
        let i = (if negative then - int n else int n) in
        if - (2 ^ 63) \<le> i \<and> i < 2 ^ 63 then Some i else None))"

declare show_nat.simps [simp del]

lemma of_digit_char [simp]: "n < 10 \<Longrightarrow> of_char (digit_char n) = 48 + n"
  by (simp add: digit_char_def)

lemma parse_digits_append:
  "parse_digits n (xs @ ys) = Option.bind (parse_digits n xs) (\<lambda>m. parse_digits m ys)"
  by (induction xs arbitrary: n) (simp_all add: Let_def)

lemma parse_digits_show: "parse_digits 0 (show_nat n) = Some n"
proof (induction n rule: show_nat.induct)
  case (1 n)
  then show ?case
    by (subst show_nat.simps) (simp add: parse_digits_append)
qed

lemma show_nat_head: "\<exists>d cs. d < 10 \<and> show_nat n = digit_char d # cs"
proof (induction n rule: show_nat.induct)
  case (1 n)
  show ?case
  proof (cases "n < 10")
    case False
    with 1 obtain d cs where "d < 10" "show_nat (n div 10) = digit_char d # cs" by blast
    with False show ?thesis by (subst show_nat.simps) auto
  qed (subst show_nat.simps, auto)
qed

lemma show_nat_no_sign:
  "show_nat n \<noteq> []" "hd (show_nat n) \<noteq> CHR ''-''" "hd (show_nat n) \<noteq> CHR ''+''"
proof -
  obtain d cs where d: "d < 10" "show_nat n = digit_char d # cs" using show_nat_head by blast
  have "(of_char (digit_char d) :: nat) \<noteq> of_char (CHR ''-'')"
    "(of_char (digit_char d) :: nat) \<noteq> of_char (CHR ''+'')"
    using d(1) by simp_all
  then show "show_nat n \<noteq> []" "hd (show_nat n) \<noteq> CHR ''-''" "hd (show_nat n) \<noteq> CHR ''+''"
    using d(2) by auto
qed

lemma parse_show_int [simp]:
  assumes "- (2 ^ 63) \<le> i" and "i < 2 ^ 63"
  shows "parse_i64 (show_int i) = Some i"
proof (cases "i < 0")
  case True
  with assms show ?thesis
    using show_nat_no_sign(1) [of "nat (- i)"]
    by (simp add: parse_i64_def show_int_def parse_digits_show)
next
  case False
  with assms show ?thesis
    using show_nat_no_sign [of "nat i"]
    by (simp add: parse_i64_def show_int_def parse_digits_show)
qed

lemma show_nat_inject: "show_nat m = show_nat n \<Longrightarrow> m = n"
  by (metis parse_digits_show option.inject)

lemma minus_show_nat: "CHR ''-'' # xs = show_nat n \<longleftrightarrow> False" "show_nat n = CHR ''-'' # xs \<longleftrightarrow> False"
  using show_nat_no_sign(2) [of n] by (cases "show_nat n"; auto)+

lemma show_int_inject [simp]: "show_int i = show_int j \<longleftrightarrow> i = j"
  by (auto simp: show_int_def minus_show_nat dest!: show_nat_inject split: if_splits)

end
