(* ===== verification/Fixture.thy ===== *)
theory Fixture
  imports Convergence Drills Decimal
begin

text \<open>
  The replay fixture (\<open>fixture.rs\<close>): a lifecycle of one position and one liquidity account is delivered
  twice, and the tables are compared with what one delivery leaves. It passes on every database whose
  fixture source holds nothing else, a second run included. The legacy fixture records two
  transactions of the old event contract, for which no position is made up.
\<close>


section \<open>The fixtures\<close>

definition FIXTURE_USER :: string where "FIXTURE_USER = ''9g9n7TArsFPw7GvPuU8d5NTSAv1mr1gdfDhu97LqryBw''"
definition FIXTURE_DESTINATION :: string where
  "FIXTURE_DESTINATION = ''GmaDrppBC7CeZibMYcvYQiVLn9kNnV9HRDBtTRb9HqvW''"
definition FIXTURE_MARKET :: string where
  "FIXTURE_MARKET = ''6ME7jFHJkk27zAM7hz2A3V1Y4EeTkcjyZxnekQLtn8V1''"

text \<open>2026-07-24T12:00:00Z in seconds.\<close>

definition FIXTURE_START :: int where "FIXTURE_START = 1784894400"

definition fixture_event :: "source \<Rightarrow> nat \<Rightarrow> string \<Rightarrow> domain_event \<Rightarrow> observation" where
  "fixture_event s index signature event =
     \<lparr>ob_source = s, ob_program_id = PROGRAM_ID, ob_signature = signature, ob_slot = of_nat index,
      ob_block_time = Some (to_timestamp (FIXTURE_START + int index)),
      ob_instruction_path = ''0/'' @ show_nat index, ob_cursor_name = ''fixture'',
      ob_cursor_value = show_nat index, ob_event = event\<rparr>"

definition fixture_events :: "source \<Rightarrow> observation list" where
  "fixture_events s =
     [fixture_event s 1 ''fixture-open-v2''
        (PositionCreatedEv 1 7 FIXTURE_USER 100000 1000000 Up 1784894410),
      fixture_event s 2 ''fixture-close-v2'' (PositionClosedEv 1 7 Won 1900000 80000 20000),
      fixture_event s 3 ''fixture-liquidity-deposit-v2''
        (LiquidityDepositedEv 1 FIXTURE_USER 100000000 100000000),
      fixture_event s 4 ''fixture-withdrawal-request-v2''
        (WithdrawalRequestedEv 1 FIXTURE_USER 10000000 9000000),
      fixture_event s 5 ''fixture-withdrawal-execute-v2''
        (WithdrawalExecutedEv 1 FIXTURE_USER 10000000 10000000),
      fixture_event s 6 ''fixture-protocol-fe-withdrawal-v2''
        (ProtocolFeesWithdrawnEv 1 FIXTURE_DESTINATION 20000),
      fixture_event s 7 ''fixture-fallback-claim-v2''
        (FallbackPayoutClaimedEv FIXTURE_USER FIXTURE_DESTINATION 50000),
      fixture_event s 8 ''fixture-withdrawal-cancel-v2'' (WithdrawalCancelledEv 1 FIXTURE_USER 1)]"

record fixture_report =
  fx_passes :: nat
  fx_transactions :: nat
  fx_instructions :: nat
  fx_positions :: nat
  fx_liquidity_events :: nat
  fx_fee_events :: nat
  fx_account_observations :: nat
  fx_pool_balance :: int
  fx_total_shares :: string
  fx_lp_assets :: int
  fx_cursor :: string
  fx_history :: "(int \<times> position_row) list"

text \<open>\<open>count\<close>, by the column that names the source.\<close>

definition count_of_source :: "int \<Rightarrow> (int \<times> 'k \<rightharpoonup> 'v) \<Rightarrow> nat" where
  "count_of_source i t = card {k \<in> dom t. fst k = i}"

definition created_by :: "database \<Rightarrow> position_key \<Rightarrow> int option" where
  "created_by db key = Option.bind (db_positions db key) pr_created_source"

definition count_created_by :: "int \<Rightarrow> database \<Rightarrow> nat" where
  "count_created_by i db = card {key. created_by db key = Some i}"

fun apply_each :: "client \<Rightarrow> observation list \<Rightarrow> unit action" where
  "apply_each c [] = return ()"
| "apply_each c (ob # obs) = then_do (run_statement (storage_apply c ob)) (\<lambda>_. apply_each c obs)"

definition replay_pass :: "client \<Rightarrow> source \<Rightarrow> unit action" where
  "replay_pass c s =
     then_do (apply_each c (fixture_events s)) (\<lambda>_.
     run_statement (record_market_snapshot s PROGRAM_ID 1 FIXTURE_MARKET 9 ''fixture-market-pool-hash''
       90000000 90000000))"

text \<open>The market's two columns, which the query's type takes as not null.\<close>

definition market_pool :: "database \<Rightarrow> (int \<times> int) db_result" where
  "market_pool db =
     (case db_markets db (''fixture'', PROGRAM_ID, 1) of None \<Rightarrow> Inl InvalidRow
      | Some row \<Rightarrow> (case (mr_pool_balance row, mr_total_shares row) of
           (Some pool, Some shares) \<Rightarrow> Inr (pool, shares) | _ \<Rightarrow> Inl InvalidRow))"

text \<open>A market without shares would end the program with a panic at the division; it is an error here.\<close>

definition lp_assets :: "int \<Rightarrow> int \<Rightarrow> indexer_error + int" where
  "lp_assets pool shares =
     (if shares = 0 then Inl InvariantFailed
      else let assets = pool * 90000000 sdiv shares in
        if bigint assets then Inr assets else Inl AmountOverflow)"

definition history_is_won :: "(int \<times> position_row) list \<Rightarrow> bool" where
  "history_is_won history =
     (case history of
        [(_, row)] \<Rightarrow> pr_status row = ''settled'' \<and> pr_outcome row = Some ''won'' \<and>
          net_pnl row = Some 900000 \<and> total_fee_amount row = Some 100000 \<and>
          pr_lp_fee row = Some 80000 \<and> pr_platform_fee row = Some 20000
      | _ \<Rightarrow> False)"

definition replay_report :: "source \<Rightarrow> database \<Rightarrow> indexer_error + fixture_report" where
  "replay_report s db =
     (let i = src_id s;
          transactions = count_of_source i (db_transactions db);
          instructions = count_of_source i (db_instructions db);
          positions = count_created_by i db;
          liquidity_events = count_of_source i (db_liquidity_events db);
          fee_events = count_of_source i (db_fee_events db);
          observations = count_of_source i (db_observations db) in
      and_then (stored (market_pool db)) (\<lambda>(pool, shares).
      and_then (lp_assets pool shares) (\<lambda>assets.
      and_then (ok_or (storage_cursor i ''fixture'' db) (StorageFailed InvalidRow)) (\<lambda>(cursor, _, _).
      let history = user_position_history ''fixture'' PROGRAM_ID 1 FIXTURE_USER db in
      and_then (require (transactions = 8 \<and> instructions = 8 \<and> positions = 1 \<and> liquidity_events = 4 \<and>
        fee_events = 2 \<and> observations = 1 \<and> assets = 90000000 \<and> cursor = ''8'' \<and>
        history_is_won history) InvariantFailed) (\<lambda>_.
      Inr \<lparr>fx_passes = 2, fx_transactions = transactions, fx_instructions = instructions,
           fx_positions = positions, fx_liquidity_events = liquidity_events, fx_fee_events = fee_events,
           fx_account_observations = observations, fx_pool_balance = pool, fx_total_shares = show_int shares,
           fx_lp_assets = assets, fx_cursor = cursor, fx_history = history\<rparr>)))))"

definition replay :: "client \<Rightarrow> fixture_report action" where
  "replay c =
     then_do (atomically (\<lambda>db. stored (ensure_source ''fixture'' ''er'' ''fixture://phase-02'' db))) (\<lambda>s.
     then_do (replay_pass c s) (\<lambda>_.
     then_do (replay_pass c s) (\<lambda>_ db.
     lift (replay_report s db) db)))"


section \<open>The legacy fixture\<close>

definition LEGACY_OPEN_SIGNATURE :: string where
  "LEGACY_OPEN_SIGNATURE =
     ''4Sggfo6JZC9hEtenrQYnSXT3sqDyiGfvNDS6wd8UPd2uDybyKXVNx88Nq1BJ1WieHDYc1wQv3psNWYX2GPVBtw2U''"
definition LEGACY_SETTLEMENT_SIGNATURE :: string where
  "LEGACY_SETTLEMENT_SIGNATURE =
     ''2u7JyLqDjxLsoosMGvmubfXV2qAFn3z6xq4MVr1P9uzsJGg6rbvNSGAQboST5Gxn6EARcMUzgU4GjARKc7p6krtg''"

record legacy_report =
  lr_contract_version :: int
  lr_partial_transactions :: nat
  lr_projected_positions :: nat
  lr_signatures :: "string list"

text \<open>The metadata is printed JSON, by the label.\<close>

definition record_legacy :: "(string \<Rightarrow> string) \<Rightarrow> legacy_report action" where
  "record_legacy metadata =
     then_do (atomically (\<lambda>db. stored (ensure_source ''devnet'' ''er'' ''https://devnet-as.magicblock.app/'' db))) (\<lambda>s.
     then_do (run_statement (record_legacy_transaction s LEGACY_OPEN_SIGNATURE 0 None (metadata ''legacy_open''))) (\<lambda>_.
     then_do (run_statement (record_legacy_transaction s LEGACY_SETTLEMENT_SIGNATURE 0 None
       (metadata ''legacy_settlement''))) (\<lambda>_.
     then_do (query (\<lambda>db. card {k \<in> dom (db_transactions db). fst k = src_id s \<and>
       tx_partial (the (db_transactions db k))})) (\<lambda>partial.
     then_do (query (\<lambda>db. card {k \<in> dom (db_positions db). fst k = ''devnet'' \<and>
       pr_partial (the (db_positions db k))})) (\<lambda>projected.
     then_do (lift (require (2 \<le> partial \<and> projected = 0) InvariantFailed)) (\<lambda>_.
     return \<lparr>lr_contract_version = LEGACY_EVENT_CONTRACT_VERSION, lr_partial_transactions = partial,
       lr_projected_positions = projected,
       lr_signatures = [LEGACY_OPEN_SIGNATURE, LEGACY_SETTLEMENT_SIGNATURE]\<rparr>))))))"


section \<open>One delivery\<close>

fun liquidity_kind :: "domain_event \<Rightarrow> string option" where
  "liquidity_kind (LiquidityDepositedEv _ _ _ _) = Some ''deposit''"
| "liquidity_kind (WithdrawalRequestedEv _ _ _ _) = Some ''withdrawal_requested''"
| "liquidity_kind (WithdrawalCancelledEv _ _ _) = Some ''withdrawal_cancelled''"
| "liquidity_kind (WithdrawalExecutedEv _ _ _ _) = Some ''withdrawal_executed''"
| "liquidity_kind _ = None"

fun fee_kind :: "domain_event \<Rightarrow> string option" where
  "fee_kind (ProtocolFeesWithdrawnEv _ _ _) = Some ''protocol_withdrawal''"
| "fee_kind (FallbackPayoutClaimedEv _ _ _) = Some ''fallback_claim''"
| "fee_kind _ = None"

definition event_keys :: "(domain_event \<Rightarrow> string option) \<Rightarrow> observation \<Rightarrow> event_key set" where
  "event_keys kind ob = (case kind (ob_event ob) of None \<Rightarrow> {} | Some k \<Rightarrow> {event_key_of ob k})"

declare dom_upsert [simp]

lemma created_by_upsert:
  "created_by (upsert_position_created ob m p user price collateral d expires_at db) key =
     (if key = position_key_of ob m p then Some (src_id (ob_source ob)) else created_by db key)"
  by (auto simp: created_by_def upsert_position_created_def Let_def upsert_apply created_row_def
      set_created_def created_distinct_def split: option.split)

lemma created_by_closed:
  "upsert_position_closed ob m p outcome payout lp_fee platform_fee db = Inr db' \<Longrightarrow>
   created_by db' key = created_by db key"
  by (auto simp: created_by_def upsert_position_closed_def Let_def and_then_eq_Inr upsert_apply closed_row_def
      set_closed_def split: option.split)

lemma tracked_only_tracks:
  "track_user_account c ob m user kind seed db = Inr db' \<Longrightarrow> \<exists>t. db' = db\<lparr>db_tracked := t\<rparr>"
  by (auto simp: track_user_account_def Let_def and_then_eq_Inr)

lemma liquidity_only_adds:
  assumes "insert_liquidity_event ob kind m user assets shares min_out db = Inr db'"
  shows "\<exists>t. db' = db\<lparr>db_liquidity_events := t\<rparr> \<and> dom t = insert (event_key_of ob kind) (dom (db_liquidity_events db))"
proof -
  from assms obtain row where
    "db' = db\<lparr>db_liquidity_events := upsert (event_key_of ob kind) row do_nothing (db_liquidity_events db)\<rparr>"
    unfolding insert_liquidity_event_def and_then_eq_Inr sum.inject by blast
  then show ?thesis by (intro exI conjI) (assumption, rule dom_upsert)
qed

lemma fee_only_adds:
  assumes "insert_fee_event ob kind m user destination assets db = Inr db'"
  shows "\<exists>t. db' = db\<lparr>db_fee_events := t\<rparr> \<and> dom t = insert (event_key_of ob kind) (dom (db_fee_events db))"
proof -
  from assms obtain row where
    "db' = db\<lparr>db_fee_events := upsert (event_key_of ob kind) row do_nothing (db_fee_events db)\<rparr>"
    unfolding insert_fee_event_def and_then_eq_Inr sum.inject by blast
  then show ?thesis by (intro exI conjI) (assumption, rule dom_upsert)
qed

lemma created_by_same [simp]:
  "created_by (db\<lparr>db_tracked := tracked\<rparr>) key = created_by db key"
  "created_by (db\<lparr>db_liquidity_events := liquidity\<rparr>) key = created_by db key"
  "created_by (db\<lparr>db_fee_events := fees\<rparr>) key = created_by db key"
  by (simp_all add: created_by_def)

definition creates :: "observation \<Rightarrow> position_key \<Rightarrow> bool" where
  "creates ob key \<longleftrightarrow> (case ob_event ob of
     PositionCreatedEv m p _ _ _ _ _ \<Rightarrow> key = position_key_of ob m p | _ \<Rightarrow> False)"

lemma projection_effects:
  assumes "apply_projection c ob (ob_event ob) db = Inr db'"
  shows "dom (db_liquidity_events db') = dom (db_liquidity_events db) \<union> event_keys liquidity_kind ob \<and>
    dom (db_fee_events db') = dom (db_fee_events db) \<union> event_keys fee_kind ob \<and>
    db_transactions db' = db_transactions db \<and> db_instructions db' = db_instructions db \<and>
    db_observations db' = db_observations db \<and> db_markets db' = db_markets db \<and>
    db_cursors db' = db_cursors db \<and> db_sources db' = db_sources db \<and>
    (\<forall>key. created_by db' key = (if creates ob key then Some (src_id (ob_source ob)) else created_by db key))"
proof (cases "ob_event ob")
  case (PositionCreatedEv m p user price collateral d expires_at)
  with assms obtain t where "db' = upsert_position_created ob m p user price collateral d expires_at db\<lparr>db_tracked := t\<rparr>"
    by (auto dest!: tracked_only_tracks)
  then show ?thesis
    using PositionCreatedEv created_by_upsert [of ob m p user price collateral d expires_at db]
    by (auto simp: event_keys_def creates_def created_by_def upsert_position_created_def Let_def)
next
  case (PositionClosedEv m p outcome payout lp_fee platform_fee)
  with assms created_by_closed show ?thesis
    by (auto simp: event_keys_def creates_def upsert_position_closed_def Let_def and_then_eq_Inr)
next
  case (LiquidityDepositedEv m user assets shares)
  with assms show ?thesis
    by (clarsimp simp: event_keys_def creates_def and_then_eq_Inr dest!: tracked_only_tracks liquidity_only_adds)
next
  case (WithdrawalRequestedEv m user shares min_assets_out)
  with assms show ?thesis
    by (clarsimp simp: event_keys_def creates_def and_then_eq_Inr dest!: tracked_only_tracks liquidity_only_adds)
next
  case (WithdrawalCancelledEv m user shares)
  with assms show ?thesis
    by (clarsimp simp: event_keys_def creates_def and_then_eq_Inr dest!: tracked_only_tracks liquidity_only_adds)
next
  case (WithdrawalExecutedEv m user shares assets)
  with assms show ?thesis
    by (clarsimp simp: event_keys_def creates_def and_then_eq_Inr dest!: tracked_only_tracks liquidity_only_adds)
next
  case (ProtocolFeesWithdrawnEv m destination assets)
  with assms show ?thesis by (clarsimp simp: event_keys_def creates_def dest!: fee_only_adds)
next
  case (FallbackPayoutClaimedEv user destination assets)
  with assms show ?thesis by (clarsimp simp: event_keys_def creates_def dest!: fee_only_adds)
qed

text \<open>What one delivery of a set of events leaves: the keys of each table, and who created which
  position.\<close>

definition delivered_keys :: "observation list \<Rightarrow> database \<Rightarrow> database \<Rightarrow> bool" where
  "delivered_keys obs db db' \<longleftrightarrow>
     dom (db_transactions db') =
       dom (db_transactions db) \<union> (\<lambda>ob. (src_id (ob_source ob), ob_signature ob)) ` set obs \<and>
     dom (db_instructions db') =
       dom (db_instructions db) \<union> (\<lambda>ob. event_key_of ob (event_name (ob_event ob))) ` set obs \<and>
     dom (db_liquidity_events db') = dom (db_liquidity_events db) \<union> (\<Union>ob \<in> set obs. event_keys liquidity_kind ob) \<and>
     dom (db_fee_events db') = dom (db_fee_events db) \<union> (\<Union>ob \<in> set obs. event_keys fee_kind ob) \<and>
     db_observations db' = db_observations db \<and> db_markets db' = db_markets db \<and>
     db_sources db' = db_sources db"

lemma delivered_keys_Nil: "delivered_keys [] db db"
  by (simp add: delivered_keys_def)

lemma delivered_keys_Cons:
  "delivered_keys [ob] db1 db2 \<Longrightarrow> delivered_keys obs db2 db3 \<Longrightarrow> delivered_keys (ob # obs) db1 db3"
  by (simp add: delivered_keys_def Un_assoc)

lemma storage_apply_steps:
  assumes "storage_apply c ob db = Inr db'"
  obtains db1 db2 where "insert_raw_observation c ob db = Inr db1"
    and "apply_projection c ob (ob_event ob) db1 = Inr db2" and "advance_cursor ob db2 = Inr db'"
  using assms unfolding storage_apply_def by (auto simp: and_then_eq_Inr)

lemma raw_effects:
  assumes "insert_raw_observation c ob db = Inr db'"
  shows "dom (db_transactions db') = insert (src_id (ob_source ob), ob_signature ob) (dom (db_transactions db)) \<and>
    dom (db_instructions db') = insert (event_key_of ob (event_name (ob_event ob))) (dom (db_instructions db)) \<and>
    db_liquidity_events db' = db_liquidity_events db \<and> db_fee_events db' = db_fee_events db \<and>
    db_observations db' = db_observations db \<and> db_markets db' = db_markets db \<and>
    db_cursors db' = db_cursors db \<and> db_sources db' = db_sources db \<and> db_positions db' = db_positions db"
  using assms unfolding insert_raw_observation_def and_then_eq_Inr event_key_of_def by clarsimp

lemma cursor_effects:
  assumes "advance_cursor ob db = Inr db'"
  shows "\<exists>t. db' = db\<lparr>db_cursors := t\<rparr> \<and>
    (\<forall>k. t k = (if k = (src_id (ob_source ob), ob_cursor_name ob)
       then (case db_cursors db k of
           Some row \<Rightarrow> if (case cu_slot row of None \<Rightarrow> True | Some current \<Rightarrow> current \<le> sint (ob_slot ob))
             then Some \<lparr>cu_value = ob_cursor_value ob, cu_slot = Some (sint (ob_slot ob)),
               cu_signature = Some (ob_signature ob), cu_updated_at = db_now db\<rparr> else Some row
         | None \<Rightarrow> Some \<lparr>cu_value = ob_cursor_value ob, cu_slot = Some (sint (ob_slot ob)),
             cu_signature = Some (ob_signature ob), cu_updated_at = db_now db\<rparr>)
       else db_cursors db k))"
proof -
  let ?excluded = "\<lparr>cu_value = ob_cursor_value ob, cu_slot = Some (sint (ob_slot ob)),
    cu_signature = Some (ob_signature ob), cu_updated_at = db_now db\<rparr>"
  let ?t = "upsert (src_id (ob_source ob), ob_cursor_name ob) ?excluded
    (\<lambda>row. if (case cu_slot row of None \<Rightarrow> True | Some current \<Rightarrow> current \<le> sint (ob_slot ob))
      then Some ?excluded else None) (db_cursors db)"
  have "db' = db\<lparr>db_cursors := ?t\<rparr>"
    using assms unfolding advance_cursor_def upsert_cursor_def and_then_eq_Inr Let_def sum.inject by blast
  then show ?thesis by (intro exI [of _ ?t]) (simp add: upsert_apply split: option.split)
qed

lemma delivered_effects:
  assumes "storage_apply c ob db = Inr db'"
  shows "delivered_keys [ob] db db' \<and>
    (\<forall>key. created_by db' key = (if creates ob key then Some (src_id (ob_source ob)) else created_by db key))"
proof -
  obtain db1 db2 where raw: "insert_raw_observation c ob db = Inr db1"
    and projected: "apply_projection c ob (ob_event ob) db1 = Inr db2" and cursor: "advance_cursor ob db2 = Inr db'"
    using assms by (rule storage_apply_steps)
  obtain t where db': "db' = db2\<lparr>db_cursors := t\<rparr>" using cursor_effects [OF cursor] by blast
  show ?thesis
    using raw_effects [OF raw] projection_effects [OF projected]
    unfolding db' delivered_keys_def by (simp add: created_by_def)
qed


section \<open>A pass\<close>

text \<open>The cursor of the fixture is at slot n at most.\<close>

definition cursor_within :: "int \<times> string \<Rightarrow> int \<Rightarrow> database \<Rightarrow> bool" where
  "cursor_within k n db \<longleftrightarrow> (case db_cursors db k of None \<Rightarrow> True
     | Some row \<Rightarrow> (case cu_slot row of None \<Rightarrow> True | Some slot \<Rightarrow> slot \<le> n))"

lemma delivered_cursor:
  assumes "storage_apply c ob db = Inr db'" and "k = (src_id (ob_source ob), ob_cursor_name ob)"
    and "sint (ob_slot ob) \<le> n" and "cursor_within k n db"
  shows "cursor_within k n db' \<and> (sint (ob_slot ob) = n \<longrightarrow>
    (\<exists>row. db_cursors db' k = Some row \<and> cu_value row = ob_cursor_value ob))"
proof -
  obtain db1 db2 where raw: "insert_raw_observation c ob db = Inr db1"
    and projected: "apply_projection c ob (ob_event ob) db1 = Inr db2" and cursor: "advance_cursor ob db2 = Inr db'"
    using assms(1) by (rule storage_apply_steps)
  have same: "db_cursors db2 = db_cursors db"
    using raw_effects [OF raw] projection_effects [OF projected] by simp
  show ?thesis
    using cursor_effects [OF cursor] assms(2-4)
    unfolding same cursor_within_def by (auto split: option.splits if_splits)
qed

lemma pass_runs:
  assumes "\<forall>ob \<in> set obs. storable c ob \<and> 0 \<le> sint (ob_slot ob) \<and> src_id (ob_source ob) = i \<and>
      ob_cursor_name ob = name \<and> sint (ob_slot ob) \<le> n"
    and "known_source i db" and "database_wf db" and "cursor_within (i, name) n db"
  shows "\<exists>db'. apply_each c obs db = (Inr (), db') \<and> database_wf db' \<and> delivered_keys obs db db' \<and>
    cursor_within (i, name) n db' \<and>
    (obs \<noteq> [] \<and> sint (ob_slot (last obs)) = n \<longrightarrow>
      (\<exists>row. db_cursors db' (i, name) = Some row \<and> cu_value row = ob_cursor_value (last obs))) \<and>
    (\<forall>key. created_by db' key = (if \<exists>ob \<in> set obs. creates ob key then Some i else created_by db key)) \<and>
    (\<forall>key. knowledge_of (db_positions db' key) = fold learn (events_at key obs) (knowledge_of (db_positions db key)))"
  using assms
proof (induction obs arbitrary: db)
  case Nil
  then show ?case by (simp add: return_def delivered_keys_Nil)
next
  case (Cons ob obs)
  have "succeeds (storage_apply c ob db)"
    using Cons.prems(1,2) unfolding storage_apply_def batch_succeeds by simp
  then obtain db1 where 1: "storage_apply c ob db = Inr db1" by (auto simp: succeeds_def)
  have ob: "src_id (ob_source ob) = i" "ob_cursor_name ob = name" "sint (ob_slot ob) \<le> n"
    using Cons.prems(1) by simp_all
  note effects = delivered_effects [OF 1]
  have wf1: "database_wf db1"
    using wf.batch [OF 1 [unfolded storage_apply_def]] Cons.prems(3) by (simp add: stays_wf_def)
  have known1: "known_source i db1"
    using effects Cons.prems(2) by (simp add: delivered_keys_def known_source_def)
  note cursor1 = delivered_cursor [OF 1, of "(i, name)" n] 
  have within1: "cursor_within (i, name) n db1" using cursor1 ob Cons.prems(4) by simp
  obtain db' where rest: "apply_each c obs db1 = (Inr (), db')" "database_wf db'" "delivered_keys obs db1 db'"
    "cursor_within (i, name) n db'"
    "obs \<noteq> [] \<and> sint (ob_slot (last obs)) = n \<longrightarrow>
      (\<exists>row. db_cursors db' (i, name) = Some row \<and> cu_value row = ob_cursor_value (last obs))"
    "\<forall>key. created_by db' key = (if \<exists>ob \<in> set obs. creates ob key then Some i else created_by db1 key)"
    "\<forall>key. knowledge_of (db_positions db' key) = fold learn (events_at key obs) (knowledge_of (db_positions db1 key))"
    using Cons.IH [OF _ known1 wf1 within1] Cons.prems(1) by auto
  have "apply_each c (ob # obs) db = (Inr (), db')"
    by (simp add: then_do_def run_statement_def 1 rest(1))
  moreover have "delivered_keys (ob # obs) db db'" using effects rest(3) by (blast intro: delivered_keys_Cons)
  moreover have "sint (ob_slot (last (ob # obs))) = n \<longrightarrow>
      (\<exists>row. db_cursors db' (i, name) = Some row \<and> cu_value row = ob_cursor_value (last (ob # obs)))"
    using rest(1,5) cursor1 ob Cons.prems(4) by (cases obs) (simp_all add: return_def)
  moreover have "\<forall>key. created_by db' key = (if \<exists>ob \<in> set (ob # obs). creates ob key then Some i else created_by db key)"
    using rest(6) effects ob(1) by simp
  moreover have "\<forall>key. knowledge_of (db_positions db' key) =
      fold learn (events_at key (ob # obs)) (knowledge_of (db_positions db key))"
    using rest(7) batch_learned [OF 1 [unfolded storage_apply_def] Cons.prems(3)] by simp
  ultimately show ?case using rest(2,4) by blast
qed


section \<open>The replay passes\<close>

abbreviation fixture_position :: position_key where
  "fixture_position \<equiv> (''fixture'', PROGRAM_ID, 1, 7)"

text \<open>The fixture's source holds nothing but the fixture, all of it, some or none.\<close>

definition fixture_only :: "source \<Rightarrow> database \<Rightarrow> bool" where
  "fixture_only s db \<longleftrightarrow>
     {k \<in> dom (db_transactions db). fst k = src_id s} \<subseteq> (\<lambda>ob. (src_id s, ob_signature ob)) ` set (fixture_events s) \<and>
     {k \<in> dom (db_instructions db). fst k = src_id s} \<subseteq>
       (\<lambda>ob. event_key_of ob (event_name (ob_event ob))) ` set (fixture_events s) \<and>
     {k \<in> dom (db_liquidity_events db). fst k = src_id s} \<subseteq> (\<Union>ob \<in> set (fixture_events s). event_keys liquidity_kind ob) \<and>
     {k \<in> dom (db_fee_events db). fst k = src_id s} \<subseteq> (\<Union>ob \<in> set (fixture_events s). event_keys fee_kind ob) \<and>
     {k \<in> dom (db_observations db). fst k = src_id s} \<subseteq> {(src_id s, FIXTURE_MARKET, 9, ''fixture-market-pool-hash'')} \<and>
     (\<forall>key. created_by db key = Some (src_id s) \<longrightarrow> key = fixture_position) \<and>
     (\<forall>p row. db_positions db (''fixture'', PROGRAM_ID, 1, p) = Some row \<longrightarrow> pr_user row = Some FIXTURE_USER \<longrightarrow> p = 7) \<and>
     cursor_within (src_id s, ''fixture'') 8 db \<and>
     (\<forall>row slot. db_markets db (''fixture'', PROGRAM_ID, 1) = Some row \<longrightarrow> mr_last_slot row = Some slot \<longrightarrow> slot \<le> 9)"

definition fixture_libraries :: "client \<Rightarrow> bool" where
  "fixture_libraries c \<longleftrightarrow> parse_pubkey c PROGRAM_ID \<noteq> None \<and> parse_pubkey c FIXTURE_USER \<noteq> None \<and>
     (\<forall>event. to_json c event \<noteq> None)"

lemma fixture_events_fit:
  assumes "fixture_libraries c"
  shows "\<forall>ob \<in> set (fixture_events s). storable c ob \<and> 0 \<le> sint (ob_slot ob) \<and> src_id (ob_source ob) = src_id s \<and>
    ob_cursor_name ob = ''fixture'' \<and> sint (ob_slot ob) \<le> 8"
  using assms by (simp add: fixture_events_def fixture_event_def storable_def fixture_libraries_def trackable_def fits_bigint_def)

lemma last_fixture_event:
  "fixture_events s \<noteq> []" "sint (ob_slot (last (fixture_events s))) = 8"
  "ob_cursor_value (last (fixture_events s)) = ''8''"
  by (simp_all add: fixture_events_def fixture_event_def show_nat.simps digit_char_def char_of_eq_iff)

lemma fixture_keys_counted:
  "card ((\<lambda>ob. (src_id s, ob_signature ob)) ` set (fixture_events s)) = 8"
  "card ((\<lambda>ob. event_key_of ob (event_name (ob_event ob))) ` set (fixture_events s)) = 8"
  "card (\<Union>ob \<in> set (fixture_events s). event_keys liquidity_kind ob) = 4"
  "card (\<Union>ob \<in> set (fixture_events s). event_keys fee_kind ob) = 2"
  by (simp_all add: fixture_events_def fixture_event_def event_key_of_def event_keys_def)

lemma fixture_keys_of_source:
  "k \<in> (\<lambda>ob. (src_id (ob_source ob), ob_signature ob)) ` set (fixture_events s) \<Longrightarrow> fst k = src_id s"
  "k' \<in> (\<lambda>ob. event_key_of ob (event_name (ob_event ob))) ` set (fixture_events s) \<Longrightarrow> fst k' = src_id s"
  "k' \<in> (\<Union>ob \<in> set (fixture_events s). event_keys liquidity_kind ob) \<Longrightarrow> fst k' = src_id s"
  "k' \<in> (\<Union>ob \<in> set (fixture_events s). event_keys fee_kind ob) \<Longrightarrow> fst k' = src_id s"
  by (auto simp: fixture_events_def fixture_event_def event_key_of_def event_keys_def)

lemma fixture_creates:
  assumes "src_network s = ''fixture''"
  shows "(\<exists>ob \<in> set (fixture_events s). creates ob key) \<longleftrightarrow> key = fixture_position"
  using assms by (auto simp: fixture_events_def fixture_event_def creates_def position_key_of_def)

definition fixture_creation :: creation where
  "fixture_creation = (Some FIXTURE_USER, Some 100000, Some 1000000, Some ''up'',
     Some (to_timestamp 1784894410), Some (to_timestamp 1784894400))"

definition fixture_closing :: closing where
  "fixture_closing = (''settled'', Some ''won'', Some 1900000, Some 80000, Some 20000)"

lemma fixture_learned:
  assumes "src_network s = ''fixture''"
  shows "fold learn (events_at key (fixture_events s)) known =
    (if key = fixture_position then (Some fixture_creation, Some fixture_closing) else known)"
  using assms by (auto simp: fixture_events_def fixture_event_def position_key_of_def learn_def
      fixture_creation_def fixture_closing_def)

definition fixture_complete :: "source \<Rightarrow> database \<Rightarrow> bool" where
  "fixture_complete s db \<longleftrightarrow>
     count_of_source (src_id s) (db_transactions db) = 8 \<and> count_of_source (src_id s) (db_instructions db) = 8 \<and>
     count_of_source (src_id s) (db_liquidity_events db) = 4 \<and> count_of_source (src_id s) (db_fee_events db) = 2 \<and>
     count_of_source (src_id s) (db_observations db) = 1 \<and> count_created_by (src_id s) db = 1 \<and>
     market_pool db = Inr (90000000, 90000000) \<and>
     (\<exists>slot g. storage_cursor (src_id s) ''fixture'' db = Some (''8'', slot, g)) \<and>
     knowledge_of (db_positions db fixture_position) = (Some fixture_creation, Some fixture_closing)"

lemma count_completed:
  assumes "{k \<in> dom t. fst k = i} \<subseteq> ks" and "dom t' = dom t \<union> ks" and "\<And>k. k \<in> ks \<Longrightarrow> fst k = i"
  shows "count_of_source i t' = card ks" and "{k \<in> dom t'. fst k = i} \<subseteq> ks"
proof -
  have "{k \<in> dom t'. fst k = i} = ks" using assms by blast
  then show "count_of_source i t' = card ks" "{k \<in> dom t'. fst k = i} \<subseteq> ks"
    unfolding count_of_source_def by simp_all
qed

lemma snapshot_effects:
  assumes "known_source (src_id s) db" and "src_network s = ''fixture''"
    and "\<forall>row slot. db_markets db (''fixture'', PROGRAM_ID, 1) = Some row \<longrightarrow> mr_last_slot row = Some slot \<longrightarrow> slot \<le> 9"
  shows "\<exists>observations markets.
    run_statement (record_market_snapshot s PROGRAM_ID 1 FIXTURE_MARKET 9 ''fixture-market-pool-hash''
      90000000 90000000) db = (Inr (), db\<lparr>db_observations := observations, db_markets := markets\<rparr>) \<and>
    dom observations = insert (src_id s, FIXTURE_MARKET, 9, ''fixture-market-pool-hash'') (dom (db_observations db)) \<and>
    (\<exists>row. markets (''fixture'', PROGRAM_ID, 1) = Some row \<and> mr_pool_balance row = Some 90000000 \<and>
      mr_total_shares row = Some 90000000 \<and> mr_last_slot row = Some 9)"
proof -
  let ?fresh = "\<lparr>mr_pubkey = Some FIXTURE_MARKET, mr_mode = None, mr_total_shares = Some 90000000,
    mr_open_collateral = None, mr_active_positions = None, mr_pool_balance = Some 90000000,
    mr_last_source = Some (src_id s), mr_last_slot = Some 9, mr_updated_at = db_now db\<rparr>"
  let ?update = "\<lambda>row. if (case mr_last_slot row of None \<Rightarrow> True | Some current \<Rightarrow> current \<le> 9)
    then Some (row\<lparr>mr_pubkey := Some FIXTURE_MARKET, mr_total_shares := Some 90000000, mr_pool_balance := Some 90000000,
      mr_last_source := Some (src_id s), mr_last_slot := Some 9, mr_updated_at := db_now db\<rparr>) else None"
  let ?markets = "upsert (''fixture'', PROGRAM_ID, 1) ?fresh ?update (db_markets db)"
  let ?observations = "upsert (src_id s, FIXTURE_MARKET, 9, ''fixture-market-pool-hash'')
    \<lparr>ao_owner = PROGRAM_ID, ao_type = ''market_pool_snapshot'', ao_payload = SnapshotPayload 90000000 90000000\<rparr>
    do_nothing (db_observations db)"
  have "record_market_snapshot s PROGRAM_ID 1 FIXTURE_MARKET 9 ''fixture-market-pool-hash'' 90000000 90000000 db =
      Inr (db\<lparr>db_observations := ?observations, db_markets := ?markets\<rparr>)"
    using assms(1,2) by (simp add: record_market_snapshot_def to_bigint_def and_then_def require_def
      cong del: if_weak_cong option.case_cong_weak)
  moreover have "\<exists>row. ?markets (''fixture'', PROGRAM_ID, 1) = Some row \<and> mr_pool_balance row = Some 90000000 \<and>
      mr_total_shares row = Some 90000000 \<and> mr_last_slot row = Some 9"
    using assms(3) by (auto simp: upsert_apply split: option.split)
  ultimately show ?thesis
    by (intro exI [of _ ?observations] exI [of _ ?markets]) (simp add: run_statement_def)
qed

lemma creation_user: "creation_of row = Some (user, rest) \<Longrightarrow> pr_user row = user"
  by (auto simp: creation_of_def split: if_splits)

lemma pass_completes:
  assumes "fixture_only s db" and "database_wf db" and "known_source (src_id s) db"
    and "src_network s = ''fixture''" and "fixture_libraries c"
  shows "\<exists>db'. replay_pass c s db = (Inr (), db') \<and> database_wf db' \<and> known_source (src_id s) db' \<and>
    fixture_only s db' \<and> fixture_complete s db'"
proof -
  let ?events = "fixture_events s" and ?i = "src_id s"
  have within: "cursor_within (?i, ''fixture'') 8 db" using assms(1) by (simp add: fixture_only_def)
  note pass = pass_runs [OF fixture_events_fit [OF assms(5)] assms(3,2) within,
      unfolded last_fixture_event(2,3) fixture_creates [OF assms(4)] fixture_learned [OF assms(4)]]
  obtain db1 where run: "apply_each c ?events db = (Inr (), db1)" and wf1: "database_wf db1"
    and keys: "delivered_keys ?events db db1" and within1: "cursor_within (?i, ''fixture'') 8 db1"
    and last: "?events \<noteq> [] \<and> (8 :: int) = 8 \<longrightarrow>
      (\<exists>row. db_cursors db1 (?i, ''fixture'') = Some row \<and> cu_value row = ''8'')"
    and created: "\<forall>key. created_by db1 key = (if key = fixture_position then Some ?i else created_by db key)"
    and known: "\<forall>key. knowledge_of (db_positions db1 key) =
      (if key = fixture_position then (Some fixture_creation, Some fixture_closing) else knowledge_of (db_positions db key))"
    using pass by (elim exE conjE) (rule that)
  have cursor: "\<exists>row. db_cursors db1 (?i, ''fixture'') = Some row \<and> cu_value row = ''8''"
    using last last_fixture_event(1) by blast
  note created = created [rule_format] and known = known [rule_format]
  have known1: "known_source ?i db1" using keys assms(3) by (simp add: delivered_keys_def known_source_def)
  have market1: "db_markets db1 = db_markets db" and observations1: "db_observations db1 = db_observations db"
    using keys by (simp_all add: delivered_keys_def)
  have slots: "\<forall>row slot. db_markets db1 (''fixture'', PROGRAM_ID, 1) = Some row \<longrightarrow> mr_last_slot row = Some slot \<longrightarrow> slot \<le> 9"
    using assms(1) unfolding market1 fixture_only_def by blast
  obtain observations markets where snapshot:
    "run_statement (record_market_snapshot s PROGRAM_ID 1 FIXTURE_MARKET 9 ''fixture-market-pool-hash''
      90000000 90000000) db1 = (Inr (), db1\<lparr>db_observations := observations, db_markets := markets\<rparr>)"
    and observations: "dom observations = insert (?i, FIXTURE_MARKET, 9, ''fixture-market-pool-hash'') (dom (db_observations db1))"
    and market: "\<exists>row. markets (''fixture'', PROGRAM_ID, 1) = Some row \<and> mr_pool_balance row = Some 90000000 \<and>
      mr_total_shares row = Some 90000000 \<and> mr_last_slot row = Some 9"
    using snapshot_effects [OF known1 assms(4) slots] by blast
  define db2 where "db2 = db1\<lparr>db_observations := observations, db_markets := markets\<rparr>"
  have "replay_pass c s db = (Inr (), db2)"
    by (simp add: replay_pass_def then_do_def run snapshot db2_def)
  moreover have "database_wf db2"
    using wf1 stays_wf_same [of db2 db1] by (simp add: stays_wf_def db2_def)
  moreover have "known_source ?i db2" using known1 by (simp add: db2_def known_source_def)
  moreover have "fixture_only s db2 \<and> fixture_complete s db2"
  proof -
    have keys2: "dom (db_transactions db2) = dom (db_transactions db) \<union> (\<lambda>ob. (src_id (ob_source ob), ob_signature ob)) ` set ?events"
      "dom (db_instructions db2) = dom (db_instructions db) \<union> (\<lambda>ob. event_key_of ob (event_name (ob_event ob))) ` set ?events"
      "dom (db_liquidity_events db2) = dom (db_liquidity_events db) \<union> (\<Union>ob \<in> set ?events. event_keys liquidity_kind ob)"
      "dom (db_fee_events db2) = dom (db_fee_events db) \<union> (\<Union>ob \<in> set ?events. event_keys fee_kind ob)"
      "dom (db_observations db2) = dom (db_observations db) \<union> {(?i, FIXTURE_MARKET, 9, ''fixture-market-pool-hash'')}"
      using keys observations unfolding observations1 by (simp_all add: delivered_keys_def db2_def)
    have sources: "(\<lambda>ob. (src_id (ob_source ob), ob_signature ob)) ` set ?events = (\<lambda>ob. (?i, ob_signature ob)) ` set ?events"
      by (simp add: fixture_events_def fixture_event_def)
    have only: "{k \<in> dom (db_transactions db). fst k = ?i} \<subseteq> (\<lambda>ob. (?i, ob_signature ob)) ` set ?events"
      "{k \<in> dom (db_instructions db). fst k = ?i} \<subseteq> (\<lambda>ob. event_key_of ob (event_name (ob_event ob))) ` set ?events"
      "{k \<in> dom (db_liquidity_events db). fst k = ?i} \<subseteq> (\<Union>ob \<in> set ?events. event_keys liquidity_kind ob)"
      "{k \<in> dom (db_fee_events db). fst k = ?i} \<subseteq> (\<Union>ob \<in> set ?events. event_keys fee_kind ob)"
      "{k \<in> dom (db_observations db). fst k = ?i} \<subseteq> {(?i, FIXTURE_MARKET, 9, ''fixture-market-pool-hash'')}"
      and creator: "\<And>key. created_by db key = Some ?i \<Longrightarrow> key = fixture_position"
      and owner: "\<And>p row. db_positions db (''fixture'', PROGRAM_ID, 1, p) = Some row \<Longrightarrow>
        pr_user row = Some FIXTURE_USER \<Longrightarrow> p = 7"
      using assms(1) unfolding fixture_only_def by blast+
    note transactions = count_completed [OF only(1) keys2(1) [unfolded sources] fixture_keys_of_source(1) [of _ s, unfolded sources]]
    note instructions = count_completed [OF only(2) keys2(2) fixture_keys_of_source(2)]
    note liquidity = count_completed [OF only(3) keys2(3) fixture_keys_of_source(3)]
    note fees = count_completed [OF only(4) keys2(4) fixture_keys_of_source(4)]
    have observed: "count_of_source ?i (db_observations db2) = 1"
      "{k \<in> dom (db_observations db2). fst k = ?i} \<subseteq> {(?i, FIXTURE_MARKET, 9, ''fixture-market-pool-hash'')}"
      using count_completed [OF only(5) keys2(5)] by simp_all
    have created2: "created_by db2 key = (if key = fixture_position then Some ?i else created_by db key)" for key
      using created [of key] by (simp add: created_by_def db2_def)
    have positions2: "db_positions db2 = db_positions db1" and cursors2: "db_cursors db2 = db_cursors db1"
      by (simp_all add: db2_def)
    have "{key. created_by db2 key = Some ?i} = {fixture_position}"
      using creator unfolding created2 by auto
    then have "count_created_by ?i db2 = 1" by (simp add: count_created_by_def)
    moreover have "p = 7" if row: "db_positions db2 (''fixture'', PROGRAM_ID, 1, p) = Some row"
      and user: "pr_user row = Some FIXTURE_USER" for p row
    proof (rule ccontr)
      assume other: "p \<noteq> 7"
      have creation: "creation_of row = Some (Some FIXTURE_USER, pr_entry_price row, pr_collateral row, pr_direction row,
          pr_expires_at row, pr_opened_at row)" using user by (simp add: creation_of_def)
      have "knowledge_of (db_positions db (''fixture'', PROGRAM_ID, 1, p)) = (creation_of row, closing_of row)"
        using known [of "(''fixture'', PROGRAM_ID, 1, p)"] other row unfolding positions2 by simp
      then obtain row0 where row0: "db_positions db (''fixture'', PROGRAM_ID, 1, p) = Some row0"
        and "creation_of row0 = creation_of row"
        unfolding creation by (cases "db_positions db (''fixture'', PROGRAM_ID, 1, p)") auto
      then have "pr_user row0 = Some FIXTURE_USER" unfolding creation by (simp add: creation_user)
      with owner [OF row0] other show False by simp
    qed
    moreover have "cursor_within (?i, ''fixture'') 8 db2"
      using within1 by (simp add: cursor_within_def cursors2)
    moreover obtain row where "db_markets db2 (''fixture'', PROGRAM_ID, 1) = Some row" "mr_pool_balance row = Some 90000000"
      "mr_total_shares row = Some 90000000" "mr_last_slot row = Some 9"
      using market by (auto simp: db2_def)
    moreover from this have "market_pool db2 = Inr (90000000, 90000000)" by (simp add: market_pool_def)
    moreover have "\<exists>slot g. storage_cursor ?i ''fixture'' db2 = Some (''8'', slot, g)"
      using cursor by (auto simp: storage_cursor_def cursors2)
    moreover have "knowledge_of (db_positions db2 fixture_position) = (Some fixture_creation, Some fixture_closing)"
      using known [of fixture_position] by (simp add: positions2)
    moreover have "created_by db2 key = Some ?i \<longrightarrow> key = fixture_position" for key
      using creator unfolding created2 by auto
    ultimately show ?thesis
      using transactions instructions liquidity fees observed
      unfolding fixture_only_def fixture_complete_def fixture_keys_counted by auto
  qed
  ultimately show ?thesis by blast
qed

text \<open>A complete fixture is what the report asks for.\<close>

lemma complete_history:
  assumes "fixture_only s db" and "fixture_complete s db"
  shows "\<exists>row. user_position_history ''fixture'' PROGRAM_ID 1 FIXTURE_USER db = [(7, row)] \<and>
    history_is_won [(7, row)]"
proof -
  obtain row where row: "db_positions db fixture_position = Some row"
    and known: "creation_of row = Some fixture_creation" "closing_of row = Some fixture_closing"
    using assms(2) unfolding fixture_complete_def by (cases "db_positions db fixture_position") simp_all
  have user: "pr_user row = Some FIXTURE_USER" and collateral: "pr_collateral row = Some 1000000"
    using known(1) unfolding creation_of_def fixture_creation_def by (simp_all split: if_splits)
  have "\<And>p row. db_positions db (''fixture'', PROGRAM_ID, 1, p) = Some row \<Longrightarrow>
      pr_user row = Some FIXTURE_USER \<Longrightarrow> p = 7"
    using assms(1) unfolding fixture_only_def by blast
  then have "{i. \<exists>r. db_positions db (''fixture'', PROGRAM_ID, 1, i) = Some r \<and> pr_user r = Some FIXTURE_USER} = {7}"
    using row user by blast
  then have "user_position_history ''fixture'' PROGRAM_ID 1 FIXTURE_USER db = [(7, row)]"
    using row by (simp add: user_position_history_def)
  moreover have "history_is_won [(7, row)]"
    using known(2) collateral
    by (auto simp: history_is_won_def net_pnl_def total_fee_amount_def closing_of_def fixture_closing_def split: if_splits)
  ultimately show ?thesis by blast
qed

lemma complete_reports:
  assumes "fixture_only s db" and "fixture_complete s db"
  shows "\<exists>history. replay_report s db = Inr \<lparr>fx_passes = 2, fx_transactions = 8, fx_instructions = 8,
    fx_positions = 1, fx_liquidity_events = 4, fx_fee_events = 2, fx_account_observations = 1,
    fx_pool_balance = 90000000, fx_total_shares = show_int 90000000, fx_lp_assets = 90000000, fx_cursor = ''8'',
    fx_history = history\<rparr> \<and> history_is_won history"
proof -
  obtain row where history: "user_position_history ''fixture'' PROGRAM_ID 1 FIXTURE_USER db = [(7, row)]"
    and won: "history_is_won [(7, row)]"
    using complete_history [OF assms] by blast
  obtain slot g where cursor: "storage_cursor (src_id s) ''fixture'' db = Some (''8'', slot, g)"
    using assms(2) by (auto simp: fixture_complete_def)
  have assets: "lp_assets 90000000 90000000 = Inr 90000000"
    by (simp add: lp_assets_def signed_divide_int_def bigint_def)
  have counts: "count_of_source (src_id s) (db_transactions db) = 8" "count_of_source (src_id s) (db_instructions db) = 8"
     "count_of_source (src_id s) (db_liquidity_events db) = 4" "count_of_source (src_id s) (db_fee_events db) = 2"
     "count_of_source (src_id s) (db_observations db) = 1" "count_created_by (src_id s) db = 1"
     "market_pool db = Inr (90000000, 90000000)"
    using assms(2) by (simp_all add: fixture_complete_def)
  show ?thesis
    unfolding replay_report_def Let_def counts history cursor
    by (intro exI [of _ "[(7, row)]"]) (simp add: stored_def and_then_def ok_or_def assets require_def won)
qed

text \<open>Delivering the fixture twice leaves one position, four liquidity events, two fee events and a cursor
  at the last event, and the position won what it should have; and the fixture can be run again.\<close>

theorem replay_passes:
  assumes "database_wf db" and "fixture_libraries c"
    and "ensure_source ''fixture'' ''er'' ''fixture://phase-02'' db = Inr (s, db0)" and "fixture_only s db0"
  shows "\<exists>history db'. replay c db = (Inr \<lparr>fx_passes = 2, fx_transactions = 8, fx_instructions = 8,
      fx_positions = 1, fx_liquidity_events = 4, fx_fee_events = 2, fx_account_observations = 1,
      fx_pool_balance = 90000000, fx_total_shares = show_int 90000000, fx_lp_assets = 90000000, fx_cursor = ''8'',
      fx_history = history\<rparr>, db') \<and> history_is_won history \<and> fixture_only s db' \<and> database_wf db'"
proof -
  obtain s' n ss where "ensure_source ''fixture'' ''er'' ''fixture://phase-02'' db =
      Inr (s', db\<lparr>db_next_source := n, db_sources := ss\<rparr>)" and "s' \<in> set ss" and "src_network s' = ''fixture''"
    using ensure_source_er by blast
  with assms(3) have source: "src_network s = ''fixture''" "known_source (src_id s) db0"
    by (auto simp: known_source_def list_ex_iff)
  have wf0: "database_wf db0" using wf.source [OF assms(3)] assms(1) by (simp add: stays_wf_def)
  obtain db1 where 1: "replay_pass c s db0 = (Inr (), db1)" "database_wf db1" "known_source (src_id s) db1" "fixture_only s db1"
    using pass_completes [OF assms(4) wf0 source(2,1) assms(2)] by blast
  obtain db2 where 2: "replay_pass c s db1 = (Inr (), db2)" "database_wf db2" "fixture_only s db2" "fixture_complete s db2"
    using pass_completes [OF 1(4,2,3) source(1) assms(2)] by blast
  obtain history where report: "replay_report s db2 = Inr \<lparr>fx_passes = 2, fx_transactions = 8, fx_instructions = 8,
      fx_positions = 1, fx_liquidity_events = 4, fx_fee_events = 2, fx_account_observations = 1,
      fx_pool_balance = 90000000, fx_total_shares = show_int 90000000, fx_lp_assets = 90000000, fx_cursor = ''8'',
      fx_history = history\<rparr>" and won: "history_is_won history"
    using complete_reports [OF 2(3,4)] by blast
  have "atomically (\<lambda>db. stored (ensure_source ''fixture'' ''er'' ''fixture://phase-02'' db)) db = (Inr s, db0)"
    by (simp add: atomically_def stored_def assms(3))
  then have "replay c db = (replay_report s db2, db2)"
    by (simp add: replay_def then_do_def 1(1) 2(1) lift_def)
  then show ?thesis using report won 2(2,3) by auto
qed

end
