(* ===== verification/Api_Cursor.thy ===== *)
theory Api_Cursor
  imports Ingest Decimal
begin

text \<open>
  The API's errors, request parameters and page cursors (\<open>crates/api/src/error.rs\<close>, \<open>models.rs\<close>,
  \<open>cursor.rs\<close>). A cursor is the JSON of its fields and the first eight bytes of their hash, in
  base64url.
\<close>


section \<open>Errors\<close>

datatype api_error = InvalidRequest string | CursorStale | NotFound string | IndexUnavailable

fun api_status :: "api_error \<Rightarrow> nat" where
  "api_status (InvalidRequest message) = 400"
| "api_status CursorStale = 409"
| "api_status (NotFound message) = 404"
| "api_status IndexUnavailable = 503"

fun api_code :: "api_error \<Rightarrow> string" where
  "api_code (InvalidRequest message) = ''invalid_request''"
| "api_code CursorStale = ''cursor_stale''"
| "api_code (NotFound message) = ''not_found''"
| "api_code IndexUnavailable = ''index_unavailable''"

fun api_message :: "api_error \<Rightarrow> string" where
  "api_message (InvalidRequest message) = message"
| "api_message CursorStale = ''The leaderboard changed; restart pagination from the first page.''"
| "api_message (NotFound message) = message"
| "api_message IndexUnavailable =
     ''Indexed history is temporarily unavailable; live gameplay is unaffected.''"


section \<open>Request parameters\<close>

datatype period = Today | ThisWeek | ThisMonth | AllTime

fun period_str :: "period \<Rightarrow> string" where
  "period_str Today = ''today''"
| "period_str ThisWeek = ''week''"
| "period_str ThisMonth = ''month''"
| "period_str AllTime = ''all''"

definition period_from_str :: "string \<Rightarrow> api_error + period" where
  "period_from_str value =
     (if value = ''today'' then Inr Today
      else if value = ''week'' then Inr ThisWeek
      else if value = ''month'' then Inr ThisMonth
      else if value = ''all'' then Inr AllTime
      else Inl (InvalidRequest ''period must be today, week, month, or all''))"

definition parse_period :: "string option \<Rightarrow> api_error + period" where
  "parse_period value = period_from_str (case value of None \<Rightarrow> ''all'' | Some v \<Rightarrow> v)"

datatype position_status = StatusOpen | StatusClosed | StatusRefunded

fun position_status_str :: "position_status \<Rightarrow> string" where
  "position_status_str StatusOpen = ''open''"
| "position_status_str StatusClosed = ''closed''"
| "position_status_str StatusRefunded = ''refunded''"

definition position_status_from_str :: "string \<Rightarrow> api_error + position_status" where
  "position_status_from_str value =
     (if value = ''open'' then Inr StatusOpen
      else if value = ''closed'' then Inr StatusClosed
      else if value = ''refunded'' then Inr StatusRefunded
      else Inl (InvalidRequest ''status must be open, closed, or refunded''))"

definition DEFAULT_LIMIT :: u16 where "DEFAULT_LIMIT = 20"
definition MAX_LIMIT :: u16 where "MAX_LIMIT = 100"

definition page_limit :: "u16 option \<Rightarrow> api_error + u16" where
  "page_limit value =
     (let limit = (case value of None \<Rightarrow> DEFAULT_LIMIT | Some v \<Rightarrow> v) in
      if limit = 0 \<or> MAX_LIMIT < limit
      then Inl (InvalidRequest ''limit must be between 1 and 100'') else Inr limit)"

lemma page_limit_bounds: "page_limit value = Inr limit \<Longrightarrow> 0 < unat limit \<and> unat limit \<le> 100"
  by (auto simp: page_limit_def Let_def MAX_LIMIT_def word_less_nat_alt unat_gt_0 split: if_splits)


section \<open>Cursors\<close>

record leaderboard_cursor =
  lc_fingerprint :: string
  lc_refresh_version :: int
  lc_rank :: int

record history_cursor =
  hc_fingerprint :: string
  hc_timestamp_micros :: int
  hc_market_id :: int
  hc_identity :: string

text \<open>The crates and services the API calls: \<open>serde_json\<close> for the two payloads, SHA-256, base64url
  without padding, \<open>Pubkey::from_str\<close>, whether \<open>chrono\<close> can hold a time, and the database's
  \<open>date_trunc\<close> of a period with the start of the next one.\<close>

record api_libraries =
  al_leaderboard_json :: "leaderboard_cursor \<Rightarrow> bytes option"
  al_leaderboard_parse :: "bytes \<Rightarrow> leaderboard_cursor option"
  al_history_json :: "history_cursor \<Rightarrow> bytes option"
  al_history_parse :: "bytes \<Rightarrow> history_cursor option"
  al_sha256 :: "bytes \<Rightarrow> bytes"
  al_base64url :: "bytes \<Rightarrow> string"
  al_base64url_decode :: "string \<Rightarrow> bytes option"
  al_parse_pubkey :: "string \<Rightarrow> pubkey option"
  al_valid_micros :: "int \<Rightarrow> bool"
  al_period_start :: "period \<Rightarrow> int \<Rightarrow> int"
  al_period_end :: "period \<Rightarrow> int \<Rightarrow> int"

definition CHECKSUM_BYTES :: nat where "CHECKSUM_BYTES = 8"
definition MAX_CURSOR_BYTES :: nat where "MAX_CURSOR_BYTES = 512"

definition encode_cursor :: "api_libraries \<Rightarrow> ('a \<Rightarrow> bytes option) \<Rightarrow> 'a \<Rightarrow> api_error + string" where
  "encode_cursor l json payload =
     and_then (ok_or (json payload) (InvalidRequest ''cursor payload could not be encoded'')) (\<lambda>bytes.
     Inr (al_base64url l (bytes @ take CHECKSUM_BYTES (al_sha256 l bytes))))"

definition decode_cursor :: "api_libraries \<Rightarrow> (bytes \<Rightarrow> 'a option) \<Rightarrow> string \<Rightarrow> api_error + 'a" where
  "decode_cursor l parse value =
     and_then (require (length value \<le> MAX_CURSOR_BYTES) (InvalidRequest ''cursor is too large'')) (\<lambda>_.
     and_then (ok_or (al_base64url_decode l value)
       (InvalidRequest ''cursor is not valid base64url'')) (\<lambda>bytes.
     and_then (require (CHECKSUM_BYTES < length bytes) (InvalidRequest ''cursor is truncated'')) (\<lambda>_.
     let payload = take (length bytes - CHECKSUM_BYTES) bytes;
         provided = drop (length bytes - CHECKSUM_BYTES) bytes in
     and_then (require (provided = take CHECKSUM_BYTES (al_sha256 l payload))
       (InvalidRequest ''cursor checksum is invalid'')) (\<lambda>_.
     ok_or (parse payload) (InvalidRequest ''cursor payload is invalid'')))))"


text \<open>What the code relies on: JSON and base64 are inverted by their readers, and a hash has at least
  the eight bytes that are kept.\<close>

definition cursor_law :: "api_libraries \<Rightarrow> ('a \<Rightarrow> bytes option) \<Rightarrow> (bytes \<Rightarrow> 'a option) \<Rightarrow> bool" where
  "cursor_law l json parse \<longleftrightarrow>
     (\<forall>payload bytes. json payload = Some bytes \<longrightarrow> bytes \<noteq> [] \<and> parse bytes = Some payload) \<and>
     (\<forall>bytes. al_base64url_decode l (al_base64url l bytes) = Some bytes) \<and>
     (\<forall>bytes. CHECKSUM_BYTES \<le> length (al_sha256 l bytes))"

lemma cursor_round_trip:
  assumes "cursor_law l json parse" and "encode_cursor l json payload = Inr value"
    and "length value \<le> MAX_CURSOR_BYTES"
  shows "decode_cursor l parse value = Inr payload"
proof -
  from assms(2) obtain bytes where bytes: "json payload = Some bytes"
    and v: "value = al_base64url l (bytes @ take CHECKSUM_BYTES (al_sha256 l bytes))"
    by (auto simp: encode_cursor_def and_then_eq_Inr ok_or_eq_Inr)
  from assms(1) bytes have "bytes \<noteq> []" "parse bytes = Some payload"
    and "al_base64url_decode l value = Some (bytes @ take CHECKSUM_BYTES (al_sha256 l bytes))"
    and "length (take CHECKSUM_BYTES (al_sha256 l bytes)) = CHECKSUM_BYTES"
    by (simp_all add: cursor_law_def v min_absorb2)
  with assms(3) show ?thesis
    by (simp add: decode_cursor_def)
qed

text \<open>A cursor that is accepted carries the checksum of its payload.\<close>

lemma cursor_checked:
  assumes "decode_cursor l parse value = Inr payload"
  shows "\<exists>bytes. al_base64url_decode l value = Some (bytes @ take CHECKSUM_BYTES (al_sha256 l bytes)) \<and>
    parse bytes = Some payload"
proof -
  from assms obtain all where all: "al_base64url_decode l value = Some all"
    and tail: "drop (length all - CHECKSUM_BYTES) all =
      take CHECKSUM_BYTES (al_sha256 l (take (length all - CHECKSUM_BYTES) all))"
    and parsed: "parse (take (length all - CHECKSUM_BYTES) all) = Some payload"
    by (auto simp: decode_cursor_def Let_def result_simps)
  have "all = take (length all - CHECKSUM_BYTES) all @ drop (length all - CHECKSUM_BYTES) all" by simp
  with all tail parsed show ?thesis by metis
qed

end
