(* ===== verification/Pages.thy ===== *)
theory Pages
  imports Prelude "HOL-Library.Product_Lexorder" "HOL-Library.List_Lexorder" "HOL-Library.Char_ord"
begin

text \<open>
  Keyset pagination, as the list routes of the API use it: a query asks for one row more than a page
  holds, the page is cut to its limit, and the last row of a full page is where the next one resumes.
  The locale states what a query owes its caller for the pages to be the rows.
\<close>


section \<open>A query and its pages\<close>

text \<open>\<open>ORDER BY key DESC LIMIT n\<close> over the keys below \<open>after\<close>.\<close>

definition newest_first :: "'k::linorder set \<Rightarrow> 'k list" where
  "newest_first keys = rev (sorted_list_of_set keys)"

definition rows_before :: "'k::linorder set \<Rightarrow> 'k option \<Rightarrow> nat \<Rightarrow> 'k list" where
  "rows_before keys after n =
     take n (newest_first {k \<in> keys. case after of None \<Rightarrow> True | Some a \<Rightarrow> k < a})"

text \<open>\<open>if rows.len() > limit\<close>: the page, and the row its cursor names.\<close>

definition cut_page :: "nat \<Rightarrow> 'a list \<Rightarrow> 'a list \<times> 'a option" where
  "cut_page limit rows =
     (if limit < length rows
      then (take limit rows, if take limit rows = [] then None else Some (last (take limit rows)))
      else (rows, None))"

lemma cut_page_take:
  "0 < limit \<Longrightarrow> cut_page limit (take (limit + 1) ys) =
    (if limit < length ys then (take limit ys, Some (last (take limit ys))) else (ys, None))"
  by (auto simp: cut_page_def min_def)

lemma cut_page_map:
  "cut_page limit (map f rows) =
    (map f (fst (cut_page limit rows)), map_option f (snd (cut_page limit rows)))"
  by (auto simp: cut_page_def take_map last_map)

lemma cut_page_last: "snd (cut_page limit rows) = Some k \<Longrightarrow> k \<in> set rows"
  by (auto simp: cut_page_def split: if_splits intro!: in_set_takeD [where n = limit and xs = rows] last_in_set)

text \<open>Following the cursors until a page has none. \<open>None\<close> when that takes more than \<open>fuel\<close> pages.\<close>

fun walk_pages :: "nat \<Rightarrow> ('k option \<Rightarrow> nat \<Rightarrow> 'k list) \<Rightarrow> nat \<Rightarrow> 'k option \<Rightarrow> 'k list option" where
  "walk_pages 0 fetch limit after = None"
| "walk_pages (Suc fuel) fetch limit after =
     (case cut_page limit (fetch after (limit + 1)) of
        (page, None) \<Rightarrow> Some page
      | (page, Some k) \<Rightarrow>
          map_option ((@) page) (walk_pages fuel fetch limit (Some k)))"


section \<open>The contract\<close>

locale keyset =
  fixes fetch :: "'k option \<Rightarrow> nat \<Rightarrow> 'k list"
    and rows :: "'k list"
  assumes first: "fetch None n = take n rows"
    and resume: "rows = xs @ k # ys \<Longrightarrow> fetch (Some k) n = take n ys"
begin

lemma rest_fetched:
  assumes "rows = xs @ ys" and "after = (if xs = [] then None else Some (last xs))"
  shows "fetch after n = take n ys"
proof (cases xs rule: rev_cases)
  case Nil
  with assms first show ?thesis by simp
next
  case (snoc zs k)
  with assms(1) have "rows = zs @ k # ys" by simp
  from resume [OF this] snoc assms(2) show ?thesis by simp
qed

lemma walk_rest:
  assumes "rows = xs @ ys" and "after = (if xs = [] then None else Some (last xs))"
    and "0 < limit" and "length ys < fuel"
  shows "walk_pages fuel fetch limit after = Some ys"
  using assms
proof (induction fuel arbitrary: xs ys after)
  case (Suc fuel)
  have rows: "fetch after (limit + 1) = take (limit + 1) ys" by (rule rest_fetched [OF Suc.prems(1,2)])
  show ?case
  proof (cases "limit < length ys")
    case True
    define page where "page = take limit ys"
    have page: "page \<noteq> []" and ys: "ys = page @ drop limit ys"
      using True Suc.prems(3) by (auto simp: page_def)
    have "walk_pages fuel fetch limit (Some (last page)) = Some (drop limit ys)"
    proof (rule Suc.IH)
      show "rows = (xs @ page) @ drop limit ys" using Suc.prems(1) ys by simp
      show "Some (last page) = (if xs @ page = [] then None else Some (last (xs @ page)))"
        using page(1) by simp
      show "length (drop limit ys) < fuel" using Suc.prems(3,4) True by simp
    qed (rule Suc.prems(3))
    then show ?thesis
      using True ys
      by (simp only: walk_pages.simps rows cut_page_take [OF Suc.prems(3)] page_def [symmetric]
          if_True prod.case option.case option.map)
  next
    case False
    then show ?thesis
      by (simp only: walk_pages.simps rows cut_page_take [OF Suc.prems(3)] if_False prod.case option.case)
  qed
qed simp

lemma walk_exact: "0 < limit \<Longrightarrow> length rows < fuel \<Longrightarrow> walk_pages fuel fetch limit None = Some rows"
  by (rule walk_rest [where xs = "[]"]) simp_all

end


section \<open>Descending keys\<close>

lemma newest_first_set [simp]: "finite keys \<Longrightarrow> set (newest_first keys) = keys"
  by (simp add: newest_first_def)

lemma newest_first_distinct [simp]: "distinct (newest_first keys)"
  by (simp add: newest_first_def)

lemma length_newest_first [simp]: "length (newest_first keys) = card keys"
  by (simp add: newest_first_def)

lemma newest_first_descending: "sorted_wrt (>) (newest_first keys)"
  by (simp add: newest_first_def sorted_wrt_rev flip: strict_sorted_iff)

lemma newest_first_unique:
  assumes "sorted_wrt (>) xs" and "set xs = keys"
  shows "newest_first keys = xs"
proof -
  have "sorted_wrt (<) (rev xs)" using assms(1) by (simp add: sorted_wrt_rev)
  then have "sorted_list_of_set keys = rev xs"
    using assms(2) by (metis set_rev sorted_list_of_set.idem_if_sorted_distinct strict_sorted_iff)
  then show ?thesis by (simp add: newest_first_def)
qed

lemma rows_below:
  assumes "finite keys" and "newest_first keys = xs @ k # ys"
  shows "newest_first {j \<in> keys. j < k} = ys"
proof (rule newest_first_unique)
  have desc: "sorted_wrt (>) (xs @ k # ys)"
    using newest_first_descending [of keys] by (simp add: assms(2))
  then show "sorted_wrt (>) ys" by (simp add: sorted_wrt_append)
  have "keys = set xs \<union> {k} \<union> set ys"
    using newest_first_set [OF assms(1)] by (simp add: assms(2))
  moreover have "\<forall>x \<in> set xs. k < x" and "\<forall>y \<in> set ys. y < k"
    using desc by (simp_all add: sorted_wrt_append)
  ultimately show "set ys = {j \<in> keys. j < k}" by auto
qed

text \<open>A query by a key that no two rows share honours the contract.\<close>

lemma newest_first_infinite [simp]: "infinite keys \<Longrightarrow> newest_first keys = []"
  by (simp add: newest_first_def)

interpretation descending: keyset "rows_before keys" "newest_first keys"
proof unfold_locales
  fix xs k ys n
  assume rows: "newest_first keys = xs @ k # ys"
  then have "finite keys" by (cases "finite keys") simp_all
  from rows_below [OF this rows] show "rows_before keys (Some k) n = take n ys"
    by (simp add: rows_before_def)
qed (simp add: rows_before_def)

end
