(* ===== verification/Api.thy ===== *)
theory Api
  imports Api_Cursor Pages
begin

text \<open>
  The public read API (\<open>crates/api/src/lib.rs\<close>, \<open>metrics.rs\<close>): its metrics, the query timeout, the
  queries over the tables and the leaderboards, and the handler of every route. A handler's queries
  see the database one after the other, so each is given what it reads; a query may also be refused
  or time out.
\<close>


section \<open>State and metrics\<close>

record api_state =
  as_network :: string
  as_program :: string
  as_query_timeout :: nat
  as_max_staleness :: nat

record api_metrics =
  am_requests :: u64
  am_errors :: u64
  am_active :: u64
  am_latency_micros :: u64
  am_query_timeouts :: u64
  am_stale_responses :: u64
  am_position_sockets :: u64
  am_position_messages :: u64
  am_position_resyncs :: u64
  am_listener_connected :: bool
  am_listener_reconnects :: u64

definition default_metrics :: api_metrics where
  "default_metrics =
     \<lparr>am_requests = 0, am_errors = 0, am_active = 0, am_latency_micros = 0, am_query_timeouts = 0,
      am_stale_responses = 0, am_position_sockets = 0, am_position_messages = 0,
      am_position_resyncs = 0, am_listener_connected = False, am_listener_reconnects = 0\<rparr>"

text \<open>\<open>fetch_add\<close> wraps.\<close>

definition record_query_timeout :: "api_metrics \<Rightarrow> api_metrics" where
  "record_query_timeout m = m\<lparr>am_query_timeouts := am_query_timeouts m + 1\<rparr>"

definition record_stale_response :: "api_metrics \<Rightarrow> api_metrics" where
  "record_stale_response m = m\<lparr>am_stale_responses := am_stale_responses m + 1\<rparr>"

definition position_socket_opened :: "api_metrics \<Rightarrow> api_metrics" where
  "position_socket_opened m = m\<lparr>am_position_sockets := am_position_sockets m + 1\<rparr>"

definition position_socket_closed :: "api_metrics \<Rightarrow> api_metrics" where
  "position_socket_closed m = m\<lparr>am_position_sockets := am_position_sockets m - 1\<rparr>"

definition position_message_sent :: "api_metrics \<Rightarrow> api_metrics" where
  "position_message_sent m = m\<lparr>am_position_messages := am_position_messages m + 1\<rparr>"

definition position_resync :: "api_metrics \<Rightarrow> api_metrics" where
  "position_resync m = m\<lparr>am_position_resyncs := am_position_resyncs m + 1\<rparr>"

definition set_position_listener_connected :: "bool \<Rightarrow> api_metrics \<Rightarrow> api_metrics" where
  "set_position_listener_connected connected m = m\<lparr>am_listener_connected := connected\<rparr>"

definition position_listener_reconnect :: "api_metrics \<Rightarrow> api_metrics" where
  "position_listener_reconnect m = m\<lparr>am_listener_reconnects := am_listener_reconnects m + 1\<rparr>"


section \<open>Handlers as actions on the metrics\<close>

type_synonym 'a api_action = "api_metrics \<Rightarrow> (api_error + 'a) \<times> api_metrics"

definition respond :: "'a \<Rightarrow> 'a api_action" where
  "respond x m = (Inr x, m)"

definition api_then :: "'a api_action \<Rightarrow> ('a \<Rightarrow> 'b api_action) \<Rightarrow> 'b api_action" where
  "api_then f k m = (case f m of (Inl e, m) \<Rightarrow> (Inl e, m) | (Inr x, m) \<Rightarrow> k x m)"

definition check :: "api_error + 'a \<Rightarrow> 'a api_action" where
  "check r m = (r, m)"

text \<open>What a query meets: the database at its moment, an error of the driver, or no answer within the
  timeout.\<close>

datatype reading = Reads database | Refuses | TimesOut

definition timed :: "api_state \<Rightarrow> reading \<Rightarrow> (database \<Rightarrow> 'a) \<Rightarrow> 'a api_action" where
  "timed st reading query m =
     (if as_query_timeout st = 0 then (Inl IndexUnavailable, record_query_timeout m)
      else case reading of
        Reads db \<Rightarrow> (Inr (query db), m)
      | Refuses \<Rightarrow> (Inl IndexUnavailable, m)
      | TimesOut \<Rightarrow> (Inl IndexUnavailable, record_query_timeout m))"

definition projection_status :: "api_state \<Rightarrow> reading \<Rightarrow> refresh_row api_action" where
  "projection_status st reading = timed st reading db_refresh"

record response_metadata =
  me_as_of :: int
  me_high_water :: "int option"
  me_refresh_version :: int
  me_stale :: bool
  me_next_cursor :: "string option"

record 'a envelope =
  env_data :: 'a
  env_meta :: response_metadata

text \<open>\<open>TimeDelta::from_std\<close> saturates at the largest span, 2^63 - 1 milliseconds. Times and spans are
  in microseconds.\<close>

definition projection_stale :: "api_state \<Rightarrow> int \<Rightarrow> int option \<Rightarrow> bool" where
  "projection_stale st now last_success =
     (case last_success of None \<Rightarrow> True
      | Some success \<Rightarrow> min (int (as_max_staleness st)) ((2 ^ 63 - 1) * 1000) < now - success)"

definition response_meta ::
    "api_state \<Rightarrow> int \<Rightarrow> refresh_row \<Rightarrow> string option \<Rightarrow> response_metadata api_action" where
  "response_meta st now status next_cursor m =
     (let stale = projection_stale st now (rf_last_success status) in
      (Inr \<lparr>me_as_of = (case rf_last_success status of None \<Rightarrow> now | Some t \<Rightarrow> t),
            me_high_water = rf_high_water status, me_refresh_version = rf_version status,
            me_stale = stale, me_next_cursor = next_cursor\<rparr>,
       if stale then record_stale_response m else m))"

definition enveloped ::
    "api_state \<Rightarrow> int \<Rightarrow> 'a \<Rightarrow> refresh_row \<Rightarrow> string option \<Rightarrow> 'a envelope api_action" where
  "enveloped st now rows status next_cursor =
     api_then (response_meta st now status next_cursor) (\<lambda>meta.
     respond \<lparr>env_data = rows, env_meta = meta\<rparr>)"

definition validate_wallet :: "api_libraries \<Rightarrow> string \<Rightarrow> api_error + pubkey" where
  "validate_wallet l wallet =
     ok_or (al_parse_pubkey l wallet) (InvalidRequest ''wallet must be a Solana public key'')"

definition cursor_time :: "api_libraries \<Rightarrow> history_cursor option \<Rightarrow> api_error + int option" where
  "cursor_time l cursor =
     (case cursor of None \<Rightarrow> Inr None
      | Some c \<Rightarrow>
          if al_valid_micros l (hc_timestamp_micros c) then Inr (Some (hc_timestamp_micros c))
          else Inl (InvalidRequest ''cursor timestamp is invalid''))"

text \<open>\<open>.as_deref().map(decode).transpose()?\<close> and the comparison of its fingerprint.\<close>

definition history_after ::
    "api_libraries \<Rightarrow> string \<Rightarrow> string option \<Rightarrow> string \<Rightarrow> api_error + history_cursor option" where
  "history_after l fingerprint cursor other =
     (case cursor of None \<Rightarrow> Inr None
      | Some text \<Rightarrow>
          and_then (decode_cursor l (al_history_parse l) text) (\<lambda>c.
          if hc_fingerprint c \<noteq> fingerprint then Inl (InvalidRequest other) else Inr (Some c)))"

definition market_label :: "string \<Rightarrow> u16 option \<Rightarrow> string" where
  "market_label everything market_id =
     (case market_id of None \<Rightarrow> everything | Some i \<Rightarrow> show_nat (unat i))"

definition market_matches :: "u16 option \<Rightarrow> int \<Rightarrow> bool" where
  "market_matches market_id m \<longleftrightarrow> (case market_id of None \<Rightarrow> True | Some i \<Rightarrow> int (unat i) = m)"


section \<open>Leaderboards\<close>

record leaderboard_entry =
  lb_rank :: int
  lb_user :: string
  lb_trades :: int
  lb_wins :: int
  lb_losses :: int
  lb_breakevens :: int
  lb_refunds :: int
  lb_volume :: string
  lb_payout :: string
  lb_net_pnl :: string
  lb_lp_fees :: string
  lb_platform_fees :: string
  lb_total_fees :: string
  lb_win_rate_bps :: int

text \<open>The materialized views of \<open>migrations/0003_api_and_leaderboards.sql\<close> over the positions and the
  clock of their last refresh: the closed positions of a period by user, aggregated, and the users in
  the order of their rank.\<close>

type_synonym board = "(position_key \<rightharpoonup> position_row) \<times> int"

definition in_period :: "api_libraries \<Rightarrow> period \<Rightarrow> int \<Rightarrow> int \<Rightarrow> bool" where
  "in_period l p at closed \<longleftrightarrow>
     p = AllTime \<or> al_period_start l p at \<le> closed \<and> closed < al_period_end l p at"

definition board_keys ::
    "api_libraries \<Rightarrow> api_state \<Rightarrow> period \<Rightarrow> u16 option \<Rightarrow> board \<Rightarrow> string \<Rightarrow> (int \<times> int) set" where
  "board_keys l st p market_id board user =
     {(m, i). \<exists>row closed. fst board (as_network st, as_program st, m, i) = Some row \<and>
        market_matches market_id m \<and> pr_user row = Some user \<and>
        (pr_status row = ''settled'' \<or> pr_status row = ''refunded'') \<and>
        pr_closed_at row = Some closed \<and> in_period l p (snd board) closed}"

definition board_row :: "api_state \<Rightarrow> board \<Rightarrow> int \<times> int \<Rightarrow> position_row" where
  "board_row st board key = the (fst board (as_network st, as_program st, fst key, snd key))"

definition played :: "position_row \<Rightarrow> bool" where
  "played row \<longleftrightarrow> (case pr_outcome row of None \<Rightarrow> False | Some outcome \<Rightarrow> outcome \<noteq> ''refunded'')"

text \<open>\<open>count(*) FILTER\<close> and \<open>COALESCE(sum(..) FILTER, 0)\<close>.\<close>

definition count_rows :: "(position_row \<Rightarrow> bool) \<Rightarrow> position_row list \<Rightarrow> int" where
  "count_rows p rows = int (length (filter p rows))"

definition sum_rows :: "(position_row \<Rightarrow> int option) \<Rightarrow> position_row list \<Rightarrow> int" where
  "sum_rows f rows = sum_list (List.map_filter f (filter played rows))"

definition board_entry :: "int \<Rightarrow> string \<Rightarrow> position_row list \<Rightarrow> leaderboard_entry" where
  "board_entry rank user rows =
     (let ended = (\<lambda>outcome. count_rows (\<lambda>row. pr_outcome row = Some outcome) rows);
          wins = ended ''won''; losses = ended ''lost'' in
      \<lparr>lb_rank = rank, lb_user = user, lb_trades = count_rows played rows, lb_wins = wins,
       lb_losses = losses, lb_breakevens = ended ''breakeven'', lb_refunds = ended ''refunded'',
       lb_volume = show_int (sum_rows pr_collateral rows),
       lb_payout = show_int (sum_rows pr_payout rows),
       lb_net_pnl = show_int (sum_rows net_pnl rows),
       lb_lp_fees = show_int (sum_rows pr_lp_fee rows),
       lb_platform_fees = show_int (sum_rows pr_platform_fee rows),
       lb_total_fees = show_int (sum_rows total_fee_amount rows),
       lb_win_rate_bps = (if wins + losses = 0 then 0 else wins * 10000 div (wins + losses))\<rparr>)"

definition board_rows ::
    "api_libraries \<Rightarrow> api_state \<Rightarrow> period \<Rightarrow> u16 option \<Rightarrow> board \<Rightarrow> string \<Rightarrow> position_row list" where
  "board_rows l st p market_id board user =
     map (board_row st board) (sorted_list_of_set (board_keys l st p market_id board user))"

text \<open>\<open>ORDER BY net_pnl DESC, volume DESC, user_pubkey ASC\<close>.\<close>

definition ranking ::
    "api_libraries \<Rightarrow> api_state \<Rightarrow> period \<Rightarrow> u16 option \<Rightarrow> board \<Rightarrow> (int \<times> int \<times> string) list" where
  "ranking l st p market_id board = sorted_list_of_set
     ((\<lambda>user. let rows = board_rows l st p market_id board user in
        (- sum_rows net_pnl rows, - sum_rows pr_collateral rows, user)) `
      {user. board_keys l st p market_id board user \<noteq> {}})"

definition leaderboard ::
    "api_libraries \<Rightarrow> api_state \<Rightarrow> period \<Rightarrow> u16 option \<Rightarrow> database \<Rightarrow> leaderboard_entry list" where
  "leaderboard l st p market_id db =
     (let board = (if market_id = None then db_global_board db else db_market_board db) in
      map (\<lambda>(rank, _, _, user).
          board_entry (int rank) user (board_rows l st p market_id board user))
        (enumerate 1 (ranking l st p market_id board)))"

definition leaderboard_page ::
    "api_libraries \<Rightarrow> api_state \<Rightarrow> period \<Rightarrow> u16 option \<Rightarrow> int option \<Rightarrow> nat \<Rightarrow> database \<Rightarrow>
     leaderboard_entry list" where
  "leaderboard_page l st p market_id after_rank n db =
     take n (filter (\<lambda>e. (case after_rank of None \<Rightarrow> 0 | Some r \<Rightarrow> r) < lb_rank e)
       (leaderboard l st p market_id db))"

record leaderboard_query =
  lq_period :: "string option"
  lq_market_id :: "u16 option"
  lq_limit :: "u16 option"
  lq_cursor :: "string option"

definition leaderboard_fingerprint :: "period \<Rightarrow> u16 option \<Rightarrow> string" where
  "leaderboard_fingerprint p market_id = period_str p @ '':'' @ market_label ''global'' market_id"

definition after_rank ::
    "api_libraries \<Rightarrow> string \<Rightarrow> refresh_row \<Rightarrow> string option \<Rightarrow> api_error + int option" where
  "after_rank l fingerprint status cursor =
     (case cursor of None \<Rightarrow> Inr None
      | Some text \<Rightarrow>
          and_then (decode_cursor l (al_leaderboard_parse l) text) (\<lambda>c.
          if lc_fingerprint c \<noteq> fingerprint
          then Inl (InvalidRequest ''cursor belongs to a different leaderboard'')
          else if lc_refresh_version c \<noteq> rf_version status then Inl CursorStale
          else Inr (Some (lc_rank c))))"

text \<open>The cursor of a page that was cut, encoded; \<open>cursor_of\<close> makes it of the last row.\<close>

definition next_cursor ::
    "api_libraries \<Rightarrow> ('c \<Rightarrow> bytes option) \<Rightarrow> ('r \<Rightarrow> 'c) \<Rightarrow> 'r option \<Rightarrow> api_error + string option" where
  "next_cursor l json cursor_of last_row =
     (case last_row of None \<Rightarrow> Inr None
      | Some row \<Rightarrow> and_then (encode_cursor l json (cursor_of row)) (\<lambda>text. Inr (Some text)))"

definition leaderboards ::
    "api_libraries \<Rightarrow> api_state \<Rightarrow> int \<Rightarrow> leaderboard_query \<Rightarrow> reading \<Rightarrow> reading \<Rightarrow>
     leaderboard_entry list envelope api_action" where
  "leaderboards l st now query status_reading rows_reading =
     api_then (check (parse_period (lq_period query))) (\<lambda>p.
     api_then (check (page_limit (lq_limit query))) (\<lambda>limit.
     api_then (projection_status st status_reading) (\<lambda>status.
     let fingerprint = leaderboard_fingerprint p (lq_market_id query) in
     api_then (check (after_rank l fingerprint status (lq_cursor query))) (\<lambda>after.
     api_then (timed st rows_reading
       (leaderboard_page l st p (lq_market_id query) after (unat limit + 1))) (\<lambda>rows.
     let (page, last_row) = cut_page (unat limit) rows in
     api_then (check (next_cursor l (al_leaderboard_json l)
       (\<lambda>e. \<lparr>lc_fingerprint = fingerprint, lc_refresh_version = rf_version status,
             lc_rank = lb_rank e\<rparr>) last_row)) (\<lambda>cursor.
     enveloped st now page status cursor))))))"

record wallet_stats =
  us_user :: string
  us_period :: period
  us_market_id :: "u16 option"
  us_trades :: int
  us_wins :: int
  us_losses :: int
  us_breakevens :: int
  us_refunds :: int
  us_volume :: string
  us_payout :: string
  us_net_pnl :: string
  us_lp_fees :: string
  us_platform_fees :: string
  us_total_fees :: string
  us_win_rate_bps :: int
  us_rank :: "int option"

definition empty_stats :: "string \<Rightarrow> period \<Rightarrow> u16 option \<Rightarrow> wallet_stats" where
  "empty_stats user p market_id =
     \<lparr>us_user = user, us_period = p, us_market_id = market_id, us_trades = 0, us_wins = 0,
      us_losses = 0, us_breakevens = 0, us_refunds = 0, us_volume = ''0'', us_payout = ''0'',
      us_net_pnl = ''0'', us_lp_fees = ''0'', us_platform_fees = ''0'', us_total_fees = ''0'',
      us_win_rate_bps = 0, us_rank = None\<rparr>"

definition stats_of :: "period \<Rightarrow> u16 option \<Rightarrow> leaderboard_entry \<Rightarrow> wallet_stats" where
  "stats_of p market_id e =
     \<lparr>us_user = lb_user e, us_period = p, us_market_id = market_id, us_trades = lb_trades e,
      us_wins = lb_wins e, us_losses = lb_losses e, us_breakevens = lb_breakevens e,
      us_refunds = lb_refunds e, us_volume = lb_volume e, us_payout = lb_payout e,
      us_net_pnl = lb_net_pnl e, us_lp_fees = lb_lp_fees e, us_platform_fees = lb_platform_fees e,
      us_total_fees = lb_total_fees e, us_win_rate_bps = lb_win_rate_bps e,
      us_rank = Some (lb_rank e)\<rparr>"

definition user_stats ::
    "api_libraries \<Rightarrow> api_state \<Rightarrow> int \<Rightarrow> string \<Rightarrow> string option \<Rightarrow> u16 option \<Rightarrow> reading \<Rightarrow> reading \<Rightarrow>
     wallet_stats envelope api_action" where
  "user_stats l st now wallet period_text market_id status_reading rows_reading =
     api_then (check (validate_wallet l wallet)) (\<lambda>_.
     api_then (check (parse_period period_text)) (\<lambda>p.
     api_then (projection_status st status_reading) (\<lambda>status.
     api_then (timed st rows_reading
       (\<lambda>db. find (\<lambda>e. lb_user e = wallet) (leaderboard l st p market_id db))) (\<lambda>row.
     enveloped st now (case row of None \<Rightarrow> empty_stats wallet p market_id
       | Some e \<Rightarrow> stats_of p market_id e) status None))))"

end
