(* ===== verification/Api_History.thy ===== *)
theory Api_History
  imports Api
begin

text \<open>
  The history routes of the API (\<open>crates/api/src/lib.rs\<close>): a wallet's positions and liquidity events
  page by page, one position, one market, readiness and metrics, and the middleware every request
  passes.
\<close>


section \<open>Positions\<close>

record position_item =
  pi_market_id :: int
  pi_position_id :: int
  pi_user :: "string option"
  pi_direction :: "string option"
  pi_entry_price :: "string option"
  pi_collateral :: "string option"
  pi_expires_at :: "int option"
  pi_lifecycle_status :: string
  pi_checkpoint_status :: string
  pi_outcome :: "string option"
  pi_payout_amount :: "string option"
  pi_lp_fee_amount :: "string option"
  pi_platform_fee_amount :: "string option"
  pi_total_fee_amount :: "string option"
  pi_net_pnl :: "string option"
  pi_opened_at :: "int option"
  pi_closed_at :: "int option"
  pi_sort_time :: int

text \<open>\<open>COALESCE(closed_at, opened_at, expires_at, to_timestamp(0))\<close>.\<close>

definition sort_time :: "position_row \<Rightarrow> int" where
  "sort_time row =
     (case pr_closed_at row of Some t \<Rightarrow> t
      | None \<Rightarrow> (case pr_opened_at row of Some t \<Rightarrow> t
        | None \<Rightarrow> (case pr_expires_at row of Some t \<Rightarrow> t | None \<Rightarrow> 0)))"

definition item_of_row :: "int \<Rightarrow> int \<Rightarrow> position_row \<Rightarrow> position_item" where
  "item_of_row m i row =
     \<lparr>pi_market_id = m, pi_position_id = i, pi_user = pr_user row, pi_direction = pr_direction row,
      pi_entry_price = map_option show_int (pr_entry_price row),
      pi_collateral = map_option show_int (pr_collateral row), pi_expires_at = pr_expires_at row,
      pi_lifecycle_status = pr_status row, pi_checkpoint_status = pr_checkpoint_status row,
      pi_outcome = pr_outcome row, pi_payout_amount = map_option show_int (pr_payout row),
      pi_lp_fee_amount = map_option show_int (pr_lp_fee row),
      pi_platform_fee_amount = map_option show_int (pr_platform_fee row),
      pi_total_fee_amount = map_option show_int (total_fee_amount row),
      pi_net_pnl = map_option show_int (net_pnl row), pi_opened_at = pr_opened_at row,
      pi_closed_at = pr_closed_at row, pi_sort_time = sort_time row\<rparr>"

definition status_matches :: "position_status option \<Rightarrow> position_row \<Rightarrow> bool" where
  "status_matches status row \<longleftrightarrow>
     (case status of None \<Rightarrow> True
      | Some StatusOpen \<Rightarrow> pr_status row = ''open''
      | Some StatusClosed \<Rightarrow> pr_status row = ''settled''
      | Some StatusRefunded \<Rightarrow> pr_status row = ''refunded'')"

text \<open>The rows a query selects, by the columns it orders them by.\<close>

definition position_keys ::
    "api_state \<Rightarrow> string \<Rightarrow> u16 option \<Rightarrow> position_status option \<Rightarrow> database \<Rightarrow>
     (int \<times> int \<times> int) set" where
  "position_keys st wallet market_id status db =
     {(t, m, i). \<exists>row. db_positions db (as_network st, as_program st, m, i) = Some row \<and>
        pr_user row = Some wallet \<and> market_matches market_id m \<and> status_matches status row \<and>
        t = sort_time row}"

lemma finite_position_keys:
  assumes "finite (dom (db_positions db))"
  shows "finite (position_keys st wallet market_id status db)"
proof (rule finite_subset)
  let ?key = "\<lambda>(n, p, m, i). (sort_time (the (db_positions db (n, p, m, i))), m, i)"
  show "position_keys st wallet market_id status db \<subseteq> ?key ` dom (db_positions db)"
  proof
    fix k
    assume "k \<in> position_keys st wallet market_id status db"
    then obtain t m i row where "k = (t, m, i)" and "t = sort_time row"
      and row: "db_positions db (as_network st, as_program st, m, i) = Some row"
      by (auto simp: position_keys_def)
    then have "k = ?key (as_network st, as_program st, m, i)" by simp
    moreover have "(as_network st, as_program st, m, i) \<in> dom (db_positions db)" using row by blast
    ultimately show "k \<in> ?key ` dom (db_positions db)" by (rule image_eqI)
  qed
  show "finite (?key ` dom (db_positions db))" using assms by (rule finite_imageI)
qed

definition position_at :: "api_state \<Rightarrow> database \<Rightarrow> int \<times> int \<times> int \<Rightarrow> position_item" where
  "position_at st db key =
     (case key of (_, m, i) \<Rightarrow>
        item_of_row m i (the (db_positions db (as_network st, as_program st, m, i))))"

definition positions_page ::
    "api_state \<Rightarrow> string \<Rightarrow> u16 option \<Rightarrow> position_status option \<Rightarrow> (int \<times> int \<times> int) option \<Rightarrow> nat \<Rightarrow>
     database \<Rightarrow> position_item list" where
  "positions_page st wallet market_id status after n db =
     map (position_at st db) (rows_before (position_keys st wallet market_id status db) after n)"

text \<open>\<open>positions_for_stream\<close>: all of them.\<close>

definition positions_for_stream ::
    "api_state \<Rightarrow> string \<Rightarrow> u16 option \<Rightarrow> database \<Rightarrow> position_item list" where
  "positions_for_stream st wallet market_id db =
     map (position_at st db) (newest_first (position_keys st wallet market_id None db))"

definition position_by_identity ::
    "api_state \<Rightarrow> int \<Rightarrow> int \<Rightarrow> database \<Rightarrow> position_item option" where
  "position_by_identity st m i db =
     map_option (item_of_row m i) (db_positions db (as_network st, as_program st, m, i))"

record positions_query =
  pq_market_id :: "u16 option"
  pq_status :: "string option"
  pq_limit :: "u16 option"
  pq_cursor :: "string option"

definition requested_status :: "string option \<Rightarrow> api_error + position_status option" where
  "requested_status status =
     (case status of None \<Rightarrow> Inr None
      | Some text \<Rightarrow> and_then (position_status_from_str text) (\<lambda>s. Inr (Some s)))"

definition positions_fingerprint :: "string \<Rightarrow> u16 option \<Rightarrow> position_status option \<Rightarrow> string" where
  "positions_fingerprint wallet market_id status =
     ''positions:'' @ wallet @ '':'' @ market_label ''*'' market_id @ '':'' @
     (case status of None \<Rightarrow> ''*'' | Some s \<Rightarrow> position_status_str s)"

definition position_cursor :: "string \<Rightarrow> position_item \<Rightarrow> history_cursor" where
  "position_cursor fingerprint row =
     \<lparr>hc_fingerprint = fingerprint, hc_timestamp_micros = pi_sort_time row,
      hc_market_id = pi_market_id row, hc_identity = show_int (pi_position_id row)\<rparr>"

text \<open>The key to resume after: the cursor's time, market and position.\<close>

definition position_after ::
    "api_libraries \<Rightarrow> history_cursor option \<Rightarrow> api_error + (int \<times> int \<times> int) option" where
  "position_after l cursor =
     and_then (cursor_time l cursor) (\<lambda>after_time.
     case cursor of None \<Rightarrow> Inr None
     | Some c \<Rightarrow>
         and_then (ok_or (parse_i64 (hc_identity c))
           (InvalidRequest ''cursor position identity is invalid'')) (\<lambda>after_position.
         Inr (map_option (\<lambda>t. (t, hc_market_id c, after_position)) after_time)))"

definition user_positions ::
    "api_libraries \<Rightarrow> api_state \<Rightarrow> int \<Rightarrow> string \<Rightarrow> positions_query \<Rightarrow> reading \<Rightarrow> reading \<Rightarrow>
     position_item list envelope api_action" where
  "user_positions l st now wallet query rows_reading status_reading =
     api_then (check (validate_wallet l wallet)) (\<lambda>_.
     api_then (check (page_limit (pq_limit query))) (\<lambda>limit.
     api_then (check (requested_status (pq_status query))) (\<lambda>status.
     let fingerprint = positions_fingerprint wallet (pq_market_id query) status in
     api_then (check (history_after l fingerprint (pq_cursor query)
       ''cursor belongs to a different position query'')) (\<lambda>cursor.
     api_then (check (position_after l cursor)) (\<lambda>after.
     api_then (timed st rows_reading
       (positions_page st wallet (pq_market_id query) status after (unat limit + 1))) (\<lambda>rows.
     let (page, last_row) = cut_page (unat limit) rows in
     api_then (check (next_cursor l (al_history_json l) (position_cursor fingerprint) last_row)) (\<lambda>cursor.
     api_then (projection_status st status_reading) (\<lambda>projection.
     enveloped st now page projection cursor))))))))"

definition position_route ::
    "api_state \<Rightarrow> int \<Rightarrow> u16 \<Rightarrow> u32 \<Rightarrow> reading \<Rightarrow> reading \<Rightarrow> position_item envelope api_action" where
  "position_route st now market_id position_id row_reading status_reading =
     api_then (timed st row_reading
       (position_by_identity st (int (unat market_id)) (int (unat position_id)))) (\<lambda>row.
     api_then (check (ok_or row (NotFound ''position was not found''))) (\<lambda>item.
     api_then (projection_status st status_reading) (\<lambda>projection.
     enveloped st now item projection None)))"


section \<open>Liquidity\<close>

record liquidity_item =
  li_signature :: string
  li_instruction_path :: string
  li_event_kind :: string
  li_market_id :: int
  li_user :: string
  li_assets :: "string option"
  li_shares :: string
  li_min_assets_out :: "string option"
  li_occurred_at :: "int option"
  li_sort_time :: int

definition liquidity_time :: "liquidity_event_row \<Rightarrow> int" where
  "liquidity_time row = (case le_occurred_at row of None \<Rightarrow> 0 | Some t \<Rightarrow> t)"

text \<open>The order names the time, the market, the signature and the path; rows that agree in these
  come in an order of the database's choice, here by kind and source.\<close>

type_synonym liquidity_key = "int \<times> int \<times> string \<times> string \<times> string \<times> int"

definition liquidity_keys ::
    "api_state \<Rightarrow> string \<Rightarrow> u16 option \<Rightarrow> database \<Rightarrow> liquidity_key set" where
  "liquidity_keys st wallet market_id db =
     {(t, m, signature, path, kind, source_id).
        \<exists>row. db_liquidity_events db (source_id, signature, path, kind) = Some row \<and>
          le_network row = as_network st \<and> le_program row = as_program st \<and> le_user row = wallet \<and>
          le_market_id row = m \<and> market_matches market_id m \<and> t = liquidity_time row}"

definition liquidity_at :: "database \<Rightarrow> liquidity_key \<Rightarrow> liquidity_item" where
  "liquidity_at db key =
     (case key of (t, m, signature, path, kind, source_id) \<Rightarrow>
        let row = the (db_liquidity_events db (source_id, signature, path, kind)) in
        \<lparr>li_signature = signature, li_instruction_path = path, li_event_kind = kind,
         li_market_id = m, li_user = le_user row, li_assets = map_option show_int (le_assets row),
         li_shares = show_int (le_shares row),
         li_min_assets_out = map_option show_int (le_min_assets_out row),
         li_occurred_at = le_occurred_at row, li_sort_time = t\<rparr>)"

definition liquidity_page ::
    "api_state \<Rightarrow> string \<Rightarrow> u16 option \<Rightarrow> (int \<times> int \<times> string \<times> string) option \<Rightarrow> nat \<Rightarrow> database \<Rightarrow>
     liquidity_item list" where
  "liquidity_page st wallet market_id after n db =
     map (liquidity_at db) (take n (newest_first
       {(t, m, signature, path, kind, source_id) \<in> liquidity_keys st wallet market_id db.
          case after of None \<Rightarrow> True | Some a \<Rightarrow> (t, m, signature, path) < a}))"

record liquidity_query =
  yq_market_id :: "u16 option"
  yq_limit :: "u16 option"
  yq_cursor :: "string option"

definition liquidity_fingerprint :: "string \<Rightarrow> u16 option \<Rightarrow> string" where
  "liquidity_fingerprint wallet market_id =
     ''liquidity:'' @ wallet @ '':'' @ market_label ''*'' market_id"

definition liquidity_cursor :: "string \<Rightarrow> liquidity_item \<Rightarrow> history_cursor" where
  "liquidity_cursor fingerprint row =
     \<lparr>hc_fingerprint = fingerprint, hc_timestamp_micros = li_sort_time row,
      hc_market_id = li_market_id row,
      hc_identity = li_signature row @ '':'' @ li_instruction_path row\<rparr>"

definition liquidity_after ::
    "api_libraries \<Rightarrow> history_cursor option \<Rightarrow> api_error + (int \<times> int \<times> string \<times> string) option" where
  "liquidity_after l cursor =
     and_then (cursor_time l cursor) (\<lambda>after_time.
     case cursor of None \<Rightarrow> Inr None
     | Some c \<Rightarrow>
         and_then (ok_or (split_once '':'' (hc_identity c))
           (InvalidRequest ''cursor liquidity identity is invalid'')) (\<lambda>(signature, path).
         Inr (map_option (\<lambda>t. (t, hc_market_id c, signature, path)) after_time)))"

definition user_liquidity_route ::
    "api_libraries \<Rightarrow> api_state \<Rightarrow> int \<Rightarrow> string \<Rightarrow> liquidity_query \<Rightarrow> reading \<Rightarrow> reading \<Rightarrow>
     liquidity_item list envelope api_action" where
  "user_liquidity_route l st now wallet query rows_reading status_reading =
     api_then (check (validate_wallet l wallet)) (\<lambda>_.
     api_then (check (page_limit (yq_limit query))) (\<lambda>limit.
     let fingerprint = liquidity_fingerprint wallet (yq_market_id query) in
     api_then (check (history_after l fingerprint (yq_cursor query)
       ''cursor belongs to a different liquidity query'')) (\<lambda>cursor.
     api_then (check (liquidity_after l cursor)) (\<lambda>after.
     api_then (timed st rows_reading
       (liquidity_page st wallet (yq_market_id query) after (unat limit + 1))) (\<lambda>rows.
     let (page, last_row) = cut_page (unat limit) rows in
     api_then (check (next_cursor l (al_history_json l) (liquidity_cursor fingerprint) last_row)) (\<lambda>cursor.
     api_then (projection_status st status_reading) (\<lambda>projection.
     enveloped st now page projection cursor)))))))"


section \<open>Markets, health and metrics\<close>

record market_summary_item =
  ms_market_id :: int
  ms_market_pubkey :: "string option"
  ms_mode :: "string option"
  ms_total_shares :: "string option"
  ms_open_collateral :: "string option"
  ms_active_positions :: "int option"
  ms_pool_balance :: "string option"
  ms_last_slot :: "int option"
  ms_updated_at :: int

definition summary_of :: "int \<Rightarrow> market_row \<Rightarrow> market_summary_item" where
  "summary_of m row =
     \<lparr>ms_market_id = m, ms_market_pubkey = mr_pubkey row, ms_mode = mr_mode row,
      ms_total_shares = map_option show_int (mr_total_shares row),
      ms_open_collateral = map_option show_int (mr_open_collateral row),
      ms_active_positions = mr_active_positions row,
      ms_pool_balance = map_option show_int (mr_pool_balance row), ms_last_slot = mr_last_slot row,
      ms_updated_at = mr_updated_at row\<rparr>"

definition market_summary ::
    "api_state \<Rightarrow> int \<Rightarrow> u16 \<Rightarrow> reading \<Rightarrow> reading \<Rightarrow> market_summary_item envelope api_action" where
  "market_summary st now market_id row_reading status_reading =
     (let m = int (unat market_id) in
      api_then (timed st row_reading
        (\<lambda>db. map_option (summary_of m) (db_markets db (as_network st, as_program st, m)))) (\<lambda>row.
      api_then (check (ok_or row (NotFound ''market was not found''))) (\<lambda>item.
      api_then (projection_status st status_reading) (\<lambda>projection.
      enveloped st now item projection None))))"

text \<open>\<open>ready\<close>: the HTTP status and the three fields of the body.\<close>

record api_health =
  he_status :: string
  he_database :: "string option"
  he_position_stream :: "string option"

definition api_live :: api_health where
  "api_live = \<lparr>he_status = ''live'', he_database = None, he_position_stream = None\<rparr>"

definition api_ready :: "api_state \<Rightarrow> reading \<Rightarrow> api_metrics \<Rightarrow> (nat \<times> api_health) \<times> api_metrics" where
  "api_ready st reading m =
     (case timed st reading (\<lambda>_. ()) m of
        (Inr _, m') \<Rightarrow>
          (if am_listener_connected m
           then (200, \<lparr>he_status = ''ready'', he_database = Some ''reachable'',
                      he_position_stream = Some ''ready''\<rparr>)
           else (503, \<lparr>he_status = ''not_ready'', he_database = Some ''reachable'',
                      he_position_stream = Some ''unavailable''\<rparr>), m')
      | (Inl _, m') \<Rightarrow>
          ((503, \<lparr>he_status = ''not_ready'', he_database = Some ''unavailable'',
                  he_position_stream = Some ''unavailable''\<rparr>), m'))"

text \<open>The numbers of \<open>/metrics\<close>; the pool's are the driver's.\<close>

record api_metrics_body =
  mb_refresh_version :: int
  mb_projection_stale :: bool
  mb_counters :: api_metrics
  mb_pool_size :: nat
  mb_pool_idle :: nat

definition prometheus_metrics ::
    "api_state \<Rightarrow> int \<Rightarrow> nat \<Rightarrow> nat \<Rightarrow> reading \<Rightarrow> api_metrics_body api_action" where
  "prometheus_metrics st now pool_size pool_idle reading =
     api_then (projection_status st reading) (\<lambda>status m.
     (Inr \<lparr>mb_refresh_version = rf_version status,
           mb_projection_stale = projection_stale st now (rf_last_success status),
           mb_counters = m, mb_pool_size = pool_size, mb_pool_idle = pool_idle\<rparr>, m))"

text \<open>The middleware around a handler, which answers with a status; \<open>elapsed\<close> is the time it took in
  microseconds.\<close>

definition status_of :: "api_error + 'a \<Rightarrow> nat" where
  "status_of r = (case r of Inl e \<Rightarrow> api_status e | Inr _ \<Rightarrow> 200)"

definition track ::
    "nat \<Rightarrow> (api_metrics \<Rightarrow> (nat \<times> 'a) \<times> api_metrics) \<Rightarrow> api_metrics \<Rightarrow> (nat \<times> 'a) \<times> api_metrics" where
  "track elapsed next m =
     (let m = m\<lparr>am_requests := am_requests m + 1, am_active := am_active m + 1\<rparr> in
      case next m of ((status, body), m) \<Rightarrow>
        let m = m\<lparr>am_active := am_active m - 1,
                  am_latency_micros := am_latency_micros m +
                    (if elapsed < 2 ^ 64 then word_of_nat elapsed else - 1)\<rparr>;
            failed = (400 \<le> status \<and> status < 600) in
        ((status, body), if failed then m\<lparr>am_errors := am_errors m + 1\<rparr> else m))"

definition handled :: "'a api_action \<Rightarrow> api_metrics \<Rightarrow> (nat \<times> (api_error + 'a)) \<times> api_metrics" where
  "handled handler m = (case handler m of (r, m) \<Rightarrow> ((status_of r, r), m))"

end
