(* ===== verification/Api_Stream.thy ===== *)
theory Api_Stream
  imports Api_History
begin

text \<open>
  The position stream (\<open>crates/api/src/lib.rs\<close>): the database notifies the identity of every written
  position, one listener broadcasts it, and each socket sends the position it then reads. The
  listener's connection fails and returns, the broadcast channel is bounded, reads and sends fail.
\<close>


section \<open>Messages\<close>

record position_change =
  ch_network :: string
  ch_program :: string
  ch_user :: string
  ch_market_id :: int
  ch_position_id :: int

datatype position_broadcast = Change position_change | Resync

datatype stream_message = Snapshot "position_item list" | Upsert position_item

definition POSITION_CHANNEL :: string where
  "POSITION_CHANNEL = ''leveraged_prediction_positions''"

definition POSITION_HEARTBEAT_CHANNEL :: string where
  "POSITION_HEARTBEAT_CHANNEL = ''leveraged_prediction_api_heartbeat''"

definition POSITION_BROADCAST_CAPACITY :: nat where
  "POSITION_BROADCAST_CAPACITY = 1024"

definition position_change_matches ::
    "position_change \<Rightarrow> string \<Rightarrow> string \<Rightarrow> string \<Rightarrow> u16 option \<Rightarrow> bool" where
  "position_change_matches change network program wallet market_id \<longleftrightarrow>
     ch_network change = network \<and> ch_program change = program \<and> ch_user change = wallet \<and>
     market_matches market_id (ch_market_id change)"


section \<open>A socket\<close>

text \<open>What a turn of the socket's loop receives. \<open>Lagged\<close> and \<open>BroadcastClosed\<close> are the errors of the
  broadcast channel.\<close>

datatype socket_input =
    PeerPing | PeerClosed | PeerOther | Received position_broadcast | Lagged | BroadcastClosed

text \<open>\<open>None\<close> when the snapshot could not be read or sent.\<close>

definition send_position_snapshot ::
    "api_state \<Rightarrow> string \<Rightarrow> u16 option \<Rightarrow> reading \<Rightarrow> bool \<Rightarrow> api_metrics \<Rightarrow>
     stream_message list option \<times> api_metrics" where
  "send_position_snapshot st wallet market_id reading sends m =
     (case timed st reading (positions_for_stream st wallet market_id) m of
        (Inl _, m) \<Rightarrow> (None, m)
      | (Inr positions, m) \<Rightarrow>
          if sends then (Some [Snapshot positions], position_message_sent m) else (None, m))"

text \<open>One turn: \<open>None\<close> breaks the loop, else what was sent. \<open>row_reading\<close> and \<open>reading\<close> are what the
  queries for a position and for a snapshot meet.\<close>

fun stream_turn ::
    "api_state \<Rightarrow> string \<Rightarrow> u16 option \<Rightarrow> socket_input \<Rightarrow> reading \<Rightarrow> reading \<Rightarrow> bool \<Rightarrow> api_metrics \<Rightarrow>
     stream_message list option \<times> api_metrics" where
  "stream_turn st wallet market_id PeerPing row_reading reading sends m =
     (if sends then Some [] else None, m)"
| "stream_turn st wallet market_id PeerClosed row_reading reading sends m = (None, m)"
| "stream_turn st wallet market_id PeerOther row_reading reading sends m = (Some [], m)"
| "stream_turn st wallet market_id (Received (Change change)) row_reading reading sends m =
     (if position_change_matches change (as_network st) (as_program st) wallet market_id then
        (case timed st row_reading
            (position_by_identity st (ch_market_id change) (ch_position_id change)) m of
           (Inr (Some item), m) \<Rightarrow>
             if sends then (Some [Upsert item], position_message_sent m) else (None, m)
         | (Inr None, m) \<Rightarrow> (Some [], m)
         | (Inl _, m) \<Rightarrow> send_position_snapshot st wallet market_id reading sends m)
      else (Some [], m))"
| "stream_turn st wallet market_id (Received Resync) row_reading reading sends m =
     send_position_snapshot st wallet market_id reading sends (position_resync m)"
| "stream_turn st wallet market_id Lagged row_reading reading sends m =
     send_position_snapshot st wallet market_id reading sends (position_resync m)"
| "stream_turn st wallet market_id BroadcastClosed row_reading reading sends m = (None, m)"

record socket_turn =
  tn_input :: socket_input
  tn_row :: reading
  tn_snapshot :: reading
  tn_sends :: bool

text \<open>The socket from its upgrade to its end, or to the last of the given turns.\<close>

fun stream_loop ::
    "api_state \<Rightarrow> string \<Rightarrow> u16 option \<Rightarrow> socket_turn list \<Rightarrow> api_metrics \<Rightarrow>
     stream_message list \<times> api_metrics" where
  "stream_loop st wallet market_id [] m = ([], m)"
| "stream_loop st wallet market_id (turn # turns) m =
     (case stream_turn st wallet market_id (tn_input turn) (tn_row turn) (tn_snapshot turn)
         (tn_sends turn) m of
        (None, m) \<Rightarrow> ([], position_socket_closed m)
      | (Some sent, m) \<Rightarrow>
          (case stream_loop st wallet market_id turns m of (rest, m) \<Rightarrow> (sent @ rest, m)))"

definition serve_position_stream ::
    "api_state \<Rightarrow> string \<Rightarrow> u16 option \<Rightarrow> reading \<Rightarrow> bool \<Rightarrow> socket_turn list \<Rightarrow> api_metrics \<Rightarrow>
     stream_message list \<times> api_metrics" where
  "serve_position_stream st wallet market_id reading sends turns m =
     (case send_position_snapshot st wallet market_id reading sends m of
        (None, m) \<Rightarrow> ([], m)
      | (Some sent, m) \<Rightarrow>
          (case stream_loop st wallet market_id turns (position_socket_opened m) of
             (rest, m) \<Rightarrow> (sent @ rest, m)))"

definition user_positions_stream ::
    "api_libraries \<Rightarrow> api_state \<Rightarrow> string \<Rightarrow> u16 option \<Rightarrow> reading \<Rightarrow> bool \<Rightarrow> socket_turn list \<Rightarrow>
     stream_message list api_action" where
  "user_positions_stream l st wallet market_id reading sends turns =
     api_then (check (validate_wallet l wallet)) (\<lambda>_ m.
     case serve_position_stream st wallet market_id reading sends turns m of
       (messages, m) \<Rightarrow> (Inr messages, m))"


section \<open>The listener\<close>

text \<open>\<open>parse\<close> is \<open>serde_json::from_str::<PositionChange>\<close>.\<close>

definition handle_position_notification ::
    "(string \<Rightarrow> position_change option) \<Rightarrow> string \<Rightarrow> string \<Rightarrow> position_broadcast list" where
  "handle_position_notification parse channel payload =
     (if channel \<noteq> POSITION_CHANNEL then []
      else case parse payload of None \<Rightarrow> [] | Some change \<Rightarrow> [Change change])"

text \<open>What the listener's session meets: a notification, a connection that was lost and made again
  (\<open>try_recv\<close> returns \<open>None\<close>), an error, the heartbeat's timer with whether its query succeeds, and
  the end of the time to wait for it.\<close>

datatype listener_event =
    Notified string string | ConnectionLost | ListenerFailed | HeartbeatDue bool | HeartbeatTimeout

text \<open>\<open>waiting\<close> says whether the session is inside \<open>receive_listener_heartbeat\<close>; the result is what is
  broadcast and the next mode, or \<open>None\<close> when the session ends with an error.\<close>

fun listener_step ::
    "(string \<Rightarrow> position_change option) \<Rightarrow> bool \<Rightarrow> listener_event \<Rightarrow>
     (position_broadcast list \<times> bool) option" where
  "listener_step parse waiting (Notified channel payload) =
     (if waiting \<and> channel = POSITION_HEARTBEAT_CHANNEL then Some ([], False)
      else Some (handle_position_notification parse channel payload, waiting))"
| "listener_step parse waiting ConnectionLost = Some ([Resync], waiting)"
| "listener_step parse waiting ListenerFailed = None"
| "listener_step parse waiting (HeartbeatDue sent) =
     (if waiting then Some ([], True) else if sent then Some ([], True) else None)"
| "listener_step parse waiting HeartbeatTimeout = (if waiting then None else Some ([], False))"

fun listener_loop ::
    "(string \<Rightarrow> position_change option) \<Rightarrow> bool \<Rightarrow> listener_event list \<Rightarrow> position_broadcast list" where
  "listener_loop parse waiting [] = []"
| "listener_loop parse waiting (event # events) =
     (case listener_step parse waiting event of
        None \<Rightarrow> []
      | Some (sent, waiting) \<Rightarrow> sent @ listener_loop parse waiting events)"

text \<open>A session that connects and subscribes broadcasts a resync first.\<close>

record listener_session =
  ls_connects :: bool
  ls_subscribes :: bool
  ls_events :: "listener_event list"

definition run_position_listener_session ::
    "(string \<Rightarrow> position_change option) \<Rightarrow> listener_session \<Rightarrow> api_metrics \<Rightarrow>
     position_broadcast list \<times> api_metrics" where
  "run_position_listener_session parse session m =
     (if ls_connects session \<and> ls_subscribes session
      then (Resync # listener_loop parse False (ls_events session),
            set_position_listener_connected True m)
      else ([], m))"

text \<open>\<open>listen_for_position_changes\<close>: the broadcasts, and the delays in milliseconds between the
  sessions.\<close>

fun listen_for_position_changes ::
    "(string \<Rightarrow> position_change option) \<Rightarrow> bool \<Rightarrow> nat \<Rightarrow> listener_session list \<Rightarrow> api_metrics \<Rightarrow>
     position_broadcast list \<times> nat list \<times> api_metrics" where
  "listen_for_position_changes parse again delay [] m = ([], [], m)"
| "listen_for_position_changes parse again delay (session # sessions) m =
     (case run_position_listener_session parse session
         (if again then position_listener_reconnect m else m) of
        (sent, m) \<Rightarrow>
          let delay = (if am_listener_connected m then 250 else delay) in
          (case listen_for_position_changes parse True (min (delay * 2) 10000) sessions
              (set_position_listener_connected False m) of
             (rest, delays, m) \<Rightarrow> (sent @ rest, delay # delays, m)))"

text \<open>The delays stay between a quarter of a second and ten seconds.\<close>

lemma retry_delays_bounded:
  "listen_for_position_changes parse again delay sessions m = (sent, delays, m') \<Longrightarrow>
   250 \<le> delay \<Longrightarrow> delay \<le> 10000 \<Longrightarrow> \<forall>d \<in> set delays. 250 \<le> d \<and> d \<le> 10000"
proof (induction sessions arbitrary: again delay m sent delays m')
  case (Cons session sessions)
  obtain sent0 m0 where start: "run_position_listener_session parse session
    (if again then position_listener_reconnect m else m) = (sent0, m0)" by (rule prod.exhaust)
  let ?d = "if am_listener_connected m0 then 250 else delay"
  obtain rest ds m1 where rest: "listen_for_position_changes parse True (min (?d * 2) 10000) sessions
    (set_position_listener_connected False m0) = (rest, ds, m1)" by (rule prod_cases3)
  have d: "250 \<le> ?d" "?d \<le> 10000" using Cons.prems(2,3) by simp_all
  have "250 \<le> min (?d * 2) 10000" "min (?d * 2) 10000 \<le> 10000" using d by linarith+
  with Cons.IH [OF rest] have "\<forall>x \<in> set ds. 250 \<le> x \<and> x \<le> 10000" by blast
  moreover have "delays = ?d # ds"
    using Cons.prems(1) unfolding listen_for_position_changes.simps start prod.case Let_def rest by blast
  ultimately show ?case using d by (simp only: list.set ball_simps)
qed simp

end
