(* ===== verification/Api_Router.thy ===== *)
theory Api_Router
  imports Api_Stream
begin

text \<open>
  The routes of the API (\<open>router\<close>) and the middleware around them. A request carries the parameters
  the framework has parsed; its handler makes at most two queries.
\<close>

datatype api_request =
    GetLeaderboards leaderboard_query
  | GetStats string "string option" "u16 option"
  | GetPositions string positions_query
  | GetStream string "u16 option"
  | GetLiquidity string liquidity_query
  | GetPosition u16 u32
  | GetSummary u16
  | GetLive
  | GetReady
  | GetMetrics nat nat

datatype api_body =
    LeaderboardsBody "leaderboard_entry list envelope"
  | StatsBody "wallet_stats envelope"
  | PositionsBody "position_item list envelope"
  | StreamUpgrade
  | LiquidityBody "liquidity_item list envelope"
  | PositionBody "position_item envelope"
  | SummaryBody "market_summary_item envelope"
  | HealthBody api_health
  | MetricsBody api_metrics_body
  | ErrorBody string string

text \<open>\<open>ApiError::into_response\<close>.\<close>

definition error_response :: "api_error \<Rightarrow> nat \<times> api_body" where
  "error_response e = (api_status e, ErrorBody (api_code e) (api_message e))"

definition answer ::
    "('a \<Rightarrow> api_body) \<Rightarrow> 'a api_action \<Rightarrow> api_metrics \<Rightarrow> (nat \<times> api_body) \<times> api_metrics" where
  "answer body handler m =
     (case handler m of (Inl e, m) \<Rightarrow> (error_response e, m) | (Inr x, m) \<Rightarrow> ((200, body x), m))"

text \<open>\<open>r1\<close> and \<open>r2\<close> are what the handler's queries meet, in their order. The stream answers with the
  upgrade of the connection.\<close>

fun api_route ::
    "api_libraries \<Rightarrow> api_state \<Rightarrow> int \<Rightarrow> api_request \<Rightarrow> reading \<Rightarrow> reading \<Rightarrow> api_metrics \<Rightarrow>
     (nat \<times> api_body) \<times> api_metrics" where
  "api_route l st now (GetLeaderboards query) r1 r2 = answer LeaderboardsBody (leaderboards l st now query r1 r2)"
| "api_route l st now (GetStats wallet p market_id) r1 r2 =
     answer StatsBody (user_stats l st now wallet p market_id r1 r2)"
| "api_route l st now (GetPositions wallet query) r1 r2 =
     answer PositionsBody (user_positions l st now wallet query r1 r2)"
| "api_route l st now (GetStream wallet market_id) r1 r2 =
     (\<lambda>m. (case validate_wallet l wallet of Inl e \<Rightarrow> error_response e | Inr _ \<Rightarrow> (101, StreamUpgrade), m))"
| "api_route l st now (GetLiquidity wallet query) r1 r2 =
     answer LiquidityBody (user_liquidity_route l st now wallet query r1 r2)"
| "api_route l st now (GetPosition market_id position_id) r1 r2 =
     answer PositionBody (position_route st now market_id position_id r1 r2)"
| "api_route l st now (GetSummary market_id) r1 r2 = answer SummaryBody (market_summary st now market_id r1 r2)"
| "api_route l st now GetLive r1 r2 = (\<lambda>m. ((200, HealthBody api_live), m))"
| "api_route l st now GetReady r1 r2 =
     (\<lambda>m. case api_ready st r1 m of ((status, health), m) \<Rightarrow> ((status, HealthBody health), m))"
| "api_route l st now (GetMetrics pool_size pool_idle) r1 r2 =
     answer MetricsBody (prometheus_metrics st now pool_size pool_idle r1)"

definition serve_request ::
    "api_libraries \<Rightarrow> api_state \<Rightarrow> int \<Rightarrow> nat \<Rightarrow> api_request \<Rightarrow> reading \<Rightarrow> reading \<Rightarrow> api_metrics \<Rightarrow>
     (nat \<times> api_body) \<times> api_metrics" where
  "serve_request l st now elapsed request r1 r2 = track elapsed (api_route l st now request r1 r2)"


section \<open>What a handler leaves alone\<close>

text \<open>The counters that only \<open>track\<close> moves, and the state of the listener.\<close>

definition connection_counters :: "api_metrics \<Rightarrow> u64 list \<times> bool" where
  "connection_counters m =
     ([am_requests m, am_errors m, am_active m, am_latency_micros m], am_listener_connected m)"

definition only_counts :: "(api_metrics \<Rightarrow> 'a \<times> api_metrics) \<Rightarrow> bool" where
  "only_counts f \<longleftrightarrow> (\<forall>m. connection_counters (snd (f m)) = connection_counters m)"

lemma only_countsI: "(\<And>m. connection_counters (snd (f m)) = connection_counters m) \<Longrightarrow> only_counts f"
  by (simp add: only_counts_def)

lemma only_countsD: "only_counts f \<Longrightarrow> f m = (r, m') \<Longrightarrow> connection_counters m' = connection_counters m"
  by (metis only_counts_def snd_conv)

lemma only_counts_check: "only_counts (check r)"
  by (rule only_countsI) (simp add: check_def)

lemma only_counts_respond: "only_counts (respond x)"
  by (rule only_countsI) (simp add: respond_def)

lemma only_counts_then:
  assumes "only_counts f" and "\<And>x. only_counts (k x)"
  shows "only_counts (api_then f k)"
proof (rule only_countsI)
  fix m
  obtain r m1 where f: "f m = (r, m1)" by (rule prod.exhaust)
  then have m1: "connection_counters m1 = connection_counters m" by (rule only_countsD [OF assms(1)])
  show "connection_counters (snd (api_then f k m)) = connection_counters m"
  proof (cases r)
    case (Inr x)
    obtain r2 m2 where k: "k x m1 = (r2, m2)" by (rule prod.exhaust)
    then have "connection_counters m2 = connection_counters m1" by (rule only_countsD [OF assms(2)])
    with f k m1 Inr show ?thesis by (simp add: api_then_def)
  qed (simp add: api_then_def f m1)
qed

lemma only_counts_timed: "only_counts (timed st reading query)"
  by (rule only_countsI)
    (simp add: timed_def connection_counters_def record_query_timeout_def split: reading.split)

lemma only_counts_meta: "only_counts (response_meta st now status cursor)"
  by (rule only_countsI)
    (simp add: response_meta_def Let_def connection_counters_def record_stale_response_def)

lemma only_counts_status: "only_counts (projection_status st reading)"
  unfolding projection_status_def by (rule only_counts_timed)

lemma only_counts_enveloped: "only_counts (enveloped st now rows status cursor)"
  unfolding enveloped_def by (intro only_counts_then only_counts_meta only_counts_respond)

lemmas counting = only_counts_then only_counts_check only_counts_timed only_counts_status only_counts_enveloped

lemma only_counts_answer:
  assumes "only_counts f"
  shows "only_counts (answer body f)"
proof (rule only_countsI)
  fix m
  obtain r m1 where f: "f m = (r, m1)" by (rule prod.exhaust)
  show "connection_counters (snd (answer body f m)) = connection_counters m"
    using only_countsD [OF assms f] by (cases r) (simp_all add: answer_def f)
qed

lemma only_counts_leaderboards: "only_counts (leaderboards l st now query r1 r2)"
  unfolding leaderboards_def Let_def case_prod_unfold by (intro counting)

lemma only_counts_user_stats: "only_counts (user_stats l st now wallet p market_id r1 r2)"
  unfolding user_stats_def by (intro counting)

lemma only_counts_user_positions: "only_counts (user_positions l st now wallet query r1 r2)"
  unfolding user_positions_def Let_def case_prod_unfold by (intro counting)

lemma only_counts_user_liquidity: "only_counts (user_liquidity_route l st now wallet query r1 r2)"
  unfolding user_liquidity_route_def Let_def case_prod_unfold by (intro counting)

lemma only_counts_position: "only_counts (position_route st now market_id position_id r1 r2)"
  unfolding position_route_def by (intro counting)

lemma only_counts_market_summary: "only_counts (market_summary st now market_id r1 r2)"
  unfolding market_summary_def Let_def by (intro counting)

lemma only_counts_prometheus: "only_counts (prometheus_metrics st now pool_size pool_idle r1)"
proof -
  show ?thesis
    unfolding prometheus_metrics_def
    by (intro only_counts_then only_counts_status) (rule only_countsI, simp)
qed

lemma only_counts_ready: "only_counts (\<lambda>m. case api_ready st r1 m of ((status, health), m) \<Rightarrow> ((status, body health), m))"
proof (rule only_countsI)
  fix m
  obtain r m1 where t: "timed st r1 (\<lambda>_. ()) m = (r, m1)" by (rule prod.exhaust)
  show "connection_counters (snd (case api_ready st r1 m of ((status, health), m) \<Rightarrow>
      ((status, body health), m))) = connection_counters m"
    using only_countsD [OF only_counts_timed t] by (cases r) (simp_all add: api_ready_def t)
qed

lemma only_counts_route: "only_counts (api_route l st now request r1 r2)"
proof (cases request)
  case GetReady
  then show ?thesis using only_counts_ready [where body = HealthBody] by simp
qed (simp_all add: only_counts_answer only_counts_leaderboards only_counts_user_stats
  only_counts_user_positions only_counts_user_liquidity only_counts_position
  only_counts_market_summary only_counts_prometheus, simp_all add: only_counts_def)


section \<open>Accounting\<close>

text \<open>Whatever the route answers, a served request is counted once, leaves the number of requests
  in flight as it was, adds its duration (the largest u64 when it does not fit) and counts an error
  exactly when the answer is one.\<close>

theorem requests_accounted:
  "case serve_request l st now elapsed request r1 r2 m of ((status, body), m') \<Rightarrow>
     am_requests m' = am_requests m + 1 \<and>
     am_active m' = am_active m \<and>
     am_latency_micros m' =
       am_latency_micros m + (if elapsed < 2 ^ 64 then word_of_nat elapsed else - 1) \<and>
     am_errors m' = am_errors m + (if status \<in> {400..<600} then 1 else 0)"
proof -
  define m0 where "m0 = m\<lparr>am_requests := am_requests m + 1, am_active := am_active m + 1\<rparr>"
  obtain status body m1 where a: "api_route l st now request r1 r2 m0 = ((status, body), m1)"
    by (metis prod.exhaust)
  from only_countsD [OF only_counts_route a] have
    "am_requests m1 = am_requests m0" "am_errors m1 = am_errors m0" "am_active m1 = am_active m0"
    "am_latency_micros m1 = am_latency_micros m0"
    by (simp_all add: connection_counters_def)
  then show ?thesis
    by (simp add: serve_request_def track_def Let_def a [unfolded m0_def] m0_def)
qed


section \<open>A database that does not answer\<close>

text \<open>The first query of the request is not answered, or the time allowed for a query is none at all.\<close>

definition refused_by :: "(api_metrics \<Rightarrow> (api_error + 'a) \<times> api_metrics) \<Rightarrow> bool" where
  "refused_by f \<longleftrightarrow> (\<forall>m. \<exists>e m'. f m = (Inl e, m'))"

lemma refused_timed:
  assumes "r1 = Refuses \<or> r1 = TimesOut \<or> as_query_timeout st = 0"
  shows "refused_by (timed st r1 query)"
  using assms by (auto simp: refused_by_def timed_def)

lemma refused_status:
  assumes "r1 = Refuses \<or> r1 = TimesOut \<or> as_query_timeout st = 0"
  shows "refused_by (projection_status st r1)"
  unfolding projection_status_def using assms by (rule refused_timed)

lemma refused_first:
  assumes "refused_by f"
  shows "refused_by (api_then f k)"
  unfolding refused_by_def
proof
  fix m
  from assms obtain e m' where "f m = (Inl e, m')" unfolding refused_by_def by blast
  then show "\<exists>e m'. api_then f k m = (Inl e, m')" by (simp add: api_then_def)
qed

lemma refused_later:
  assumes "\<And>x. refused_by (k x)"
  shows "refused_by (api_then (check r) k)"
  using assms by (cases r) (simp_all add: refused_by_def api_then_def check_def)

lemma refused_answer:
  assumes "refused_by f"
  shows "400 \<le> fst (fst (answer body f m)) \<and> (\<exists>code message. snd (fst (answer body f m)) = ErrorBody code message)"
proof -
  from assms obtain e m' where "f m = (Inl e, m')" unfolding refused_by_def by blast
  then show ?thesis by (cases e) (simp_all add: answer_def error_response_def)
qed

fun reads_index :: "api_request \<Rightarrow> bool" where
  "reads_index (GetStream wallet market_id) = False"
| "reads_index GetLive = False"
| "reads_index GetReady = False"
| "reads_index request = True"

theorem no_answer_without_the_index:
  assumes "r1 = Refuses \<or> r1 = TimesOut \<or> as_query_timeout st = 0" and "reads_index request"
  shows "400 \<le> fst (fst (serve_request l st now elapsed request r1 r2 m)) \<and>
    (\<exists>code message. snd (fst (serve_request l st now elapsed request r1 r2 m)) = ErrorBody code message)"
proof -
  note refused = refused_first refused_later refused_timed [OF assms(1)] refused_status [OF assms(1)]
  have "refused_by (leaderboards l st now query r1 r2)" for query
    unfolding leaderboards_def by (intro refused)
  moreover have "refused_by (user_stats l st now wallet p market_id r1 r2)" for wallet p market_id
    unfolding user_stats_def by (intro refused)
  moreover have "refused_by (user_positions l st now wallet query r1 r2)" for wallet query
    unfolding user_positions_def Let_def by (intro refused)
  moreover have "refused_by (user_liquidity_route l st now wallet query r1 r2)" for wallet query
    unfolding user_liquidity_route_def Let_def by (intro refused)
  moreover have "refused_by (position_route st now market_id position_id r1 r2)" for market_id position_id
    unfolding position_route_def by (intro refused)
  moreover have "refused_by (market_summary st now market_id r1 r2)" for market_id
    unfolding market_summary_def Let_def by (intro refused)
  moreover have "refused_by (prometheus_metrics st now pool_size pool_idle r1)" for pool_size pool_idle
    unfolding prometheus_metrics_def by (intro refused)
  ultimately have "400 \<le> fst (fst (api_route l st now request r1 r2 m)) \<and>
      (\<exists>code message. snd (fst (api_route l st now request r1 r2 m)) = ErrorBody code message)" for m
    using assms(2) by (cases request) (simp_all add: refused_answer)
  moreover have "fst (serve_request l st now elapsed request r1 r2 m) = fst (api_route l st now request r1 r2
      (m\<lparr>am_requests := am_requests m + 1, am_active := am_active m + 1\<rparr>))"
    by (simp add: serve_request_def track_def Let_def split: prod.split)
  ultimately show ?thesis by metis
qed

end
