(* ===== verification/Api_Pages.thy ===== *)
theory Api_Pages
  imports Api_History
begin

text \<open>
  What a client that follows a route's cursors sees: every row of its query once, in the order of the
  route. Here for the positions of a wallet; \<open>Api_Boards\<close> does the same for a leaderboard.
\<close>


section \<open>Following a route's cursors\<close>

text \<open>The client: the first page without a cursor, then the cursor of each page, until one has none.
  \<open>None\<close> when that takes more than \<open>fuel\<close> requests.\<close>

fun walk_route ::
    "nat \<Rightarrow> (string option \<Rightarrow> 'r list envelope api_action) \<Rightarrow> string option \<Rightarrow> api_metrics \<Rightarrow>
     (api_error + 'r list) option" where
  "walk_route 0 route cursor m = None"
| "walk_route (Suc fuel) route cursor m =
     (case route cursor m of
        (Inl e, m) \<Rightarrow> Some (Inl e)
      | (Inr page, m) \<Rightarrow>
          (case me_next_cursor (env_meta page) of
             None \<Rightarrow> Some (Inr (env_data page))
           | Some text \<Rightarrow>
               map_option (\<lambda>rest. and_then rest (\<lambda>rows. Inr (env_data page @ rows)))
                 (walk_route fuel route (Some text) m)))"

text \<open>A route serves a query when each page is the query's, cut to the limit, and its cursor names the
  last row. \<open>ready\<close> says when it does.\<close>

definition serves_page ::
    "('k \<Rightarrow> 'r) \<Rightarrow> ('k \<Rightarrow> string) \<Rightarrow> nat \<Rightarrow> 'k list \<Rightarrow> (api_error + 'r list envelope) \<times> api_metrics \<Rightarrow> bool"
where
  "serves_page item cursor_text limit rows response \<longleftrightarrow>
     (\<exists>page m. response = (Inr page, m) \<and>
        env_data page = map item (fst (cut_page limit rows)) \<and>
        me_next_cursor (env_meta page) = map_option cursor_text (snd (cut_page limit rows)))"

locale paged_route = keyset fetch rows
  for fetch :: "'k option \<Rightarrow> nat \<Rightarrow> 'k list" and rows :: "'k list" +
  fixes ready :: bool
    and route :: "string option \<Rightarrow> 'r list envelope api_action"
    and item :: "'k \<Rightarrow> 'r"
    and cursor_text :: "'k \<Rightarrow> string"
    and limit :: nat
  assumes positive: "ready \<Longrightarrow> 0 < limit"
    and served: "ready \<Longrightarrow> case after of None \<Rightarrow> True | Some k \<Rightarrow> k \<in> set rows \<Longrightarrow>
      serves_page item cursor_text limit (fetch after (limit + 1)) (route (map_option cursor_text after) m)"
begin

lemma fetched_rows:
  assumes "case after of None \<Rightarrow> True | Some k \<Rightarrow> k \<in> set rows"
  shows "set (fetch after n) \<subseteq> set rows"
proof (cases after)
  case None
  then show ?thesis by (auto simp: first dest: in_set_takeD)
next
  case (Some k)
  with assms have "k \<in> set rows" by simp
  then obtain xs ys where "rows = xs @ k # ys" by (meson split_list)
  with resume [OF this, of n] Some show ?thesis by (auto dest: in_set_takeD)
qed

lemma walk_served:
  assumes ready and "case after of None \<Rightarrow> True | Some k \<Rightarrow> k \<in> set rows"
  shows "walk_route fuel route (map_option cursor_text after) m =
    map_option (\<lambda>ks. Inr (map item ks)) (walk_pages fuel fetch limit after)"
  using assms(2)
proof (induction fuel arbitrary: after m)
  case (Suc fuel)
  from served [OF assms(1) Suc.prems, of m] obtain page m' where
    response: "route (map_option cursor_text after) m = (Inr page, m')"
    and data: "env_data page = map item (fst (cut_page limit (fetch after (limit + 1))))"
    and meta: "me_next_cursor (env_meta page) =
      map_option cursor_text (snd (cut_page limit (fetch after (limit + 1))))"
    by (auto simp: serves_page_def)
  obtain ks k where cut: "cut_page limit (fetch after (limit + 1)) = (ks, k)" by fastforce
  show ?case
  proof (cases k)
    case None
    with cut data meta response show ?thesis by simp
  next
    case (Some last_key)
    have "last_key \<in> set (fetch after (limit + 1))"
      by (rule cut_page_last [where limit = limit]) (simp only: cut Some snd_conv)
    with fetched_rows [OF Suc.prems] have "case Some last_key of None \<Rightarrow> True | Some k \<Rightarrow> k \<in> set rows" by auto
    from Suc.IH [OF this, of m'] show ?thesis
      using cut data meta response Some by (simp add: option.map_comp comp_def)
  qed
qed simp

lemma walk_all:
  assumes ready and "length rows < fuel"
  shows "walk_route fuel route None m = Some (Inr (map item rows))"
  using walk_served [OF assms(1), of None fuel m] walk_exact [OF positive [OF assms(1)] assms(2)] by simp

end


section \<open>The steps of a handler that succeed\<close>

lemma check_Inr [simp]: "api_then (check (Inr x)) k m = k x m"
  by (simp add: api_then_def check_def)

lemma check_Inl [simp]: "api_then (check (Inl e)) k m = (Inl e, m)"
  by (simp add: api_then_def check_def)

lemma timed_reads [simp]:
  "as_query_timeout st \<noteq> 0 \<Longrightarrow> api_then (timed st (Reads db) query) k m = k (query db) m"
  by (simp add: api_then_def timed_def)

lemma status_reads [simp]:
  "as_query_timeout st \<noteq> 0 \<Longrightarrow> api_then (projection_status st (Reads db)) k m = k (db_refresh db) m"
  by (simp add: projection_status_def)

lemma enveloped_page:
  "\<exists>page m'. enveloped st now rows status cursor m = (Inr page, m') \<and>
    env_data page = rows \<and> me_next_cursor (env_meta page) = cursor"
  by (simp add: enveloped_def api_then_def response_meta_def respond_def Let_def)

definition cursor_text :: "api_libraries \<Rightarrow> ('a \<Rightarrow> bytes option) \<Rightarrow> 'a \<Rightarrow> string" where
  "cursor_text l json payload = (case encode_cursor l json payload of Inl _ \<Rightarrow> '''' | Inr text \<Rightarrow> text)"

text \<open>A cursor whose JSON exists and fits.\<close>

definition cursor_fits :: "api_libraries \<Rightarrow> ('a \<Rightarrow> bytes option) \<Rightarrow> 'a \<Rightarrow> bool" where
  "cursor_fits l json payload \<longleftrightarrow>
     json payload \<noteq> None \<and> length (cursor_text l json payload) \<le> MAX_CURSOR_BYTES"

lemma cursor_fits_encodes:
  "cursor_fits l json payload \<Longrightarrow> encode_cursor l json payload = Inr (cursor_text l json payload)"
  by (auto simp: cursor_fits_def cursor_text_def encode_cursor_def)

lemma cursor_fits_decodes:
  assumes "cursor_law l json parse" and "cursor_fits l json payload"
  shows "decode_cursor l parse (cursor_text l json payload) = Inr payload"
  using cursor_round_trip [OF assms(1) cursor_fits_encodes [OF assms(2)]] assms(2)
  by (simp add: cursor_fits_def)

lemma next_cursor_fits:
  assumes "\<And>row. last_row = Some row \<Longrightarrow> cursor_fits l json (cursor_of row)"
  shows "next_cursor l json cursor_of last_row =
    Inr (map_option (\<lambda>row. cursor_text l json (cursor_of row)) last_row)"
  using assms by (cases last_row) (simp_all add: next_cursor_def cursor_fits_encodes)


section \<open>The positions of a wallet\<close>

definition position_cursor_at ::
    "api_state \<Rightarrow> string \<Rightarrow> positions_query \<Rightarrow> position_status option \<Rightarrow> database \<Rightarrow> int \<times> int \<times> int \<Rightarrow>
     history_cursor" where
  "position_cursor_at st wallet query status db key =
     position_cursor (positions_fingerprint wallet (pq_market_id query) status) (position_at st db key)"

text \<open>A request that is valid, a database that answers, and cursors that can be made and read.\<close>

definition positions_ready ::
    "api_libraries \<Rightarrow> api_state \<Rightarrow> string \<Rightarrow> positions_query \<Rightarrow> u16 \<Rightarrow> position_status option \<Rightarrow>
     database \<Rightarrow> bool" where
  "positions_ready l st wallet query limit status db \<longleftrightarrow>
     al_parse_pubkey l wallet \<noteq> None \<and> page_limit (pq_limit query) = Inr limit \<and>
     requested_status (pq_status query) = Inr status \<and> as_query_timeout st \<noteq> 0 \<and>
     cursor_law l (al_history_json l) (al_history_parse l) \<and>
     (\<forall>(t, m, i) \<in> position_keys st wallet (pq_market_id query) status db.
        al_valid_micros l t \<and> - (2 ^ 63) \<le> i \<and> i < 2 ^ 63 \<and>
        cursor_fits l (al_history_json l) (position_cursor_at st wallet query status db (t, m, i)))"

lemma position_at_key:
  "(t, m, i) \<in> position_keys st wallet market_id status db \<Longrightarrow>
   pi_sort_time (position_at st db (t, m, i)) = t \<and> pi_market_id (position_at st db (t, m, i)) = m \<and>
   pi_position_id (position_at st db (t, m, i)) = i"
  by (auto simp: position_keys_def position_at_def item_of_row_def)

lemma rows_before_subset: "set (rows_before keys after n) \<subseteq> keys"
proof (cases "finite {k \<in> keys. case after of None \<Rightarrow> True | Some a \<Rightarrow> k < a}")
  case True
  from newest_first_set [OF this] show ?thesis by (auto simp: rows_before_def dest!: in_set_takeD)
qed (simp add: rows_before_def)

lemma newest_first_subset: "set (newest_first keys) \<subseteq> keys"
  by (cases "finite keys") simp_all

lemma position_resumed:
  assumes "positions_ready l st wallet query limit status db"
    and "key \<in> position_keys st wallet (pq_market_id query) status db"
  shows "history_after l (positions_fingerprint wallet (pq_market_id query) status)
      (Some (cursor_text l (al_history_json l) (position_cursor_at st wallet query status db key))) other =
      Inr (Some (position_cursor_at st wallet query status db key))"
    and "position_after l (Some (position_cursor_at st wallet query status db key)) = Inr (Some key)"
proof -
  obtain t m i where key: "key = (t, m, i)" by (cases key)
  with assms have ready: "cursor_law l (al_history_json l) (al_history_parse l)" "al_valid_micros l t"
    "- (2 ^ 63) \<le> i" "i < 2 ^ 63"
    "cursor_fits l (al_history_json l) (position_cursor_at st wallet query status db key)"
    by (auto simp: positions_ready_def)
  show "history_after l (positions_fingerprint wallet (pq_market_id query) status)
      (Some (cursor_text l (al_history_json l) (position_cursor_at st wallet query status db key))) other =
      Inr (Some (position_cursor_at st wallet query status db key))"
    using cursor_fits_decodes [OF ready(1,5)]
    by (simp add: history_after_def position_cursor_at_def position_cursor_def)
  show "position_after l (Some (position_cursor_at st wallet query status db key)) = Inr (Some key)"
    using position_at_key [of t m i] assms(2) ready(2-4) key
    by (simp add: position_after_def cursor_time_def position_cursor_at_def position_cursor_def)
qed

lemma positions_route_step:
  assumes ready: "positions_ready l st wallet query limit status db"
    and "history_after l (positions_fingerprint wallet (pq_market_id query) status) cursor
      ''cursor belongs to a different position query'' = Inr c"
    and "position_after l c = Inr after"
  shows "serves_page (position_at st db)
    (\<lambda>key. cursor_text l (al_history_json l) (position_cursor_at st wallet query status db key)) (unat limit)
    (rows_before (position_keys st wallet (pq_market_id query) status db) after (unat limit + 1))
    (user_positions l st now wallet (query\<lparr>pq_cursor := cursor\<rparr>) (Reads db) (Reads db) m)"
proof -
  let ?keys = "rows_before (position_keys st wallet (pq_market_id query) status db) after (unat limit + 1)"
  let ?fp = "positions_fingerprint wallet (pq_market_id query) status"
  let ?cut = "cut_page (unat limit) ?keys"
  have fits: "cursor_fits l (al_history_json l) (position_cursor ?fp (position_at st db key))"
    if "snd ?cut = Some key" for key
    using ready subsetD [OF rows_before_subset cut_page_last [OF that]]
    by (cases key) (auto simp: positions_ready_def position_cursor_at_def)
  have "next_cursor l (al_history_json l) (position_cursor ?fp) (map_option (position_at st db) (snd ?cut)) =
    Inr (map_option (\<lambda>key. cursor_text l (al_history_json l)
      (position_cursor_at st wallet query status db key)) (snd ?cut))"
    by (subst next_cursor_fits) (auto simp: fits position_cursor_at_def option.map_comp comp_def)
  moreover have "validate_wallet l wallet = Inr (the (al_parse_pubkey l wallet))"
    using ready by (auto simp: positions_ready_def validate_wallet_def)
  ultimately have "user_positions l st now wallet (query\<lparr>pq_cursor := cursor\<rparr>) (Reads db) (Reads db) m =
    enveloped st now (map (position_at st db) (fst ?cut)) (db_refresh db)
      (map_option (\<lambda>key. cursor_text l (al_history_json l)
        (position_cursor_at st wallet query status db key)) (snd ?cut)) m"
    using ready assms(2,3)
    by (simp add: user_positions_def positions_ready_def Let_def positions_page_def cut_page_map
        del: add_Suc_right)
  then show ?thesis
    unfolding serves_page_def
    using enveloped_page [of st now "map (position_at st db) (fst ?cut)" "db_refresh db"] by metis
qed

interpretation positions: paged_route
  "rows_before (position_keys st wallet (pq_market_id query) status db)"
  "newest_first (position_keys st wallet (pq_market_id query) status db)"
  "positions_ready l st wallet query limit status db"
  "\<lambda>cursor. user_positions l st now wallet (query\<lparr>pq_cursor := cursor\<rparr>) (Reads db) (Reads db)"
  "position_at st db"
  "\<lambda>key. cursor_text l (al_history_json l) (position_cursor_at st wallet query status db key)"
  "unat limit"
proof unfold_locales
  assume "positions_ready l st wallet query limit status db"
  then show "0 < unat limit" by (auto simp: positions_ready_def dest: page_limit_bounds)
next
  fix after m
  assume ready: "positions_ready l st wallet query limit status db"
    and after: "case after of None \<Rightarrow> True
      | Some k \<Rightarrow> k \<in> set (newest_first (position_keys st wallet (pq_market_id query) status db))"
  show "serves_page (position_at st db)
    (\<lambda>key. cursor_text l (al_history_json l) (position_cursor_at st wallet query status db key)) (unat limit)
    (rows_before (position_keys st wallet (pq_market_id query) status db) after (unat limit + 1))
    (user_positions l st now wallet (query\<lparr>pq_cursor := map_option (\<lambda>key. cursor_text l (al_history_json l)
      (position_cursor_at st wallet query status db key)) after\<rparr>) (Reads db) (Reads db) m)"
  proof (cases after)
    case None
    show ?thesis
      unfolding None option.map
      by (rule positions_route_step [OF ready, where c = None])
        (simp_all add: history_after_def position_after_def cursor_time_def)
  next
    case (Some key)
    with after newest_first_subset have "key \<in> position_keys st wallet (pq_market_id query) status db" by auto
    from position_resumed [OF ready this] show ?thesis
      unfolding Some option.map by (rule positions_route_step [OF ready])
  qed
qed

text \<open>C38: A client that asks for the positions of a wallet and follows the cursors gets, after finitely many
  requests, every position the query selects, each once, the newest first, as long as the table stays
  as it is.\<close>
theorem positions_paged:
  assumes "al_parse_pubkey l wallet = Some key" and "page_limit (pq_limit query) = Inr limit"
    and "requested_status (pq_status query) = Inr status" and "as_query_timeout st \<noteq> 0"
    and "cursor_law l (al_history_json l) (al_history_parse l)"
    and "keys = position_keys st wallet (pq_market_id query) status db" and "finite keys"
    and "\<forall>(t, m, i) \<in> keys. al_valid_micros l t \<and> - (2 ^ 63) \<le> i \<and> i < 2 ^ 63 \<and>
      cursor_fits l (al_history_json l) (position_cursor_at st wallet query status db (t, m, i))"
    and "card keys < fuel"
  shows "\<exists>ks. walk_route fuel (\<lambda>cursor. user_positions l st now wallet (query\<lparr>pq_cursor := cursor\<rparr>)
      (Reads db) (Reads db)) None metrics = Some (Inr (map (position_at st db) ks)) \<and>
    set ks = keys \<and> sorted_wrt (>) ks"
proof -
  have ready: "positions_ready l st wallet query limit status db"
    using assms(1-6,8) unfolding positions_ready_def by simp
  show ?thesis
    using positions.walk_all [OF ready, where fuel = fuel] assms(6,7,9) newest_first_descending [of keys]
    by (intro exI [of _ "newest_first keys"] conjI) simp_all
qed

end
