(* ===== verification/Api_Boards.thy ===== *)
theory Api_Boards
  imports Api_Pages Runtime
begin

text \<open>
  Leaderboard pages: their ranks, what following the cursors returns, and what a cursor is refused
  for; what a refresh that fails halfway does to the version the cursors rely on; and the liquidity
  history, whose cursor does not tell two rows of one event apart.
\<close>


section \<open>A leaderboard\<close>

definition leaderboard_cursor_at :: "string \<Rightarrow> refresh_row \<Rightarrow> leaderboard_entry \<Rightarrow> leaderboard_cursor" where
  "leaderboard_cursor_at fingerprint status e =
     \<lparr>lc_fingerprint = fingerprint, lc_refresh_version = rf_version status, lc_rank = lb_rank e\<rparr>"

definition leaderboard_ready ::
    "api_libraries \<Rightarrow> api_state \<Rightarrow> leaderboard_query \<Rightarrow> period \<Rightarrow> u16 \<Rightarrow> database \<Rightarrow> bool" where
  "leaderboard_ready l st query p limit db \<longleftrightarrow>
     parse_period (lq_period query) = Inr p \<and> page_limit (lq_limit query) = Inr limit \<and>
     as_query_timeout st \<noteq> 0 \<and> cursor_law l (al_leaderboard_json l) (al_leaderboard_parse l) \<and>
     list_all (\<lambda>e. cursor_fits l (al_leaderboard_json l) (leaderboard_cursor_at
       (leaderboard_fingerprint p (lq_market_id query)) (db_refresh db) e))
       (leaderboard l st p (lq_market_id query) db)"

lemma leaderboard_ranks:
  "map lb_rank (leaderboard l st p market_id db) =
   map int [1..<Suc (length (leaderboard l st p market_id db))]"
  by (simp add: leaderboard_def Let_def board_entry_def case_prod_beta comp_def enumerate_eq_zip
      del: upt_Suc) (simp add: map_fst_zip_take comp_def flip: map_map [of int fst, unfolded comp_def] del: upt_Suc)

text \<open>The rows after a rank.\<close>

lemma ranks_increase: "sorted_wrt (\<lambda>d e. lb_rank d < lb_rank e) (leaderboard l st p market_id db)"
proof -
  have "sorted_wrt (<) (map lb_rank (leaderboard l st p market_id db))"
    unfolding leaderboard_ranks by (simp add: sorted_wrt_map del: upt_Suc)
  then show ?thesis by (simp add: sorted_wrt_map)
qed

lemma rank_positive: "e \<in> set (leaderboard l st p market_id db) \<Longrightarrow> 0 < lb_rank e"
proof -
  assume "e \<in> set (leaderboard l st p market_id db)"
  then have "lb_rank e \<in> set (map lb_rank (leaderboard l st p market_id db))" by simp
  then show "0 < lb_rank e" unfolding leaderboard_ranks by auto
qed

lemma leaderboard_keyset:
  "keyset (\<lambda>after n. leaderboard_page l st p market_id (map_option lb_rank after) n db)
     (leaderboard l st p market_id db)"
proof unfold_locales
  fix n
  have "filter (\<lambda>e. 0 < lb_rank e) (leaderboard l st p market_id db) = leaderboard l st p market_id db"
    by (simp add: filter_id_conv rank_positive)
  then show "leaderboard_page l st p market_id (map_option lb_rank None) n db =
    take n (leaderboard l st p market_id db)"
    by (simp add: leaderboard_page_def)
next
  fix xs k ys n
  assume rows: "leaderboard l st p market_id db = xs @ k # ys"
  have "sorted_wrt (\<lambda>d e. lb_rank d < lb_rank e) (xs @ k # ys)"
    using ranks_increase [of l st p market_id db] by (simp add: rows)
  then have "filter (\<lambda>e. lb_rank k < lb_rank e) xs = []" "filter (\<lambda>e. lb_rank k < lb_rank e) ys = ys"
    by (fastforce simp: sorted_wrt_append filter_empty_conv filter_id_conv)+
  then show "leaderboard_page l st p market_id (map_option lb_rank (Some k)) n db = take n ys"
    by (simp add: leaderboard_page_def rows)
qed

lemma leaderboard_route_step:
  assumes ready: "leaderboard_ready l st query p limit db"
    and "after_rank l (leaderboard_fingerprint p (lq_market_id query)) (db_refresh db) cursor =
      Inr (map_option lb_rank after)"
  shows "serves_page (\<lambda>e. e)
    (\<lambda>e. cursor_text l (al_leaderboard_json l) (leaderboard_cursor_at
      (leaderboard_fingerprint p (lq_market_id query)) (db_refresh db) e)) (unat limit)
    (leaderboard_page l st p (lq_market_id query) (map_option lb_rank after) (unat limit + 1) db)
    (leaderboards l st now (query\<lparr>lq_cursor := cursor\<rparr>) (Reads db) (Reads db) m)"
proof -
  let ?fp = "leaderboard_fingerprint p (lq_market_id query)"
  let ?rows = "leaderboard_page l st p (lq_market_id query) (map_option lb_rank after) (unat limit + 1) db"
  let ?cut = "cut_page (unat limit) ?rows"
  let ?cursor = "leaderboard_cursor_at ?fp (db_refresh db)"
  have "set ?rows \<subseteq> set (leaderboard l st p (lq_market_id query) db)"
    by (auto simp: leaderboard_page_def dest!: in_set_takeD)
  then have fits: "cursor_fits l (al_leaderboard_json l) (?cursor e)" if "snd ?cut = Some e" for e
    using ready cut_page_last [OF that] by (auto simp: leaderboard_ready_def list_all_iff)
  have "next_cursor l (al_leaderboard_json l) ?cursor (snd ?cut) =
    Inr (map_option (\<lambda>e. cursor_text l (al_leaderboard_json l) (?cursor e)) (snd ?cut))"
    by (rule next_cursor_fits) (rule fits)
  moreover have "?cursor = (\<lambda>e. \<lparr>lc_fingerprint = ?fp, lc_refresh_version = rf_version (db_refresh db),
      lc_rank = lb_rank e\<rparr>)" by (simp add: fun_eq_iff leaderboard_cursor_at_def)
  ultimately have "leaderboards l st now (query\<lparr>lq_cursor := cursor\<rparr>) (Reads db) (Reads db) m =
    enveloped st now (fst ?cut) (db_refresh db)
      (map_option (\<lambda>e. cursor_text l (al_leaderboard_json l) (?cursor e)) (snd ?cut)) m"
    using ready assms(2)
    by (simp add: leaderboards_def leaderboard_ready_def Let_def case_prod_beta del: add_Suc_right)
  then show ?thesis
    unfolding serves_page_def list.map_ident
    using enveloped_page [of st now "fst ?cut" "db_refresh db"] by metis
qed

lemma rank_resumed:
  assumes "leaderboard_ready l st query p limit db"
    and "e \<in> set (leaderboard l st p (lq_market_id query) db)"
  shows "after_rank l (leaderboard_fingerprint p (lq_market_id query)) (db_refresh db)
    (Some (cursor_text l (al_leaderboard_json l) (leaderboard_cursor_at
      (leaderboard_fingerprint p (lq_market_id query)) (db_refresh db) e))) = Inr (Some (lb_rank e))"
proof -
  from assms have "cursor_law l (al_leaderboard_json l) (al_leaderboard_parse l)"
    and "cursor_fits l (al_leaderboard_json l) (leaderboard_cursor_at
      (leaderboard_fingerprint p (lq_market_id query)) (db_refresh db) e)"
    by (auto simp: leaderboard_ready_def list_all_iff)
  from cursor_fits_decodes [OF this] show ?thesis
    by (simp add: after_rank_def leaderboard_cursor_at_def)
qed

interpretation boards: paged_route
  "\<lambda>after n. leaderboard_page l st p (lq_market_id query) (map_option lb_rank after) n db"
  "leaderboard l st p (lq_market_id query) db"
  "leaderboard_ready l st query p limit db"
  "\<lambda>cursor. leaderboards l st now (query\<lparr>lq_cursor := cursor\<rparr>) (Reads db) (Reads db)"
  "\<lambda>e. e"
  "\<lambda>e. cursor_text l (al_leaderboard_json l) (leaderboard_cursor_at
     (leaderboard_fingerprint p (lq_market_id query)) (db_refresh db) e)"
  "unat limit"
proof (rule paged_route.intro [OF leaderboard_keyset], unfold_locales)
  assume "leaderboard_ready l st query p limit db"
  then show "0 < unat limit" by (auto simp: leaderboard_ready_def dest: page_limit_bounds)
next
  fix after m
  assume ready: "leaderboard_ready l st query p limit db"
    and after: "case after of None \<Rightarrow> True
      | Some e \<Rightarrow> e \<in> set (leaderboard l st p (lq_market_id query) db)"
  show "serves_page (\<lambda>e. e)
    (\<lambda>e. cursor_text l (al_leaderboard_json l) (leaderboard_cursor_at
      (leaderboard_fingerprint p (lq_market_id query)) (db_refresh db) e)) (unat limit)
    (leaderboard_page l st p (lq_market_id query) (map_option lb_rank after) (unat limit + 1) db)
    (leaderboards l st now (query\<lparr>lq_cursor := map_option (\<lambda>e. cursor_text l (al_leaderboard_json l)
      (leaderboard_cursor_at (leaderboard_fingerprint p (lq_market_id query)) (db_refresh db) e)) after\<rparr>)
      (Reads db) (Reads db) m)"
  proof (rule leaderboard_route_step [OF ready])
    show "after_rank l (leaderboard_fingerprint p (lq_market_id query)) (db_refresh db)
      (map_option (\<lambda>e. cursor_text l (al_leaderboard_json l) (leaderboard_cursor_at
        (leaderboard_fingerprint p (lq_market_id query)) (db_refresh db) e)) after) =
      Inr (map_option lb_rank after)"
      using after rank_resumed [OF ready] by (cases after) (auto simp: after_rank_def)
  qed
qed



section \<open>Where pages go wrong\<close>

text \<open>A refresh whose second view fails has already rebuilt the market boards, but keeps the version:
  cursors of the board before it are still accepted and resume in another board.\<close>

lemma after_rank_version:
  assumes "rf_version status = rf_version status'"
  shows "after_rank l fingerprint status cursor = after_rank l fingerprint status' cursor"
  unfolding after_rank_def assms ..

lemma failed_refresh_keeps_version:
  assumes "refresh_locked cal True interval (GlobalViewFailed message) milliseconds db = (res, db')"
  shows "db_market_board db' = (db_positions db, db_now db) \<and>
    after_rank l fingerprint (db_refresh db') cursor = after_rank l fingerprint (db_refresh db) cursor"
  using assms by (auto simp: refresh_locked_def Let_def intro!: after_rank_version)

end
