(* ===== verification/Operations.thy ===== *)
theory Operations
  imports Api_Router Api_Boards
begin

text \<open>
  Operating the indexer: the environment its commands are configured from (\<open>ProbeConfig::from_env\<close>,
  \<open>main.rs\<close>) and the check of a running API against the chain (\<open>smoke.rs\<close>, \<open>check_api\<close>), which
  composes the pass over the chain with the API's routes.
\<close>


section \<open>Configuration\<close>

definition DEFAULT_BASE_RPC :: string where "DEFAULT_BASE_RPC = ''https://rpc.magicblock.app/devnet''"
definition DEFAULT_ROUTER :: string where "DEFAULT_ROUTER = ''https://devnet-router.magicblock.app/''"
definition DEFAULT_MARKET_ID :: u16 where "DEFAULT_MARKET_ID = 1"

text \<open>Unlike that of \<open>sources/mod.rs\<close>, this \<open>parse_http_url\<close> leaves the URL as it is.\<close>

definition env_http_url :: "url_library \<Rightarrow> string \<Rightarrow> indexer_error + url" where
  "env_http_url u text =
     and_then (ok_or (parse_url u text) InvalidUrl) (\<lambda>url.
     and_then (require (url_scheme url = ''http'' \<or> url_scheme url = ''https'') InvalidUrl) (\<lambda>_.
     Inr url))"

text \<open>\<open>str::parse::<u16>\<close>: a plus sign is accepted, a minus sign is not.\<close>

definition parse_u16 :: "string \<Rightarrow> u16 option" where
  "parse_u16 s =
     (let digits = (if s \<noteq> [] \<and> hd s = CHR ''+'' then tl s else s) in
      if digits = [] then None
      else Option.bind (parse_digits 0 digits) (\<lambda>n. if n < 2 ^ 16 then Some (of_nat n) else None))"

text \<open>The environment gives a variable's text, or nothing. The router's URL is returned beside the
  record, which holds what the passes use.\<close>

definition from_env ::
    "url_library \<Rightarrow> client \<Rightarrow> (string \<Rightarrow> string option) \<Rightarrow> string \<Rightarrow> indexer_error + probe_config \<times> url" where
  "from_env u c var network =
     (let or_default = (\<lambda>name d. case var name of None \<Rightarrow> d | Some text \<Rightarrow> text) in
      and_then (env_http_url u (or_default ''SOLANA_RPC_ENDPOINT'' DEFAULT_BASE_RPC)) (\<lambda>base_rpc.
      and_then (env_http_url u (or_default ''ROUTER_ENDPOINT'' DEFAULT_ROUTER)) (\<lambda>router.
      and_then (ok_or (parse_pubkey c PROGRAM_ID) InvalidConfiguration) (\<lambda>decoder_program.
      and_then (case var ''LEVERAGED_PREDICTION_PROGRAM_ID'' of
          Some text \<Rightarrow> ok_or (parse_pubkey c text) InvalidConfiguration
        | None \<Rightarrow> Inr decoder_program) (\<lambda>program.
      and_then (case var ''LEVERAGED_PREDICTION_MARKET_ID'' of
          Some text \<Rightarrow> ok_or (parse_u16 text) InvalidConfiguration
        | None \<Rightarrow> Inr DEFAULT_MARKET_ID) (\<lambda>market_id.
      and_then (require (program = decoder_program) InvalidConfiguration) (\<lambda>_.
      Inr (\<lparr>pc_network = network, pc_base_rpc = base_rpc, pc_program = program,
            pc_market_id = market_id\<rparr>, router))))))))"

lemma parse_u16_show: "parse_u16 (show_nat (unat n)) = Some n"
proof -
  obtain d cs where d: "d < 10" "show_nat (unat n) = digit_char d # cs" using show_nat_head by blast
  have "digit_char d \<noteq> CHR ''+''"
  proof
    assume "digit_char d = CHR ''+''"
    then have "(of_char (digit_char d) :: nat) = 43" by simp
    with of_digit_char [OF d(1)] show False by simp
  qed
  moreover have "unat n < 2 ^ 16" using unsigned_less [of n] by simp
  ultimately show ?thesis
    using d(2) parse_digits_show [of "unat n"] by (simp add: parse_u16_def Let_def)
qed

text \<open>Every command that starts works for the one program the decoder was generated from, reads over
  HTTP, and takes the market the environment names.\<close>

theorem from_env_sound:
  assumes "from_env u c var network = Inr (config, router)"
  shows "parse_pubkey c PROGRAM_ID = Some (pc_program config) \<and>
    url_scheme (pc_base_rpc config) \<in> {''http'', ''https''} \<and> url_scheme router \<in> {''http'', ''https''} \<and>
    pc_market_id config = (case var ''LEVERAGED_PREDICTION_MARKET_ID'' of None \<Rightarrow> 1
      | Some text \<Rightarrow> the (parse_u16 text))"
proof -
  have scheme: "url_scheme url \<in> {''http'', ''https''}" if "env_http_url u t = Inr url" for t url
    using that by (auto simp: env_http_url_def and_then_eq_Inr require_eq_Inr)
  from assms obtain base_rpc program decoder_program market_id where
    "env_http_url u (case var ''SOLANA_RPC_ENDPOINT'' of None \<Rightarrow> DEFAULT_BASE_RPC | Some text \<Rightarrow> text) = Inr base_rpc"
    and "env_http_url u (case var ''ROUTER_ENDPOINT'' of None \<Rightarrow> DEFAULT_ROUTER | Some text \<Rightarrow> text) = Inr router"
    and "ok_or (parse_pubkey c PROGRAM_ID) InvalidConfiguration = Inr decoder_program"
    and market: "(case var ''LEVERAGED_PREDICTION_MARKET_ID'' of
        Some text \<Rightarrow> ok_or (parse_u16 text) InvalidConfiguration | None \<Rightarrow> Inr DEFAULT_MARKET_ID) = Inr market_id"
    and "program = decoder_program"
    and "config = \<lparr>pc_network = network, pc_base_rpc = base_rpc, pc_program = program, pc_market_id = market_id\<rparr>"
    unfolding from_env_def Let_def and_then_eq_Inr require_eq_Inr by blast
  moreover from market have "market_id = (case var ''LEVERAGED_PREDICTION_MARKET_ID'' of None \<Rightarrow> 1
      | Some text \<Rightarrow> the (parse_u16 text))"
    by (cases "var ''LEVERAGED_PREDICTION_MARKET_ID''") (auto simp: DEFAULT_MARKET_ID_def ok_or_eq_Inr)
  ultimately show ?thesis using scheme by (simp add: ok_or_eq_Inr)
qed


section \<open>Checking the API\<close>

record api_check_report =
  ck_endpoint :: string
  ck_ready :: bool
  ck_market_id :: u16
  ck_high_water :: "int option"
  ck_leaderboard_rows :: nat
  ck_stale :: bool

text \<open>A request: \<open>error_for_status\<close> refuses 4xx and 5xx. The server answers and moves its metrics.\<close>

type_synonym api_server = "api_request \<Rightarrow> api_metrics \<Rightarrow> (nat \<times> api_body) \<times> api_metrics"

definition get_json ::
    "api_server \<Rightarrow> api_request \<Rightarrow> api_metrics \<Rightarrow> (indexer_error + api_body) \<times> api_metrics" where
  "get_json server request m =
     (case server request m of ((status, body), m) \<Rightarrow>
        (if 400 \<le> status \<and> status < 600 then Inl RpcFailed else Inr body, m))"

text \<open>Indexing into a JSON value of another shape gives null, which the conversions refuse.\<close>

definition body_market_id :: "api_body \<Rightarrow> int option" where
  "body_market_id body = (case body of SummaryBody env \<Rightarrow> Some (ms_market_id (env_data env)) | _ \<Rightarrow> None)"

definition body_ready :: "api_body \<Rightarrow> bool" where
  "body_ready body = (case body of HealthBody health \<Rightarrow> he_status health = ''ready'' | _ \<Rightarrow> False)"

definition check_api ::
    "url_library \<Rightarrow> url \<Rightarrow> smoke_report \<Rightarrow> api_server \<Rightarrow> api_metrics \<Rightarrow>
     (indexer_error + api_check_report) \<times> api_metrics" where
  "check_api u endpoint report server m =
     (case get_json server GetReady m of (Inl e, m) \<Rightarrow> (Inl e, m) | (Inr ready, m) \<Rightarrow>
     (case get_json server (GetSummary (sk_market_id report)) m of (Inl e, m) \<Rightarrow> (Inl e, m) | (Inr market, m) \<Rightarrow>
     (case get_json server (GetLeaderboards \<lparr>lq_period = Some ''all'',
         lq_market_id = Some (sk_market_id report), lq_limit = Some 5, lq_cursor = None\<rparr>) m of
       (Inl e, m) \<Rightarrow> (Inl e, m) | (Inr board, m) \<Rightarrow>
     (case body_market_id market of None \<Rightarrow> (Inl InvariantFailed, m) | Some api_market_id \<Rightarrow>
      if api_market_id \<noteq> int (unat (sk_market_id report)) \<or> sk_market_count report \<noteq> 1
      then (Inl InvariantFailed, m)
      else (case board of
        LeaderboardsBody env \<Rightarrow>
          (Inr \<lparr>ck_endpoint = redact_url u endpoint, ck_ready = body_ready ready,
                ck_market_id = sk_market_id report, ck_high_water = me_high_water (env_meta env),
                ck_leaderboard_rows = length (env_data env), ck_stale = me_stale (env_meta env)\<rparr>, m)
      | _ \<Rightarrow> (Inl InvariantFailed, m))))))"


section \<open>The check against the chain\<close>

lemma timed_read: "as_query_timeout st \<noteq> 0 \<Longrightarrow> timed st (Reads db) q m = (Inr (q db), m)"
  by (simp add: timed_def)

lemma status_read: "as_query_timeout st \<noteq> 0 \<Longrightarrow> projection_status st (Reads db) m = (Inr (db_refresh db), m)"
  by (simp add: projection_status_def timed_read)

definition reference_server :: "api_libraries \<Rightarrow> api_state \<Rightarrow> int \<Rightarrow> nat \<Rightarrow> database \<Rightarrow> api_server" where
  "reference_server l st now elapsed db request m =
     serve_request l st now elapsed request (Reads db) (Reads db) m"

lemma get_json_served:
  assumes "api_route l st now request (Reads db) (Reads db)
      (m\<lparr>am_requests := am_requests m + 1, am_active := am_active m + 1\<rparr>) = ((status, body), m1)"
  shows "\<exists>m'. get_json (reference_server l st now elapsed db) request m =
    (if 400 \<le> status \<and> status < 600 then Inl RpcFailed else Inr body, m')"
  using assms by (simp add: get_json_def reference_server_def serve_request_def track_def Let_def)

lemma ready_served:
  assumes "as_query_timeout st \<noteq> 0"
  shows "\<exists>m' body. get_json (reference_server l st now elapsed db) GetReady m =
    (if am_listener_connected m then Inr body else Inl RpcFailed, m') \<and>
    (am_listener_connected m \<longrightarrow> body_ready body)"
proof -
  let ?m = "m\<lparr>am_requests := am_requests m + 1, am_active := am_active m + 1\<rparr>"
  let ?body = "HealthBody \<lparr>he_status = if am_listener_connected m then ''ready'' else ''not_ready'',
    he_database = Some ''reachable'', he_position_stream = Some (if am_listener_connected m then ''ready'' else ''unavailable'')\<rparr>"
  have "api_route l st now GetReady (Reads db) (Reads db) ?m =
      ((if am_listener_connected m then 200 else 503, ?body), ?m)"
    by (simp add: api_ready_def timed_read [OF assms])
  from get_json_served [OF this, of elapsed] show ?thesis
    by (cases "am_listener_connected m") (auto simp: body_ready_def)
qed

lemma summary_served:
  assumes "as_query_timeout st \<noteq> 0"
  shows "\<exists>m' env. get_json (reference_server l st now elapsed db) (GetSummary market_id) m =
    (if db_markets db (as_network st, as_program st, int (unat market_id)) = None then Inl RpcFailed
     else Inr (SummaryBody env), m') \<and>
    (db_markets db (as_network st, as_program st, int (unat market_id)) \<noteq> None \<longrightarrow>
      ms_market_id (env_data env) = int (unat market_id))"
proof -
  let ?m = "m\<lparr>am_requests := am_requests m + 1, am_active := am_active m + 1\<rparr>"
  let ?row = "db_markets db (as_network st, as_program st, int (unat market_id))"
  show ?thesis
  proof (cases ?row)
    case None
    then have "api_route l st now (GetSummary market_id) (Reads db) (Reads db) ?m =
        ((404, ErrorBody ''not_found'' ''market was not found''), ?m)"
      by (simp add: answer_def market_summary_def Let_def api_then_def timed_read [OF assms] check_def
          ok_or_def error_response_def)
    from get_json_served [OF this, of elapsed] None show ?thesis by simp
  next
    case (Some row)
    then obtain meta m1 where "api_route l st now (GetSummary market_id) (Reads db) (Reads db) ?m =
        ((200, SummaryBody \<lparr>env_data = summary_of (int (unat market_id)) row, env_meta = meta\<rparr>), m1)"
      by (simp add: answer_def market_summary_def Let_def api_then_def timed_read [OF assms] check_def
          ok_or_def status_read [OF assms] enveloped_def response_meta_def respond_def)
    from get_json_served [OF this, of elapsed] Some show ?thesis by (auto simp: summary_of_def)
  qed
qed

lemma next_cursor_total:
  assumes "\<And>payload. json payload \<noteq> None"
  shows "\<exists>cursor. next_cursor l json cursor_of last_row = Inr cursor"
proof (cases last_row)
  case (Some row)
  from assms obtain bytes where "json (cursor_of row) = Some bytes" by blast
  with Some show ?thesis by (simp add: next_cursor_def encode_cursor_def)
qed (simp add: next_cursor_def)

lemma top_of_board:
  assumes "parse_period (lq_period query) = Inr p" and "page_limit (lq_limit query) = Inr limit"
    and "lq_cursor query = None" and "as_query_timeout st \<noteq> 0" and "\<And>cursor. al_leaderboard_json l cursor \<noteq> None"
  shows "\<exists>env m'. leaderboards l st now query (Reads db) (Reads db) m = (Inr env, m') \<and>
    env_data env = take (unat limit) (leaderboard l st p (lq_market_id query) db) \<and>
    me_high_water (env_meta env) = rf_high_water (db_refresh db) \<and>
    me_stale (env_meta env) = projection_stale st now (rf_last_success (db_refresh db))"
proof -
  let ?board = "leaderboard l st p (lq_market_id query) db"
  let ?rows = "leaderboard_page l st p (lq_market_id query) None (unat limit + 1) db"
  have "?rows = take (unat limit + 1) ?board"
    using keyset.first [OF leaderboard_keyset [of l st p "lq_market_id query" db], of "unat limit + 1"] by simp
  moreover have "0 < unat limit" using page_limit_bounds [OF assms(2)] by simp
  ultimately have page: "fst (cut_page (unat limit) ?rows) = take (unat limit) ?board"
    by (simp only: cut_page_take) simp
  obtain cursor where cursor: "next_cursor l (al_leaderboard_json l)
      (\<lambda>e. \<lparr>lc_fingerprint = leaderboard_fingerprint p (lq_market_id query),
        lc_refresh_version = rf_version (db_refresh db), lc_rank = lb_rank e\<rparr>) (snd (cut_page (unat limit) ?rows)) = Inr cursor"
    using next_cursor_total [where json = "al_leaderboard_json l", OF assms(5)] by blast
  have "leaderboards l st now query (Reads db) (Reads db) m =
      enveloped st now (take (unat limit) ?board) (db_refresh db) cursor m"
    by (simp add: leaderboards_def api_then_def check_def assms(1-3) status_read [OF assms(4)] timed_read [OF assms(4)]
        after_rank_def Let_def case_prod_unfold cursor page del: add_Suc_right One_nat_def)
  then show ?thesis
    by (simp add: enveloped_def api_then_def response_meta_def respond_def Let_def)
qed

lemma board_served:
  assumes "as_query_timeout st \<noteq> 0" and "\<And>cursor. al_leaderboard_json l cursor \<noteq> None"
  shows "\<exists>m' env. get_json (reference_server l st now elapsed db) (GetLeaderboards \<lparr>lq_period = Some ''all'',
      lq_market_id = market_id, lq_limit = Some 5, lq_cursor = None\<rparr>) m = (Inr (LeaderboardsBody env), m') \<and>
    length (env_data env) = min 5 (length (leaderboard l st AllTime market_id db)) \<and>
    me_high_water (env_meta env) = rf_high_water (db_refresh db) \<and>
    me_stale (env_meta env) = projection_stale st now (rf_last_success (db_refresh db))"
proof -
  let ?query = "\<lparr>lq_period = Some ''all'', lq_market_id = market_id, lq_limit = Some 5, lq_cursor = None\<rparr>"
  let ?m = "m\<lparr>am_requests := am_requests m + 1, am_active := am_active m + 1\<rparr>"
  have params: "parse_period (lq_period ?query) = Inr AllTime" "page_limit (lq_limit ?query) = Inr 5" "lq_cursor ?query = None"
    by (simp_all add: parse_period_def period_from_str_def page_limit_def MAX_LIMIT_def)
  obtain env m1 where served: "leaderboards l st now ?query (Reads db) (Reads db) ?m = (Inr env, m1)"
    and env: "env_data env = take (unat (5::u16)) (leaderboard l st AllTime (lq_market_id ?query) db)"
      "me_high_water (env_meta env) = rf_high_water (db_refresh db)"
      "me_stale (env_meta env) = projection_stale st now (rf_last_success (db_refresh db))"
    using top_of_board [OF params assms] by blast
  have "api_route l st now (GetLeaderboards ?query) (Reads db) (Reads db) ?m = ((200, LeaderboardsBody env), m1)"
    by (simp add: answer_def served)
  from get_json_served [OF this, of elapsed] show ?thesis
    using env by (auto simp: min_def)
qed

text \<open>Against an API on the same network, program and database the check after a pass succeeds exactly
  when the position listener is connected and the pass saw the market's row; it then reports the
  leaderboard of all time, at most five rows of it.\<close>

theorem check_api_exact:
  assumes "check_reports u c config market er base persisted restart reports db = (Inr report, db)"
    and "as_network st = pc_network config" and "as_program st = PROGRAM_ID" and "as_query_timeout st \<noteq> 0"
    and "\<And>cursor. al_leaderboard_json l cursor \<noteq> None"
  shows "fst (check_api u endpoint report (reference_server l st now elapsed db) m) =
    (if am_listener_connected m \<and> sk_market_count report = 1
     then Inr \<lparr>ck_endpoint = redact_url u endpoint, ck_ready = True, ck_market_id = pc_market_id config,
       ck_high_water = rf_high_water (db_refresh db),
       ck_leaderboard_rows = min 5 (length (leaderboard l st AllTime (Some (pc_market_id config)) db)),
       ck_stale = projection_stale st now (rf_last_success (db_refresh db))\<rparr>
     else Inl RpcFailed)"
proof -
  have report: "sk_market_id report = pc_market_id config"
    "sk_market_count report = (if db_markets db (pc_network config, PROGRAM_ID, int (unat (pc_market_id config))) = None then 0 else 1)"
    using assms(1) by (auto simp: check_reports_def Let_def split: if_splits option.splits)
  let ?server = "reference_server l st now elapsed db"
  obtain m1 ready where 1: "get_json ?server GetReady m = (if am_listener_connected m then Inr ready else Inl RpcFailed, m1)"
    and ready: "am_listener_connected m \<longrightarrow> body_ready ready"
    using ready_served [OF assms(4)] by blast
  obtain m2 env where 2: "get_json ?server (GetSummary (sk_market_id report)) m1 =
      (if db_markets db (as_network st, as_program st, int (unat (sk_market_id report))) = None then Inl RpcFailed
       else Inr (SummaryBody env), m2)"
    and env: "db_markets db (as_network st, as_program st, int (unat (sk_market_id report))) \<noteq> None \<longrightarrow>
      ms_market_id (env_data env) = int (unat (sk_market_id report))"
    using summary_served [OF assms(4)] by blast
  obtain m3 board where 3: "get_json ?server (GetLeaderboards \<lparr>lq_period = Some ''all'',
      lq_market_id = Some (sk_market_id report), lq_limit = Some 5, lq_cursor = None\<rparr>) m2 = (Inr (LeaderboardsBody board), m3)"
    and board: "length (env_data board) = min 5 (length (leaderboard l st AllTime (Some (sk_market_id report)) db))"
      "me_high_water (env_meta board) = rf_high_water (db_refresh db)"
      "me_stale (env_meta board) = projection_stale st now (rf_last_success (db_refresh db))"
    using board_served [OF assms(4,5)] by blast
  show ?thesis
    using 1 2 3 env ready report assms(2,3)
    by (auto simp: check_api_def body_market_id_def board)
qed

end
