(* ===== verification/Api_Contract.thy ===== *)
theory Api_Contract
  imports Operations
begin

text \<open>
  The API's self-check (\<open>contract_test\<close>, \<open>crates/api/src/lib.rs\<close>): it pages through a leaderboard,
  offers a cursor of another version and a wallet that is none, calls every route once, and asks an API
  that takes everything for stale and one whose queries may take no time. A well-filled database passes.
\<close>


section \<open>The check\<close>

record contract_report =
  ct_routes_checked :: nat
  ct_pagination :: bool
  ct_stale_cursor :: bool
  ct_stale_metadata :: bool
  ct_precision_string :: bool
  ct_invalid_input :: bool
  ct_unavailable :: bool

datatype contract_error = NoPageCursor | StatusUnavailable | NotServed api_request | ContractBroken

definition CONTRACT_WALLET :: string where "CONTRACT_WALLET = ''9g9n7TArsFPw7GvPuU8d5NTSAv1mr1gdfDhu97LqryBw''"

definition board_request :: "string \<Rightarrow> u16 option \<Rightarrow> u16 option \<Rightarrow> string option \<Rightarrow> api_request" where
  "board_request period_text market_id limit cursor = GetLeaderboards
     \<lparr>lq_period = Some period_text, lq_market_id = market_id, lq_limit = limit, lq_cursor = cursor\<rparr>"

text \<open>What the check reads of a response; null where the body has another shape.\<close>

definition body_cursor :: "api_body \<Rightarrow> string option" where
  "body_cursor body = (case body of LeaderboardsBody env \<Rightarrow> me_next_cursor (env_meta env) | _ \<Rightarrow> None)"

definition body_rows :: "api_body \<Rightarrow> leaderboard_entry list option" where
  "body_rows body = (case body of LeaderboardsBody env \<Rightarrow> Some (env_data env) | _ \<Rightarrow> None)"

definition body_stale :: "api_body \<Rightarrow> bool" where
  "body_stale body = (case body of LeaderboardsBody env \<Rightarrow> me_stale (env_meta env) | _ \<Rightarrow> False)"

definition body_code :: "api_body \<Rightarrow> string option" where
  "body_code body = (case body of ErrorBody code message \<Rightarrow> Some code | _ \<Rightarrow> None)"

text \<open>Every route but the leaderboard's once.\<close>

definition contract_requests :: "(pubkey \<Rightarrow> string) \<Rightarrow> nat \<Rightarrow> nat \<Rightarrow> api_request list" where
  "contract_requests show_key pool_size pool_idle =
     [GetStats (show_key (replicate 32 90)) (Some ''all'') None,
      GetPositions CONTRACT_WALLET \<lparr>pq_market_id = Some 1, pq_status = None, pq_limit = None, pq_cursor = None\<rparr>,
      GetLiquidity CONTRACT_WALLET \<lparr>yq_market_id = Some 1, yq_limit = None, yq_cursor = None\<rparr>,
      GetPosition 1 1, GetSummary 1, GetLive, GetReady, GetMetrics pool_size pool_idle]"

fun all_served :: "api_server \<Rightarrow> api_request list \<Rightarrow> api_metrics \<Rightarrow> (contract_error + unit) \<times> api_metrics" where
  "all_served server [] m = (Inr (), m)"
| "all_served server (request # requests) m =
     (case server request m of ((status, body), m) \<Rightarrow>
        if status = 200 then all_served server requests m else (Inl (NotServed request), m))"

text \<open>A payout and a profit are strings by their type, so that check always holds.\<close>

definition contract_test ::
    "api_libraries \<Rightarrow> (pubkey \<Rightarrow> string) \<Rightarrow> (api_state \<Rightarrow> api_server) \<Rightarrow> api_state \<Rightarrow> reading \<Rightarrow> nat \<Rightarrow> nat \<Rightarrow>
     api_metrics \<Rightarrow> contract_error + contract_report" where
  "contract_test l show_key server st status_reading pool_size pool_idle m =
     (let m = set_position_listener_connected True m in
      case server st (board_request ''today'' (Some 1) (Some 2) None) m of ((status, first), m) \<Rightarrow>
      if status \<noteq> 200 then Inl ContractBroken
      else case body_cursor first of None \<Rightarrow> Inl NoPageCursor
      | Some page_cursor \<Rightarrow>
      (case server st (board_request ''today'' (Some 1) (Some 2) (Some page_cursor)) m of ((status, second), m) \<Rightarrow>
      let pagination = (status = 200 \<and> (case body_rows second of None \<Rightarrow> False | Some rows \<Rightarrow> rows \<noteq> [])) in
      case projection_status st status_reading m of (Inl _, m) \<Rightarrow> Inl StatusUnavailable | (Inr row, m) \<Rightarrow>
      (case encode_cursor l (al_leaderboard_json l) \<lparr>lc_fingerprint = ''today:1'',
          lc_refresh_version = max (- (2 ^ 63)) (rf_version row - 1), lc_rank = 1\<rparr> of
        Inl _ \<Rightarrow> Inl ContractBroken
      | Inr other \<Rightarrow>
      (case server st (board_request ''today'' (Some 1) None (Some other)) m of ((status, refused), m) \<Rightarrow>
      let stale_cursor = (status = 409 \<and> body_code refused = Some ''cursor_stale'') in
      case server st (GetStats ''not-a-wallet'' None None) m of ((status, invalid), m) \<Rightarrow>
      let invalid_input = (status = 400 \<and> body_code invalid = Some ''invalid_request'') in
      case all_served (server st) (contract_requests show_key pool_size pool_idle) m of (Inl e, m) \<Rightarrow> Inl e
      | (Inr _, m) \<Rightarrow>
      (case server (st\<lparr>as_max_staleness := 0\<rparr>) (board_request ''all'' None (Some 1) None) default_metrics of
        ((_, stale), _) \<Rightarrow>
      case server (st\<lparr>as_query_timeout := 0\<rparr>) (board_request ''all'' None (Some 1) None) default_metrics of
        ((status, unavailable), _) \<Rightarrow>
      let no_index = (status = 503 \<and> body_code unavailable = Some ''index_unavailable'') in
      if pagination \<and> stale_cursor \<and> body_stale stale \<and> invalid_input \<and> no_index
      then Inr \<lparr>ct_routes_checked = 9, ct_pagination = pagination, ct_stale_cursor = stale_cursor,
        ct_stale_metadata = body_stale stale, ct_precision_string = True, ct_invalid_input = invalid_input,
        ct_unavailable = no_index\<rparr>
      else Inl ContractBroken)))))"


section \<open>Serving one request\<close>

text \<open>The answer to a request, which leaves the listener's state as it is.\<close>

definition answered :: "api_server \<Rightarrow> bool \<Rightarrow> api_request \<Rightarrow> nat \<Rightarrow> (api_body \<Rightarrow> bool) \<Rightarrow> bool" where
  "answered server connected request status P \<longleftrightarrow>
     (\<forall>m. am_listener_connected m = connected \<longrightarrow>
        (\<exists>body m'. server request m = ((status, body), m') \<and> P body \<and> am_listener_connected m' = connected))"

lemma answeredE:
  assumes "answered server connected request status P" and "am_listener_connected m = connected"
  obtains body m' where "server request m = ((status, body), m')" "P body" "am_listener_connected m' = connected"
  using assms unfolding answered_def by blast

lemma answeredI:
  assumes "\<And>m. am_listener_connected m = connected \<Longrightarrow>
    \<exists>body. fst (api_route l st now request (Reads db) (Reads db) m) = (status, body) \<and> P body"
  shows "answered (reference_server l st now elapsed db) connected request status P"
  unfolding answered_def
proof (intro allI impI)
  fix m :: api_metrics
  assume c: "am_listener_connected m = connected"
  let ?m = "m\<lparr>am_requests := am_requests m + 1, am_active := am_active m + 1\<rparr>"
  from assms [of ?m] c obtain body m1 where
    route: "api_route l st now request (Reads db) (Reads db) ?m = ((status, body), m1)" and "P body"
    by (auto simp: prod_eq_iff)
  moreover have "am_listener_connected m1 = am_listener_connected m"
    using only_countsD [OF only_counts_route route] by (simp add: connection_counters_def)
  ultimately show "\<exists>body m'. reference_server l st now elapsed db request m = ((status, body), m') \<and> P body \<and>
      am_listener_connected m' = connected"
    using c by (simp add: reference_server_def serve_request_def track_def Let_def)
qed

lemma all_served_answered:
  assumes "\<forall>request \<in> set requests. answered server connected request 200 (\<lambda>_. True)"
    and "am_listener_connected m = connected"
  shows "\<exists>m'. all_served server requests m = (Inr (), m')"
  using assms
proof (induction requests arbitrary: m)
  case (Cons request requests)
  from Cons.prems(1) have "answered server connected request 200 (\<lambda>_. True)" by simp
  from answeredE [OF this Cons.prems(2)] obtain body m1 where
    "server request m = ((200, body), m1)" "am_listener_connected m1 = connected" .
  with Cons show ?case by simp
qed simp


section \<open>Handlers that succeed\<close>

definition succeeds :: "'a api_action \<Rightarrow> bool" where
  "succeeds f \<longleftrightarrow> (\<forall>m. \<exists>x m'. f m = (Inr x, m'))"

lemma succeeds_then:
  assumes "succeeds f" and "\<And>x. succeeds (k x)"
  shows "succeeds (api_then f k)"
  unfolding succeeds_def
proof
  fix m
  from assms(1) obtain x m1 where 1: "f m = (Inr x, m1)" unfolding succeeds_def by blast
  from assms(2) [of x] obtain y m2 where "k x m1 = (Inr y, m2)" unfolding succeeds_def by blast
  with 1 show "\<exists>y m2. api_then f k m = (Inr y, m2)" by (simp add: api_then_def)
qed

lemma succeeds_check: "r = Inr x \<Longrightarrow> succeeds (k x) \<Longrightarrow> succeeds (api_then (check r) k)"
  by (simp add: succeeds_def api_then_def check_def)

lemma succeeds_timed:
  "as_query_timeout st \<noteq> 0 \<Longrightarrow> succeeds (k (q db)) \<Longrightarrow> succeeds (api_then (timed st (Reads db) q) k)"
  by (simp add: succeeds_def api_then_def timed_read)

lemma succeeds_status:
  "as_query_timeout st \<noteq> 0 \<Longrightarrow> succeeds (k (db_refresh db)) \<Longrightarrow> succeeds (api_then (projection_status st (Reads db)) k)"
  by (simp add: succeeds_def api_then_def status_read)

lemma succeeds_enveloped: "succeeds (enveloped st now rows status cursor)"
  by (simp add: succeeds_def enveloped_def api_then_def response_meta_def respond_def Let_def)

lemma succeeds_answer:
  assumes "succeeds f"
  shows "\<exists>body'. fst (answer body f m) = (200, body') \<and> True"
proof -
  from assms obtain x m' where "f m = (Inr x, m')" unfolding succeeds_def by blast
  then show ?thesis by (simp add: answer_def)
qed


section \<open>What the check needs\<close>

text \<open>The database has answers to what the check asks, was refreshed before now, and its board of today
  fills more than one page; cursors fit and are what the libraries say of them.\<close>

definition contract_cursor :: "refresh_row \<Rightarrow> int \<Rightarrow> leaderboard_cursor" where
  "contract_cursor row version = \<lparr>lc_fingerprint = ''today:1'', lc_refresh_version = version, lc_rank = 1\<rparr>"

definition contract_ready ::
    "api_libraries \<Rightarrow> (pubkey \<Rightarrow> string) \<Rightarrow> api_state \<Rightarrow> int \<Rightarrow> database \<Rightarrow> bool" where
  "contract_ready l show_key st now db \<longleftrightarrow>
     as_query_timeout st \<noteq> 0 \<and>
     cursor_law l (al_leaderboard_json l) (al_leaderboard_parse l) \<and>
     (\<forall>cursor. al_leaderboard_json l cursor \<noteq> None) \<and> (\<forall>cursor. al_history_json l cursor \<noteq> None) \<and>
     list_all (\<lambda>cursor. cursor_fits l (al_leaderboard_json l) cursor)
       (\<lparr>lc_fingerprint = ''today:1'', lc_refresh_version = rf_version (db_refresh db) - 1, lc_rank = 1\<rparr> #
        map (leaderboard_cursor_at ''today:1'' (db_refresh db)) (leaderboard l st Today (Some 1) db)) \<and>
     - (2 ^ 63) < rf_version (db_refresh db) \<and>
     (case rf_last_success (db_refresh db) of None \<Rightarrow> False | Some t \<Rightarrow> t < now) \<and>
     al_parse_pubkey l ''not-a-wallet'' = None \<and>
     al_parse_pubkey l CONTRACT_WALLET \<noteq> None \<and>
     al_parse_pubkey l (show_key (replicate 32 90)) \<noteq> None \<and>
     3 \<le> length (leaderboard l st Today (Some 1) db) \<and>
     db_positions db (as_network st, as_program st, 1, 1) \<noteq> None \<and>
     db_markets db (as_network st, as_program st, 1) \<noteq> None"

lemma contract_readyD:
  assumes "contract_ready l show_key st now db"
  shows "as_query_timeout st \<noteq> 0"
    and "cursor_law l (al_leaderboard_json l) (al_leaderboard_parse l)"
    and "al_leaderboard_json l cursor \<noteq> None" and "al_history_json l history \<noteq> None"
    and "cursor_fits l (al_leaderboard_json l)
      \<lparr>lc_fingerprint = ''today:1'', lc_refresh_version = rf_version (db_refresh db) - 1, lc_rank = 1\<rparr>"
    and "list_all (\<lambda>e. cursor_fits l (al_leaderboard_json l) (leaderboard_cursor_at ''today:1'' (db_refresh db) e))
      (leaderboard l st Today (Some 1) db)"
    and "- (2 ^ 63) < rf_version (db_refresh db)"
    and "\<exists>t. rf_last_success (db_refresh db) = Some t \<and> t < now"
    and "al_parse_pubkey l ''not-a-wallet'' = None"
    and "\<exists>k. al_parse_pubkey l CONTRACT_WALLET = Some k"
    and "\<exists>k. al_parse_pubkey l (show_key (replicate 32 90)) = Some k"
    and "3 \<le> length (leaderboard l st Today (Some 1) db)"
    and "\<exists>row. db_positions db (as_network st, as_program st, 1, 1) = Some row"
    and "\<exists>row. db_markets db (as_network st, as_program st, 1) = Some row"
  using assms by (auto simp: contract_ready_def list_all_iff split: option.splits)

lemma contract_parameters:
  "parse_period (Some ''all'') = Inr AllTime" "parse_period (Some ''today'') = Inr Today" "parse_period None = Inr AllTime"
  "page_limit (Some 1) = Inr 1" "page_limit (Some 2) = Inr 2" "page_limit None = Inr 20"
  by (simp_all add: parse_period_def period_from_str_def page_limit_def MAX_LIMIT_def DEFAULT_LIMIT_def)

lemma char_one: "char_of (49::nat) = CHR ''1''"
  by code_simp

lemma today_fingerprint: "leaderboard_fingerprint Today (Some 1) = ''today:1''"
  by (simp add: leaderboard_fingerprint_def market_label_def show_nat.simps digit_char_def char_one)


section \<open>The routes\<close>

lemma contract_routes_served:
  assumes ready: "contract_ready l show_key st now db"
    and "request \<in> set (contract_requests show_key pool_size pool_idle)"
  shows "answered (reference_server l st now elapsed db) True request 200 (\<lambda>_. True)"
proof (rule answeredI)
  fix m :: api_metrics
  assume connected: "am_listener_connected m = True"
  note facts = contract_readyD [OF ready]
  note go = succeeds_timed [OF facts(1)] succeeds_status [OF facts(1)] succeeds_enveloped
  have wallets: "\<exists>k. validate_wallet l CONTRACT_WALLET = Inr k" "\<exists>k. validate_wallet l (show_key (replicate 32 90)) = Inr k"
    using facts(10,11) by (auto simp: validate_wallet_def)
  have stats: "succeeds (user_stats l st now (show_key (replicate 32 90)) (Some ''all'') None (Reads db) (Reads db))"
    using wallets(2) unfolding user_stats_def
    by (elim exE) (intro succeeds_check go, auto simp: contract_parameters intro: succeeds_check go)
  have page: "succeeds (let (page, last_row) = cut_page n rows in
      api_then (check (next_cursor l (al_history_json l) f last_row)) (\<lambda>cursor.
      api_then (projection_status st (Reads db)) (\<lambda>projection. enveloped st now page projection cursor)))" for n rows f
    using next_cursor_total [where json = "al_history_json l", OF facts(4)]
    unfolding Let_def case_prod_unfold by (blast intro: succeeds_check go)
  have positions: "succeeds (user_positions l st now CONTRACT_WALLET
      \<lparr>pq_market_id = Some 1, pq_status = None, pq_limit = None, pq_cursor = None\<rparr> (Reads db) (Reads db))"
    using wallets(1) page
    by (auto simp: user_positions_def contract_parameters requested_status_def history_after_def position_after_def
        cursor_time_def intro!: succeeds_check go)
  have liquidity: "succeeds (user_liquidity_route l st now CONTRACT_WALLET
      \<lparr>yq_market_id = Some 1, yq_limit = None, yq_cursor = None\<rparr> (Reads db) (Reads db))"
    using wallets(1) page
    by (auto simp: user_liquidity_route_def contract_parameters history_after_def liquidity_after_def
        cursor_time_def intro!: succeeds_check go)
  have position: "succeeds (position_route st now 1 1 (Reads db) (Reads db))"
    using facts(13) by (auto simp: position_route_def position_by_identity_def intro!: succeeds_check go)
  have summary: "succeeds (market_summary st now 1 (Reads db) (Reads db))"
    using facts(14) by (auto simp: market_summary_def intro!: succeeds_check go)
  have metrics: "succeeds (prometheus_metrics st now pool_size pool_idle (Reads db))"
    by (simp add: prometheus_metrics_def succeeds_def api_then_def status_read [OF facts(1)])
  show "\<exists>body. fst (api_route l st now request (Reads db) (Reads db) m) = (200, body) \<and> True"
    using assms(2) unfolding contract_requests_def list.set insert_iff empty_iff
    by (elim disjE FalseE) (simp_all only: api_route.simps succeeds_answer stats positions liquidity position
      summary metrics, simp_all add: api_ready_def timed_read facts(1) connected)
qed


section \<open>The leaderboards\<close>

abbreviation (input) first_page :: leaderboard_query where
  "first_page \<equiv> \<lparr>lq_period = Some ''today'', lq_market_id = Some 1, lq_limit = Some 2, lq_cursor = None\<rparr>"

definition page_two :: "api_libraries \<Rightarrow> api_state \<Rightarrow> database \<Rightarrow> string" where
  "page_two l st db = cursor_text l (al_leaderboard_json l)
     (leaderboard_cursor_at ''today:1'' (db_refresh db) (leaderboard l st Today (Some 1) db ! 1))"

lemma contract_leaderboard_ready:
  assumes "contract_ready l show_key st now db"
  shows "leaderboard_ready l st first_page Today 2 db"
  using contract_readyD [OF assms]
  by (simp add: leaderboard_ready_def contract_parameters today_fingerprint)

lemma three_rows:
  assumes "3 \<le> length (xs :: 'a list)"
  obtains a b c rest where "xs = a # b # c # rest"
  using assms by (auto simp: numeral_3_eq_3 Suc_le_length_iff)

lemma first_page_served:
  assumes "contract_ready l show_key st now db"
  shows "answered (reference_server l st now elapsed db) connected (board_request ''today'' (Some 1) (Some 2) None) 200
    (\<lambda>body. body_cursor body = Some (page_two l st db))"
proof (rule answeredI)
  fix m
  obtain a b c rest where board: "leaderboard l st Today (Some 1) db = a # b # c # rest"
    by (rule three_rows [OF contract_readyD(12) [OF assms]])
  have "leaderboard_page l st Today (Some 1) None 3 db = [a, b, c]"
    using keyset.first [OF leaderboard_keyset [of l st Today "Some 1" db], of 3] by (simp add: board)
  then have "serves_page (\<lambda>e. e) (\<lambda>e. cursor_text l (al_leaderboard_json l)
      (leaderboard_cursor_at ''today:1'' (db_refresh db) e)) 2 [a, b, c]
      (leaderboards l st now first_page (Reads db) (Reads db) m)"
    using leaderboard_route_step [OF contract_leaderboard_ready [OF assms], of None None now m]
    by (simp add: after_rank_def today_fingerprint)
  then show "\<exists>body. fst (api_route l st now (board_request ''today'' (Some 1) (Some 2) None) (Reads db) (Reads db) m) =
      (200, body) \<and> body_cursor body = Some (page_two l st db)"
    by (auto simp: serves_page_def cut_page_def board_request_def answer_def body_cursor_def page_two_def board)
qed

lemma second_page_served:
  assumes "contract_ready l show_key st now db"
  shows "answered (reference_server l st now elapsed db) connected
    (board_request ''today'' (Some 1) (Some 2) (Some (page_two l st db))) 200
    (\<lambda>body. \<exists>rows. body_rows body = Some rows \<and> rows \<noteq> [])"
proof (rule answeredI)
  fix m
  obtain a b c rest where board: "leaderboard l st Today (Some 1) db = [a] @ b # c # rest"
    using three_rows [OF contract_readyD(12) [OF assms]] by (metis append_Cons append_Nil)
  note ready = contract_leaderboard_ready [OF assms]
  have "after_rank l ''today:1'' (db_refresh db) (Some (page_two l st db)) = Inr (Some (lb_rank b))"
    using rank_resumed [OF ready, of b] by (simp add: today_fingerprint page_two_def board)
  moreover have "leaderboard_page l st Today (Some 1) (Some (lb_rank b)) 3 db = take 3 (c # rest)"
    using keyset.resume [OF leaderboard_keyset board, of 3] by simp
  ultimately have "serves_page (\<lambda>e. e) (\<lambda>e. cursor_text l (al_leaderboard_json l)
      (leaderboard_cursor_at ''today:1'' (db_refresh db) e)) 2 (take 3 (c # rest))
      (leaderboards l st now (first_page\<lparr>lq_cursor := Some (page_two l st db)\<rparr>) (Reads db) (Reads db) m)"
    using leaderboard_route_step [OF ready, of "Some (page_two l st db)" "Some b" now m]
    by (simp add: today_fingerprint)
  then show "\<exists>body. fst (api_route l st now (board_request ''today'' (Some 1) (Some 2) (Some (page_two l st db)))
      (Reads db) (Reads db) m) = (200, body) \<and> (\<exists>rows. body_rows body = Some rows \<and> rows \<noteq> [])"
    by (auto simp: serves_page_def cut_page_def board_request_def answer_def body_rows_def)
qed

lemma other_version_refused:
  assumes "contract_ready l show_key st now db" and "encode_cursor l (al_leaderboard_json l)
    \<lparr>lc_fingerprint = ''today:1'', lc_refresh_version = rf_version (db_refresh db) - 1, lc_rank = 1\<rparr> = Inr other"
  shows "answered (reference_server l st now elapsed db) connected (board_request ''today'' (Some 1) None (Some other)) 409
    (\<lambda>body. body_code body = Some ''cursor_stale'')"
proof (rule answeredI)
  fix m
  note facts = contract_readyD [OF assms(1)]
  have "other = cursor_text l (al_leaderboard_json l)
      \<lparr>lc_fingerprint = ''today:1'', lc_refresh_version = rf_version (db_refresh db) - 1, lc_rank = 1\<rparr>"
    using assms(2) cursor_fits_encodes [OF facts(5)] by simp
  then have "after_rank l ''today:1'' (db_refresh db) (Some other) = Inl CursorStale"
    using cursor_fits_decodes [OF facts(2,5)] by (simp add: after_rank_def)
  then show "\<exists>body. fst (api_route l st now (board_request ''today'' (Some 1) None (Some other)) (Reads db) (Reads db) m) =
      (409, body) \<and> body_code body = Some ''cursor_stale''"
    by (simp add: board_request_def leaderboards_def contract_parameters today_fingerprint api_then_def check_def
        status_read facts(1) Let_def answer_def error_response_def body_code_def)
qed

lemma wallet_refused:
  assumes "al_parse_pubkey l wallet = None"
  shows "answered (reference_server l st now elapsed db) connected (GetStats wallet None None) 400
    (\<lambda>body. body_code body = Some ''invalid_request'')"
  by (rule answeredI) (simp add: user_stats_def validate_wallet_def assms api_then_def check_def ok_or_def
      answer_def error_response_def body_code_def)

lemma board_all_served:
  assumes "contract_ready l show_key st now db" and "as_max_staleness st' = 0" and "as_query_timeout st' \<noteq> 0"
  shows "answered (reference_server l st' now elapsed db) connected (board_request ''all'' None (Some 1) None) 200 body_stale"
proof (rule answeredI)
  fix m
  note facts = contract_readyD [OF assms(1)]
  let ?query = "\<lparr>lq_period = Some ''all'', lq_market_id = None, lq_limit = Some 1, lq_cursor = None\<rparr>"
  have query: "parse_period (lq_period ?query) = Inr AllTime" "page_limit (lq_limit ?query) = Inr 1" "lq_cursor ?query = None"
    by (simp_all add: contract_parameters)
  obtain env m1 where "leaderboards l st' now ?query (Reads db) (Reads db) m = (Inr env, m1)"
    and "me_stale (env_meta env) = projection_stale st' now (rf_last_success (db_refresh db))"
    using top_of_board [OF query assms(3) facts(3)] by blast
  moreover have "projection_stale st' now (rf_last_success (db_refresh db))"
    using facts(8) by (auto simp: projection_stale_def assms(2))
  ultimately show "\<exists>body. fst (api_route l st' now (board_request ''all'' None (Some 1) None) (Reads db) (Reads db) m) =
      (200, body) \<and> body_stale body"
    by (simp add: board_request_def answer_def body_stale_def)
qed

lemma index_unavailable:
  assumes "as_query_timeout st' = 0"
  shows "answered (reference_server l st' now elapsed db) connected (board_request ''all'' None (Some 1) None) 503
    (\<lambda>body. body_code body = Some ''index_unavailable'')"
  by (rule answeredI) (simp add: board_request_def leaderboards_def contract_parameters api_then_def check_def
      projection_status_def timed_def assms answer_def error_response_def body_code_def)


section \<open>The check passes\<close>

theorem contract_passes:
  assumes ready: "contract_ready l show_key st now db"
  shows "contract_test l show_key (\<lambda>st. reference_server l st now elapsed db) st (Reads db) pool_size pool_idle m =
    Inr \<lparr>ct_routes_checked = 9, ct_pagination = True, ct_stale_cursor = True, ct_stale_metadata = True,
      ct_precision_string = True, ct_invalid_input = True, ct_unavailable = True\<rparr>"
proof -
  note facts = contract_readyD [OF ready]
  let ?server = "\<lambda>st. reference_server l st now elapsed db"
  let ?m = "set_position_listener_connected True m"
  have "am_listener_connected ?m = True" by (simp add: set_position_listener_connected_def)
  from answeredE [OF first_page_served [OF ready] this] obtain first m1 where
    1: "?server st (board_request ''today'' (Some 1) (Some 2) None) ?m = ((200, first), m1)"
    "body_cursor first = Some (page_two l st db)" and m1: "am_listener_connected m1 = True" .
  from answeredE [OF second_page_served [OF ready] m1] obtain second m2 where
    2: "?server st (board_request ''today'' (Some 1) (Some 2) (Some (page_two l st db))) m1 = ((200, second), m2)"
    and rows: "\<exists>rows. body_rows second = Some rows \<and> rows \<noteq> []" and m2: "am_listener_connected m2 = True" .
  obtain rows where rows: "body_rows second = Some rows" "rows \<noteq> []" using rows by blast
  have version: "max (- (2 ^ 63)) (rf_version (db_refresh db) - 1) = rf_version (db_refresh db) - 1"
    using facts(7) by simp
  obtain other where other: "encode_cursor l (al_leaderboard_json l)
      \<lparr>lc_fingerprint = ''today:1'', lc_refresh_version = rf_version (db_refresh db) - 1, lc_rank = 1\<rparr> = Inr other"
    using cursor_fits_encodes [OF facts(5)] by blast
  from answeredE [OF other_version_refused [OF ready other] m2] obtain refused m3 where
    3: "?server st (board_request ''today'' (Some 1) None (Some other)) m2 = ((409, refused), m3)"
    "body_code refused = Some ''cursor_stale''" and m3: "am_listener_connected m3 = True" .
  from answeredE [OF wallet_refused [OF facts(9)] m3] obtain invalid m4 where
    4: "?server st (GetStats ''not-a-wallet'' None None) m3 = ((400, invalid), m4)"
    "body_code invalid = Some ''invalid_request''" and m4: "am_listener_connected m4 = True" .
  obtain m5 where 5: "all_served (?server st) (contract_requests show_key pool_size pool_idle) m4 = (Inr (), m5)"
    using all_served_answered [OF _ m4] contract_routes_served [OF ready] by blast
  let ?old = "st\<lparr>as_max_staleness := 0\<rparr>" and ?hurried = "st\<lparr>as_query_timeout := 0\<rparr>"
  have "as_max_staleness ?old = 0" "as_query_timeout ?old \<noteq> 0" using facts(1) by simp_all
  from answeredE [OF board_all_served [OF ready this] refl] obtain stale m6 where
    6: "?server ?old (board_request ''all'' None (Some 1) None) default_metrics = ((200, stale), m6)" "body_stale stale" .
  have "as_query_timeout ?hurried = 0" by simp
  from answeredE [OF index_unavailable [OF this] refl] obtain unavailable m7 where
    7: "?server ?hurried (board_request ''all'' None (Some 1) None) default_metrics = ((503, unavailable), m7)"
    "body_code unavailable = Some ''index_unavailable''" .
  show ?thesis
    by (simp only: contract_test_def Let_def 1 2 3 4 5 6 7 rows version other status_read [OF facts(1)]
        prod.case option.case sum.case simp_thms if_True if_False refl rel_simps)
qed

end
