(* ===== verification/Log_Traces.thy ===== *)
theory Log_Traces
  imports Ingest
begin

text \<open>
  The runtime prints a transaction's execution as nested frames; \<open>program_data_logs\<close>
  (\<open>crates/indexer/src/ingest.rs\<close>) recovers from the flat lines which data a program emitted itself.
  A trace is the nesting; its rendering is what the runtime prints.
\<close>


section \<open>Traces\<close>

datatype trace =
    Data string
  | Noise string
  | Call string string "trace list" "string option"

text \<open>A frame prints its depth after \<open>invoke [\<close> and ends with \<open>success\<close> or \<open>failed: \<close> and a
  reason. Each line is paired with the data it carries and the program that emitted it.\<close>

definition invoke_line :: "string \<Rightarrow> string \<Rightarrow> string" where
  "invoke_line p depth = ''Program '' @ p @ '' invoke ['' @ depth"

definition end_line :: "string \<Rightarrow> string option \<Rightarrow> string" where
  "end_line p outcome =
     ''Program '' @ p @ (case outcome of None \<Rightarrow> '' success'' | Some reason \<Rightarrow> '' failed: '' @ reason)"

fun render :: "string option \<Rightarrow> trace \<Rightarrow> (string \<times> (string \<times> string) option) list" where
  "render running (Data x) =
     [(''Program data: '' @ x, map_option (\<lambda>p. (p, x)) running)]"
| "render running (Noise line) = [(line, None)]"
| "render running (Call p depth body outcome) =
     (invoke_line p depth, None) # concat (map (render (Some p)) body) @ [(end_line p outcome, None)]"

definition transaction_lines :: "trace list \<Rightarrow> (string \<times> (string \<times> string) option) list" where
  "transaction_lines ts = concat (map (render None) ts)"

text \<open>The data of \<open>target\<close>, with the line numbers.\<close>

fun data_from :: "string \<Rightarrow> nat \<Rightarrow> (string \<times> (string \<times> string) option) list \<Rightarrow> (nat \<times> string) list" where
  "data_from target i [] = []"
| "data_from target i ((line, Some (p, x)) # lines) =
     (if p = target then (i, x) # data_from target (Suc i) lines else data_from target (Suc i) lines)"
| "data_from target i ((line, None) # lines) = data_from target (Suc i) lines"

text \<open>What the runtime guarantees of the texts: program ids and base64 have no blanks, and the other
  lines and failure reasons do not look like frame lines.\<close>

definition word_text :: "string \<Rightarrow> bool" where
  "word_text s \<longleftrightarrow> CHR '' '' \<notin> set s"

definition quiet_line :: "string \<Rightarrow> bool" where
  "quiet_line line \<longleftrightarrow>
     (case strip_prefix ''Program '' line of
        None \<Rightarrow> True
      | Some rest \<Rightarrow> \<not> contains '' invoke ['' rest \<and> \<not> ends_with '' success'' rest \<and>
                     \<not> contains '' failed: '' rest \<and> strip_prefix ''data: '' rest = None)"

fun well_printed :: "trace \<Rightarrow> bool" where
  "well_printed (Data x) \<longleftrightarrow> word_text x \<and> x \<noteq> ''success''"
| "well_printed (Noise line) \<longleftrightarrow> quiet_line line"
| "well_printed (Call p depth body outcome) \<longleftrightarrow>
     word_text p \<and> (\<forall>t \<in> set body. well_printed t) \<and>
     (case outcome of None \<Rightarrow> True | Some reason \<Rightarrow> \<not> contains '' invoke ['' ('' failed: '' @ reason))"


section \<open>Strings\<close>

lemma strip_prefix_append [simp]: "strip_prefix p (p @ s) = Some s"
  by (simp add: strip_prefix_def)

lemma strip_prefix_Some: "strip_prefix p s = Some r \<longleftrightarrow> s = p @ r"
  by (auto simp: strip_prefix_def) (metis append_take_drop_id)

lemma strip_prefix_blank:
  "word_text w \<Longrightarrow> c \<noteq> CHR '' '' \<Longrightarrow> strip_prefix (CHR '' '' # pat) (c # w) = None"
  by (simp add: strip_prefix_def)

text \<open>A pattern that starts with a blank is first found where the first blank of the text is.\<close>

lemma split_once_word:
  assumes "word_text w"
  shows "split_once (CHR '' '' # pat) (w @ s) = map_option (\<lambda>(a, b). (w @ a, b)) (split_once (CHR '' '' # pat) s)"
  using assms
proof (induction w)
  case Nil
  then show ?case by (simp add: option.map_ident prod.case_eq_if)
next
  case (Cons c w)
  then have "c \<noteq> CHR '' ''" and "word_text w" by (auto simp: word_text_def)
  then show ?case
    using Cons.IH
    by (subst split_once.simps, cases "split_once (CHR '' '' # pat) s") (auto simp: strip_prefix_def)
qed

lemma split_once_match: "split_once pat (pat @ s) = Some ([], s)"
  by (subst split_once.simps) simp

lemma contains_None: "\<not> contains pat s \<longleftrightarrow> split_once pat s = None"
  by (cases "split_once pat s") (auto simp: contains_def)

lemma contains_prefix: "contains pat (pat @ s)"
  by (simp add: contains_def split_once_match)

lemma contains_word: "word_text w \<Longrightarrow> contains (CHR '' '' # pat) (w @ s) = contains (CHR '' '' # pat) s"
  by (simp add: contains_def split_once_word)

lemma contains_Cons:
  "contains pat (c # s) \<longleftrightarrow> strip_prefix pat (c # s) \<noteq> None \<or> contains pat s"
  unfolding contains_def by (subst split_once.simps) (auto split: option.split)

lemma contains_Nil: "pat \<noteq> [] \<Longrightarrow> \<not> contains pat []"
  unfolding contains_def by (subst split_once.simps) (simp add: strip_prefix_def)

lemma contains_word_False: "word_text w \<Longrightarrow> \<not> contains (CHR '' '' # pat) w"
  using contains_word [of w pat "[]"] by (simp add: contains_Nil)

lemma contains_blank_word:
  assumes "word_text w" and "CHR '' '' \<in> set pat"
  shows "\<not> contains (CHR '' '' # pat) (CHR '' '' # w)"
proof -
  have "take (length pat) w \<noteq> pat"
    using assms unfolding word_text_def by (metis in_set_takeD)
  then show ?thesis
    using contains_word_False [OF assms(1)] by (simp add: contains_Cons strip_prefix_def)
qed

lemma ends_with_iff: "ends_with p s \<longleftrightarrow> (\<exists>a. s = a @ p)"
proof
  assume "ends_with p s"
  then have "s = take (length s - length p) s @ p"
    unfolding ends_with_def by (metis append_take_drop_id)
  then show "\<exists>a. s = a @ p" by (rule exI)
qed (auto simp: ends_with_def)


section \<open>What each line does\<close>

lemma frame_invoke:
  assumes "word_text p"
  shows "frame_step (invoke_line p depth) stack = Some (p # stack)"
proof -
  have "split_once '' invoke ['' (p @ '' invoke ['' @ depth) = Some (p, depth)"
    using split_once_word [OF assms, of "''invoke [''" "'' invoke ['' @ depth"]
    by (simp only: split_once_match) simp
  then show ?thesis
    unfolding frame_step_def invoke_line_def strip_prefix_append option.case by simp
qed

lemma frame_end:
  assumes "word_text p"
    and "case outcome of None \<Rightarrow> True | Some reason \<Rightarrow> \<not> contains '' invoke ['' ('' failed: '' @ reason)"
  shows "frame_step (end_line p outcome) stack = Some (tl stack)"
proof -
  let ?tail = "case outcome of None \<Rightarrow> '' success'' | Some reason \<Rightarrow> '' failed: '' @ reason"
  have "\<not> contains '' invoke ['' '' success''"
    by (simp add: contains_Cons contains_Nil strip_prefix_def)
  then have "\<not> contains '' invoke ['' ?tail"
    using assms(2) by (simp split: option.splits)
  then have "split_once '' invoke ['' (p @ ?tail) = None"
    using contains_word [OF assms(1), of "''invoke [''" ?tail] unfolding contains_None [symmetric] by blast
  moreover have "ends_with '' success'' (p @ ?tail) \<or> contains '' failed: '' (p @ ?tail)"
    using contains_word [OF assms(1), of "''failed: ''"] contains_prefix [of "'' failed: ''"]
    by (auto simp: ends_with_iff split: option.splits)
  ultimately show ?thesis
    unfolding frame_step_def end_line_def strip_prefix_append option.case by simp
qed

lemma frame_data:
  assumes "word_text x" and "x \<noteq> ''success''"
  shows "frame_step (''Program data: '' @ x) stack = None"
proof -
  have split: "''Program data: '' @ x = ''Program '' @ ''data:'' @ CHR '' '' # x" by simp
  have "word_text ''data:''" by (simp add: word_text_def)
  note data = contains_word [OF this]
  have no_invoke: "\<not> contains '' invoke ['' (''data:'' @ CHR '' '' # x)"
    and "\<not> contains '' failed: '' (''data:'' @ CHR '' '' # x)"
    unfolding data using contains_blank_word [OF assms(1)] by simp_all
  from no_invoke have "split_once '' invoke ['' (''data:'' @ CHR '' '' # x) = None"
    unfolding contains_None .
  moreover have "\<not> ends_with '' success'' (''data:'' @ CHR '' '' # x)"
  proof
    assume "ends_with '' success'' (''data:'' @ CHR '' '' # x)"
    then obtain a where "''data:'' @ CHR '' '' # x = a @ '' success''"
      unfolding ends_with_iff by blast
    then have "takeWhile (\<lambda>c. c \<noteq> CHR '' '') (rev (''data:'' @ CHR '' '' # x)) =
        takeWhile (\<lambda>c. c \<noteq> CHR '' '') (rev (a @ '' success''))" by (rule arg_cong)
    moreover have "takeWhile (\<lambda>c. c \<noteq> CHR '' '') (rev x @ ys) = rev x @ takeWhile (\<lambda>c. c \<noteq> CHR '' '') ys" for ys
      using assms(1) by (intro takeWhile_append2) (auto simp: word_text_def)
    ultimately have "rev x = rev ''success''" by simp
    then show False using assms(2) by (metis rev_rev_ident)
  qed
  ultimately show ?thesis
    unfolding frame_step_def split strip_prefix_append option.case
    using \<open>\<not> contains '' failed: '' (''data:'' @ CHR '' '' # x)\<close> by simp
qed

lemma frame_quiet: "quiet_line line \<Longrightarrow> frame_step line stack = None"
  by (auto simp: quiet_line_def frame_step_def contains_def split: option.splits)

lemma data_of_quiet: "quiet_line line \<Longrightarrow> data_line target stack line = None"
proof -
  assume q: "quiet_line line"
  have "strip_prefix ''Program data: '' line = None"
  proof (rule ccontr)
    assume "strip_prefix ''Program data: '' line \<noteq> None"
    then obtain x where "line = ''Program '' @ ''data: '' @ x" by (auto simp: strip_prefix_Some)
    then have "strip_prefix ''Program '' line = Some (''data: '' @ x)"
      by (simp only: strip_prefix_append)
    with q show False by (simp add: quiet_line_def strip_prefix_append [of "''data: ''", simplified])
  qed
  then show ?thesis by (simp add: data_line_def split: list.split)
qed


section \<open>Every program's data is attributed to it\<close>

definition running_program :: "string list \<Rightarrow> string option" where
  "running_program stack = (case stack of [] \<Rightarrow> None | p # _ \<Rightarrow> Some p)"

lemma data_from_append:
  "data_from target i (xs @ ys) = data_from target i xs @ data_from target (i + length xs) ys"
  by (induction target i xs rule: data_from.induct) auto

lemma scan_render:
  "well_printed t \<Longrightarrow>
   scan_logs target i stack (map fst (render (running_program stack) t) @ rest) =
   data_from target i (render (running_program stack) t) @
   scan_logs target (i + length (render (running_program stack) t)) stack rest"
proof (induction t arbitrary: i stack rest)
  case (Data x)
  then have "frame_step (''Program data: '' @ x) stack = None" by (intro frame_data) simp_all
  then show ?case
    using strip_prefix_append [of "''Program data: ''" x]
    by (auto simp: data_line_def running_program_def split: list.split)
next
  case (Noise line)
  then show ?case by (simp add: frame_quiet data_of_quiet)
next
  case (Call p depth body outcome)
  have body: "scan_logs target i (p # stack) (map fst (concat (map (render (Some p)) ts)) @ rest') =
      data_from target i (concat (map (render (Some p)) ts)) @
      scan_logs target (i + length (concat (map (render (Some p)) ts))) (p # stack) rest'"
    if "set ts \<subseteq> set body" for ts i rest'
    using that
  proof (induction ts arbitrary: i)
    case Nil
    then show ?case by simp
  next
    case (Cons t ts)
    then have "well_printed t" and "t \<in> set body" using Call.prems by auto
    from Call.IH [OF this(2,1), of i "p # stack" "map fst (concat (map (render (Some p)) ts)) @ rest'"]
    show ?case using Cons by (simp add: running_program_def data_from_append add.assoc)
  qed
  show ?case
    using Call.prems body [OF subset_refl] frame_invoke [of p depth stack]
      frame_end [of p outcome "p # stack"]
    by (simp add: data_from_append)
qed

lemma data_attributed:
  assumes "\<forall>t \<in> set ts. well_printed t"
  shows "program_data_logs (map fst (transaction_lines ts)) target =
    data_from target 0 (transaction_lines ts)"
proof -
  have "scan_logs target i [] (map fst (transaction_lines ts)) = data_from target i (transaction_lines ts)"
    for i
    using assms
  proof (induction ts arbitrary: i)
    case Nil
    then show ?case by (simp add: transaction_lines_def)
  next
    case (Cons t ts)
    from Cons.prems have "well_printed t" by simp
    from scan_render [OF this, of target i "[]" "map fst (transaction_lines ts)"] Cons
    show ?case by (simp add: transaction_lines_def running_program_def data_from_append)
  qed
  then show ?thesis unfolding program_data_logs_def .
qed


end
