(* ===== verification/Wire_Codec.thy ===== *)
theory Wire_Codec
  imports Decoder
begin

text \<open>
  The bytes the program writes and the client decoder reads: the Borsh layout of the program's
  events and accounts, in the order of the fields of \<open>lib.rs\<close> and \<open>state.rs\<close>, behind the
  discriminators of the interface description (\<open>idl/leveraged_prediction.json\<close>). The decoder is
  proved to invert it for every deserializer that obeys Borsh's law, and a reference Borsh shows that
  one does.
\<close>


section \<open>Borsh\<close>

fun has_type :: "wire_type \<Rightarrow> wire_value \<Rightarrow> bool" where
  "has_type U8 v = (case v of VU8 _ \<Rightarrow> True | _ \<Rightarrow> False)"
| "has_type U16 v = (case v of VU16 _ \<Rightarrow> True | _ \<Rightarrow> False)"
| "has_type U32 v = (case v of VU32 _ \<Rightarrow> True | _ \<Rightarrow> False)"
| "has_type U64 v = (case v of VU64 _ \<Rightarrow> True | _ \<Rightarrow> False)"
| "has_type U128 v = (case v of VU128 _ \<Rightarrow> True | _ \<Rightarrow> False)"
| "has_type I64 v = (case v of VI64 _ \<Rightarrow> True | _ \<Rightarrow> False)"
| "has_type Key v = (case v of VKey k \<Rightarrow> length k = 32 | _ \<Rightarrow> False)"
| "has_type Array32 v = (case v of VArray32 b \<Rightarrow> length b = 32 | _ \<Rightarrow> False)"
| "has_type (Enum n) v = (case v of VEnum i \<Rightarrow> i < n \<and> i < 256 | _ \<Rightarrow> False)"
| "has_type (Vec tys) v =
     (case v of VVec rows \<Rightarrow> length rows < 2 ^ 32 \<and> list_all (list_all2 has_type tys) rows | _ \<Rightarrow> False)"

text \<open>What the decoder relies on: values of the given types are read back from the front of the
  bytes they were written as; an account's unused space follows them.\<close>

definition borsh_law :: "(wire_value list \<Rightarrow> bytes) \<Rightarrow> deserializer \<Rightarrow> bool" where
  "borsh_law serialize deserialize \<longleftrightarrow>
     (\<forall>tys vs rest. list_all2 has_type tys vs \<longrightarrow> deserialize tys (serialize vs @ rest) = Some vs)"


section \<open>A reference Borsh\<close>

fun le_bytes :: "nat \<Rightarrow> nat \<Rightarrow> bytes" where
  "le_bytes 0 n = []"
| "le_bytes (Suc k) n = word_of_nat n # le_bytes k (n div 256)"

fun of_le_bytes :: "bytes \<Rightarrow> nat" where
  "of_le_bytes [] = 0"
| "of_le_bytes (b # bs) = unat b + 256 * of_le_bytes bs"

fun borsh_value :: "wire_value \<Rightarrow> bytes" where
  "borsh_value (VU8 x) = le_bytes 1 (unat x)"
| "borsh_value (VU16 x) = le_bytes 2 (unat x)"
| "borsh_value (VU32 x) = le_bytes 4 (unat x)"
| "borsh_value (VU64 x) = le_bytes 8 (unat x)"
| "borsh_value (VU128 x) = le_bytes 16 (unat x)"
| "borsh_value (VI64 x) = le_bytes 8 (unat x)"
| "borsh_value (VKey k) = k"
| "borsh_value (VArray32 b) = b"
| "borsh_value (VEnum i) = le_bytes 1 i"
| "borsh_value (VVec rows) = le_bytes 4 (length rows) @ concat (map (\<lambda>row. concat (map borsh_value row)) rows)"

definition borsh :: "wire_value list \<Rightarrow> bytes" where
  "borsh vs = concat (map borsh_value vs)"

definition split_off :: "nat \<Rightarrow> bytes \<Rightarrow> (bytes \<times> bytes) option" where
  "split_off n bs = (if length bs < n then None else Some (take n bs, drop n bs))"

definition read_nat :: "nat \<Rightarrow> (nat \<Rightarrow> wire_value) \<Rightarrow> bytes \<Rightarrow> (wire_value \<times> bytes) option" where
  "read_nat n f bs = map_option (\<lambda>(x, bs). (f (of_le_bytes x), bs)) (split_off n bs)"

text \<open>The readers of the fields of a row, one after the other, and of several rows.\<close>

fun read_row :: "(bytes \<Rightarrow> (wire_value \<times> bytes) option) list \<Rightarrow> bytes \<Rightarrow> (wire_value list \<times> bytes) option" where
  "read_row [] bs = Some ([], bs)"
| "read_row (f # fs) bs =
     Option.bind (f bs) (\<lambda>(v, bs). map_option (\<lambda>(vs, bs). (v # vs, bs)) (read_row fs bs))"

fun read_rows :: "nat \<Rightarrow> (bytes \<Rightarrow> (wire_value list \<times> bytes) option) \<Rightarrow> bytes \<Rightarrow>
    (wire_value list list \<times> bytes) option" where
  "read_rows 0 f bs = Some ([], bs)"
| "read_rows (Suc n) f bs =
     Option.bind (f bs) (\<lambda>(v, bs). map_option (\<lambda>(vs, bs). (v # vs, bs)) (read_rows n f bs))"

fun read_value :: "wire_type \<Rightarrow> bytes \<Rightarrow> (wire_value \<times> bytes) option" where
  "read_value U8 = read_nat 1 (\<lambda>n. VU8 (word_of_nat n))"
| "read_value U16 = read_nat 2 (\<lambda>n. VU16 (word_of_nat n))"
| "read_value U32 = read_nat 4 (\<lambda>n. VU32 (word_of_nat n))"
| "read_value U64 = read_nat 8 (\<lambda>n. VU64 (word_of_nat n))"
| "read_value U128 = read_nat 16 (\<lambda>n. VU128 (word_of_nat n))"
| "read_value I64 = read_nat 8 (\<lambda>n. VI64 (word_of_nat n))"
| "read_value Key = (\<lambda>bs. map_option (\<lambda>(k, bs). (VKey k, bs)) (split_off 32 bs))"
| "read_value Array32 = (\<lambda>bs. map_option (\<lambda>(k, bs). (VArray32 k, bs)) (split_off 32 bs))"
| "read_value (Enum n) = (\<lambda>bs. Option.bind (split_off 1 bs) (\<lambda>(x, bs).
     if of_le_bytes x < n then Some (VEnum (of_le_bytes x), bs) else None))"
| "read_value (Vec tys) = (\<lambda>bs. Option.bind (split_off 4 bs) (\<lambda>(x, bs).
     map_option (\<lambda>(rows, bs). (VVec rows, bs))
       (read_rows (of_le_bytes x) (read_row (map read_value tys)) bs)))"

definition unborsh :: deserializer where
  "unborsh tys bs = map_option fst (read_row (map read_value tys) bs)"

lemma length_le_bytes [simp]: "length (le_bytes k n) = k"
  by (induction k n rule: le_bytes.induct) simp_all

lemma of_le_bytes: "n < 256 ^ k \<Longrightarrow> of_le_bytes (le_bytes k n) = n"
proof (induction k n rule: le_bytes.induct)
  case (1 n)
  then show ?case by simp
next
  case (2 k n)
  then have "n div 256 < 256 ^ k" by (simp add: less_mult_imp_div_less mult.commute)
  with 2 show ?case by (simp add: unat_of_nat mult.commute)
qed

lemma split_off_append: "length xs = n \<Longrightarrow> split_off n (xs @ bs) = Some (xs, bs)"
  by (simp add: split_off_def)

lemma read_nat_le: "n < 256 ^ k \<Longrightarrow> read_nat k f (le_bytes k n @ bs) = Some (f n, bs)"
  by (simp add: read_nat_def split_off_append of_le_bytes)

lemma unat_bounds:
  "unat (a :: u8) < 256 ^ 1" "unat (b :: u16) < 256 ^ 2" "unat (c :: u32) < 256 ^ 4"
  "unat (d :: u64) < 256 ^ 8" "unat (e :: u128) < 256 ^ 16"
  by (rule less_le_trans [OF unsigned_less], simp)+

lemma read_rows_append:
  assumes "\<And>row bs. row \<in> set rows \<Longrightarrow> f (w row @ bs) = Some (row, bs)"
  shows "read_rows (length rows) f (concat (map w rows) @ bs) = Some (rows, bs)"
  using assms by (induction rows arbitrary: bs) auto

lemma read_value_borsh: "has_type ty v \<Longrightarrow> read_value ty (borsh_value v @ bs) = Some (v, bs)"
proof (induction ty arbitrary: v bs)
  case (Enum n)
  then obtain i where "v = VEnum i" "i < n" "i < 256 ^ 1" by (cases v) auto
  then show ?case using of_le_bytes [of i 1] by (simp add: split_off_append del: One_nat_def)
next
  case (Vec tys)
  then obtain rows where v: "v = VVec rows" and len: "length rows < 256 ^ 4"
    and rows: "\<forall>row \<in> set rows. list_all2 has_type tys row"
    by (cases v) (auto simp: list_all_iff)
  have row: "read_row (map read_value ts) (concat (map borsh_value vs) @ bs) = Some (vs, bs)"
    if "list_all2 has_type ts vs" and "set ts \<subseteq> set tys" for ts vs bs
    using that
  proof (induction ts vs arbitrary: bs rule: list_all2_induct)
    case Nil
    then show ?case by simp
  next
    case (Cons t ts v vs)
    then have "read_value t (borsh_value v @ concat (map borsh_value vs) @ bs) =
        Some (v, concat (map borsh_value vs) @ bs)"
      by (intro Vec.IH) auto
    with Cons show ?case by simp
  qed
  have "read_rows (length rows) (read_row (map read_value tys))
      (concat (map (\<lambda>row. concat (map borsh_value row)) rows) @ bs) = Some (rows, bs)"
    using rows row [OF _ subset_refl] by (intro read_rows_append) blast
  then show ?case
    using of_le_bytes [OF len] by (simp add: v split_off_append)
qed (auto simp: read_nat_le [OF unat_bounds(1)] read_nat_le [OF unat_bounds(2)]
    read_nat_le [OF unat_bounds(3)] read_nat_le [OF unat_bounds(4)] read_nat_le [OF unat_bounds(5)]
    split_off_append split: wire_value.splits simp del: One_nat_def le_bytes.simps)

theorem reference_borsh: "borsh_law borsh unborsh"
proof -
  have "read_row (map read_value tys) (borsh vs @ rest) = Some (vs, rest)"
    if "list_all2 has_type tys vs" for tys vs rest
    using that
    by (induction tys vs rule: list_all2_induct) (simp_all add: borsh_def read_value_borsh)
  then show ?thesis by (auto simp: borsh_law_def unborsh_def)
qed



section \<open>Events\<close>

text \<open>\<open>emit!\<close>: the discriminator of the event's name, then its fields.\<close>

fun direction_index :: "direction \<Rightarrow> nat" where
  "direction_index Up = 0"
| "direction_index Down = 1"

fun mode_index :: "market_mode \<Rightarrow> nat" where
  "mode_index Open = 0"
| "mode_index CloseOnly = 1"

fun outcome_index :: "position_outcome \<Rightarrow> nat" where
  "outcome_index Won = 0"
| "outcome_index Lost = 1"
| "outcome_index Breakeven = 2"
| "outcome_index Refunded = 3"

fun event_discriminator :: "event \<Rightarrow> bytes" where
  "event_discriminator (PositionCreated _ _ _ _ _ _ _) = [63, 226, 54, 63, 141, 22, 31, 221]"
| "event_discriminator (PositionClosed _ _ _ _ _ _) = [157, 163, 227, 228, 13, 97, 138, 121]"
| "event_discriminator (MarketModeChanged _ _) = [102, 84, 205, 59, 243, 49, 7, 130]"
| "event_discriminator (LiquidityDeposited _ _ _ _) = [218, 155, 74, 193, 59, 66, 94, 122]"
| "event_discriminator (WithdrawalRequested _ _ _ _) = [75, 207, 21, 12, 160, 102, 150, 55]"
| "event_discriminator (WithdrawalCancelled _ _ _) = [119, 175, 207, 80, 186, 237, 229, 9]"
| "event_discriminator (WithdrawalExecuted _ _ _ _) = [37, 78, 199, 192, 51, 68, 173, 162]"
| "event_discriminator (ProtocolFeesWithdrawn _ _ _) = [202, 213, 134, 216, 108, 14, 84, 99]"
| "event_discriminator (FallbackPayoutClaimed _ _ _) = [180, 60, 123, 94, 7, 16, 234, 28]"

fun event_values :: "event \<Rightarrow> wire_value list" where
  "event_values (PositionCreated m i user price collateral d expires_at) =
     [VU16 m, VU32 i, VKey user, VI64 price, VU32 collateral, VEnum (direction_index d), VU32 expires_at]"
| "event_values (PositionClosed m i outcome payout lp_fee platform_fee) =
     [VU16 m, VU32 i, VEnum (outcome_index outcome), VU64 payout, VU64 lp_fee, VU64 platform_fee]"
| "event_values (MarketModeChanged m mode) = [VU16 m, VEnum (mode_index mode)]"
| "event_values (LiquidityDeposited m user assets shares) = [VU16 m, VKey user, VU64 assets, VU128 shares]"
| "event_values (WithdrawalRequested m user shares min_assets_out) =
     [VU16 m, VKey user, VU128 shares, VU64 min_assets_out]"
| "event_values (WithdrawalCancelled m user shares) = [VU16 m, VKey user, VU128 shares]"
| "event_values (WithdrawalExecuted m user shares assets) = [VU16 m, VKey user, VU128 shares, VU64 assets]"
| "event_values (ProtocolFeesWithdrawn m destination assets) = [VU16 m, VKey destination, VU64 assets]"
| "event_values (FallbackPayoutClaimed user destination assets) = [VKey user, VKey destination, VU64 assets]"

definition event_bytes :: "(wire_value list \<Rightarrow> bytes) \<Rightarrow> event \<Rightarrow> bytes" where
  "event_bytes serialize e = event_discriminator e @ serialize (event_values e)"

fun event_keys :: "event \<Rightarrow> pubkey list" where
  "event_keys (PositionCreated _ _ user _ _ _ _) = [user]"
| "event_keys (LiquidityDeposited _ user _ _) = [user]"
| "event_keys (WithdrawalRequested _ user _ _) = [user]"
| "event_keys (WithdrawalCancelled _ user _) = [user]"
| "event_keys (WithdrawalExecuted _ user _ _) = [user]"
| "event_keys (ProtocolFeesWithdrawn _ destination _) = [destination]"
| "event_keys (FallbackPayoutClaimed user destination _) = [user, destination]"
| "event_keys _ = []"

lemma borsh_read:
  "borsh_law serialize deserialize \<Longrightarrow> list_all2 has_type tys vs \<Longrightarrow>
   deserialize tys (serialize vs @ rest) = Some vs"
  by (simp add: borsh_law_def)

lemma decode_tagged_append:
  "length t = 8 \<Longrightarrow> decode_tagged deserialize tag tys build (t @ bs) =
   (if t = tag then Option.bind (deserialize tys bs) build else None)"
  by (cases "t = tag") (auto simp: decode_tagged_def)

lemma variant_index [simp]:
  "variant DIRECTIONS (direction_index d) = Some d" "direction_index d < 2" "direction_index d < 256"
  "variant MARKET_MODES (mode_index mode) = Some mode" "mode_index mode < 2" "mode_index mode < 256"
  "variant POSITION_OUTCOMES (outcome_index outcome) = Some outcome" "outcome_index outcome < 4"
  "outcome_index outcome < 256"
  by ((cases d; simp add: variant_def DIRECTIONS_def), (cases d; simp), (cases d; simp),
      (cases mode; simp add: variant_def MARKET_MODES_def), (cases mode; simp),
      (cases mode; simp),
      (cases outcome; simp add: variant_def POSITION_OUTCOMES_def), (cases outcome; simp),
      (cases outcome; simp))


section \<open>Accounts\<close>

fun account_discriminator :: "decoded_program_account \<Rightarrow> bytes" where
  "account_discriminator (MarketAccount _) = [219, 190, 213, 55, 0, 227, 198, 154]"
| "account_discriminator (ProtocolConfigAccount _) = [207, 91, 250, 28, 152, 179, 215, 209]"
| "account_discriminator (UserLiquidityAccount _) = [231, 187, 233, 254, 66, 35, 139, 26]"
| "account_discriminator (UserPositionsAccount _) = [97, 163, 100, 87, 105, 248, 138, 152]"

definition liquidity_wire_values :: "market_liquidity \<Rightarrow> wire_value list" where
  "liquidity_wire_values e =
     [VU16 (ml_market_id e), VU128 (ml_shares e), VU128 (ml_pending_withdrawal_shares e),
      VU64 (ml_min_assets_out e)]"

definition position_wire_values :: "compact_position \<Rightarrow> wire_value list" where
  "position_wire_values p =
     [VU16 (pos_market_id p), VU32 (pos_nonce p), VArray32 (pos_task_salt p), VU32 (pos_collateral p),
      VI64 (pos_entry_price p), VU32 (pos_expires_at p), VEnum (direction_index (pos_direction p))]"

fun account_values :: "decoded_program_account \<Rightarrow> wire_value list" where
  "account_values (MarketAccount m) =
     [VU16 (mkt_market_id m), VKey (mkt_oracle m), VArray32 (mkt_oracle_feed_id m),
      VU128 (mkt_total_shares m), VU64 (mkt_open_collateral m), VU64 (mkt_risk_epoch_equity m),
      VU32 (mkt_active_positions m), VU32 (mkt_next_position_nonce m),
      VEnum (mode_index (mkt_mode m)), VU8 (mkt_bump m)]"
| "account_values (ProtocolConfigAccount c) =
     [VKey (cfg_admin c), VKey (cfg_fee_authority c), VKey (cfg_collateral_mint c), VU8 (cfg_bump c)]"
| "account_values (UserLiquidityAccount ul) = [VVec (map liquidity_wire_values (ul_markets ul))]"
| "account_values (UserPositionsAccount up) = [VVec (map position_wire_values (up_positions up))]"

definition account_bytes :: "(wire_value list \<Rightarrow> bytes) \<Rightarrow> decoded_program_account \<Rightarrow> bytes" where
  "account_bytes serialize a = account_discriminator a @ serialize (account_values a)"

text \<open>Keys, feeds and salts are 32 bytes, and the vectors have the capacity of their accounts.\<close>

fun account_sized :: "decoded_program_account \<Rightarrow> bool" where
  "account_sized (MarketAccount m) \<longleftrightarrow> length (mkt_oracle m) = 32 \<and> length (mkt_oracle_feed_id m) = 32"
| "account_sized (ProtocolConfigAccount c) \<longleftrightarrow>
     length (cfg_admin c) = 32 \<and> length (cfg_fee_authority c) = 32 \<and> length (cfg_collateral_mint c) = 32"
| "account_sized (UserLiquidityAccount ul) \<longleftrightarrow> length (ul_markets ul) \<le> USER_LIQUIDITY_MARKET_CAPACITY"
| "account_sized (UserPositionsAccount up) \<longleftrightarrow>
     length (up_positions up) \<le> USER_POSITIONS_CAPACITY \<and>
     (\<forall>p \<in> set (up_positions up). length (pos_task_salt p) = 32)"

lemma collect_map: "(\<And>x. f (g x) = Some x) \<Longrightarrow> collect (map (f \<circ> g) xs) = Some xs"
  by (induction xs) auto

lemma market_liquidity_read: "market_liquidity_fields (liquidity_wire_values e) = Some e"
  by (simp add: market_liquidity_fields_def liquidity_wire_values_def get_end_def)

lemma compact_position_read: "compact_position_fields (position_wire_values p) = Some p"
  by (simp add: compact_position_fields_def position_wire_values_def get_end_def)

lemma market_liquidity_typed: "list_all2 has_type MarketLiquidity_types (liquidity_wire_values e)"
  by (simp add: MarketLiquidity_types_def liquidity_wire_values_def)

lemma compact_position_typed:
  "length (pos_task_salt p) = 32 \<Longrightarrow> list_all2 has_type CompactPosition_types (position_wire_values p)"
  by (simp add: CompactPosition_types_def position_wire_values_def)

lemma decode_account_tagged:
  "decode_tagged deserialize tag tys build (account_bytes serialize a @ rest) =
   (if account_discriminator a = tag
    then Option.bind (deserialize tys (serialize (account_values a) @ rest)) build else None)"
  unfolding account_bytes_def append_assoc by (rule decode_tagged_append) (cases a; simp)

text \<open>The types each account is read with, and what its fields build.\<close>

fun account_types :: "decoded_program_account \<Rightarrow> wire_type list" where
  "account_types (MarketAccount _) = Market_types"
| "account_types (ProtocolConfigAccount _) = [Key, Key, Key, U8]"
| "account_types (UserLiquidityAccount _) = [Vec MarketLiquidity_types]"
| "account_types (UserPositionsAccount _) = [Vec CompactPosition_types]"

lemma account_typed: "account_sized a \<Longrightarrow> list_all2 has_type (account_types a) (account_values a)"
  by (cases a) (auto simp: Market_types_def list_all_iff market_liquidity_typed compact_position_typed
      USER_LIQUIDITY_MARKET_CAPACITY_def USER_POSITIONS_CAPACITY_def)

lemma fields_read:
  "market_fields (account_values (MarketAccount m)) = Some m"
  "protocol_config_fields (account_values (ProtocolConfigAccount c)) = Some c"
  "user_liquidity_fields (account_values (UserLiquidityAccount ul)) = Some ul"
  "user_positions_fields (account_values (UserPositionsAccount up)) = Some up"
  by (simp_all add: market_fields_def protocol_config_fields_def user_liquidity_fields_def
      user_positions_fields_def get_end_def collect_map market_liquidity_read compact_position_read)

text \<open>C37: An account the program wrote decodes to itself, whatever fills its unused space.\<close>
theorem accounts_decode:
  assumes "borsh_law serialize deserialize" and "account_sized a"
  shows "decode_account deserialize program program (account_bytes serialize a @ rest) = Some a"
proof -
  note read = borsh_read [OF assms(1) account_typed [OF assms(2)], of rest]
  show ?thesis
    using read
    by (cases a) (simp_all add: decode_account_def Market_decode_def ProtocolConfig_decode_def
        UserLiquidity_decode_def UserPositions_decode_def decode_account_tagged fields_read
        del: account_values.simps)
qed

end
