(* ===== verification/Event_Codec.thy ===== *)
theory Event_Codec
  imports Ingest Wire_Codec
begin

text \<open>
  From the event the program emits to the domain event the indexer stores: \<open>decode_event\<close>
  (\<open>crates/indexer/src/ingest.rs\<close>) recovers every event from its bytes, and no two events are
  confused.
\<close>

fun event_types :: "event \<Rightarrow> wire_type list" where
  "event_types (PositionCreated _ _ _ _ _ _ _) = [U16, U32, Key, I64, U32, Enum 2, U32]"
| "event_types (PositionClosed _ _ _ _ _ _) = [U16, U32, Enum 4, U64, U64, U64]"
| "event_types (MarketModeChanged _ _) = [U16, Enum 2]"
| "event_types (LiquidityDeposited _ _ _ _) = [U16, Key, U64, U128]"
| "event_types (WithdrawalRequested _ _ _ _) = [U16, Key, U128, U64]"
| "event_types (WithdrawalCancelled _ _ _) = [U16, Key, U128]"
| "event_types (WithdrawalExecuted _ _ _ _) = [U16, Key, U128, U64]"
| "event_types (ProtocolFeesWithdrawn _ _ _) = [U16, Key, U64]"
| "event_types (FallbackPayoutClaimed _ _ _) = [Key, Key, U64]"

definition event_sized :: "event \<Rightarrow> bool" where
  "event_sized e \<longleftrightarrow> list_all (\<lambda>k. length k = 32) (event_keys e)"

lemma event_typed: "event_sized e \<Longrightarrow> list_all2 has_type (event_types e) (event_values e)"
  by (cases e) (simp_all add: event_sized_def)

lemma event_discriminator_length: "length (event_discriminator e) = 8"
  by (cases e) simp_all

lemmas event_decoders =
  PositionCreatedEvent_decode_def PositionClosedEvent_decode_def LiquidityDepositedEvent_decode_def
  WithdrawalRequestedEvent_decode_def WithdrawalCancelledEvent_decode_def
  WithdrawalExecutedEvent_decode_def ProtocolFeesWithdrawnEvent_decode_def
  FallbackPayoutClaimedEvent_decode_def MarketModeChangedEvent_decode_def

lemmas event_field_readers =
  position_created_fields_def position_closed_fields_def liquidity_deposited_fields_def
  withdrawal_requested_fields_def withdrawal_cancelled_fields_def withdrawal_executed_fields_def
  protocol_fees_withdrawn_fields_def fallback_payout_claimed_fields_def market_mode_changed_fields_def
  get_end_def

lemma decode_event_tagged:
  "decode_tagged deserialize tag tys build (event_bytes serialize e) =
   (if event_discriminator e = tag then Option.bind (deserialize tys (serialize (event_values e))) build
    else None)"
  unfolding event_bytes_def by (rule decode_tagged_append) (rule event_discriminator_length)

lemma event_bytes_tag:
  "take 8 (event_bytes serialize e) = event_discriminator e" "\<not> length (event_bytes serialize e) < 8"
  using event_discriminator_length [of e] by (simp_all add: event_bytes_def)

lemma event_decoded:
  assumes "borsh_law serialize deserialize" and "event_sized e"
  shows "decode_event c deserialize (event_bytes serialize e) = Inr (domain_event_of c e)"
proof -
  have "deserialize (event_types e) (serialize (event_values e)) = Some (event_values e)"
    using borsh_read [OF assms(1) event_typed [OF assms(2)], of "[]"] by simp
  then show ?thesis
    by (cases e) (simp_all add: decode_event_def Let_def event_bytes_tag event_decoders
        decode_event_tagged event_field_readers and_then_def ok_or_def)
qed

lemma cpi_event_decoded:
  assumes "borsh_law serialize deserialize" and "event_sized e"
  shows "CpiEvent_decode deserialize ([228, 69, 165, 46, 81, 203, 154, 29] @ event_bytes serialize e) = Some e"
proof -
  have "deserialize (event_types e) (serialize (event_values e)) = Some (event_values e)"
    using borsh_read [OF assms(1) event_typed [OF assms(2)], of "[]"] by simp
  then show ?thesis
    by (cases e) (simp_all add: CpiEvent_decode_def Let_def event_decoders decode_event_tagged
        event_field_readers)
qed


text \<open>Different events have different bytes.\<close>

theorem event_bytes_injective:
  assumes "borsh_law serialize deserialize" and "event_sized e" "event_sized e'"
    and "event_bytes serialize e = event_bytes serialize e'"
  shows "e = e'"
proof -
  have tags: "event_discriminator e = event_discriminator e'"
    using arg_cong [OF assms(4), of "take 8"] by (simp add: event_bytes_tag)
  then have tys: "event_types e = event_types e'" by (cases e; cases e') simp_all
  have "serialize (event_values e) = serialize (event_values e')"
    using assms(4) tags by (simp add: event_bytes_def)
  then have "event_values e = event_values e'"
    using borsh_read [OF assms(1) event_typed [OF assms(2)], of "[]"]
      borsh_read [OF assms(1) event_typed [OF assms(3)], of "[]"] tys by simp
  then show ?thesis
    using tags by (cases e; cases e')
      (auto dest: arg_cong [where f = "variant DIRECTIONS"] arg_cong [where f = "variant MARKET_MODES"]
        arg_cong [where f = "variant POSITION_OUTCOMES"])
qed

end
