(* ===== verification/Crawl.thy ===== *)
theory Crawl
  imports Ingest
begin

text \<open>
  What the crawl of \<open>recent_with_storage\<close> (\<open>crates/indexer/src/ingest.rs\<close>) collects from a node that
  answers from one history: the newest signatures down to the stored cursor and an overlap behind it,
  within the limit, whatever the page size.
\<close>


section \<open>An honest node\<close>

text \<open>\<open>getSignaturesForAddress\<close> over a history, newest first: at most \<open>limit\<close> signatures that are
  older than \<open>before\<close>.\<close>

fun older_than :: "string \<Rightarrow> signature_info list \<Rightarrow> signature_info list" where
  "older_than s [] = []"
| "older_than s (h # hs) = (if si_signature h = s then hs else older_than s hs)"

definition serves :: "signature_info list \<Rightarrow> rpc \<Rightarrow> bool" where
  "serves hist r \<longleftrightarrow>
     (\<forall>n. rpc_signatures r None n = Some (take n hist)) \<and>
     (\<forall>s n. rpc_signatures r (Some s) n = Some (take n (older_than s hist)))"

lemma older_than_append:
  "s \<notin> set (map si_signature xs) \<Longrightarrow> si_signature h = s \<Longrightarrow> older_than s (xs @ h # ys) = ys"
  by (induction xs) auto


section \<open>What one pass collects\<close>

text \<open>How many signatures: up to \<open>OVERLAP\<close> ones behind the cursor, and at most \<open>maximum\<close>.\<close>

fun wanted :: "nat \<Rightarrow> string option \<Rightarrow> bool \<Rightarrow> nat \<Rightarrow> signature_info list \<Rightarrow> nat" where
  "wanted room cursor found overlap [] = 0"
| "wanted room cursor found overlap (h # hs) =
     (if room = 0 then 0
      else if cursor = Some (si_signature h) then Suc (wanted (room - 1) cursor True overlap hs)
      else if found then
        (if OVERLAP \<le> overlap then 0 else Suc (wanted (room - 1) cursor True (Suc overlap) hs))
      else Suc (wanted (room - 1) cursor False overlap hs))"

lemma crawl_page_append:
  "crawl_page maximum cursor (xs @ ys) cr =
     (case crawl_page maximum cursor xs cr of
        (True, cr') \<Rightarrow> (True, cr') | (False, cr') \<Rightarrow> crawl_page maximum cursor ys cr')"
  by (induction maximum cursor xs cr rule: crawl_page.induct) (auto simp: Let_def)

text \<open>One page after the other is one pass over the history.\<close>

lemma crawl_page_nothing:
  "crawl_page maximum cursor [] cr = (False, cr)" by simp

lemma crawl_is_one_pass:
  assumes "serves hist r" and "\<And>s. il_signature l s = Some s" and "0 < n"
    and "distinct (map si_signature hist)"
    and "hist = seen @ rest"
    and "before = (if seen = [] then None else Some (si_signature (last seen)))"
  shows "crawl l r maximum n cursor before cr = Inr (snd (crawl_page maximum cursor rest cr))"
  using assms(5,6)
proof (induction "length rest" arbitrary: seen rest before cr rule: less_induct)
  case less
  have page: "rpc_signatures r before n = Some (take n rest)"
  proof (cases seen rule: rev_cases)
    case Nil
    with less.prems assms(1) show ?thesis by (simp add: serves_def)
  next
    case (snoc xs h)
    have "older_than (si_signature h) (xs @ h # rest) = rest"
      using assms(4) less.prems(1) by (intro older_than_append) (auto simp: snoc)
    with less.prems assms(1) show ?thesis by (simp add: serves_def snoc)
  qed
  show ?case
  proof (cases "rest = []")
    case True
    then show ?thesis using page by (subst crawl.simps) simp
  next
    case False
    then have nonempty: "take n rest \<noteq> []" using assms(3) by simp
    obtain stop cr' where cp: "crawl_page maximum cursor (take n rest) cr = (stop, cr')" by fastforce
    have whole: "crawl_page maximum cursor rest cr =
        (if stop then (True, cr') else crawl_page maximum cursor (drop n rest) cr')"
      using crawl_page_append [of maximum cursor "take n rest" "drop n rest" cr] cp
      by (simp split: bool.split)
    show ?thesis
    proof (cases "stop \<or> length (take n rest) < n")
      case True
      then have "snd (crawl_page maximum cursor rest cr) = cr'"
        unfolding whole by (auto simp: min_def split: if_splits)
      then show ?thesis
        using page nonempty cp True assms(2) by (subst crawl.simps) simp
    next
      case False
      let ?seen = "seen @ take n rest"
      have "crawl l r maximum n cursor (Some (si_signature (last (take n rest)))) cr' =
          Inr (snd (crawl_page maximum cursor (drop n rest) cr'))"
        using nonempty less.prems(1) assms(3) \<open>rest \<noteq> []\<close>
        by (intro less.hyps [of _ ?seen]) (auto simp: last_append)
      then show ?thesis
        using page nonempty cp False assms(2) whole by (subst crawl.simps) simp
    qed
  qed
qed


lemma crawl_page_wanted:
  assumes "length (cr_signatures cr) \<le> maximum" and "cr_overlap cr \<le> OVERLAP"
  shows "cr_signatures (snd (crawl_page maximum cursor hs cr)) =
    cr_signatures cr @ take (wanted (maximum - length (cr_signatures cr)) cursor (cr_cursor_found cr)
      (cr_overlap cr) hs) hs"
  using assms
proof (induction maximum cursor hs cr rule: crawl_page.induct)
  case (1 maximum cursor cr)
  then show ?case by simp
next
  case (2 maximum cursor h hs cr)
  then show ?case by (cases "maximum - length (cr_signatures cr)") (auto simp: Let_def diff_Suc)
qed

lemma wanted_behind:
  "cursor \<notin> Some ` si_signature ` set hs \<Longrightarrow> overlap \<le> OVERLAP \<Longrightarrow>
   wanted room cursor True overlap hs = min room (min (length hs) (OVERLAP - overlap))"
proof (induction hs arbitrary: room overlap)
  case Nil
  then show ?case by simp
next
  case (Cons h hs)
  then show ?case by (cases room) auto
qed

lemma wanted_never_found:
  "cursor \<notin> Some ` si_signature ` set hs \<Longrightarrow> wanted room cursor False overlap hs = min room (length hs)"
proof (induction hs arbitrary: room)
  case Nil
  then show ?case by simp
next
  case (Cons h hs)
  then show ?case by (cases room) auto
qed

lemma wanted_found:
  assumes "cursor \<notin> Some ` si_signature ` set newer" and "cursor \<notin> Some ` si_signature ` set older"
    and "cursor = Some (si_signature h)"
  shows "wanted room cursor False 0 (newer @ h # older) =
    min room (length newer + 1 + min (length older) OVERLAP)"
  using assms
proof (induction newer arbitrary: room)
  case Nil
  then show ?case by (cases room) (auto simp: wanted_behind)
next
  case (Cons x newer)
  then show ?case by (cases room) auto
qed

lemma found_kept: "cr_cursor_found cr \<Longrightarrow> cr_cursor_found (snd (crawl_page maximum cursor hs cr))"
  by (induction maximum cursor hs cr rule: crawl_page.induct) (auto simp: Let_def)

lemma found_iff:
  assumes "cursor \<notin> Some ` si_signature ` set newer" and "cursor = Some (si_signature h)"
  shows "cr_cursor_found (snd (crawl_page maximum cursor (newer @ h # older) cr)) \<longleftrightarrow>
    cr_cursor_found cr \<or> length (cr_signatures cr) + length newer < maximum"
proof (cases "cr_cursor_found cr")
  case True
  then show ?thesis using found_kept by blast
next
  case False
  with assms show ?thesis
  proof (induction newer arbitrary: cr)
    case Nil
    then show ?case by (auto simp: found_kept)
  next
    case (Cons x newer)
    then show ?case by auto
  qed
qed

lemma never_found:
  "cursor \<notin> Some ` si_signature ` set hs \<Longrightarrow>
   cr_cursor_found (snd (crawl_page maximum cursor hs cr)) = cr_cursor_found cr"
  by (induction maximum cursor hs cr rule: crawl_page.induct) (auto simp: Let_def)


section \<open>The crawl\<close>

definition empty_crawl :: crawl_state where
  "empty_crawl = \<lparr>cr_signatures = [], cr_cursor_found = False, cr_overlap = 0\<rparr>"


text \<open>Without a cursor, or with one the node does not hold.\<close>

lemma crawled_without_cursor:
  assumes "serves hist r" and "distinct (map si_signature hist)" and "\<And>s. il_signature l s = Some s"
    and "0 < page_size" and "cursor \<notin> Some ` si_signature ` set hist"
    and "crawl l r maximum page_size cursor None empty_crawl = Inr cr"
  shows "cr_signatures cr = take maximum hist"
proof -
  let ?cr = "snd (crawl_page maximum cursor hist empty_crawl)"
  have "crawl l r maximum page_size cursor None empty_crawl = Inr ?cr"
    using assms(1-4) by (intro crawl_is_one_pass [where seen = "[]"]) auto
  moreover have "cr_signatures ?cr = take (wanted maximum cursor False 0 hist) hist"
    using crawl_page_wanted [of empty_crawl maximum cursor hist] by (simp add: empty_crawl_def)
  ultimately show ?thesis
    using assms(6) wanted_never_found [OF assms(5), of maximum 0] by (simp add: min_def)
qed

end
