(* ===== verification/Catch_Up.thy ===== *)
theory Catch_Up
  imports Convergence Log_Traces Event_Codec Crawl
begin

text \<open>
  What a catch-up (\<open>recent_with_storage\<close>, \<open>crates/indexer/src/ingest.rs\<close>) leaves in the positions
  table: every event of the transactions it crawled, learned in the order of the chain.
\<close>


section \<open>The events of a transaction\<close>

definition observation_in ::
    "ingest_libraries \<Rightarrow> source \<Rightarrow> string \<Rightarrow> i64 \<Rightarrow> int option \<Rightarrow> nat \<times> string \<Rightarrow> observation option" where
  "observation_in l s signature slot block_time entry =
     (case il_base64_decode l (snd entry) of
        None \<Rightarrow> None
      | Some data \<Rightarrow>
          (case decode_event (il_client l) (il_deserialize l) data of
             Inr (Some event) \<Rightarrow> Some (observation_of s signature slot block_time
               (''log/'' @ il_show_index l (fst entry)) event)
           | _ \<Rightarrow> None))"

definition log_observations ::
    "ingest_libraries \<Rightarrow> source \<Rightarrow> string \<Rightarrow> i64 \<Rightarrow> int option \<Rightarrow> string list \<Rightarrow> observation list" where
  "log_observations l s signature slot block_time logs =
     List.map_filter (observation_in l s signature slot block_time) (program_data_logs logs PROGRAM_ID)"

definition transaction_observations ::
    "ingest_libraries \<Rightarrow> rpc \<Rightarrow> source \<Rightarrow> u64 \<Rightarrow> signature_info \<Rightarrow> observation list" where
  "transaction_observations l r s v2_min_slot info =
     (if si_err info then []
      else case il_signature l (si_signature info) of
        None \<Rightarrow> []
      | Some signature \<Rightarrow>
          (case rpc_transaction r signature of
             None \<Rightarrow> []
           | Some t \<Rightarrow>
               (case ft_meta t of
                  None \<Rightarrow> []
                | Some meta \<Rightarrow>
                    if tm_err meta \<or> ft_slot t < v2_min_slot then []
                    else log_observations l s signature (ft_slot t)
                      (Option.bind (ft_block_time t) (il_timestamp l))
                      (case tm_logs meta of Some logs \<Rightarrow> logs | None \<Rightarrow> []))))"


section \<open>Ingestion learns them\<close>

definition learns :: "database \<Rightarrow> observation list \<Rightarrow> database \<Rightarrow> bool" where
  "learns db obs db' \<longleftrightarrow> database_wf db' \<and>
     (\<forall>key. knowledge_of (db_positions db' key) =
        fold learn (events_at key obs) (knowledge_of (db_positions db key)))"

lemma learns_nothing: "database_wf db' \<Longrightarrow> db_positions db' = db_positions db \<Longrightarrow> learns db [] db'"
  by (simp add: learns_def)

lemma learnsD:
  assumes "learns db obs db'"
  shows "database_wf db'"
    and "knowledge_of (db_positions db' key) = fold learn (events_at key obs) (knowledge_of (db_positions db key))"
  using assms unfolding learns_def by blast+

lemma learns_trans: "learns db1 xs db2 \<Longrightarrow> learns db2 ys db3 \<Longrightarrow> learns db1 (xs @ ys) db3"
  by (simp add: learns_def)

lemma dead_letter_learns:
  assumes "record_dead_letter s g sl path kind payload details db = Inr db'" and "database_wf db"
  shows "learns db [] db'"
proof (rule learns_nothing)
  show "database_wf db'" using wf.dead_letter [OF assms(1)] assms(2) by (simp add: stays_wf_def)
  show "db_positions db' = db_positions db"
    using assms(1) by (auto simp: record_dead_letter_def Let_def and_then_eq_Inr)
qed

lemma cursor_learns:
  assumes "storage_advance_cursor s name v sl g db = Inr db'" and "database_wf db"
  shows "learns db [] db'"
proof (rule learns_nothing)
  show "database_wf db'" using wf.cursor_advanced(1) [OF assms(1)] assms(2) by (simp add: stays_wf_def)
  show "db_positions db' = db_positions db"
    using assms(1) by (auto simp: storage_advance_cursor_def upsert_cursor_def Let_def and_then_eq_Inr)
qed

lemma collect_learns:
  assumes "collect_observations l s g sl t entries db = (Inr obs, db')" and "database_wf db"
  shows "obs = List.map_filter (observation_in l s g sl t) entries \<and> learns db [] db'"
  using assms
proof (induction entries arbitrary: db obs)
  case Nil
  then show ?case by (simp add: return_Inr learns_nothing map_filter_simps)
next
  case (Cons entry entries)
  obtain i encoded where entry: "entry = (i, encoded)" by fastforce
  let ?path = "''log/'' @ il_show_index l i"
  have skip: "obs = List.map_filter (observation_in l s g sl t) entries \<and> learns db [] db'"
    if "collect_observations l s g sl t entries db = (Inr obs, db')"
    using that Cons by blast
  have bad: "obs = List.map_filter (observation_in l s g sl t) entries \<and> learns db [] db'"
    if "then_do (run_statement (record_dead_letter s g sl ?path kind payload details))
        (\<lambda>_. collect_observations l s g sl t entries) db = (Inr obs, db')" for kind payload details
  proof -
    from that obtain db1 where 1: "record_dead_letter s g sl ?path kind payload details db = Inr db1"
      and 2: "collect_observations l s g sl t entries db1 = (Inr obs, db')"
      by (auto simp: action_simps)
    from 1 Cons.prems(2) have "learns db [] db1" by (rule dead_letter_learns)
    with Cons.IH [OF 2] show ?thesis using learns_trans [of db "[]" db1 "[]" db'] by (auto simp: learns_def)
  qed
  have good: "\<exists>obs'. obs = observation_of s g sl t ?path event # obs' \<and>
      obs' = List.map_filter (observation_in l s g sl t) entries \<and> learns db [] db'"
    if "then_do (collect_observations l s g sl t entries)
        (\<lambda>obs. return (observation_of s g sl t ?path event # obs)) db = (Inr obs, db')" for event
    using that Cons.IH Cons.prems(2) by (auto simp: action_simps)
  have head: "List.map_filter (observation_in l s g sl t) (entry # entries) =
      (case observation_in l s g sl t (i, encoded) of None \<Rightarrow> List.map_filter (observation_in l s g sl t) entries
       | Some ob \<Rightarrow> ob # List.map_filter (observation_in l s g sl t) entries)"
    by (simp add: entry map_filter_simps)
  obtain later where later: "List.map_filter (observation_in l s g sl t) entries = later" by blast
  show ?case
    using Cons.prems(1) skip bad good unfolding head later
    by (auto simp: entry observation_in_def Let_def split: option.splits sum.splits)
qed

lemma logs_learned:
  assumes "apply_program_logs l s g sl t logs db = (Inr n, db')" and "database_wf db"
  shows "learns db (log_observations l s g sl t logs) db'"
proof -
  from assms(1) obtain obs db1
    where 1: "collect_observations l s g sl t (program_data_logs logs PROGRAM_ID) db = (Inr obs, db1)"
      and 2: "(if obs = [] then storage_advance_cursor s EVENT_CURSOR g sl (Some g)
        else apply_batch (il_client l) obs) db1 = Inr db'"
    by (auto simp: apply_program_logs_def action_simps)
  have obs: "obs = log_observations l s g sl t logs" and first: "learns db [] db1"
    using collect_learns [OF 1 assms(2)] by (simp_all add: log_observations_def)
  then have wf1: "database_wf db1" by (simp add: learns_def)
  have "learns db1 obs db'"
  proof (cases "obs = []")
    case True
    with 2 cursor_learns [OF _ wf1] show ?thesis by simp
  next
    case False
    with 2 have b: "apply_batch (il_client l) obs db1 = Inr db'" by simp
    have "database_wf db'" using wf.batch [OF b] wf1 by (simp add: stays_wf_def)
    then show ?thesis using batch_learned [OF b wf1] by (simp add: learns_def)
  qed
  then show ?thesis using learns_trans [OF first] obs by simp
qed

lemma transaction_learned:
  assumes "ingest_transaction l r s v2 info n db = (Inr n', db')" and "database_wf db"
  shows "learns db (transaction_observations l r s v2 info) db'"
proof (cases "si_err info")
  case True
  with assms show ?thesis
    by (simp add: ingest_transaction_def transaction_observations_def return_Inr learns_nothing)
next
  case False
  with assms(1) obtain signature t
    where st: "il_signature l (si_signature info) = Some signature" "rpc_transaction r signature = Some t"
      and rest: "(case ft_meta t of None \<Rightarrow> return n | Some meta \<Rightarrow>
        if tm_err meta then return n
        else let n = n\<lparr>ic_successful := ic_successful n + 1\<rparr> in
          then_do (expect (to_i64 (ft_slot t)) SlotOverflow) (\<lambda>slot.
          if ft_slot t < v2 then
            then_do (run_statement (storage_advance_cursor s EVENT_CURSOR signature slot (Some signature)))
              (\<lambda>_. return (n\<lparr>ic_pre_v2_skipped := ic_pre_v2_skipped n + 1\<rparr>))
          else then_do (apply_program_logs l s signature slot (Option.bind (ft_block_time t) (il_timestamp l))
               (case tm_logs meta of Some logs \<Rightarrow> logs | None \<Rightarrow> []))
              (\<lambda>events. return (n\<lparr>ic_events_applied := ic_events_applied n + events\<rparr>)))) db = (Inr n', db')"
    by (auto simp: ingest_transaction_def action_simps)
  show ?thesis
  proof (cases "ft_meta t")
    case None
    with False st rest assms(2) show ?thesis
      by (simp add: transaction_observations_def return_Inr learns_nothing)
  next
    case (Some meta)
    show ?thesis
    proof (cases "tm_err meta")
      case True
      with False Some st rest assms(2) show ?thesis
        by (simp add: transaction_observations_def return_Inr learns_nothing)
    next
      case alive: False
      show ?thesis
      proof (cases "ft_slot t < v2")
        case True
        with Some alive rest obtain slot where
          "storage_advance_cursor s EVENT_CURSOR signature slot (Some signature) db = Inr db'"
          by (auto simp: action_simps Let_def)
        then have "learns db [] db'" using assms(2) by (rule cursor_learns)
        with True False Some alive st show ?thesis by (simp add: transaction_observations_def)
      next
        case new: False
        with Some alive rest obtain events where
          "apply_program_logs l s signature (ft_slot t) (Option.bind (ft_block_time t) (il_timestamp l))
             (case tm_logs meta of Some logs \<Rightarrow> logs | None \<Rightarrow> []) db = (Inr events, db')"
          by (auto simp: action_simps Let_def to_i64_def split: if_splits)
        from logs_learned [OF this assms(2)] new False Some alive st show ?thesis
          by (simp add: transaction_observations_def)
      qed
    qed
  qed
qed

lemma all_learned:
  assumes "ingest_all l r s v2 infos n db = (Inr n', db')" and "database_wf db"
  shows "learns db (concat (map (transaction_observations l r s v2) infos)) db'"
  using assms
proof (induction infos arbitrary: n db)
  case Nil
  then show ?case by (simp add: return_Inr learns_nothing)
next
  case (Cons info infos)
  from Cons.prems(1) obtain n1 db1 where 1: "ingest_transaction l r s v2 info n db = (Inr n1, db1)"
    and 2: "ingest_all l r s v2 infos n1 db1 = (Inr n', db')"
    by (auto simp: action_simps)
  from transaction_learned [OF 1 Cons.prems(2)] have l1: "learns db (transaction_observations l r s v2 info) db1" .
  then have "database_wf db1" by (simp add: learns_def)
  from Cons.IH [OF 2 this] show ?case using learns_trans [OF l1] by simp
qed


section \<open>A catch-up\<close>

lemma recent_cases:
  assumes "recent_with_storage l r network layer endpoint limit v2 db = (Inr report, db')"
  obtains s db1 cr n where "ensure_source network layer endpoint db = Inr (s, db1)"
    and "crawl l r (crawl_maximum limit) (min (crawl_maximum limit) 1000)
      (Option.bind (storage_cursor (src_id s) EVENT_CURSOR db1) (\<lambda>(_, _, g). g)) None empty_crawl = Inr cr"
    and "ingest_all l r s v2 (rev (cr_signatures cr))
      \<lparr>ic_successful = 0, ic_pre_v2_skipped = 0, ic_events_applied = 0\<rparr> db1 = (Inr n, db')"
    and "ig_cursor_before report = Option.bind (storage_cursor (src_id s) EVENT_CURSOR db1) (\<lambda>(_, _, g). g)"
    and "ig_cursor_found report = cr_cursor_found cr"
    and "ig_scanned report = length (cr_signatures cr)"
  using assms unfolding empty_crawl_def
  by (auto simp: recent_with_storage_def Let_def then_do_Inr return_Inr split: sum.splits prod.splits)

lemma ensure_source_gives:
  assumes "ensure_source network layer endpoint db = Inr (s, db')"
  shows "src_network s = network" and "db_positions db' = db_positions db"
    and "db_cursors db' = db_cursors db"
  using assms by (auto simp: ensure_source_def Let_def and_then_eq_Inr find_Some_iff split: option.splits)

text \<open>From any well-formed database, a catch-up that succeeds leaves of every position what the
  transactions it crawled teach, oldest first.\<close>

lemma catch_up_learned:
  assumes "recent_with_storage l r network layer endpoint limit v2 db = (Inr report, db')"
    and "database_wf db"
  obtains s db1 cr where "ensure_source network layer endpoint db = Inr (s, db1)"
    and "crawl l r (crawl_maximum limit) (min (crawl_maximum limit) 1000)
      (Option.bind (storage_cursor (src_id s) EVENT_CURSOR db1) (\<lambda>(_, _, g). g)) None empty_crawl = Inr cr"
    and "learns db (concat (map (transaction_observations l r s v2) (rev (cr_signatures cr)))) db'"
  using assms(1)
proof (rule recent_cases)
  fix s db1 cr n
  assume 1: "ensure_source network layer endpoint db = Inr (s, db1)"
    and c: "crawl l r (crawl_maximum limit) (min (crawl_maximum limit) 1000)
      (Option.bind (storage_cursor (src_id s) EVENT_CURSOR db1) (\<lambda>(_, _, g). g)) None empty_crawl = Inr cr"
    and i: "ingest_all l r s v2 (rev (cr_signatures cr))
      \<lparr>ic_successful = 0, ic_pre_v2_skipped = 0, ic_events_applied = 0\<rparr> db1 = (Inr n, db')"
  have "database_wf db1" using wf.source [OF 1] assms(2) by (simp add: stays_wf_def)
  from all_learned [OF i this]
  have "learns db (concat (map (transaction_observations l r s v2) (rev (cr_signatures cr)))) db'"
    using ensure_source_gives(2) [OF 1] by (simp add: learns_def)
  with 1 c show thesis by (rule that)
qed


lemma same_cursor: "db_cursors db' = db_cursors db \<Longrightarrow> storage_cursor i name db' = storage_cursor i name db"
  by (simp add: storage_cursor_def)

lemma scanned_length:
  "length (take (min m (length newer + 1 + min (length older) k)) (newer @ h # older)) =
   min (min m (length newer + 1 + k)) (length (newer @ h # older))"
  by (simp only: length_take length_append list.size)

lemma cursor_reached:
  assumes "recent_with_storage l r network layer endpoint limit v2 db = (Inr report, db')"
    and "ensure_source network layer endpoint db = Inr (s, db1)"
    and "storage_cursor (src_id s) EVENT_CURSOR db = Some (v, slot, Some (si_signature h))"
    and "serves (newer @ h # older) r" and "distinct (map si_signature (newer @ h # older))"
    and "\<And>s. il_signature l s = Some s"
  shows "ig_cursor_before report = Some (si_signature h)"
    and "ig_cursor_found report \<longleftrightarrow> length newer < crawl_maximum limit"
    and "ig_scanned report = min (min (crawl_maximum limit) (length newer + 1 + OVERLAP))
      (length (newer @ h # older))"
proof -
  have cursor: "Option.bind (storage_cursor (src_id s) EVENT_CURSOR db1) (\<lambda>(_, _, g). g) = Some (si_signature h)"
    using assms(3) same_cursor [OF ensure_source_gives(3) [OF assms(2)]] by simp
  from assms(1) obtain cr where
    c: "crawl l r (crawl_maximum limit) (min (crawl_maximum limit) 1000) (Some (si_signature h)) None
      empty_crawl = Inr cr"
    and report: "ig_cursor_before report = Some (si_signature h)"
      "ig_cursor_found report = cr_cursor_found cr" "ig_scanned report = length (cr_signatures cr)"
    by (rule recent_cases) (use assms(2) cursor in auto)
  have "0 < min (crawl_maximum limit) 1000" by (simp add: crawl_maximum_def)
  from crawl_is_one_pass [OF assms(4,6) this assms(5), of "[]" _ None "crawl_maximum limit"
      "Some (si_signature h)" empty_crawl] c
  have cr: "cr = snd (crawl_page (crawl_maximum limit) (Some (si_signature h)) (newer @ h # older) empty_crawl)"
    by simp
  have apart: "Some (si_signature h) \<notin> Some ` si_signature ` set newer"
    "Some (si_signature h) \<notin> Some ` si_signature ` set older"
    using assms(5) by auto
  show "ig_cursor_before report = Some (si_signature h)" by (rule report)
  show "ig_cursor_found report \<longleftrightarrow> length newer < crawl_maximum limit"
    using report cr found_iff [OF apart(1) refl, of "crawl_maximum limit" older empty_crawl]
    by (simp add: empty_crawl_def)
  have "cr_signatures cr = take (min (crawl_maximum limit) (length newer + 1 + min (length older) OVERLAP))
      (newer @ h # older)"
    using wanted_found [OF apart refl, of "crawl_maximum limit"]
      crawl_page_wanted [of empty_crawl "crawl_maximum limit" "Some (si_signature h)" "newer @ h # older"]
    unfolding cr by (simp add: empty_crawl_def)
  then show "ig_scanned report = min (min (crawl_maximum limit) (length newer + 1 + OVERLAP))
      (length (newer @ h # older))"
    unfolding report(3) by (simp only: scanned_length)
qed

text \<open>C34: The check for a gap between the history and the stored cursor reports one exactly when the
  cursor is out of the limit's reach, but only for limits up to 10,000: the crawl never takes more
  signatures, so above that no gap is ever reported.\<close>
theorem catchup_gap_exact:
  assumes "recent_with_storage l r network layer endpoint limit v2 db = (Inr report, db')"
    and "ensure_source network layer endpoint db = Inr (s, db1)"
    and "storage_cursor (src_id s) EVENT_CURSOR db = Some (v, slot, Some (si_signature h))"
    and "serves (newer @ h # older) r" and "distinct (map si_signature (newer @ h # older))"
    and "\<And>s. il_signature l s = Some s" and "0 < limit"
  shows "catchup_gap limit report \<longleftrightarrow> limit \<le> 10000 \<and> limit \<le> length newer"
  using cursor_reached [OF assms(1-6)] assms(7)
  by (auto simp: catchup_gap_def crawl_maximum_def)

end
