(* ===== verification/Pipeline.thy ===== *)
theory Pipeline
  imports Catch_Up Batches Lifecycle
begin

text \<open>
  The whole path of a position: the program emits an event, the runtime prints it among the lines of
  its transaction, the catch-up finds the line, decodes it and writes the row. The positions table of
  an indexer that has caught up agrees with the chain.
\<close>


section \<open>Transactions that carry events\<close>

text \<open>The encodings of one side and the libraries of the other: base64 and Borsh are inverted.\<close>

definition codec_law ::
    "ingest_libraries \<Rightarrow> (wire_value list \<Rightarrow> bytes) \<Rightarrow> (bytes \<Rightarrow> string) \<Rightarrow> bool" where
  "codec_law l serialize base64 \<longleftrightarrow>
     borsh_law serialize (il_deserialize l) \<and> (\<forall>data. il_base64_decode l (base64 data) = Some data)"

text \<open>A successful transaction whose frames of the program print the given events in order, or a
  failed one, which has none.\<close>

definition prints :: "(wire_value list \<Rightarrow> bytes) \<Rightarrow> (bytes \<Rightarrow> string) \<Rightarrow> trace list \<Rightarrow> event list \<Rightarrow> bool" where
  "prints serialize base64 ts es \<longleftrightarrow>
     (\<forall>t \<in> set ts. well_printed t) \<and>
     map snd (data_from PROGRAM_ID 0 (transaction_lines ts)) = map (\<lambda>e. base64 (event_bytes serialize e)) es"

definition carries ::
    "(wire_value list \<Rightarrow> bytes) \<Rightarrow> (bytes \<Rightarrow> string) \<Rightarrow> rpc \<Rightarrow> u64 \<Rightarrow> signature_info \<Rightarrow> event list \<Rightarrow> bool" where
  "carries serialize base64 r v2_min_slot info es \<longleftrightarrow>
     si_err info \<and> es = [] \<or>
     \<not> si_err info \<and>
     (\<exists>t ts. rpc_transaction r (si_signature info) = Some t \<and> v2_min_slot \<le> ft_slot t \<and>
        unat (ft_slot t) < 2 ^ 63 \<and>
        ft_meta t = Some \<lparr>tm_err = False, tm_logs = Some (map fst (transaction_lines ts))\<rparr> \<and>
        prints serialize base64 ts es)"

definition indexed_key :: "string \<Rightarrow> u16 \<Rightarrow> u32 \<Rightarrow> position_key" where
  "indexed_key network i n = (network, PROGRAM_ID, int (unat i), int (unat n))"

text \<open>The domain events of one position among the chain's events.\<close>

definition about :: "client \<Rightarrow> u16 \<Rightarrow> u32 \<Rightarrow> event list \<Rightarrow> domain_event list" where
  "about c i n es = map (\<lambda>e. the (domain_event_of c e)) (filter (\<lambda>e. opens i n e \<or> closes i n e) es)"

lemma about_simps [simp]:
  "about c i n [] = []" "about c i n (es @ es') = about c i n es @ about c i n es'"
  by (simp_all add: about_def)

lemma event_position_about:
  assumes "domain_event_of c e = Some d" and "src_network (ob_source ob) = network"
    and "ob_program_id ob = PROGRAM_ID"
  shows "event_position ob d = Some (indexed_key network i n) \<longleftrightarrow> opens i n e \<or> closes i n e"
  using assms
  by (cases e) (auto simp: indexed_key_def position_key_of_def unsigned_word_eqI)

lemma printed_entry:
  assumes "codec_law l serialize base64" and "event_sized e"
  shows "il_base64_decode l (base64 (event_bytes serialize e)) = Some (event_bytes serialize e)"
    and "decode_event (il_client l) (il_deserialize l) (event_bytes serialize e) =
      Inr (domain_event_of (il_client l) e)"
    and "observation_in l s g sl t (j, base64 (event_bytes serialize e)) =
      map_option (observation_of s g sl t (''log/'' @ il_show_index l j)) (domain_event_of (il_client l) e)"
  using assms event_decoded [of serialize "il_deserialize l" e "il_client l"]
  by (auto simp: codec_law_def observation_in_def split: option.split)

lemma events_at_about:
  assumes "map snd entries = map (\<lambda>e. base64 (event_bytes serialize e)) es"
    and "codec_law l serialize base64" and "list_all event_sized es"
    and "src_network s = network"
  shows "events_at (indexed_key network i n) (List.map_filter (observation_in l s g sl t) entries) =
    about (il_client l) i n es"
  using assms(1,3)
proof (induction es arbitrary: entries)
  case Nil
  then show ?case by (simp add: map_filter_simps)
next
  case (Cons e es)
  then obtain j entries' where entries: "entries = (j, base64 (event_bytes serialize e)) # entries'"
    and rest: "map snd entries' = map (\<lambda>e. base64 (event_bytes serialize e)) es"
    by (auto simp: map_eq_Cons_conv)
  have IH: "events_at (indexed_key network i n) (List.map_filter (observation_in l s g sl t) entries') =
      about (il_client l) i n es"
    using Cons.IH [OF rest] Cons.prems(2) by simp
  have "event_sized e" using Cons.prems(2) by simp
  note head = printed_entry(3) [OF assms(2) this]
  show ?case
  proof (cases "domain_event_of (il_client l) e")
    case None
    then have "\<not> opens i n e \<and> \<not> closes i n e" by (cases e) simp_all
    with None IH show ?thesis
      by (simp add: entries map_filter_simps head about_def)
  next
    case (Some d)
    let ?ob = "observation_of s g sl t (''log/'' @ il_show_index l j) d"
    have "event_position ?ob d = Some (indexed_key network i n) \<longleftrightarrow> opens i n e \<or> closes i n e"
      using Some assms(4) by (intro event_position_about) (simp_all add: observation_of_def)
    moreover have "ob_event ?ob = d" by (simp add: observation_of_def)
    ultimately show ?thesis
      using Some IH
      by (simp add: entries map_filter_simps head about_def)
  qed
qed

text \<open>What the indexer reads from a transaction that carries events: their encodings, in order.\<close>

lemma carried_observations:
  assumes "carries serialize base64 r v2 info es" and "\<not> si_err info" and "\<And>s. il_signature l s = Some s"
  obtains entries sl t where "map snd entries = map (\<lambda>e. base64 (event_bytes serialize e)) es"
    and "transaction_observations l r s v2 info =
      List.map_filter (observation_in l s (si_signature info) sl t) entries"
proof -
  from assms(1,2) obtain t ts where t: "rpc_transaction r (si_signature info) = Some t" "v2 \<le> ft_slot t"
      "ft_meta t = Some \<lparr>tm_err = False, tm_logs = Some (map fst (transaction_lines ts))\<rparr>"
    and p: "\<forall>t \<in> set ts. well_printed t"
      "map snd (data_from PROGRAM_ID 0 (transaction_lines ts)) = map (\<lambda>e. base64 (event_bytes serialize e)) es"
    by (auto simp: carries_def prints_def)
  have "transaction_observations l r s v2 info =
      log_observations l s (si_signature info) (ft_slot t) (Option.bind (ft_block_time t) (il_timestamp l))
        (map fst (transaction_lines ts))"
    using assms(2,3) t by (simp add: transaction_observations_def leD)
  also have "\<dots> = List.map_filter (observation_in l s (si_signature info) (ft_slot t)
      (Option.bind (ft_block_time t) (il_timestamp l))) (data_from PROGRAM_ID 0 (transaction_lines ts))"
    using data_attributed [OF p(1)] by (simp add: log_observations_def)
  finally show ?thesis by (rule that [OF p(2)])
qed

lemma transaction_about:
  assumes "carries serialize base64 r v2 info es" and "codec_law l serialize base64"
    and "list_all event_sized es" and "src_network s = network" and "\<And>s. il_signature l s = Some s"
  shows "events_at (indexed_key network i n) (transaction_observations l r s v2 info) =
    about (il_client l) i n es"
proof (cases "si_err info")
  case True
  with assms(1) show ?thesis by (simp add: carries_def transaction_observations_def)
next
  case False
  obtain entries sl t where e: "map snd entries = map (\<lambda>e. base64 (event_bytes serialize e)) es"
    and "transaction_observations l r s v2 info =
      List.map_filter (observation_in l s (si_signature info) sl t) entries"
    by (rule carried_observations [OF assms(1) False assms(5)])
  then show ?thesis using events_at_about [OF e assms(2,3,4)] by simp
qed

lemma transactions_about:
  assumes "list_all2 (carries serialize base64 r v2) infos ess" and "codec_law l serialize base64"
    and "list_all event_sized (concat ess)" and "src_network s = network" and "\<And>s. il_signature l s = Some s"
  shows "events_at (indexed_key network i n) (concat (map (transaction_observations l r s v2) infos)) =
    about (il_client l) i n (concat ess)"
  using assms(1,3)
proof (induction infos ess rule: list_all2_induct)
  case Nil
  then show ?case by simp
next
  case (Cons info infos es ess)
  then show ?case using transaction_about [OF _ assms(2) _ assms(4,5)] by simp
qed


section \<open>They are ingested\<close>

text \<open>An event whose keys parse and whose amounts fit the columns.\<close>

definition event_fits :: "client \<Rightarrow> event \<Rightarrow> bool" where
  "event_fits c e \<longleftrightarrow>
     (case domain_event_of c e of None \<Rightarrow> True
      | Some d \<Rightarrow> to_json c d \<noteq> None \<and> event_storable c PROGRAM_ID d)"

lemma collect_printed:
  assumes "map snd entries = map (\<lambda>e. base64 (event_bytes serialize e)) es"
    and "codec_law l serialize base64" and "list_all event_sized es"
  shows "collect_observations l s g sl t entries db =
    (Inr (List.map_filter (observation_in l s g sl t) entries), db)"
  using assms(1,3)
proof (induction es arbitrary: entries)
  case Nil
  then show ?case by (simp add: map_filter_simps return_def)
next
  case (Cons e es)
  then obtain j entries' where entries: "entries = (j, base64 (event_bytes serialize e)) # entries'"
    and rest: "map snd entries' = map (\<lambda>e. base64 (event_bytes serialize e)) es"
    by (auto simp: map_eq_Cons_conv)
  have "event_sized e" using Cons.prems(2) by simp
  note entry = printed_entry [OF assms(2) this]
  show ?case
    using Cons.IH [OF rest] Cons.prems(2)
    by (cases "domain_event_of (il_client l) e")
       (simp_all add: entries map_filter_simps entry Let_def then_do_def return_def)
qed

lemma printed_storable:
  assumes "map snd entries = map (\<lambda>e. base64 (event_bytes serialize e)) es"
    and "codec_law l serialize base64" and "list_all event_sized es"
    and "list_all (event_fits (il_client l)) es"
    and "ob \<in> set (List.map_filter (observation_in l s g sl t) entries)"
  shows "storable (il_client l) ob \<and> ob_source ob = s \<and> ob_signature ob = g \<and> ob_slot ob = sl \<and>
    ob_cursor_name ob = EVENT_CURSOR \<and> ob_cursor_value ob = g"
  using assms(1,3,4,5)
proof (induction es arbitrary: entries)
  case Nil
  then show ?case by (simp add: map_filter_simps)
next
  case (Cons e es)
  then obtain j entries' where entries: "entries = (j, base64 (event_bytes serialize e)) # entries'"
    and rest: "map snd entries' = map (\<lambda>e. base64 (event_bytes serialize e)) es"
    by (auto simp: map_eq_Cons_conv)
  have "event_sized e" using Cons.prems(2) by simp
  note entry = printed_entry [OF assms(2) this]
  show ?case
    using Cons.IH [OF rest] Cons.prems(2-4)
    by (cases "domain_event_of (il_client l) e")
       (auto simp: entries map_filter_simps entry observation_of_def storable_def event_fits_def)
qed

lemma known_source_kept: "history_kept db db' \<Longrightarrow> known_source i db \<Longrightarrow> known_source i db'"
  by (auto simp: history_kept_def known_source_def prefix_def)

lemma sint_nonneg: "unat (a :: u64) < 2 ^ 63 \<Longrightarrow> 0 \<le> sint a"
proof -
  assume "unat a < 2 ^ 63"
  then have "int (unat a) < int (2 ^ 63)" by (simp only: of_nat_less_iff)
  then have "uint a < 2 ^ 63" by simp
  moreover have "0 \<le> uint a" by simp
  ultimately have "signed_take_bit 63 (uint a) = uint a" by (intro signed_take_bit_int_eq_self) linarith+
  then show ?thesis by (simp add: sint_uint)
qed

lemma logs_applied:
  assumes "collect_observations l s g sl t (program_data_logs logs PROGRAM_ID) db = (Inr obs, db1)"
    and "(if obs = [] then storage_advance_cursor s EVENT_CURSOR g sl (Some g)
      else apply_batch (il_client l) obs) db1 = Inr db'"
  shows "apply_program_logs l s g sl t logs db = (Inr (length obs), db')"
  unfolding apply_program_logs_def then_do_Inr run_statement_Inr return_Inr using assms by blast

lemma transaction_ingested:
  assumes "carries serialize base64 r v2 info es" and "codec_law l serialize base64"
    and "list_all event_sized es" and "list_all (event_fits (il_client l)) es"
    and "\<And>s. il_signature l s = Some s" and "known_source (src_id s) db"
  shows "\<exists>n' db'. ingest_transaction l r s v2 info n db = (Inr n', db') \<and> known_source (src_id s) db'"
proof -
  have "\<exists>n' db'. ingest_transaction l r s v2 info n db = (Inr n', db')"
  proof (cases "si_err info")
    case True
    then show ?thesis by (simp add: ingest_transaction_def return_def)
  next
    case False
    with assms(1) obtain t ts where t: "rpc_transaction r (si_signature info) = Some t" "v2 \<le> ft_slot t"
        "unat (ft_slot t) < 2 ^ 63"
        "ft_meta t = Some \<lparr>tm_err = False, tm_logs = Some (map fst (transaction_lines ts))\<rparr>"
      and p: "\<forall>t \<in> set ts. well_printed t"
        "map snd (data_from PROGRAM_ID 0 (transaction_lines ts)) = map (\<lambda>e. base64 (event_bytes serialize e)) es"
      by (auto simp: carries_def prints_def)
    let ?g = "si_signature info" and ?sl = "ft_slot t" and ?time = "Option.bind (ft_block_time t) (il_timestamp l)"
    let ?obs = "List.map_filter (observation_in l s ?g ?sl ?time) (data_from PROGRAM_ID 0 (transaction_lines ts))"
    have slot: "0 \<le> sint ?sl" using t(3) by (rule sint_nonneg)
    have stored: "\<exists>db'. (if ?obs = [] then storage_advance_cursor s EVENT_CURSOR ?g ?sl (Some ?g)
        else apply_batch (il_client l) ?obs) db = Inr db'"
    proof (cases ?obs)
      case Nil
      then show ?thesis
        using slot assms(6) by (simp add: storage_advance_cursor_def upsert_cursor_def Let_def and_then_def require_def)
    next
      case (Cons first rest)
      have each: "storable (il_client l) ob \<and> ob_source ob = s \<and> ob_signature ob = ?g \<and> ob_slot ob = ?sl \<and>
          ob_cursor_name ob = EVENT_CURSOR \<and> ob_cursor_value ob = ?g" if "ob \<in> set (first # rest)" for ob
        using that unfolding Cons [symmetric] by (rule printed_storable [OF p(2) assms(2-4)])
      have "same_batch first ob" if "ob \<in> set rest" for ob
        using each [of first] each [of ob] that by (simp add: same_batch_def)
      moreover have "list_all (storable (il_client l)) (first # rest)"
        unfolding list_all_iff using each by blast
      ultimately have "succeeds (apply_batch (il_client l) (first # rest) db)"
        unfolding batch_succeeds using each [of first] slot assms(6) by (simp add: list_all_iff)
      then show ?thesis unfolding Cons succeeds_def by simp
    qed
    then obtain db' where "(if ?obs = [] then storage_advance_cursor s EVENT_CURSOR ?g ?sl (Some ?g)
        else apply_batch (il_client l) ?obs) db = Inr db'" by blast
    moreover have "collect_observations l s ?g ?sl ?time
        (program_data_logs (map fst (transaction_lines ts)) PROGRAM_ID) db = (Inr ?obs, db)"
      unfolding data_attributed [OF p(1)] by (rule collect_printed [OF p(2) assms(2,3)])
    ultimately have "apply_program_logs l s ?g ?sl ?time (map fst (transaction_lines ts)) db = (Inr (length ?obs), db')"
      by (rule logs_applied [rotated])
    then have "\<exists>n'. ingest_transaction l r s v2 info n db = (Inr n', db')"
      using False t assms(5)
      by (simp add: ingest_transaction_def then_do_Inr expect_Inr return_Inr to_i64_def Let_def leD)
    then show ?thesis by blast
  qed
  then obtain n' db' where i: "ingest_transaction l r s v2 info n db = (Inr n', db')" by blast
  then have "history_kept db db'" by (rule keepsD [OF history.keeps_transaction])
  with i assms(6) show ?thesis using known_source_kept by blast
qed

lemma all_ingested:
  assumes "list_all2 (carries serialize base64 r v2) infos ess" and "codec_law l serialize base64"
    and "list_all event_sized (concat ess)" and "list_all (event_fits (il_client l)) (concat ess)"
    and "\<And>s. il_signature l s = Some s" and "known_source (src_id s) db"
  shows "\<exists>n' db'. ingest_all l r s v2 infos n db = (Inr n', db')"
  using assms(1,3,4,6)
proof (induction infos ess arbitrary: n db rule: list_all2_induct)
  case Nil
  then show ?case by (simp add: return_def)
next
  case (Cons info infos es ess)
  then obtain n1 db1 where "ingest_transaction l r s v2 info n db = (Inr n1, db1)" "known_source (src_id s) db1"
    using transaction_ingested [OF _ assms(2) _ _ assms(5), of r v2 info es s db n] by auto
  with Cons show ?case by (simp add: then_do_def)
qed


section \<open>The table and the chain\<close>

lemma about_creation:
  "(\<exists>d \<in> set (about c i n es). event_creation d \<noteq> None) \<longleftrightarrow> (\<exists>e \<in> set es. opens i n e)"
proof -
  have "event_creation (the (domain_event_of c e)) \<noteq> None \<longleftrightarrow> opens i n e"
    if "opens i n e \<or> closes i n e" for e
    using that by (cases e) auto
  then show ?thesis by (auto simp: about_def)
qed

lemma about_closing:
  "(\<exists>d \<in> set (about c i n es). event_closing d \<noteq> None) \<longleftrightarrow> (\<exists>e \<in> set es. closes i n e)"
proof -
  have "event_closing (the (domain_event_of c e)) \<noteq> None \<longleftrightarrow> closes i n e"
    if "opens i n e \<or> closes i n e" for e
    using that by (cases e) auto
  then show ?thesis by (auto simp: about_def)
qed

lemma fold_learn_known:
  "fst (fold learn es (None, None)) \<noteq> None \<longleftrightarrow> (\<exists>d \<in> set es. event_creation d \<noteq> None)"
  "snd (fold learn es (None, None)) \<noteq> None \<longleftrightarrow> (\<exists>d \<in> set es. event_closing d \<noteq> None)"
proof -
  have last: "(case filter (\<lambda>e. f e \<noteq> None) es of [] \<Rightarrow> None | e # es' \<Rightarrow> f (last (e # es'))) \<noteq> None \<longleftrightarrow>
      (\<exists>d \<in> set es. f d \<noteq> None)" for f :: "domain_event \<Rightarrow> 'z option"
  proof (cases "filter (\<lambda>e. f e \<noteq> None) es")
    case Nil
    then show ?thesis by (auto simp: filter_empty_conv)
  next
    case (Cons e es')
    have "last (e # es') \<in> set (filter (\<lambda>e. f e \<noteq> None) es)" unfolding Cons by (rule last_in_set) simp
    then show ?thesis using Cons by auto
  qed
  show "fst (fold learn es (None, None)) \<noteq> None \<longleftrightarrow> (\<exists>d \<in> set es. event_creation d \<noteq> None)"
    unfolding fold_learn fst_conv by (rule last)
  show "snd (fold learn es (None, None)) \<noteq> None \<longleftrightarrow> (\<exists>d \<in> set es. event_closing d \<noteq> None)"
    unfolding fold_learn snd_conv fst_conv by (rule last)
qed

lemma wf_knowledge:
  assumes "positions_wf t"
  shows "t key = None \<longleftrightarrow> knowledge_of (t key) = (None, None)"
    and "(\<exists>row. t key = Some row \<and> pr_status row = ''open'') \<longleftrightarrow>
      fst (knowledge_of (t key)) \<noteq> None \<and> snd (knowledge_of (t key)) = None"
proof -
  have "position_row_wf row" if "t key = Some row" for row
    using assms that unfolding positions_wf_def by blast
  then show "t key = None \<longleftrightarrow> knowledge_of (t key) = (None, None)"
    and "(\<exists>row. t key = Some row \<and> pr_status row = ''open'') \<longleftrightarrow>
      fst (knowledge_of (t key)) \<noteq> None \<and> snd (knowledge_of (t key)) = None"
    by (cases "t key"; force simp: creation_of_def closing_of_def position_row_wf_def split: if_splits)+
qed


lemma caught_up_ledger:
  assumes "chain_reachable e st"
    and "list_all2 (carries serialize base64 r v2) (rev hist) ess" and "concat ess = st_events st"
    and "list_all event_sized (st_events st)"
    and "codec_law l serialize base64" and "\<And>s. il_signature l s = Some s"
    and "serves hist r" and "distinct (map si_signature hist)"
    and "recent_with_storage l r network layer endpoint limit v2 db = (Inr report, db')"
    and "database_wf db" and "db_positions db = Map.empty" and "db_cursors db = Map.empty"
    and "length hist \<le> crawl_maximum limit"
  shows "(db_positions db' (indexed_key network i n) = None \<longleftrightarrow> opened i n st = 0) \<and>
    ((\<exists>row. db_positions db' (indexed_key network i n) = Some row \<and> pr_status row = ''open'') \<longleftrightarrow>
     (\<exists>p \<in># open_positions st. has_id i n p))"
proof -
  let ?key = "indexed_key network i n"
  from assms(9,10) obtain s db1 cr where s: "ensure_source network layer endpoint db = Inr (s, db1)"
    and c: "crawl l r (crawl_maximum limit) (min (crawl_maximum limit) 1000)
      (Option.bind (storage_cursor (src_id s) EVENT_CURSOR db1) (\<lambda>(_, _, g). g)) None empty_crawl = Inr cr"
    and L: "learns db (concat (map (transaction_observations l r s v2) (rev (cr_signatures cr)))) db'"
    by (rule catch_up_learned)
  have "Option.bind (storage_cursor (src_id s) EVENT_CURSOR db1) (\<lambda>(_, _, g). g) = None"
    using ensure_source_gives(3) [OF s] assms(12) by (simp add: storage_cursor_def)
  moreover have "0 < min (crawl_maximum limit) 1000" by (simp add: crawl_maximum_def)
  ultimately have "cr_signatures cr = hist"
    using crawled_without_cursor [OF assms(7,8,6), of "min (crawl_maximum limit) 1000" None "crawl_maximum limit" cr]
      c assms(13) by simp
  then have wf: "database_wf db'" and known: "knowledge_of (db_positions db' ?key) =
      fold learn (about (il_client l) i n (st_events st)) (None, None)"
    using transactions_about [OF assms(2,5), of s network i n] assms(3,4,6,11) ensure_source_gives(1) [OF s]
      learnsD(1) [OF L] learnsD(2) [OF L, of ?key]
    by simp_all
  have created: "fst (knowledge_of (db_positions db' ?key)) \<noteq> None \<longleftrightarrow> opened i n st \<noteq> 0"
    unfolding known fold_learn_known about_creation opened_def by (simp add: filter_empty_conv)
  have ended: "snd (knowledge_of (db_positions db' ?key)) \<noteq> None \<longleftrightarrow> closed i n st \<noteq> 0"
    unfolding known fold_learn_known about_closing closed_def by (simp add: filter_empty_conv)
  have ledger: "opened i n st = size (filter_mset (has_id i n) (open_positions st)) + closed i n st"
    "opened i n st \<le> 1"
    using reachable_ledger [OF assms(1)] unfolding ledger_inv_def count_where_def by blast+
  have no_position: "size (filter_mset (has_id i n) (open_positions st)) = 0 \<longleftrightarrow> \<not> (\<exists>p \<in># open_positions st. has_id i n p)"
    by auto
  have "positions_wf (db_positions db')" using wf by (simp add: database_wf_def)
  note rows = wf_knowledge [OF this, of ?key]
  have "knowledge_of (db_positions db' ?key) = (None, None) \<longleftrightarrow>
      fst (knowledge_of (db_positions db' ?key)) = None \<and> snd (knowledge_of (db_positions db' ?key)) = None"
    by (rule prod_eq_iff [where t = "(None, None)", unfolded fst_conv snd_conv])
  also have "\<dots> \<longleftrightarrow> opened i n st = 0 \<and> closed i n st = 0" using created ended by blast
  also have "\<dots> \<longleftrightarrow> opened i n st = 0" using ledger(1) by auto
  finally have "db_positions db' ?key = None \<longleftrightarrow> opened i n st = 0" unfolding rows(1) .
  moreover have "opened i n st \<noteq> 0 \<and> closed i n st = 0 \<longleftrightarrow>
      size (filter_mset (has_id i n) (open_positions st)) \<noteq> 0"
    using ledger by linarith
  ultimately show ?thesis
    unfolding rows(2) using created ended no_position by satx
qed

lemma source_ensured:
  assumes "layer = ''base'' \<or> layer = ''er''"
  obtains s db' where "ensure_source network layer endpoint db = Inr (s, db')" and "known_source (src_id s) db'"
proof -
  let ?p = "\<lambda>s. src_network s = network \<and> src_layer s = layer \<and> src_endpoint s = endpoint"
  show thesis
  proof (cases "find ?p (db_sources db)")
    case None
    then show ?thesis
      using assms that by (simp add: ensure_source_def and_then_def require_def Let_def known_source_def)
  next
    case (Some s)
    then have "s \<in> set (db_sources db)" by (auto simp: find_Some_iff)
    then have "known_source (src_id s) (db\<lparr>db_next_source := n\<rparr>)" for n
      by (auto simp: known_source_def list_ex_iff)
    with Some assms that show ?thesis by (simp add: ensure_source_def and_then_def require_def Let_def)
  qed
qed

text \<open>A catch-up fails on none of the events that fit, wherever its cursor is.\<close>

lemma catch_up_succeeds:
  assumes "list_all2 (carries serialize base64 r v2) (rev hist) ess"
    and "list_all event_sized (concat ess)" and "list_all (event_fits (il_client l)) (concat ess)"
    and "codec_law l serialize base64" and "\<And>s. il_signature l s = Some s"
    and "serves hist r" and "distinct (map si_signature hist)"
    and "layer = ''base'' \<or> layer = ''er''"
  shows "\<exists>report db'. recent_with_storage l r network layer endpoint limit v2 db = (Inr report, db')"
proof -
  from assms(8) obtain s db1 where s: "ensure_source network layer endpoint db = Inr (s, db1)"
    and known: "known_source (src_id s) db1" by (rule source_ensured)
  let ?c = "Option.bind (storage_cursor (src_id s) EVENT_CURSOR db1) (\<lambda>(_, _, g). g)"
  let ?cr = "snd (crawl_page (crawl_maximum limit) ?c hist empty_crawl)"
  have "0 < min (crawl_maximum limit) 1000" by (simp add: crawl_maximum_def)
  then have c: "crawl l r (crawl_maximum limit) (min (crawl_maximum limit) 1000) ?c None empty_crawl = Inr ?cr"
    using assms(5,6,7) by (intro crawl_is_one_pass [where seen = "[]"]) auto
  obtain k where k: "cr_signatures ?cr = take k hist"
    using crawl_page_wanted [of empty_crawl "crawl_maximum limit" ?c hist] by (simp add: empty_crawl_def)
  then have crawled: "rev (cr_signatures ?cr) = drop (length hist - k) (rev hist)" by (simp add: rev_take)
  let ?ess = "drop (length hist - k) ess"
  have "list_all2 (carries serialize base64 r v2) (rev (cr_signatures ?cr)) ?ess"
    unfolding crawled using assms(1) by (rule list_all2_dropI)
  moreover have "set (concat ?ess) \<subseteq> set (concat ess)" by (auto dest: in_set_dropD)
  then have "list_all event_sized (concat ?ess)" and "list_all (event_fits (il_client l)) (concat ?ess)"
    using assms(2,3) unfolding list_all_iff by blast+
  ultimately obtain n db' where "ingest_all l r s v2 (rev (cr_signatures ?cr))
      \<lparr>ic_successful = 0, ic_pre_v2_skipped = 0, ic_events_applied = 0\<rparr> db1 = (Inr n, db')"
    using all_ingested [OF _ assms(4) _ _ assms(5) known] by blast
  then show ?thesis
    using c unfolding recent_with_storage_def s Let_def sum.case prod.case empty_crawl_def
    by (simp add: then_do_def return_def)
qed


end
