(* ===== verification/Stalls.thy ===== *)
theory Stalls
  imports Pipeline
begin

text \<open>
  What stops the indexer: a transaction whose events the tables cannot hold, and a tracked account
  that is not delegated. Neither is skipped, so every later session fails on it again.
\<close>


section \<open>A transaction that cannot be stored\<close>

definition event_cursor :: "int \<Rightarrow> database \<Rightarrow> string option" where
  "event_cursor i db = Option.bind (storage_cursor i EVENT_CURSOR db) (\<lambda>(_, _, g). g)"

lemma logs_storable:
  assumes "apply_program_logs l s g sl t logs db = (Inr n, db')" and "database_wf db"
  shows "list_all (storable (il_client l)) (log_observations l s g sl t logs)"
proof -
  from assms(1) obtain obs db1
    where 1: "collect_observations l s g sl t (program_data_logs logs PROGRAM_ID) db = (Inr obs, db1)"
      and 2: "(if obs = [] then storage_advance_cursor s EVENT_CURSOR g sl (Some g)
        else apply_batch (il_client l) obs) db1 = Inr db'"
    by (auto simp: apply_program_logs_def action_simps)
  have obs: "obs = log_observations l s g sl t logs"
    using collect_learns [OF 1 assms(2)] by (simp add: log_observations_def)
  show ?thesis
  proof (cases obs)
    case Nil
    with obs show ?thesis by simp
  next
    case (Cons first rest)
    with 2 have "succeeds (apply_batch (il_client l) (first # rest) db1)" by (simp add: succeeds_def)
    then show ?thesis unfolding batch_succeeds using obs [symmetric] Cons by simp
  qed
qed

lemma transaction_storable:
  assumes "ingest_transaction l r s v2 info n db = (Inr n', db')" and "database_wf db"
  shows "list_all (storable (il_client l)) (transaction_observations l r s v2 info)"
proof (cases "transaction_observations l r s v2 info = []")
  case True
  then show ?thesis by simp
next
  case False
  then obtain signature t meta where st: "\<not> si_err info" "il_signature l (si_signature info) = Some signature"
      "rpc_transaction r signature = Some t" "ft_meta t = Some meta" "\<not> tm_err meta" "\<not> ft_slot t < v2"
    and obs: "transaction_observations l r s v2 info = log_observations l s signature (ft_slot t)
      (Option.bind (ft_block_time t) (il_timestamp l)) (case tm_logs meta of Some logs \<Rightarrow> logs | None \<Rightarrow> [])"
    by (auto simp: transaction_observations_def split: if_splits option.splits)
  from assms(1) st obtain events where
    "apply_program_logs l s signature (ft_slot t) (Option.bind (ft_block_time t) (il_timestamp l))
       (case tm_logs meta of Some logs \<Rightarrow> logs | None \<Rightarrow> []) db = (Inr events, db')"
    by (auto simp: ingest_transaction_def action_simps Let_def to_i64_def split: if_splits)
  from logs_storable [OF this assms(2)] show ?thesis unfolding obs .
qed

text \<open>The cursor moves only to the transaction that is being ingested.\<close>

lemma upsert_cursor_event:
  "upsert_cursor i name v sl g db = Inr db' \<Longrightarrow>
   event_cursor j db' = event_cursor j db \<or> (j = i \<and> name = EVENT_CURSOR \<and> event_cursor j db' = g)"
  by (auto simp: upsert_cursor_def Let_def and_then_eq_Inr event_cursor_def storage_cursor_def upsert_apply
      split: option.splits if_splits)

lemma same_event_cursor: "db_cursors db' = db_cursors db \<Longrightarrow> event_cursor j db' = event_cursor j db"
  by (simp add: event_cursor_def storage_cursor_def)

lemma cursors_only:
  "insert_raw_observation c ob db = Inr db' \<Longrightarrow> db_cursors db' = db_cursors db"
  "track_user_account c ob m user ty seed db = Inr db' \<Longrightarrow> db_cursors db' = db_cursors db"
  "insert_liquidity_event ob kind m user assets shares min_out db = Inr db' \<Longrightarrow>
   db_cursors db' = db_cursors db"
  "insert_fee_event ob kind mo uo destination amount db = Inr db' \<Longrightarrow> db_cursors db' = db_cursors db"
  by (auto simp: insert_raw_observation_def track_user_account_def insert_liquidity_event_def
      insert_fee_event_def and_then_eq_Inr Let_def)

lemma closed_cursors:
  assumes "upsert_position_closed ob m p outcome payout lp_fee platform_fee db = Inr db'"
  shows "db_cursors db' = db_cursors db"
  using assms unfolding upsert_position_closed_def and_then_eq_Inr Let_def by fastforce

lemma created_cursors [simp]:
  "db_cursors (upsert_position_created ob m p user price collateral d expires_at db) = db_cursors db"
  by (simp add: upsert_position_created_def Let_def)

lemma tracked_liquidity_cursors:
  assumes "and_then (insert_liquidity_event ob kind m user assets shares min_out db)
    (track_user_account c ob m' user' ty seed) = Inr db'"
  shows "db_cursors db' = db_cursors db"
proof -
  from assms obtain db1 where 1: "insert_liquidity_event ob kind m user assets shares min_out db = Inr db1"
    and 2: "track_user_account c ob m' user' ty seed db1 = Inr db'"
    by (auto simp: and_then_eq_Inr)
  show ?thesis using cursors_only(2) [OF 2] cursors_only(3) [OF 1] by (rule trans)
qed

lemma projection_cursors:
  assumes "apply_projection c ob e db = Inr db'"
  shows "db_cursors db' = db_cursors db"
proof (cases e)
  case (PositionCreatedEv m i user price collateral d expires_at)
  with assms show ?thesis
    using cursors_only(2) by fastforce
next
  case (PositionClosedEv m i outcome payout lp_fee platform_fee)
  with assms show ?thesis
    using closed_cursors by simp
qed (insert assms, simp_all, (erule tracked_liquidity_cursors | erule cursors_only(4))+)

lemma observations_cursors: "apply_observations c obs db = Inr db' \<Longrightarrow> db_cursors db' = db_cursors db"
proof (induction obs arbitrary: db)
  case Nil
  then show ?case by simp
next
  case (Cons ob obs)
  then obtain db1 db2 where 1: "insert_raw_observation c ob db = Inr db1"
    and 2: "apply_projection c ob (ob_event ob) db1 = Inr db2" and 3: "apply_observations c obs db2 = Inr db'"
    by (auto simp: and_then_eq_Inr)
  show ?case using Cons.IH [OF 3] cursors_only(1) [OF 1] projection_cursors [OF 2] by simp
qed

lemma then_do_same:
  assumes "then_do m k db = (res, db')" and "\<And>r db1. m db = (r, db1) \<Longrightarrow> f db1 = f db"
    and "\<And>x r db1 db2. k x db1 = (r, db2) \<Longrightarrow> f db2 = f db1"
  shows "f db' = f db"
  using assms by (auto simp: then_do_def split: prod.splits sum.splits)

lemma dead_letter_cursors:
  "run_statement (record_dead_letter s g sl path kind payload details) db = (x, db') \<Longrightarrow>
   db_cursors db' = db_cursors db"
  by (auto simp: run_statement_def record_dead_letter_def Let_def and_then_eq_Inr split: sum.splits)

lemma collect_cursors:
  "collect_observations l s g sl t entries db = (res, db') \<Longrightarrow> db_cursors db' = db_cursors db"
proof (induction entries arbitrary: db db' res)
  case Nil
  then show ?case by (simp add: return_Inr)
next
  case (Cons entry entries)
  have bad: "db_cursors db' = db_cursors db"
    if "then_do (run_statement (record_dead_letter s g sl path kind payload details))
      (\<lambda>_. collect_observations l s g sl t entries) db = (res, db')" for path kind payload details
    by (rule then_do_same [OF that]) (rule dead_letter_cursors, assumption, rule Cons.IH)
  have good: "db_cursors db' = db_cursors db"
    if "then_do (collect_observations l s g sl t entries) (\<lambda>obs. return (ob # obs)) db = (res, db')" for ob
    by (rule then_do_same [OF that]) (rule Cons.IH, assumption, simp add: return_Inr)
  show ?case
    using Cons.prems Cons.IH bad good
    by (cases entry) (auto simp: Let_def split: option.splits sum.splits)
qed

lemma collected_signature:
  assumes "collect_observations l s g sl t entries db = (Inr obs, db')"
  shows "\<forall>ob \<in> set obs. ob_source ob = s \<and> ob_signature ob = g \<and> ob_cursor_name ob = EVENT_CURSOR"
  using assms
proof (induction entries arbitrary: db obs)
  case Nil
  then show ?case by (simp add: return_Inr)
next
  case (Cons entry entries)
  then show ?case
    by (cases entry)
       (fastforce simp: Let_def action_simps observation_of_def split: option.splits sum.splits)
qed

lemma logs_cursor:
  assumes "apply_program_logs l s g sl t logs db = (res, db')"
  shows "event_cursor j db' = event_cursor j db \<or> succeeds res \<and> event_cursor j db' = Some g"
proof -
  obtain x db1 where 1: "collect_observations l s g sl t (program_data_logs logs PROGRAM_ID) db = (x, db1)"
    by fastforce
  then have same: "event_cursor j db1 = event_cursor j db" by (intro same_event_cursor collect_cursors)
  show ?thesis
  proof (cases x)
    case (Inl e)
    with assms 1 same show ?thesis by (simp add: apply_program_logs_def then_do_def)
  next
    case (Inr obs)
    let ?f = "if obs = [] then storage_advance_cursor s EVENT_CURSOR g sl (Some g) else apply_batch (il_client l) obs"
    show ?thesis
    proof (cases "?f db1")
      case (Inl e)
      with assms 1 \<open>x = Inr obs\<close> same show ?thesis
        by (simp add: apply_program_logs_def then_do_def run_statement_def split: if_splits)
    next
      case (Inr db2)
      with assms 1 \<open>x = Inr obs\<close> have "db' = db2" and "succeeds res"
        by (auto simp: apply_program_logs_def then_do_def run_statement_def return_def split: if_splits)
      moreover have "event_cursor j db2 = event_cursor j db1 \<or> event_cursor j db2 = Some g"
      proof (cases obs)
        case Nil
        with Inr show ?thesis using upsert_cursor_event by (fastforce simp: storage_advance_cursor_def)
      next
        case (Cons first rest)
        with Inr obtain db3 where "apply_observations (il_client l) obs db1 = Inr db3"
          and 4: "advance_cursor first db3 = Inr db2"
          by (auto simp: and_then_eq_Inr simp del: apply_observations.simps)
        then have "event_cursor j db3 = event_cursor j db1"
          by (intro same_event_cursor observations_cursors)
        moreover have "ob_signature first = g"
          using collected_signature [of l s g sl t _ db obs db1] 1 \<open>x = Inr obs\<close> Cons by auto
        ultimately show ?thesis
          using upsert_cursor_event [OF 4 [unfolded advance_cursor_def], of j] by auto
      qed
      ultimately show ?thesis using same by simp
    qed
  qed
qed

lemma advance_cursor_action:
  "run_statement (storage_advance_cursor s EVENT_CURSOR g sl (Some g)) db = (x, db') \<Longrightarrow>
   event_cursor j db' = event_cursor j db \<or> succeeds x \<and> event_cursor j db' = Some g"
  using upsert_cursor_event
  by (fastforce simp: run_statement_def storage_advance_cursor_def split: sum.splits)

lemma transaction_cursor:
  assumes "ingest_transaction l r s v2 info n db = (res, db')" and "\<And>s. il_signature l s = Some s"
  shows "event_cursor j db' = event_cursor j db \<or>
    succeeds res \<and> event_cursor j db' = Some (si_signature info)"
proof -
  have step: "event_cursor j db' = event_cursor j db \<or> succeeds res \<and> event_cursor j db' = Some g"
    if "then_do m (\<lambda>x. return (k x)) db = (res, db')"
      and "\<And>y db1. m db = (y, db1) \<Longrightarrow> event_cursor j db1 = event_cursor j db \<or>
        succeeds y \<and> event_cursor j db1 = Some g"
    for m :: "'z action" and k g
    using that by (fastforce simp: then_do_def return_def succeeds_def split: prod.splits sum.splits)
  show ?thesis
    using assms(1) step [OF _ logs_cursor] step [OF _ advance_cursor_action] assms(2)
    by (auto simp: ingest_transaction_def return_def fail_def expect_def then_do_def [of "return _"]
        then_do_def [of "fail _"] Let_def split: if_splits option.splits)
qed

text \<open>Ingestion oldest first stops in front of it.\<close>

lemma blocked_all:
  assumes "ingest_all l r s v2 (xs @ bad # ys) n db = (res, db')" and "database_wf db"
    and "\<And>s. il_signature l s = Some s"
    and "\<not> list_all (storable (il_client l)) (transaction_observations l r s v2 bad)"
  shows "\<not> succeeds res \<and>
    (event_cursor j db' = event_cursor j db \<or> event_cursor j db' \<in> Some ` si_signature ` set xs)"
  using assms(1,2)
proof (induction xs arbitrary: n db)
  case Nil
  obtain y db1 where y: "ingest_transaction l r s v2 bad n db = (y, db1)" by fastforce
  with Nil.prems(2) assms(4) obtain e where e: "y = Inl e" by (cases y) (auto dest: transaction_storable)
  with Nil.prems(1) y have "res = Inl e \<and> db' = db1" by (simp add: then_do_def)
  then show ?case using transaction_cursor [OF y assms(3), of j] e by simp
next
  case (Cons x xs)
  obtain y db1 where y: "ingest_transaction l r s v2 x n db = (y, db1)" by fastforce
  show ?case
  proof (cases y)
    case (Inl e)
    with Cons.prems(1) y have "res = Inl e \<and> db' = db1" by (simp add: then_do_def)
    then show ?thesis using transaction_cursor [OF y assms(3), of j] Inl by auto
  next
    case (Inr n1)
    with Cons.prems(1) y have rest: "ingest_all l r s v2 (xs @ bad # ys) n1 db1 = (res, db')"
      by (simp add: then_do_def)
    have "database_wf db1"
      using keepsD [OF wf.keeps_transaction y] Cons.prems(2) by (simp add: stays_wf_def)
    from Cons.IH [OF rest this] transaction_cursor [OF y assms(3), of j] show ?thesis by auto
  qed
qed

lemma wanted_reaches:
  "cursor \<notin> Some ` si_signature ` set newer \<Longrightarrow> length newer < room \<Longrightarrow>
   length newer < wanted room cursor False overlap (newer @ h # older)"
proof (induction newer arbitrary: room)
  case Nil
  then show ?case by (cases room) auto
next
  case (Cons x newer)
  then show ?case by (cases room) auto
qed

lemma outside: "c \<notin> Some ` B \<Longrightarrow> d = c \<or> d \<in> Some ` A \<Longrightarrow> A \<inter> B = {} \<Longrightarrow> d \<notin> Some ` B"
  by auto

definition cursor_before :: "int \<Rightarrow> signature_info list \<Rightarrow> database \<Rightarrow> bool" where
  "cursor_before i infos db \<longleftrightarrow> event_cursor i db \<notin> Some ` si_signature ` set infos"

lemma catch_up_blocked:
  assumes "recent_with_storage l r network layer endpoint limit v2 db = (res, db')"
    and "ensure_source network layer endpoint db = Inr (s, db1)" and "database_wf db"
    and "serves (newer @ bad # older) r" and "distinct (map si_signature (newer @ bad # older))"
    and "\<And>s. il_signature l s = Some s" and "length newer < crawl_maximum limit"
    and "cursor_before (src_id s) (newer @ [bad]) db"
    and "\<not> list_all (storable (il_client l)) (transaction_observations l r s v2 bad)"
  shows "(\<exists>e. res = Inl e) \<and> cursor_before (src_id s) (newer @ [bad]) db'"
proof -
  let ?hist = "newer @ bad # older" and ?c = "event_cursor (src_id s) db1"
  let ?cr = "snd (crawl_page (crawl_maximum limit) ?c ?hist empty_crawl)"
  have c: "?c = event_cursor (src_id s) db"
    using ensure_source_gives(3) [OF assms(2)] by (rule same_event_cursor)
  have "0 < min (crawl_maximum limit) 1000" by (simp add: crawl_maximum_def)
  then have crawl: "crawl l r (crawl_maximum limit) (min (crawl_maximum limit) 1000) ?c None empty_crawl = Inr ?cr"
    using assms(4,5,6) by (intro crawl_is_one_pass [where seen = "[]"]) auto
  have "cr_signatures ?cr = take (wanted (crawl_maximum limit) ?c False 0 ?hist) ?hist"
    using crawl_page_wanted [of empty_crawl "crawl_maximum limit" ?c ?hist] by (simp add: empty_crawl_def)
  moreover have "length newer < wanted (crawl_maximum limit) ?c False 0 ?hist"
    using assms(7,8) c by (intro wanted_reaches) (auto simp: cursor_before_def)
  ultimately obtain k where "cr_signatures ?cr = newer @ bad # take k older"
    by (auto simp: take_Cons' split: if_splits)
  then have all: "rev (cr_signatures ?cr) = rev (take k older) @ bad # rev newer" by simp
  obtain y db2 where y: "ingest_all l r s v2 (rev (take k older) @ bad # rev newer)
      \<lparr>ic_successful = 0, ic_pre_v2_skipped = 0, ic_events_applied = 0\<rparr> db1 = (y, db2)" by fastforce
  have "database_wf db1" using wf.source [OF assms(2)] assms(3) by (simp add: stays_wf_def)
  from blocked_all [OF y this assms(6,9), of "src_id s"] have stop: "\<not> succeeds y"
    and cursor: "event_cursor (src_id s) db2 = ?c \<or>
      event_cursor (src_id s) db2 \<in> Some ` si_signature ` set (rev (take k older))" by auto
  from stop obtain e where e: "y = Inl e" by (cases y) simp_all
  have result: "res = Inl e \<and> db' = db2"
    using assms(1) crawl y e all unfolding recent_with_storage_def assms(2) event_cursor_def empty_crawl_def
    by (simp add: Let_def then_do_def)
  have "si_signature ` set (take k older) \<subseteq> si_signature ` set older"
    by (rule image_mono) (rule set_take_subset)
  moreover have "si_signature ` set older \<inter> si_signature ` set (newer @ [bad]) = {}"
    using assms(5) by auto
  ultimately have "si_signature ` set (take k older) \<inter> si_signature ` set (newer @ [bad]) = {}" by blast
  then have "cursor_before (src_id s) (newer @ [bad]) db2"
    unfolding cursor_before_def
    by (rule outside [OF assms(8) [unfolded cursor_before_def] cursor [unfolded set_rev c]])
  with result show ?thesis by simp
qed

lemma unfit_not_storable:
  assumes "carries serialize base64 r v2 info es" and "codec_law l serialize base64"
    and "list_all event_sized es" and "\<And>s. il_signature l s = Some s"
    and "e \<in> set es" and "\<not> event_fits (il_client l) e"
  shows "\<not> list_all (storable (il_client l)) (transaction_observations l r s v2 info)"
proof -
  have "\<not> si_err info" using assms(1,5) by (auto simp: carries_def)
  then obtain entries sl t where entries: "map snd entries = map (\<lambda>e. base64 (event_bytes serialize e)) es"
    and obs: "transaction_observations l r s v2 info =
      List.map_filter (observation_in l s (si_signature info) sl t) entries"
    by (rule carried_observations [OF assms(1) _ assms(4)])
  have "base64 (event_bytes serialize e) \<in> snd ` set entries"
    using arg_cong [OF entries, of set] assms(5) by auto
  then obtain j where j: "(j, base64 (event_bytes serialize e)) \<in> set entries" by force
  from assms(6) obtain d where d: "domain_event_of (il_client l) e = Some d"
    "to_json (il_client l) d = None \<or> \<not> event_storable (il_client l) PROGRAM_ID d"
    by (auto simp: event_fits_def split: option.splits)
  have "event_sized e" using assms(3,5) by (simp add: list_all_iff)
  let ?ob = "observation_of s (si_signature info) sl t (''log/'' @ il_show_index l j) d"
  have "observation_in l s (si_signature info) sl t (j, base64 (event_bytes serialize e)) = Some ?ob"
    using printed_entry(3) [OF assms(2) \<open>event_sized e\<close>] d(1) by simp
  then have "?ob \<in> set (transaction_observations l r s v2 info)"
    unfolding obs List.map_filter_def using j by force
  moreover have "\<not> storable (il_client l) ?ob"
    using d(2) by (auto simp: storable_def observation_of_def)
  ultimately show ?thesis unfolding list_all_iff by blast
qed


end
