(* ===== verification/Delegation.thy ===== *)
theory Delegation
  imports Indexer_Invariants
begin

text \<open>
  A tracked account that is not delegated: the pass before a session (\<open>smoke.rs\<close>,
  \<open>run_with_storage\<close>) asks every tracked account for an active route, so a session never opens while
  the router reports one of them undelegated.
\<close>


section \<open>Tracked accounts stay tracked\<close>

definition tracked_kept :: "database \<Rightarrow> database \<Rightarrow> bool" where
  "tracked_kept db db' \<longleftrightarrow> dom (db_tracked db) \<subseteq> dom (db_tracked db') \<and>
     (finite (dom (db_tracked db)) \<longrightarrow> finite (dom (db_tracked db')))"

lemma tracked_kept_same: "db_tracked db' = db_tracked db \<Longrightarrow> tracked_kept db db'"
  by (simp add: tracked_kept_def)

lemma tracked_kept_upsert [simp]:
  "tracked_kept db (db\<lparr>db_tracked := upsert k v f (db_tracked db)\<rparr>)"
  "tracked_kept db (db\<lparr>db_tracked := upsert k v f (db_tracked db), db_routes := routes\<rparr>)"
  by (simp_all add: tracked_kept_def dom_upsert subset_insertI)

interpretation tracked: database_relation tracked_kept
proof
  fix db1 db2 db3 :: database
  assume "tracked_kept db1 db2" and "tracked_kept db2 db3"
  then show "tracked_kept db1 db3" unfolding tracked_kept_def by blast
next
  fix c ob m user account_type seed and db db' :: database
  assume "track_user_account c ob m user account_type seed db = Inr db'"
  then show "tracked_kept db db'"
    by (auto simp: track_user_account_def and_then_eq_Inr Let_def)
next
  fix network program key account_type m_opt user_opt delegated er ep generation and db db' :: database
  assume "store_route network program key account_type m_opt user_opt delegated er ep db = Inr (generation, db')"
  then show "tracked_kept db db'"
    by (auto simp: store_route_def and_then_eq_Inr Let_def)
qed (auto simp: statement_defs Let_def and_then_eq_Inr intro!: tracked_kept_same
    split: option.splits if_splits)

definition tracks :: "client \<Rightarrow> string \<Rightarrow> string \<Rightarrow> pubkey \<Rightarrow> database \<Rightarrow> bool" where
  "tracks c network program account db \<longleftrightarrow>
     finite (dom (db_tracked db)) \<and>
     (\<exists>key. (network, program, key) \<in> dom (db_tracked db) \<and> parse_pubkey c key = Some account)"

lemma tracks_kept: "tracked_kept db db' \<Longrightarrow> tracks c network program account db \<Longrightarrow> tracks c network program account db'"
  unfolding tracked_kept_def tracks_def by blast

lemma collect_results_Inr: "collect_results rs = Inr xs \<Longrightarrow> r \<in> set rs \<Longrightarrow> \<exists>x \<in> set xs. r = Inr x"
  by (induction rs arbitrary: xs) (auto simp: and_then_eq_Inr)

lemma tracked_of_row_key: "tracked_of_row c key row = Inr t \<Longrightarrow> parse_pubkey c key = Some (tt_pubkey t)"
  by (auto simp: tracked_of_row_def and_then_eq_Inr ok_or_eq_Inr)

lemma load_tracked_contains:
  assumes "load_tracked c network program db = Inr ts" and "tracks c network program account db"
  shows "account \<in> tt_pubkey ` set ts"
proof -
  from assms(2) obtain key where key: "(network, program, key) \<in> dom (db_tracked db)"
    and account: "parse_pubkey c key = Some account" and fin: "finite (dom (db_tracked db))"
    by (auto simp: tracks_def)
  have "{k. db_tracked db (network, program, k) \<noteq> None} \<subseteq> (\<lambda>(_, _, k). k) ` dom (db_tracked db)"
    by force
  then have "finite {k. db_tracked db (network, program, k) \<noteq> None}"
    using fin finite_surj by blast
  then have "key \<in> set (tracked_keys network program db)"
    using key by (simp add: tracked_keys_def domIff)
  then obtain t where "t \<in> set ts"
    and "tracked_of_row c key (the (db_tracked db (network, program, key))) = Inr t"
    using collect_results_Inr [OF assms(1) [unfolded load_tracked_def]] by fastforce
  then show ?thesis using tracked_of_row_key account by fastforce
qed


section \<open>An undelegated account has no route to catch up on\<close>

definition undelegated :: "router \<Rightarrow> pubkey \<Rightarrow> bool" where
  "undelegated router account \<longleftrightarrow>
     (\<exists>fqdn. router account = Some \<lparr>rs_result = Some (False, fqdn), rs_error = False\<rparr>)"

lemma resolve_undelegated:
  "undelegated router account \<Longrightarrow> resolve u router account = Inr route \<Longrightarrow> \<not> dr_is_delegated route"
  by (auto simp: undelegated_def resolve_def and_then_eq_Inr ok_or_eq_Inr)

lemma supervisor_apply_routes:
  assumes "supervisor_apply account route sv = Inr (transition, sv')"
  shows "\<not> dr_is_delegated route \<Longrightarrow> active_endpoint sv' account = None"
    and "other \<noteq> account \<Longrightarrow> active_endpoint sv' other = active_endpoint sv other"
  using assms
  by (auto simp: supervisor_apply_def apply_route_def and_then_eq_Inr active_endpoint_def)

lemma route_accounts_undelegated:
  assumes "route_accounts u c router network program accounts sv db = (Inr sv', db')"
    and "undelegated router account"
    and "account \<in> tt_pubkey ` set accounts \<or> active_endpoint sv account = None"
  shows "active_endpoint sv' account = None"
  using assms(1,3)
proof (induction accounts arbitrary: sv db)
  case Nil
  then show ?case by (simp add: return_Inr)
next
  case (Cons x accounts)
  from Cons.prems(1) obtain route transition sv1 db1 where r: "resolve u router (tt_pubkey x) = Inr route"
    and s: "supervisor_apply (tt_pubkey x) route sv = Inr (transition, sv1)"
    and rest: "route_accounts u c router network program accounts sv1 db1 = (Inr sv', db')"
    by (auto simp: action_simps)
  show ?case
  proof (cases "tt_pubkey x = account")
    case True
    then have "active_endpoint sv1 account = None"
      using supervisor_apply_routes(1) [OF s] resolve_undelegated [OF assms(2)] r by simp
    with Cons.IH [OF rest] show ?thesis by blast
  next
    case False
    then have "active_endpoint sv1 account = active_endpoint sv account"
      using supervisor_apply_routes(2) [OF s] by metis
    with Cons.IH [OF rest] Cons.prems(2) False show ?thesis by auto
  qed
qed

lemma catch_up_needs_route:
  assumes "account \<in> tt_pubkey ` set ts" and "active_endpoint sv account = None"
  shows "catch_up_all endpoint ts sv \<noteq> Inr sv'"
  using assms
proof (induction ts arbitrary: sv)
  case Nil
  then show ?case by simp
next
  case (Cons t ts)
  show ?case
  proof (cases "tt_pubkey t = account")
    case True
    then show ?thesis
      using Cons.prems(2)
      by (auto simp: supervisor_mark_caught_up_def mark_caught_up_def and_then_eq_Inr ok_or_eq_Inr
          active_endpoint_def)
  next
    case False
    then show ?thesis
      using Cons.prems Cons.IH
      by (auto simp: supervisor_mark_caught_up_def and_then_eq_Inr ok_or_eq_Inr active_endpoint_def)
  qed
qed

lemma smoke_blocked:
  assumes "smoke_run u l router rpc ready config restart db = (Inr report, db')"
    and "undelegated router account"
    and "tracks (rl_client l) (pc_network config) (show_pubkey (rl_client l) (pc_program config)) account db"
    and "account \<noteq> market_address (rl_client l) config"
  shows False
proof -
  let ?c = "rl_client l" and ?network = "pc_network config"
    and ?program = "show_pubkey (rl_client l) (pc_program config)" and ?market = "market_address (rl_client l) config"
  from assms(1) obtain persisted db1 route endpoint base db2 ts sv sv' db3
    where 1: "persist_route u ?c ?network ?program ?market ''market'' (Some (pc_market_id config)) None
        route db = (Inr persisted, db1)"
      and 2: "atomically (\<lambda>db. stored (ensure_source ?network ''base'' (show_url u (pc_base_rpc config)) db)) db1
        = (Inr base, db2)"
      and 3: "load_tracked ?c ?network ?program db2 = Inr ts"
      and 4: "route_accounts u ?c router ?network ?program (filter (\<lambda>a. tt_pubkey a \<noteq> ?market) ts) sv db2
        = (Inr sv', db3)"
      and 5: "\<exists>sv''. catch_up_all endpoint ts sv' = Inr sv''"
    unfolding smoke_run_def Let_def market_address_def [symmetric]
    by (auto simp: action_simps) (rule that, (assumption | rule exI)+)
  have "tracked_kept db db1" using tracked.keeps_persist 1 by (rule keepsD)
  moreover have "tracked_kept db1 db2" using tracked.keeps_source 2 by (rule keepsD)
  ultimately have "tracks ?c ?network ?program account db2" using assms(3) tracks_kept by blast
  from load_tracked_contains [OF 3 this] have held: "account \<in> tt_pubkey ` set ts" .
  then have "account \<in> tt_pubkey ` set (filter (\<lambda>a. tt_pubkey a \<noteq> ?market) ts)" using assms(4) by auto
  with route_accounts_undelegated [OF 4 assms(2)] have "active_endpoint sv' account = None" by blast
  with catch_up_needs_route [OF held] 5 show False by blast
qed



section \<open>No session opens\<close>

lemma session_blocked:
  assumes "subscription_session l config chain i sn db = (res, sn', db')"
    and "undelegated (inp_router i) account"
    and "tracks (rl_client (sl_reconcile l)) (pc_network chain)
      (show_pubkey (rl_client (sl_reconcile l)) (pc_program chain)) account db"
    and "account \<noteq> market_address (rl_client (sl_reconcile l)) chain"
  shows "(\<exists>e. res = Inl e) \<and> sn' = sn"
proof -
  let ?tracks = "tracks (rl_client (sl_reconcile l)) (pc_network chain)
    (show_pubkey (rl_client (sl_reconcile l)) (pc_program chain)) account"
  obtain q db1 where q: "open_session l config chain i db = (q, db1)" by fastforce
  have "\<exists>e. q = Inl e"
  proof (cases q)
    case (Inr opened)
    with q obtain endpoint s db2 catchup db3 smoke db4
      where 1: "atomically (\<lambda>db. stored (ensure_source (pc_network chain) ''er'' (show_url (sl_url l) endpoint) db)) db
          = (Inr s, db2)"
        and 2: "recent_with_storage (sl_ingest l) (inp_history i) (pc_network chain) ''er''
          (show_url (sl_url l) endpoint) (rn_catchup_limit config) (rn_v2_min_slot config) db2 = (Inr catchup, db3)"
        and 3: "smoke_run (sl_url l) (sl_reconcile l) (inp_router i) (inp_accounts i) (inp_carbon_ready i)
          chain False db3 = (Inr smoke, db4)"
      unfolding open_session_def
      by (auto simp: action_simps)
    have "?tracks db3"
      using tracks_kept [OF keepsD [OF tracked.keeps_recent 2]]
        tracks_kept [OF keepsD [OF tracked.keeps_source 1]] assms(3) by blast
    with smoke_blocked [OF 3 assms(2) _ assms(4)] show ?thesis by blast
  qed simp
  with q assms(1) show ?thesis by (auto simp: subscription_session_def)
qed

text \<open>C28: While the router reports a tracked account other than the market as not delegated, every session
  fails before it is ready: the indexer applies no notification and its health check stays red.\<close>
theorem undelegated_account_blocks:
  assumes "run_sessions l config chain reconnect inputs sn db = (sn', db')" and "inputs \<noteq> []"
    and "\<And>i. i \<in> set inputs \<Longrightarrow> undelegated (inp_router i) account"
    and "tracks (rl_client (sl_reconcile l)) (pc_network chain)
      (show_pubkey (rl_client (sl_reconcile l)) (pc_program chain)) account db"
    and "account \<noteq> market_address (rl_client (sl_reconcile l)) chain"
  shows "\<not> is_ready now maximum database_ready sn' \<and> sn_last_success_at sn' = sn_last_success_at sn \<and>
    sn_notifications sn' = sn_notifications sn"
  using assms(1-4)
proof (induction inputs arbitrary: reconnect sn db)
  case Nil
  then show ?case by simp
next
  case (Cons i inputs)
  let ?sn = "begin_session (db_now db) reconnect sn"
  obtain res sn1 db1 where s: "subscription_session l config chain i ?sn db = (res, sn1, db1)"
    by (metis prod.exhaust)
  from session_blocked [OF s _ Cons.prems(4) assms(5)] Cons.prems(3) obtain e
    where e: "res = Inl e" "sn1 = ?sn" by auto
  let ?sn1 = "record_failure e (mark_disconnected ?sn)"
  have same: "\<not> sn_connected ?sn1" "sn_last_success_at ?sn1 = sn_last_success_at sn"
    "sn_notifications ?sn1 = sn_notifications sn"
    by (simp_all add: record_failure_def mark_disconnected_def begin_session_def)
  have later: "run_sessions l config chain True inputs ?sn1 db1 = (sn', db') \<or> (sn' = ?sn1 \<and> db' = db1)"
    using Cons.prems(1) s e by (auto simp: Let_def split: if_splits)
  show ?case
  proof (cases "sn' = ?sn1")
    case True
    with same show ?thesis by (simp add: is_ready_def snapshot_stale_def)
  next
    case False
    with later have rest: "run_sessions l config chain True inputs ?sn1 db1 = (sn', db')" by blast
    then have "inputs \<noteq> []" using False by auto
    have "tracks (rl_client (sl_reconcile l)) (pc_network chain)
        (show_pubkey (rl_client (sl_reconcile l)) (pc_program chain)) account db1"
      using tracks_kept [OF tracked.session_within [OF s] Cons.prems(4)] .
    from Cons.IH [OF rest \<open>inputs \<noteq> []\<close> _ this] Cons.prems(3) same show ?thesis by simp
  qed
qed

end
