(* ===== verification/Reference_Indexer.thy ===== *)
theory Reference_Indexer
  imports Pipeline Stalls Delegation
begin

text \<open>
  A concrete indexer for the theorems: libraries that obey the codec's laws, a node whose history
  carries the events of the reference run, and an empty database. Every theorem with hypotheses is
  applied to it.
\<close>


section \<open>Libraries\<close>

text \<open>Two letters for a byte stand for base64.\<close>

definition letters :: "bytes \<Rightarrow> string" where
  "letters data = concat (map (\<lambda>b. [char_of (97 + unat b div 16), char_of (97 + unat b mod 16)]) data)"

fun of_letters :: "string \<Rightarrow> bytes option" where
  "of_letters [] = Some []"
| "of_letters [c] = None"
| "of_letters (h # l # cs) =
     map_option ((#) (word_of_nat ((of_char h - 97) * 16 + (of_char l - 97)))) (of_letters cs)"

lemma of_letters_letters: "of_letters (letters data) = Some data"
proof (induction data)
  case Nil
  then show ?case by (simp add: letters_def)
next
  case (Cons b data)
  have "unat b < 256" using unsigned_less [of b] by simp
  then have "(97 + unat b div 16) mod 256 = 97 + unat b div 16"
    and "(97 + unat b mod 16) mod 256 = 97 + unat b mod 16" by simp_all
  with Cons show ?case by (simp add: letters_def of_char_of)
qed

lemma letters_range: "c \<in> set (letters data) \<Longrightarrow> 97 \<le> (of_char c :: nat) \<and> (of_char c :: nat) < 113"
proof (induction data)
  case (Cons b data)
  have "unat b < 256" using unsigned_less [of b] by simp
  then have "(97 + unat b div 16) mod 256 = 97 + unat b div 16"
    and "(97 + unat b mod 16) mod 256 = 97 + unat b mod 16" by simp_all
  moreover have "unat b div 16 < 16" using \<open>unat b < 256\<close> by simp
  ultimately show ?case using Cons by (auto simp: letters_def of_char_of)
qed (simp add: letters_def)

lemma letters_text: "word_text (letters data)" "letters data \<noteq> ''success''"
proof -
  have "(of_char CHR '' '' :: nat) = 32" by simp
  then show "word_text (letters data)"
    unfolding word_text_def using letters_range [of "CHR '' ''" data] by fastforce
  have "CHR ''s'' \<in> set ''success''" by simp
  moreover have "(of_char CHR ''s'' :: nat) = 115" by simp
  ultimately show "letters data \<noteq> ''success''"
    using letters_range [of "CHR ''s''" data] by fastforce
qed

definition ref_client :: client where
  "ref_client = \<lparr>parse_pubkey = (\<lambda>s. Some (byte_string s)), show_pubkey = map (\<lambda>b. char_of (unat b)),
     program_account = (\<lambda>seeds program. concat seeds @ program), to_json = (\<lambda>e. Some (event_name e))\<rparr>"

definition ref_libs :: ingest_libraries where
  "ref_libs = \<lparr>il_client = ref_client, il_deserialize = unborsh, il_base64_decode = of_letters,
     il_timestamp = Some, il_show_index = (\<lambda>n. replicate n CHR ''i''), il_signature = Some\<rparr>"

lemma ref_codec: "codec_law ref_libs borsh letters"
  using reference_borsh by (simp add: codec_law_def ref_libs_def of_letters_letters)

lemma ref_signature: "il_signature ref_libs s = Some s"
  by (simp add: ref_libs_def)


section \<open>The node\<close>

definition ev_deposit :: event where "ev_deposit = LiquidityDeposited 0 lp_w 100000000000 100000000000"
definition ev_open :: event where "ev_open = PositionCreated 0 0 trader_w 100000 1000000 Up 1010"
definition ev_close :: event where "ev_close = PositionClosed 0 0 Won 1090000 8000 2000"
definition ev_poison :: event where
  "ev_poison = WithdrawalRequested 0 lp_w 5 9223372036854775808"

text \<open>The program's frame around a nested call of another program that prints its own data.\<close>

definition ref_trace :: "event \<Rightarrow> trace list" where
  "ref_trace e =
     [Call PROGRAM_ID ''1]''
        [Noise ''Program log: Instruction'', Call ''Tok'' ''2]'' [Data ''zz''] None,
         Data (letters (event_bytes borsh e))] None]"

definition ref_transaction :: "u64 \<Rightarrow> event \<Rightarrow> fetched_transaction" where
  "ref_transaction slot e = \<lparr>ft_slot = slot, ft_block_time = Some 1000,
     ft_meta = Some \<lparr>tm_err = False, tm_logs = Some (map fst (transaction_lines (ref_trace e)))\<rparr>\<rparr>"

definition node :: "signature_info list \<Rightarrow> (string \<times> fetched_transaction) list \<Rightarrow> rpc" where
  "node hist txs = \<lparr>rpc_signatures = (\<lambda>before n. Some (take n
       (case before of None \<Rightarrow> hist | Some s \<Rightarrow> older_than s hist))),
     rpc_transaction = map_of txs\<rparr>"

lemma node_serves: "serves hist (node hist txs)"
  by (simp add: serves_def node_def)

definition sig :: "string \<Rightarrow> bool \<Rightarrow> signature_info" where
  "sig s err = \<lparr>si_signature = s, si_err = err\<rparr>"

definition ref_hist :: "signature_info list" where
  "ref_hist = [sig ''settle'' False, sig ''failed'' True, sig ''open'' False, sig ''deposit'' False]"

definition ref_node :: rpc where
  "ref_node = node ref_hist [(''deposit'', ref_transaction 10 ev_deposit),
     (''open'', ref_transaction 11 ev_open), (''settle'', ref_transaction 12 ev_close)]"

lemma ref_trace_lines:
  "transaction_lines (ref_trace e) =
     [(invoke_line PROGRAM_ID ''1]'', None), (''Program log: Instruction'', None),
      (invoke_line ''Tok'' ''2]'', None), (''Program data: zz'', Some (''Tok'', ''zz'')),
      (end_line ''Tok'' None, None),
      (''Program data: '' @ letters (event_bytes borsh e), Some (PROGRAM_ID, letters (event_bytes borsh e))),
      (end_line PROGRAM_ID None, None)]"
  by (simp add: transaction_lines_def ref_trace_def)

lemma ref_well_printed: "\<forall>t \<in> set (ref_trace e). well_printed t"
proof -
  have "strip_prefix ''Program '' ''Program log: Instruction'' = Some ''log: Instruction''"
    by (simp add: strip_prefix_def)
  moreover have "\<not> contains '' invoke ['' ''log: Instruction''" "\<not> contains '' failed: '' ''log: Instruction''"
    by (simp_all add: contains_Cons contains_Nil strip_prefix_def)
  ultimately have "quiet_line ''Program log: Instruction''"
    by (simp add: quiet_line_def ends_with_def strip_prefix_def)
  then show ?thesis
    using letters_text [of "event_bytes borsh e"]
    by (simp add: ref_trace_def word_text_def PROGRAM_ID_def)
qed

lemma ref_prints: "prints borsh letters (ref_trace e) [e]"
  using ref_well_printed by (simp add: prints_def ref_trace_lines PROGRAM_ID_def)

lemma ref_carries:
  assumes "map_of txs s = Some (ref_transaction slot e)" and "v2 \<le> slot" and "unat slot < 2 ^ 63"
  shows "carries borsh letters (node hist txs) v2 (sig s False) [e]"
  using assms ref_prints
  by (auto simp: carries_def node_def sig_def ref_transaction_def)

lemma ref_sized:
  "event_sized ev_deposit" "event_sized ev_open" "event_sized ev_close" "event_sized ev_poison"
  by (simp_all add: event_sized_def ev_deposit_def ev_open_def ev_close_def ev_poison_def lp_w_def
      trader_w_def wallet_tail_def)

lemma ref_fits:
  "event_fits ref_client ev_deposit" "event_fits ref_client ev_open" "event_fits ref_client ev_close"
  "\<not> event_fits ref_client ev_poison"
  by (simp_all add: event_fits_def ev_deposit_def ev_open_def ev_close_def ev_poison_def ref_client_def
      trackable_def fits_bigint_def)

lemma ref_events: "st_events run8 = [ev_deposit, ev_open, ev_close]"
  by (simp add: run8_def run7_def run6_def ev_deposit_def ev_open_def ev_close_def)

lemma ref_history_carries:
  "list_all2 (carries borsh letters ref_node 5) (rev ref_hist) [[ev_deposit], [ev_open], [], [ev_close]]"
  by (auto simp: ref_hist_def ref_node_def intro!: ref_carries)
     (simp add: carries_def sig_def)


section \<open>The database\<close>

definition ref_source :: source where
  "ref_source = \<lparr>src_id = 1, src_network = ''devnet'', src_layer = ''er'', src_endpoint = ''http://er/''\<rparr>"

definition ref_db :: database where
  "ref_db = \<lparr>db_now = 0, db_next_source = 2, db_sources = [ref_source], db_cursors = Map.empty,
     db_transactions = Map.empty, db_instructions = Map.empty, db_positions = Map.empty,
     db_liquidity_events = Map.empty, db_fee_events = Map.empty, db_tracked = Map.empty,
     db_observations = Map.empty, db_markets = Map.empty, db_dead_letters = Map.empty,
     db_routes = Map.empty, db_next_run = 1, db_runs = Map.empty,
     db_refresh = \<lparr>rf_version = 0, rf_last_attempt = None, rf_last_success = None, rf_duration_ms = None,
       rf_high_water = None, rf_day = None, rf_week = None, rf_month = None, rf_error = None\<rparr>,
     db_market_board = (Map.empty, 0), db_global_board = (Map.empty, 0)\<rparr>"

lemma ref_db_wf: "database_wf ref_db"
  by (simp add: database_wf_def sources_wf_def ref_db_def ref_source_def positions_wf_def)

lemma ref_db_tables:
  "db_positions ref_db = Map.empty" "db_cursors ref_db = Map.empty" "db_sources ref_db = [ref_source]"
  by (simp_all add: ref_db_def)

lemma ref_ensure: "ensure_source ''devnet'' ''er'' ''http://er/'' ref_db = Inr (ref_source, ref_db\<lparr>db_next_source := 3\<rparr>)"
  by (simp add: ensure_source_def ref_db_def ref_source_def and_then_def require_def)


section \<open>Catching up\<close>




definition cursor_db :: database where
  "cursor_db = ref_db\<lparr>db_cursors := [(1, EVENT_CURSOR) \<mapsto>
     \<lparr>cu_value = ''deposit'', cu_slot = Some 10, cu_signature = Some ''deposit'', cu_updated_at = 0\<rparr>]\<rparr>"

lemma cursor_db_wf: "database_wf cursor_db"
  by (simp add: database_wf_def sources_wf_def cursor_db_def ref_db_def ref_source_def positions_wf_def
      known_source_def)

lemma cursor_ensure:
  "ensure_source ''devnet'' ''er'' ''http://er/'' cursor_db = Inr (ref_source, cursor_db\<lparr>db_next_source := 3\<rparr>)"
  by (simp add: ensure_source_def cursor_db_def ref_db_def ref_source_def and_then_def require_def)

lemma cursor_stored:
  "storage_cursor (src_id ref_source) EVENT_CURSOR cursor_db = Some (''deposit'', Some 10, Some (si_signature (sig ''deposit'' False)))"
  by (simp add: storage_cursor_def cursor_db_def ref_source_def sig_def)

text \<open>With a limit of two the three newer transactions hide the cursor, and the gap is reported.\<close>
theorem catchup_gap_exact_witness:
  "\<exists>report db'. recent_with_storage ref_libs ref_node ''devnet'' ''er'' ''http://er/'' 2 5 cursor_db
      = (Inr report, db') \<and> catchup_gap 2 report"
proof -
  have "\<exists>report db'. recent_with_storage ref_libs ref_node ''devnet'' ''er'' ''http://er/'' 2 5 cursor_db = (Inr report, db')"
    by (rule catch_up_succeeds [OF ref_history_carries _ _ ref_codec ref_signature])
       (simp_all add: ref_node_def node_serves ref_hist_def sig_def ref_sized ref_fits ref_libs_def)
  then obtain report db' where r: "recent_with_storage ref_libs ref_node ''devnet'' ''er'' ''http://er/'' 2 5 cursor_db
      = (Inr report, db')" by blast
  let ?newer = "[sig ''settle'' False, sig ''failed'' True, sig ''open'' False]"
  have hist: "?newer @ sig ''deposit'' False # [] = ref_hist" by (simp add: ref_hist_def)
  have "catchup_gap 2 report \<longleftrightarrow> 2 \<le> (10000 :: nat) \<and> 2 \<le> length ?newer"
    by (rule catchup_gap_exact [OF r cursor_ensure cursor_stored, of ?newer "[]"])
       (simp_all only: hist, simp_all add: ref_node_def node_serves ref_signature ref_hist_def sig_def)
  with r show ?thesis by auto
qed

definition poisoned_hist :: "signature_info list" where
  "poisoned_hist = [sig ''settle'' False, sig ''poison'' False, sig ''deposit'' False]"

definition poisoned_node :: rpc where
  "poisoned_node = node poisoned_hist [(''deposit'', ref_transaction 10 ev_deposit),
     (''poison'', ref_transaction 11 ev_poison), (''settle'', ref_transaction 12 ev_close)]"




section \<open>Deliveries\<close>

definition ref_ob :: "string \<Rightarrow> domain_event \<Rightarrow> observation" where
  "ref_ob signature event = \<lparr>ob_source = ref_source, ob_program_id = PROGRAM_ID, ob_signature = signature,
     ob_slot = 11, ob_block_time = Some 0, ob_instruction_path = ''log/0'', ob_cursor_name = EVENT_CURSOR,
     ob_cursor_value = signature, ob_event = event\<rparr>"

definition ev_created :: domain_event where "ev_created = PositionCreatedEv 0 0 ''u'' 100000 1000000 Up 1010"
definition ev_closed :: domain_event where "ev_closed = PositionClosedEv 0 0 Won 1090000 8000 2000"

text \<open>The closing first, then the creation, then the closing again.\<close>

definition ref_batches :: "(nat \<times> observation list) list" where
  "ref_batches = [(1, [ref_ob ''s'' ev_closed]), (1, [ref_ob ''o'' ev_created]), (1, [ref_ob ''s'' ev_closed])]"

lemma single_batch:
  assumes "known_source 1 db" and "e = ev_created \<or> e = ev_closed"
  obtains db' where "apply_batch ref_client [ref_ob g e] db = Inr db'" and "known_source 1 db'"
proof -
  have "succeeds (apply_batch ref_client [ref_ob g e] db)"
    unfolding batch_succeeds using assms
    by (auto simp: ref_ob_def ref_source_def storable_def ev_created_def ev_closed_def ref_client_def
        trackable_def fits_bigint_def)
  then obtain db' where b: "apply_batch ref_client [ref_ob g e] db = Inr db'" unfolding succeeds_def by blast
  with history.batch [OF b] assms(1) that show ?thesis using known_source_kept by blast
qed

lemma ref_delivered: "\<exists>db'. deliver_all ref_client ref_batches ref_db = Inr db'"
proof -
  have clock: "known_source 1 db \<Longrightarrow> known_source 1 (db\<lparr>db_now := t\<rparr>)" for db t by (simp add: known_source_def)
  have "known_source 1 ref_db" by (simp add: known_source_def ref_db_def ref_source_def)
  from single_batch [OF clock [OF this]] obtain db1
    where 1: "apply_batch ref_client [ref_ob ''s'' ev_closed] (ref_db\<lparr>db_now := db_now ref_db + int 1\<rparr>) = Inr db1"
      and k: "known_source 1 db1" by blast
  from single_batch [OF clock [OF k]] obtain db2
    where 2: "apply_batch ref_client [ref_ob ''o'' ev_created] (db1\<lparr>db_now := db_now db1 + int 1\<rparr>) = Inr db2"
      and k: "known_source 1 db2" by blast
  from single_batch [OF clock [OF k]] obtain db3
    where 3: "apply_batch ref_client [ref_ob ''s'' ev_closed] (db2\<lparr>db_now := db_now db2 + int 1\<rparr>) = Inr db3" by blast
  show ?thesis unfolding ref_batches_def deliver_all.simps and_then_eq_Inr using 1 2 3 by blast
qed

definition ref_key :: position_key where "ref_key = (''devnet'', PROGRAM_ID, 0, 0)"

lemma ref_batches_events: "events_at ref_key (concat (map snd ref_batches)) = [ev_closed, ev_created, ev_closed]"
  by (simp add: ref_batches_def ref_ob_def ref_source_def ref_key_def position_key_of_def ev_closed_def ev_created_def)

theorem projection_converges_witness:
  "\<exists>db'. deliver_all ref_client ref_batches ref_db = Inr db' \<and>
    knowledge_of (db_positions db' ref_key) =
      (Some (Some ''u'', Some 100000, Some 1000000, Some ''up'', Some 1010000000, Some 1000000000),
       Some (''settled'', Some ''won'', Some 1090000, Some 8000, Some 2000))"
proof -
  obtain db' where d: "deliver_all ref_client ref_batches ref_db = Inr db'" using ref_delivered by blast
  let ?creation = "(Some ''u'', Some 100000, Some 1000000, Some ''up'', Some 1010000000, Some 1000000000)"
  let ?closing = "(''settled'', Some ''won'', Some 1090000, Some 8000, Some 2000)"
  have "knowledge_of (db_positions db' ref_key) =
    (if \<exists>e \<in> set [ev_closed, ev_created, ev_closed]. event_creation e \<noteq> None then Some ?creation else None,
     if \<exists>e \<in> set [ev_closed, ev_created, ev_closed]. event_closing e \<noteq> None then Some ?closing else None)"
    by (rule projection_converges [OF d ref_db_wf _ ref_batches_events [symmetric]])
       (simp_all add: ref_db_def ev_closed_def ev_created_def to_timestamp_def)
  then have "knowledge_of (db_positions db' ref_key) = (Some ?creation, Some ?closing)"
    by (simp add: ev_closed_def ev_created_def)
  with d show ?thesis by blast
qed

theorem position_refinement_witness:
  "\<exists>db'. deliver_all ref_client ref_batches ref_db = Inr db' \<and>
    knowledge_of (db_positions db' ref_key) = fold learn [ev_closed, ev_created, ev_closed] (None, None)"
proof -
  obtain db' where d: "deliver_all ref_client ref_batches ref_db = Inr db'" using ref_delivered by blast
  from position_refinement [OF d ref_db_wf, of ref_key] ref_batches_events d show ?thesis
    by (simp add: ref_db_def)
qed


section \<open>Runs\<close>

definition ref_url :: url where
  "ref_url = \<lparr>url_scheme = ''http'', url_username = [], url_password = None, url_authority = ''er'',
     url_path = ''/'', url_query = None, url_fragment = None\<rparr>"

definition ref_session :: session_libraries where
  "ref_session = \<lparr>sl_url = \<lparr>parse_url = (\<lambda>_. Some ref_url), show_url = (\<lambda>_. ''http://er/'')\<rparr>,
     sl_ingest = ref_libs,
     sl_reconcile = \<lparr>rl_client = ref_client, rl_deserialize = unborsh, rl_hash = letters,
       rl_json = (\<lambda>_. Some ''{}''), rl_show_slot = (\<lambda>_. ''slot'')\<rparr>,
     sl_calendar = \<lparr>cal_day = id, cal_week = id, cal_month = id\<rparr>\<rparr>"

definition ref_config :: runtime_config where
  "ref_config = \<lparr>rn_reconnect_delay = 1, rn_route_refresh_interval = 30, rn_refresh_interval = 30,
     rn_maximum_staleness = 120, rn_catchup_limit = 100, rn_v2_min_slot = 5, rn_once = False\<rparr>"

definition ref_probe :: probe_config where
  "ref_probe = \<lparr>pc_network = ''devnet'', pc_base_rpc = ref_url, pc_program = byte_string ''P'', pc_market_id = 0\<rparr>"

text \<open>One session over the reference history with a live notification; only the market is delegated.\<close>

definition ref_input :: session_input where
  "ref_input = \<lparr>inp_router = (\<lambda>account. Some \<lparr>rs_result = Some
       (account = market_address ref_client ref_probe,
        if account = market_address ref_client ref_probe then Some ''er'' else None), rs_error = False\<rparr>),
     inp_subscribed = True, inp_history = ref_node,
     inp_accounts = (\<lambda>_ keys. Some (20, map (\<lambda>_. None) keys)), inp_carbon_ready = (\<lambda>_. True),
     inp_refresh = (True, Rebuilt, 7),
     inp_events = [Notification ''live'' 21 False
       (map fst (transaction_lines (ref_trace ev_open))), StreamEnd]\<rparr>"

theorem cursor_never_regresses_witness:
  "\<exists>sn' db' row' slot'. run_sessions ref_session ref_config ref_probe False [ref_input] (new_snapshot 0) cursor_db
      = (sn', db') \<and> db_cursors db' (1, EVENT_CURSOR) = Some row' \<and> cu_slot row' = Some slot' \<and> 10 \<le> slot'"
proof -
  obtain sn' db' where r: "run_sessions ref_session ref_config ref_probe False [ref_input] (new_snapshot 0) cursor_db
      = (sn', db')" by fastforce
  have "\<exists>row' slot'. db_cursors db' (1, EVENT_CURSOR) = Some row' \<and> cu_slot row' = Some slot' \<and> 10 \<le> slot'"
    by (rule cursor_never_regresses [OF r]) (simp add: cursor_db_def, simp)
  with r show ?thesis by blast
qed

definition closed_db :: database where
  "closed_db = ref_db\<lparr>db_positions := [ref_key \<mapsto>
     closed_row (ref_ob ''s'' ev_closed) Won 1090000 8000 2000 0]\<rparr>"



text \<open>A depositor's share account that is back on the base layer.\<close>

definition tracked_db :: database where
  "tracked_db = ref_db\<lparr>db_tracked := [(''devnet'', show_pubkey ref_client (pc_program ref_probe), ''L'') \<mapsto>
     \<lparr>tk_account_type = ''user_liquidity'', tk_market_id = Some 0, tk_user = Some ''lp'', tk_er_source = None,
      tk_er_endpoint = None, tk_generation = 0, tk_checked_at = None, tk_updated_at = 0\<rparr>]\<rparr>"

theorem undelegated_account_blocks_witness:
  "\<exists>sn' db'. run_sessions ref_session ref_config ref_probe False [ref_input, ref_input] (new_snapshot 0) tracked_db
      = (sn', db') \<and> \<not> is_ready 0 120 True sn' \<and> sn_last_success_at sn' = None"
proof -
  obtain sn' db' where r: "run_sessions ref_session ref_config ref_probe False [ref_input, ref_input]
      (new_snapshot 0) tracked_db = (sn', db')" by fastforce
  have other: "byte_string ''L'' \<noteq> market_address ref_client ref_probe"
    by (simp add: market_address_def ref_client_def ref_probe_def byte_string_def)
  have "\<not> is_ready 0 120 True sn' \<and> sn_last_success_at sn' = sn_last_success_at (new_snapshot 0) \<and>
      sn_notifications sn' = sn_notifications (new_snapshot 0)"
    by (rule undelegated_account_blocks [OF r, of "byte_string ''L''"])
       (use other in \<open>auto simp: undelegated_def ref_input_def tracks_def tracked_db_def ref_session_def ref_probe_def
         ref_client_def\<close>)
  with r show ?thesis by (auto simp: new_snapshot_def)
qed


section \<open>Codecs\<close>



theorem accounts_decode_witness:
  "decode_account unborsh [1] [1] (account_bytes borsh (UserLiquidityAccount
      \<lparr>ul_markets = [\<lparr>ml_market_id = 0, ml_shares = 5, ml_pending_withdrawal_shares = 2,
        ml_min_assets_out = 1\<rparr>]\<rparr>) @ [0, 0, 0]) =
    Some (UserLiquidityAccount \<lparr>ul_markets = [\<lparr>ml_market_id = 0, ml_shares = 5,
        ml_pending_withdrawal_shares = 2, ml_min_assets_out = 1\<rparr>]\<rparr>)"
  by (rule accounts_decode [OF reference_borsh]) (simp add: USER_LIQUIDITY_MARKET_CAPACITY_def)

end
