(* ===== verification/Stream_System.thy ===== *)
theory Stream_System
  imports Api_Stream
begin

text \<open>
  The stream end to end, as a state machine: the writer commits, the database's trigger
  (\<open>migrations/0005_position_notifications.sql\<close>) notifies, the listener forwards, its connection
  breaks and returns, the bounded channel drops, the socket reads and sends, the client merges. Its
  invariant: the client's view of a position is what the table says, or something is on its way that
  will make it so.
\<close>


section \<open>The parts around the API\<close>

text \<open>The trigger, for one row written.\<close>

definition row_notification :: "position_key \<Rightarrow> position_row \<Rightarrow> position_change list" where
  "row_notification key row =
     (case (key, pr_user row) of
        ((network, program, m, i), Some user) \<Rightarrow>
          [\<lparr>ch_network = network, ch_program = program, ch_user = user, ch_market_id = m,
            ch_position_id = i\<rparr>]
      | _ \<Rightarrow> [])"

text \<open>A commit of the writer: rows are never deleted, a position that has a user keeps it (the program
  creates a position once), and every row that changed was notified.\<close>

definition commits :: "database \<Rightarrow> database \<Rightarrow> position_change list \<Rightarrow> bool" where
  "commits db db' notified \<longleftrightarrow>
     (finite (dom (db_positions db)) \<longrightarrow> finite (dom (db_positions db'))) \<and>
     (\<forall>key row. db_positions db key = Some row \<longrightarrow>
        (\<exists>row'. db_positions db' key = Some row' \<and>
           (pr_user row = None \<or> pr_user row' = pr_user row))) \<and>
     (\<forall>key row. db_positions db' key = Some row \<longrightarrow> db_positions db key \<noteq> Some row \<longrightarrow>
        set (row_notification key row) \<subseteq> set notified) \<and>
     (\<forall>change \<in> set notified. \<exists>row. db_positions db' (ch_network change, ch_program change,
        ch_market_id change, ch_position_id change) = Some row \<and> pr_user row = Some (ch_user change))"

text \<open>The client merges by market and position.\<close>

type_synonym client_view = "int \<times> int \<rightharpoonup> position_item"

definition item_key :: "position_item \<Rightarrow> int \<times> int" where
  "item_key item = (pi_market_id item, pi_position_id item)"

fun merge_message :: "stream_message \<Rightarrow> client_view \<Rightarrow> client_view" where
  "merge_message (Snapshot items) view = view ++ map_of (map (\<lambda>item. (item_key item, item)) items)"
| "merge_message (Upsert item) view = view(item_key item \<mapsto> item)"

text \<open>The channel as one receiver sees it: full, it overwrites the oldest value, and the receiver is
  told that it lagged.\<close>

record broadcast_queue =
  bq_waiting :: "position_broadcast list"
  bq_lagged :: bool

definition broadcast_send :: "position_broadcast \<Rightarrow> broadcast_queue \<Rightarrow> broadcast_queue" where
  "broadcast_send b q =
     (if length (bq_waiting q) < POSITION_BROADCAST_CAPACITY
      then q\<lparr>bq_waiting := bq_waiting q @ [b]\<rparr>
      else q\<lparr>bq_waiting := tl (bq_waiting q) @ [b], bq_lagged := True\<rparr>)"

definition broadcast_recv :: "broadcast_queue \<Rightarrow> (socket_input \<times> broadcast_queue) option" where
  "broadcast_recv q =
     (if bq_lagged q then Some (Lagged, q\<lparr>bq_lagged := False\<rparr>)
      else case bq_waiting q of [] \<Rightarrow> None
      | b # rest \<Rightarrow> Some (Received b, q\<lparr>bq_waiting := rest\<rparr>))"

record stream_system =
  sy_db :: database
  sy_listening :: bool
  sy_notified :: "position_change list"
  sy_queue :: broadcast_queue
  sy_view :: "client_view option"

text \<open>A socket that has subscribed, before its first snapshot.\<close>

definition stream_init :: "stream_system \<Rightarrow> bool" where
  "stream_init s \<longleftrightarrow>
     finite (dom (db_positions (sy_db s))) \<and> sy_notified s = [] \<and>
     sy_queue s = \<lparr>bq_waiting = [], bq_lagged = False\<rparr> \<and> sy_view s = None"

text \<open>What a query of the socket can meet.\<close>

definition meets :: "database \<Rightarrow> reading \<Rightarrow> bool" where
  "meets db reading \<longleftrightarrow> reading = Reads db \<or> reading = Refuses \<or> reading = TimesOut"

inductive stream_step ::
    "api_state \<Rightarrow> string \<Rightarrow> u16 option \<Rightarrow> stream_system \<Rightarrow> stream_system \<Rightarrow> bool"
  for st wallet market_id where
  commit:
    "commits (sy_db s) db' notified \<Longrightarrow>
     stream_step st wallet market_id s
       (s\<lparr>sy_db := db', sy_notified := sy_notified s @ (if sy_listening s then notified else [])\<rparr>)"
| forward:
    "sy_notified s = change # rest \<Longrightarrow>
     stream_step st wallet market_id s
       (s\<lparr>sy_notified := rest, sy_queue := broadcast_send (Change change) (sy_queue s)\<rparr>)"
| disconnect:
    "stream_step st wallet market_id s (s\<lparr>sy_listening := False, sy_notified := []\<rparr>)"
| connect:
    "stream_step st wallet market_id s
       (s\<lparr>sy_listening := True, sy_notified := [], sy_queue := broadcast_send Resync (sy_queue s)\<rparr>)"
| first_snapshot:
    "sy_view s = None \<Longrightarrow> meets (sy_db s) reading \<Longrightarrow>
     send_position_snapshot st wallet market_id reading sends m = (Some sent, m') \<Longrightarrow>
     stream_step st wallet market_id s (s\<lparr>sy_view := Some (fold merge_message sent Map.empty)\<rparr>)"
| receive:
    "sy_view s = Some view \<Longrightarrow> broadcast_recv (sy_queue s) = Some (input, queue) \<Longrightarrow>
     meets (sy_db s) row_reading \<Longrightarrow> meets (sy_db s) reading \<Longrightarrow>
     stream_turn st wallet market_id input row_reading reading sends m = (Some sent, m') \<Longrightarrow>
     stream_step st wallet market_id s
       (s\<lparr>sy_queue := queue, sy_view := Some (fold merge_message sent view)\<rparr>)"


section \<open>The invariant\<close>

text \<open>The wallet's positions as the table has them.\<close>

definition wallet_table :: "api_state \<Rightarrow> string \<Rightarrow> u16 option \<Rightarrow> database \<Rightarrow> client_view" where
  "wallet_table st wallet market_id db = (\<lambda>(m, i).
     case db_positions db (as_network st, as_program st, m, i) of
       None \<Rightarrow> None
     | Some row \<Rightarrow>
         if pr_user row = Some wallet \<and> market_matches market_id m then Some (item_of_row m i row) else None)"

definition concerns :: "api_state \<Rightarrow> string \<Rightarrow> u16 option \<Rightarrow> int \<times> int \<Rightarrow> position_change \<Rightarrow> bool" where
  "concerns st wallet market_id key change \<longleftrightarrow>
     position_change_matches change (as_network st) (as_program st) wallet market_id \<and>
     key = (ch_market_id change, ch_position_id change)"

text \<open>Something on its way: a listener that will resync, a resync, a drop that will be reported, or a
  notification of the position.\<close>

definition on_its_way ::
    "api_state \<Rightarrow> string \<Rightarrow> u16 option \<Rightarrow> stream_system \<Rightarrow> int \<times> int \<Rightarrow> bool" where
  "on_its_way st wallet market_id s key \<longleftrightarrow>
     \<not> sy_listening s \<or> bq_lagged (sy_queue s) \<or> Resync \<in> set (bq_waiting (sy_queue s)) \<or>
     (\<exists>change. concerns st wallet market_id key change \<and>
        (change \<in> set (sy_notified s) \<or> Change change \<in> set (bq_waiting (sy_queue s))))"

definition notified_rows :: "stream_system \<Rightarrow> bool" where
  "notified_rows s \<longleftrightarrow>
     (\<forall>change. change \<in> set (sy_notified s) \<or> Change change \<in> set (bq_waiting (sy_queue s)) \<longrightarrow>
        (\<exists>row. db_positions (sy_db s) (ch_network change, ch_program change, ch_market_id change,
           ch_position_id change) = Some row \<and> pr_user row = Some (ch_user change)))"

definition view_tracks ::
    "api_state \<Rightarrow> string \<Rightarrow> u16 option \<Rightarrow> stream_system \<Rightarrow> client_view \<Rightarrow> bool" where
  "view_tracks st wallet market_id s view \<longleftrightarrow>
     dom view \<subseteq> dom (wallet_table st wallet market_id (sy_db s)) \<and>
     (\<forall>key. view key = wallet_table st wallet market_id (sy_db s) key \<or>
        on_its_way st wallet market_id s key)"

definition stream_inv :: "api_state \<Rightarrow> string \<Rightarrow> u16 option \<Rightarrow> stream_system \<Rightarrow> bool" where
  "stream_inv st wallet market_id s \<longleftrightarrow>
     finite (dom (db_positions (sy_db s))) \<and> notified_rows s \<and>
     (case sy_view s of None \<Rightarrow> True | Some view \<Rightarrow> view_tracks st wallet market_id s view)"

lemma view_tracksI:
  assumes "dom view \<subseteq> dom (wallet_table st wallet market_id (sy_db s))"
    and "\<And>key. view key \<noteq> wallet_table st wallet market_id (sy_db s) key \<Longrightarrow>
      on_its_way st wallet market_id s key"
  shows "view_tracks st wallet market_id s view"
  using assms unfolding view_tracks_def by blast

lemma view_tracks_table: "view_tracks st wallet market_id s (wallet_table st wallet market_id (sy_db s))"
  by (rule view_tracksI) simp_all

text \<open>More on its way keeps the view tracking.\<close>

lemma view_tracks_more:
  assumes "view_tracks st wallet market_id s view" and "sy_db s' = sy_db s"
    and "\<And>key. on_its_way st wallet market_id s key \<Longrightarrow> on_its_way st wallet market_id s' key"
  shows "view_tracks st wallet market_id s' view"
  using assms unfolding view_tracks_def by fastforce


section \<open>What is sent\<close>

lemma snapshot_complete:
  assumes "finite (dom (db_positions db))"
  shows "map_of (map (\<lambda>item. (item_key item, item)) (positions_for_stream st wallet market_id db)) =
    wallet_table st wallet market_id db"
proof -
  let ?keys = "position_keys st wallet market_id None db"
  let ?row = "\<lambda>(m, i). item_of_row m i (the (db_positions db (as_network st, as_program st, m, i)))"
  have "finite ?keys" by (rule finite_position_keys [OF assms])
  then have keys: "set (newest_first ?keys) = ?keys" by simp
  have "map (\<lambda>item. (item_key item, item)) (positions_for_stream st wallet market_id db) =
      map (\<lambda>k. (k, ?row k)) (map snd (newest_first ?keys))"
    by (auto simp: positions_for_stream_def position_at_def item_key_def item_of_row_def split: prod.split)
  then have "map_of (map (\<lambda>item. (item_key item, item)) (positions_for_stream st wallet market_id db)) =
      (Some \<circ> ?row) |` (snd ` ?keys)"
    by (simp only: map_of_map_restrict set_map keys)
  also have "\<dots> = wallet_table st wallet market_id db"
    by (auto simp: fun_eq_iff restrict_map_def wallet_table_def position_keys_def status_matches_def
        image_iff split: option.splits)
  finally show ?thesis .
qed

lemma snapshot_sent:
  assumes "send_position_snapshot st wallet market_id reading sends m = (Some sent, m')" and "meets db reading"
  shows "sent = [Snapshot (positions_for_stream st wallet market_id db)]"
  using assms by (auto simp: send_position_snapshot_def timed_def meets_def split: if_splits prod.splits sum.splits)

lemma snapshot_merged:
  assumes "send_position_snapshot st wallet market_id reading sends m = (Some sent, m')" and "meets db reading"
    and "finite (dom (db_positions db))" and "dom view \<subseteq> dom (wallet_table st wallet market_id db)"
  shows "fold merge_message sent view = wallet_table st wallet market_id db"
proof
  fix key
  show "fold merge_message sent view key = wallet_table st wallet market_id db key"
    using assms(4) unfolding snapshot_sent [OF assms(1,2)]
    by (cases "wallet_table st wallet market_id db key")
      (auto simp: snapshot_complete [OF assms(3)] map_add_def domIff)
qed

lemma change_sent:
  assumes "stream_turn st wallet market_id (Received (Change change)) row_reading reading sends m = (Some sent, m')"
    and "meets db row_reading" and "meets db reading"
  obtains (ignored) "sent = []" and "\<not> position_change_matches change (as_network st) (as_program st) wallet market_id"
  | (absent) "position_change_matches change (as_network st) (as_program st) wallet market_id"
      and "position_by_identity st (ch_market_id change) (ch_position_id change) db = None"
  | (upsert) item where "sent = [Upsert item]"
      and "position_by_identity st (ch_market_id change) (ch_position_id change) db = Some item"
      and "position_change_matches change (as_network st) (as_program st) wallet market_id"
  | (snapshot) m where "send_position_snapshot st wallet market_id reading sends m = (Some sent, m')"
  using assms by (auto simp: timed_def meets_def split: if_splits prod.splits sum.splits option.splits)


section \<open>Every step keeps the invariant\<close>

lemma sent_waiting:
  "set (bq_waiting (broadcast_send b q)) \<subseteq> insert b (set (bq_waiting q))"
  by (auto simp: broadcast_send_def dest: list.set_sel(2) [rotated] split: if_splits)
     (metis list.set_sel(2) list.sel(2))

lemma sent_arrives:
  "bq_lagged (broadcast_send b q) \<or>
   (bq_lagged (broadcast_send b q) = bq_lagged q \<and> set (bq_waiting (broadcast_send b q)) = insert b (set (bq_waiting q)))"
  by (auto simp: broadcast_send_def)

lemma keeps_commit:
  assumes inv: "stream_inv st wallet market_id s" and commits: "commits (sy_db s) db' notified"
    and s': "s' = s\<lparr>sy_db := db', sy_notified := sy_notified s @ (if sy_listening s then notified else [])\<rparr>"
  shows "stream_inv st wallet market_id s'"
proof -
  let ?table = "wallet_table st wallet market_id"
  have kept: "\<exists>row'. db_positions db' key = Some row' \<and> (pr_user row = None \<or> pr_user row' = pr_user row)"
    if "db_positions (sy_db s) key = Some row" for key row
    using commits that unfolding commits_def by blast
  have rows: "notified_rows s'"
    unfolding notified_rows_def
  proof (intro allI impI)
    fix change :: position_change
    let ?key = "(ch_network change, ch_program change, ch_market_id change, ch_position_id change)"
    assume "change \<in> set (sy_notified s') \<or> Change change \<in> set (bq_waiting (sy_queue s'))"
    then consider "change \<in> set notified"
      | "change \<in> set (sy_notified s) \<or> Change change \<in> set (bq_waiting (sy_queue s))"
      by (auto simp: s' split: if_splits)
    then show "\<exists>row. db_positions (sy_db s') ?key = Some row \<and> pr_user row = Some (ch_user change)"
    proof cases
      case 1
      then show ?thesis using commits by (simp add: commits_def s')
    next
      case 2
      with inv obtain row where "db_positions (sy_db s) ?key = Some row" "pr_user row = Some (ch_user change)"
        unfolding stream_inv_def notified_rows_def by blast
      with kept [of ?key row] show ?thesis by (auto simp: s')
    qed
  qed
  have table_kept: "?table db' key \<noteq> None" if "?table (sy_db s) key \<noteq> None" for key
    using that kept [of "(as_network st, as_program st, fst key, snd key)"]
    by (fastforce simp: wallet_table_def split: option.splits if_splits prod.splits)
  have changed: "on_its_way st wallet market_id s' key" if differs: "?table db' key \<noteq> ?table (sy_db s) key" for key
  proof (cases "sy_listening s")
    case True
    obtain m i where key: "key = (m, i)" by (cases key)
    let ?k = "(as_network st, as_program st, m, i)"
    have "?table db' key \<noteq> None"
      using differs table_kept [of key] by (cases "?table (sy_db s) key") auto
    then obtain row where row: "db_positions db' ?k = Some row" and user: "pr_user row = Some wallet"
      and market: "market_matches market_id m"
      by (auto simp: wallet_table_def key split: option.splits if_splits)
    have "db_positions (sy_db s) ?k \<noteq> Some row"
      using differs row by (auto simp: wallet_table_def key)
    with commits row have "set (row_notification ?k row) \<subseteq> set notified" unfolding commits_def by blast
    then have "\<lparr>ch_network = as_network st, ch_program = as_program st, ch_user = wallet, ch_market_id = m,
        ch_position_id = i\<rparr> \<in> set notified"
      by (simp add: row_notification_def user)
    then show ?thesis
      unfolding on_its_way_def
      by (auto simp: s' True concerns_def position_change_matches_def key market
          intro!: exI [of _ "\<lparr>ch_network = as_network st, ch_program = as_program st, ch_user = wallet,
            ch_market_id = m, ch_position_id = i\<rparr>"])
  qed (simp add: on_its_way_def s')
  have way: "on_its_way st wallet market_id s' key" if "on_its_way st wallet market_id s key" for key
    using that unfolding on_its_way_def by (auto simp: s')
  have "view_tracks st wallet market_id s' view" if "sy_view s = Some view" for view
  proof (rule view_tracksI)
    from inv that have tracks: "view_tracks st wallet market_id s view" by (simp add: stream_inv_def)
    then show "dom view \<subseteq> dom (?table (sy_db s'))"
      using table_kept by (auto simp: view_tracks_def s' domIff)
    fix key
    assume differs: "view key \<noteq> ?table (sy_db s') key"
    from tracks have "view key = ?table (sy_db s) key \<or> on_its_way st wallet market_id s key"
      unfolding view_tracks_def by blast
    moreover have "sy_db s' = db'" by (simp add: s')
    ultimately show "on_its_way st wallet market_id s' key"
      using differs changed [of key] way [of key] by metis
  qed
  with rows inv commits show ?thesis by (auto simp: stream_inv_def commits_def s' split: option.splits)
qed

lemma keeps_forward:
  assumes inv: "stream_inv st wallet market_id s" and "sy_notified s = change # rest"
    and s': "s' = s\<lparr>sy_notified := rest, sy_queue := broadcast_send (Change change) (sy_queue s)\<rparr>"
  shows "stream_inv st wallet market_id s'"
proof -
  have rows: "notified_rows s'"
    using inv assms(2) sent_waiting [of "Change change" "sy_queue s"]
    unfolding stream_inv_def notified_rows_def s' by fastforce
  have "on_its_way st wallet market_id s' key" if "on_its_way st wallet market_id s key" for key
    using that assms(2) sent_arrives [of "Change change" "sy_queue s"]
    unfolding on_its_way_def s' by auto
  then have "view_tracks st wallet market_id s' view" if "view_tracks st wallet market_id s view" for view
    using that by (rule view_tracks_more [rotated 2]) (simp_all add: s')
  with rows inv show ?thesis by (auto simp: stream_inv_def s' split: option.splits)
qed

lemma keeps_disconnect:
  assumes "stream_inv st wallet market_id s"
  shows "stream_inv st wallet market_id (s\<lparr>sy_listening := False, sy_notified := []\<rparr>)"
  using assms by (auto simp: stream_inv_def notified_rows_def view_tracks_def on_its_way_def split: option.splits)

lemma keeps_connect:
  assumes inv: "stream_inv st wallet market_id s"
    and s': "s' = s\<lparr>sy_listening := True, sy_notified := [], sy_queue := broadcast_send Resync (sy_queue s)\<rparr>"
  shows "stream_inv st wallet market_id s'"
proof -
  have "on_its_way st wallet market_id s' key" for key
    using sent_arrives [of Resync "sy_queue s"] by (auto simp: on_its_way_def s')
  moreover have "notified_rows s'"
    using inv sent_waiting [of Resync "sy_queue s"] unfolding stream_inv_def notified_rows_def s' by fastforce
  ultimately show ?thesis
    using inv by (auto simp: stream_inv_def s' view_tracks_def split: option.splits)
qed

lemma keeps_view:
  assumes "stream_inv st wallet market_id s" and "finite (dom (db_positions (sy_db s)))"
    and "set (bq_waiting queue) \<subseteq> set (bq_waiting (sy_queue s))"
    and "view_tracks st wallet market_id (s\<lparr>sy_queue := queue, sy_view := Some view\<rparr>) view"
  shows "stream_inv st wallet market_id (s\<lparr>sy_queue := queue, sy_view := Some view\<rparr>)"
  using assms by (auto simp: stream_inv_def notified_rows_def)

lemma view_tracks_system: "sy_db s = sy_db s' \<Longrightarrow> view = wallet_table st wallet market_id (sy_db s) \<Longrightarrow>
    view_tracks st wallet market_id s' view"
  using view_tracks_table by metis

lemma received_tail:
  assumes "broadcast_recv q = Some (input, queue)"
  shows "(input = Lagged \<and> bq_lagged q \<and> queue = q\<lparr>bq_lagged := False\<rparr>) \<or>
    (\<exists>b. input = Received b \<and> \<not> bq_lagged q \<and> bq_waiting q = b # bq_waiting queue \<and>
      bq_lagged queue = bq_lagged q)"
  using assms by (auto simp: broadcast_recv_def split: if_splits list.splits)

lemma keeps_receive:
  assumes inv: "stream_inv st wallet market_id s" and view: "sy_view s = Some view"
    and recv: "broadcast_recv (sy_queue s) = Some (input, queue)"
    and meets: "meets (sy_db s) row_reading" "meets (sy_db s) reading"
    and turn: "stream_turn st wallet market_id input row_reading reading sends m = (Some sent, m')"
  shows "stream_inv st wallet market_id
    (s\<lparr>sy_queue := queue, sy_view := Some (fold merge_message sent view)\<rparr>)"
proof (rule keeps_view [OF inv])
  let ?table = "wallet_table st wallet market_id (sy_db s)"
  let ?view = "fold merge_message sent view"
  let ?s' = "s\<lparr>sy_queue := queue, sy_view := Some ?view\<rparr>"
  from inv view show finite: "finite (dom (db_positions (sy_db s)))"
    by (simp add: stream_inv_def)
  from inv view have tracks: "view_tracks st wallet market_id s view" by (simp add: stream_inv_def)
  then have dom: "dom view \<subseteq> dom ?table" by (simp add: view_tracks_def)
  show "set (bq_waiting queue) \<subseteq> set (bq_waiting (sy_queue s))"
    using received_tail [OF recv] by auto
  have by_snapshot: "view_tracks st wallet market_id ?s' ?view"
    if "send_position_snapshot st wallet market_id reading sends m = (Some sent, m')" for m m'
    by (rule view_tracks_system [where s = s])
      (simp_all add: snapshot_merged [OF that meets(2) finite dom])
  have way: "on_its_way st wallet market_id ?s' key"
    if "on_its_way st wallet market_id s key" and "bq_waiting (sy_queue s) = Change change # bq_waiting queue"
      and "bq_lagged queue = bq_lagged (sy_queue s)" and "\<not> concerns st wallet market_id key change"
    for key change
    using that unfolding on_its_way_def by auto
  from received_tail [OF recv] consider (lag) "input = Lagged"
    | (resync) "input = Received Resync"
    | (change) change where "input = Received (Change change)"
        "bq_waiting (sy_queue s) = Change change # bq_waiting queue" "bq_lagged queue = bq_lagged (sy_queue s)"
    by (metis position_broadcast.exhaust)
  then show "view_tracks st wallet market_id ?s' ?view"
  proof cases
    case lag
    with turn show ?thesis by (auto intro: by_snapshot)
  next
    case resync
    with turn show ?thesis by (auto intro: by_snapshot)
  next
    case (change change)
    let ?key = "(ch_market_id change, ch_position_id change)"
    from inv change(2) obtain row where row: "db_positions (sy_db s)
        (ch_network change, ch_program change, ch_market_id change, ch_position_id change) = Some row"
      and user: "pr_user row = Some (ch_user change)"
      by (auto simp: stream_inv_def notified_rows_def)
    from turn change(1) have turn': "stream_turn st wallet market_id (Received (Change change)) row_reading reading
      sends m = (Some sent, m')" by simp
    show ?thesis
    proof (cases rule: change_sent [OF turn' meets, case_names ignored absent upsert snapshot])
      case ignored
      then have "\<not> concerns st wallet market_id key change" for key by (simp add: concerns_def)
      with ignored tracks way [OF _ change(2,3)] show ?thesis
        by (fastforce simp: view_tracks_def)
    next
      case (snapshot m)
      then show ?thesis by (rule by_snapshot)
    next
      case (upsert item)
      then have item: "item = item_of_row (ch_market_id change) (ch_position_id change) row"
        and at: "?table ?key = Some item"
        using row user by (auto simp: position_by_identity_def position_change_matches_def wallet_table_def)
      have key: "item_key item = ?key" by (simp add: item item_key_def item_of_row_def)
      show ?thesis
      proof (rule view_tracksI)
        show "dom ?view \<subseteq> dom (wallet_table st wallet market_id (sy_db ?s'))"
          using dom at by (auto simp: upsert(1) key)
        fix k
        assume differs: "?view k \<noteq> wallet_table st wallet market_id (sy_db ?s') k"
        then have "k \<noteq> ?key" using at by (auto simp: upsert(1) key)
        then have "\<not> concerns st wallet market_id k change" by (simp add: concerns_def)
        moreover have "view k \<noteq> ?table k" using differs \<open>k \<noteq> ?key\<close> by (simp add: upsert(1) key)
        then have "on_its_way st wallet market_id s k" using tracks unfolding view_tracks_def by blast
        ultimately show "on_its_way st wallet market_id ?s' k" using way change(2,3) by blast
      qed
    next
      case absent
      then show ?thesis using row by (simp add: position_change_matches_def position_by_identity_def)
    qed
  qed
qed

lemma keeps_first_snapshot:
  assumes "stream_inv st wallet market_id s" and "meets (sy_db s) reading"
    and "send_position_snapshot st wallet market_id reading sends m = (Some sent, m')"
  shows "stream_inv st wallet market_id (s\<lparr>sy_view := Some (fold merge_message sent Map.empty)\<rparr>)"
proof -
  have finite: "finite (dom (db_positions (sy_db s)))" using assms(1) by (simp add: stream_inv_def)
  have "fold merge_message sent Map.empty = wallet_table st wallet market_id (sy_db s)"
    by (rule snapshot_merged [OF assms(3,2) finite]) simp
  then have "view_tracks st wallet market_id (s\<lparr>sy_view := Some (fold merge_message sent Map.empty)\<rparr>)
      (fold merge_message sent Map.empty)"
    by (intro view_tracks_system [where s = s]) simp_all
  with assms(1) show ?thesis by (simp add: stream_inv_def notified_rows_def)
qed

interpretation stream: transition_system stream_init "stream_step st wallet market_id"
  "stream_inv st wallet market_id"
proof unfold_locales
  fix s
  assume "stream_init s"
  then show "stream_inv st wallet market_id s" by (simp add: stream_init_def stream_inv_def notified_rows_def)
next
  fix s s'
  assume inv: "stream_inv st wallet market_id s" and step: "stream_step st wallet market_id s s'"
  from step show "stream_inv st wallet market_id s'"
  proof (cases rule: stream_step.cases)
    case (commit db' notified)
    show ?thesis by (rule keeps_commit [OF inv commit(2,1)])
  next
    case (forward change rest)
    show ?thesis by (rule keeps_forward [OF inv forward(2,1)])
  next
    case disconnect
    show ?thesis unfolding disconnect by (rule keeps_disconnect [OF inv])
  next
    case connect
    show ?thesis by (rule keeps_connect [OF inv connect])
  next
    case (first_snapshot reading sends m sent m')
    show ?thesis unfolding first_snapshot(1) by (rule keeps_first_snapshot [OF inv first_snapshot(3,4)])
  next
    case (receive view input queue row_reading reading sends m sent m')
    show ?thesis unfolding receive(1) by (rule keeps_receive [OF inv receive(2-6)])
  qed
qed


end
