(* ===== verification/Reference_Api.thy ===== *)
theory Reference_Api
  imports Reference_Indexer Api_Boards Stream_System
begin

text \<open>
  A concrete API for the theorems: an encoding of cursors that is inverted, a database with an open
  and a closed position of one wallet, and a run of the position stream; and the case in which the
  liquidity history loses a row between two pages.
\<close>


section \<open>Libraries\<close>

text \<open>Text as marked bytes with an end; a cursor is its fields in this form, one after the other.\<close>

definition mark_text :: "string \<Rightarrow> bytes" where
  "mark_text s = concat (map (\<lambda>c. [1, word_of_nat (of_char c)]) s) @ [0]"

fun read_text :: "bytes \<Rightarrow> (string \<times> bytes) option" where
  "read_text [] = None"
| "read_text (b # bs) =
     (if b = 0 then Some ([], bs)
      else case bs of [] \<Rightarrow> None
      | c # rest \<Rightarrow> map_option (\<lambda>(s, rest). (char_of (unat c) # s, rest)) (read_text rest))"

lemma read_mark_text [simp]: "read_text (mark_text s @ rest) = Some (s, rest)"
proof (induction s)
  case (Cons c s)
  have "unat (word_of_nat (of_char c) :: 8 word) = (of_char c :: nat)"
    by (simp add: unat_of_nat)
  with Cons show ?case by (simp add: mark_text_def)
qed (simp add: mark_text_def)

definition read_int :: "string \<Rightarrow> int option" where
  "read_int s = (if s \<noteq> [] \<and> hd s = CHR ''-'' then map_option (\<lambda>n. - int n) (parse_digits 0 (tl s))
     else map_option int (parse_digits 0 s))"

definition read_number :: "bytes \<Rightarrow> (int \<times> bytes) option" where
  "read_number bs = Option.bind (read_text bs) (\<lambda>(s, rest). map_option (\<lambda>i. (i, rest)) (read_int s))"

definition signed64 :: "int \<Rightarrow> bool" where
  "signed64 i \<longleftrightarrow> - (2 ^ 63) \<le> i \<and> i < 2 ^ 63"

lemma read_show_int [simp]: "read_int (show_int i) = Some i"
  by (simp add: read_int_def show_int_def parse_digits_show show_nat_no_sign)

lemma read_mark_number [simp]: "read_number (mark_text (show_int i) @ rest) = Some (i, rest)"
  by (simp add: read_number_def)

definition history_json :: "history_cursor \<Rightarrow> bytes option" where
  "history_json c = Some (mark_text (hc_fingerprint c) @ mark_text (show_int (hc_timestamp_micros c)) @
     mark_text (show_int (hc_market_id c)) @ mark_text (hc_identity c) @ [])"

definition history_parse :: "bytes \<Rightarrow> history_cursor option" where
  "history_parse bs =
     Option.bind (read_text bs) (\<lambda>(fingerprint, bs).
     Option.bind (read_number bs) (\<lambda>(t, bs).
     Option.bind (read_number bs) (\<lambda>(m, bs).
     Option.bind (read_text bs) (\<lambda>(identity, bs).
     Some \<lparr>hc_fingerprint = fingerprint, hc_timestamp_micros = t, hc_market_id = m,
           hc_identity = identity\<rparr>))))"

definition leaderboard_json :: "leaderboard_cursor \<Rightarrow> bytes option" where
  "leaderboard_json c = Some (mark_text (lc_fingerprint c) @ mark_text (show_int (lc_refresh_version c)) @
     mark_text (show_int (lc_rank c)) @ [])"

definition leaderboard_parse :: "bytes \<Rightarrow> leaderboard_cursor option" where
  "leaderboard_parse bs =
     Option.bind (read_text bs) (\<lambda>(fingerprint, bs).
     Option.bind (read_number bs) (\<lambda>(version, bs).
     Option.bind (read_number bs) (\<lambda>(rank, bs).
     Some \<lparr>lc_fingerprint = fingerprint, lc_refresh_version = version, lc_rank = rank\<rparr>)))"

definition ref_api :: api_libraries where
  "ref_api = \<lparr>al_leaderboard_json = leaderboard_json, al_leaderboard_parse = leaderboard_parse,
     al_history_json = history_json, al_history_parse = history_parse,
     al_sha256 = (\<lambda>bytes. replicate 32 (sum_list bytes)), al_base64url = letters,
     al_base64url_decode = of_letters, al_parse_pubkey = (\<lambda>s. Some (byte_string s)),
     al_valid_micros = signed64, al_period_start = (\<lambda>_ now. now - 10),
     al_period_end = (\<lambda>_ now. now + 10)\<rparr>"

lemma mark_text_Nil [simp]: "mark_text s \<noteq> []"
  by (simp add: mark_text_def)

lemma ref_history_law: "cursor_law ref_api history_json history_parse"
  by (auto simp: cursor_law_def ref_api_def history_json_def history_parse_def of_letters_letters
      CHECKSUM_BYTES_def split: if_splits simp del: append_Nil2)

lemma ref_leaderboard_law: "cursor_law ref_api leaderboard_json leaderboard_parse"
  by (auto simp: cursor_law_def ref_api_def leaderboard_json_def leaderboard_parse_def of_letters_letters
      CHECKSUM_BYTES_def split: if_splits simp del: append_Nil2)

lemma length_mark_text: "length (mark_text s) = 2 * length s + 1"
  by (induction s) (simp_all add: mark_text_def)

lemma length_letters: "length (letters bytes) = 2 * length bytes"
  by (induction bytes) (simp_all add: letters_def)


section \<open>The database\<close>

definition ref_state :: api_state where
  "ref_state = \<lparr>as_network = ''n'', as_program = ''p'', as_query_timeout = 2000,
     as_max_staleness = 120000000\<rparr>"

definition open_row :: position_row where
  "open_row = \<lparr>pr_user = Some ''A'', pr_entry_price = Some 100, pr_collateral = Some 5,
     pr_direction = Some ''up'', pr_expires_at = Some 20, pr_status = ''open'', pr_outcome = None,
     pr_payout = None, pr_lp_fee = None, pr_platform_fee = None, pr_opened_at = Some 10,
     pr_closed_at = None, pr_version = 2, pr_partial = False, pr_created_source = Some 1,
     pr_created_signature = Some ''s'', pr_closed_source = None, pr_closed_signature = None,
     pr_last_slot = 7, pr_checkpoint_status = ''er_only'', pr_checkpoint_source = None,
     pr_checkpoint_slot = None, pr_checkpoint_observed_at = None, pr_updated_at = 10\<rparr>"

definition won_row :: position_row where
  "won_row = open_row\<lparr>pr_status := ''settled'', pr_outcome := Some ''won'', pr_payout := Some 7,
     pr_lp_fee := Some 1, pr_platform_fee := Some 0, pr_closed_at := Some 21,
     pr_closed_source := Some 1, pr_closed_signature := Some ''t''\<rparr>"

definition ref_positions :: "position_key \<rightharpoonup> position_row" where
  "ref_positions = [(''n'', ''p'', 1, 1) \<mapsto> won_row, (''n'', ''p'', 1, 2) \<mapsto> open_row]"

definition api_db :: database where
  "api_db = ref_db\<lparr>db_positions := ref_positions, db_global_board := (ref_positions, 30)\<rparr>"

definition metrics0 :: api_metrics where "metrics0 = default_metrics"

lemma ref_positions_at:
  "ref_positions (''n'', ''p'', m, i) =
     (if m = 1 \<and> i = 2 then Some open_row else if m = 1 \<and> i = 1 then Some won_row else None)"
  by (simp add: ref_positions_def)

lemma ref_keys:
  "position_keys ref_state ''A'' None None api_db = {(21, 1, 1), (10, 1, 2)}"
  by (auto simp: position_keys_def api_db_def ref_state_def ref_positions_at market_matches_def
      status_matches_def sort_time_def won_row_def open_row_def split: if_splits)

lemma ref_items:
  "position_at ref_state api_db (t, 1, 1) = item_of_row 1 1 won_row"
  "position_at ref_state api_db (t, 1, 2) = item_of_row 1 2 open_row"
  "pi_sort_time (item_of_row 1 1 won_row) = 21" "pi_sort_time (item_of_row 1 2 open_row) = 10"
  "pi_market_id (item_of_row m i row) = m" "pi_position_id (item_of_row m i row) = i"
  by (simp_all add: position_at_def api_db_def ref_state_def ref_positions_at item_of_row_def
      sort_time_def won_row_def open_row_def)

lemma show_digit: "n < 10 \<Longrightarrow> show_nat n = [digit_char n]"
  by (subst show_nat.simps) simp

lemma show_two_digits: "10 \<le> n \<Longrightarrow> n < 100 \<Longrightarrow> show_nat n = [digit_char (n div 10), digit_char (n mod 10)]"
  by (subst show_nat.simps) (simp add: show_digit)

lemma show_small: "show_int 1 = [digit_char 1]" "show_int 2 = [digit_char 2]" "show_int 0 = [digit_char 0]"
  "show_int 21 = [digit_char 2, digit_char 1]" "show_int 10 = [digit_char 1, digit_char 0]"
  by (simp_all add: show_int_def show_digit show_two_digits)

definition positions_query0 :: positions_query where
  "positions_query0 = \<lparr>pq_market_id = None, pq_status = None, pq_limit = Some 1, pq_cursor = None\<rparr>"

theorem positions_paged_witness:
  "\<exists>ks. walk_route 3 (\<lambda>cursor. user_positions ref_api ref_state 30 ''A'' (positions_query0\<lparr>pq_cursor := cursor\<rparr>)
      (Reads api_db) (Reads api_db)) None metrics0 = Some (Inr (map (position_at ref_state api_db) ks)) \<and>
    set ks = {(21, 1, 1), (10, 1, 2)} \<and> sorted_wrt (>) ks"
proof (rule positions_paged [where limit = 1 and status = None and key = "byte_string ''A''"])
  show "al_parse_pubkey ref_api ''A'' = Some (byte_string ''A'')" by (simp add: ref_api_def)
  show "page_limit (pq_limit positions_query0) = Inr 1"
    by (simp add: page_limit_def positions_query0_def MAX_LIMIT_def)
  show "requested_status (pq_status positions_query0) = Inr None"
    by (simp add: requested_status_def positions_query0_def)
  show "as_query_timeout ref_state \<noteq> 0" by (simp add: ref_state_def)
  show "cursor_law ref_api (al_history_json ref_api) (al_history_parse ref_api)"
    using ref_history_law by (simp add: ref_api_def)
  show "{(21, 1, 1), (10, 1, 2)} = position_keys ref_state ''A'' (pq_market_id positions_query0) None api_db"
    by (simp add: ref_keys positions_query0_def)
  show "\<forall>(t, m, i) \<in> {(21, 1, 1), (10, 1, 2)}. al_valid_micros ref_api t \<and> - (2 ^ 63) \<le> i \<and> i < 2 ^ 63 \<and>
      cursor_fits ref_api (al_history_json ref_api)
        (position_cursor_at ref_state ''A'' positions_query0 None api_db (t, m, i))"
    by (simp add: ref_api_def signed64_def cursor_fits_def cursor_text_def encode_cursor_def
        position_cursor_at_def position_cursor_def ref_items history_json_def show_small length_letters length_mark_text CHECKSUM_BYTES_def
        MAX_CURSOR_BYTES_def positions_fingerprint_def market_label_def positions_query0_def)
qed simp_all


section \<open>The leaderboard\<close>

lemma ref_board_keys:
  "board_keys ref_api ref_state AllTime None (ref_positions, 30) user =
     (if user = ''A'' then {(1, 1)} else {})"
  by (auto simp: board_keys_def ref_state_def ref_positions_at market_matches_def in_period_def
      won_row_def open_row_def split: if_splits)

definition ref_entry :: leaderboard_entry where
  "ref_entry = board_entry 1 ''A'' [won_row]"

lemma ref_leaderboard: "leaderboard ref_api ref_state AllTime None api_db = [ref_entry]"
proof -
  have rows: "board_rows ref_api ref_state AllTime None (ref_positions, 30) ''A'' = [won_row]"
    by (simp add: board_rows_def ref_board_keys) (simp add: board_row_def ref_state_def ref_positions_at)
  have "{user. board_keys ref_api ref_state AllTime None (ref_positions, 30) user \<noteq> {}} = {''A''}"
    by (auto simp: ref_board_keys)
  then have "ranking ref_api ref_state AllTime None (ref_positions, 30) =
      [(- sum_rows net_pnl [won_row], - sum_rows pr_collateral [won_row], ''A'')]"
    by (simp add: ranking_def Let_def rows)
  then show ?thesis
    by (simp add: leaderboard_def Let_def api_db_def rows ref_entry_def)
qed

definition refreshed_db :: database where
  "refreshed_db = api_db\<lparr>db_refresh := (db_refresh api_db)\<lparr>rf_version := 1\<rparr>\<rparr>"

definition leaderboard_query0 :: leaderboard_query where
  "leaderboard_query0 = \<lparr>lq_period = None, lq_market_id = None, lq_limit = None, lq_cursor = None\<rparr>"

lemma ref_entry_fits:
  "cursor_fits ref_api (al_leaderboard_json ref_api)
     (leaderboard_cursor_at (leaderboard_fingerprint AllTime None) (db_refresh api_db) ref_entry)"
  by (simp add: ref_api_def signed64_def cursor_fits_def cursor_text_def encode_cursor_def
      leaderboard_cursor_at_def leaderboard_json_def show_small ref_entry_def board_entry_def Let_def
      api_db_def ref_db_def length_letters length_mark_text CHECKSUM_BYTES_def MAX_CURSOR_BYTES_def
      leaderboard_fingerprint_def market_label_def)



section \<open>The stream\<close>

definition stream0 :: stream_system where
  "stream0 = \<lparr>sy_db = ref_db, sy_listening = True, sy_notified = [],
     sy_queue = \<lparr>bq_waiting = [], bq_lagged = False\<rparr>, sy_view = None\<rparr>"

definition opened_db :: database where
  "opened_db = ref_db\<lparr>db_positions := [(''n'', ''p'', 1, 2) \<mapsto> open_row]\<rparr>"

definition opened_change :: position_change where
  "opened_change = \<lparr>ch_network = ''n'', ch_program = ''p'', ch_user = ''A'', ch_market_id = 1,
     ch_position_id = 2\<rparr>"

definition stream1 :: stream_system where "stream1 = stream0\<lparr>sy_view := Some Map.empty\<rparr>"

definition stream2 :: stream_system where
  "stream2 = stream1\<lparr>sy_db := opened_db, sy_notified := [opened_change]\<rparr>"

definition stream3 :: stream_system where
  "stream3 = stream2\<lparr>sy_notified := [], sy_queue := \<lparr>bq_waiting = [Change opened_change], bq_lagged = False\<rparr>\<rparr>"

definition stream4 :: stream_system where
  "stream4 = stream3\<lparr>sy_queue := \<lparr>bq_waiting = [], bq_lagged = False\<rparr>,
     sy_view := Some [(1, 2) \<mapsto> item_of_row 1 2 open_row]\<rparr>"

lemma stream_run: "reachable stream_init (stream_step ref_state ''A'' None) stream4"
proof -
  let ?step = "stream_step ref_state ''A'' None"
  have empty: "positions_for_stream ref_state ''A'' None ref_db = []"
  proof -
    have "position_keys ref_state ''A'' None None ref_db = {}"
      by (auto simp: position_keys_def ref_db_tables)
    then show ?thesis by (simp add: positions_for_stream_def newest_first_def)
  qed
  have timeout: "as_query_timeout ref_state = 2000" by (simp add: ref_state_def)
  have "stream_init stream0" by (simp add: stream_init_def stream0_def ref_db_tables)
  then have "reachable stream_init ?step stream0" by (rule reachable.start)
  moreover have "?step stream0 stream1"
    using stream_step.first_snapshot [of stream0 "Reads ref_db" ref_state "''A''" None True metrics0
        "[Snapshot []]"]
    by (simp add: stream0_def stream1_def meets_def send_position_snapshot_def timed_def empty timeout)
  ultimately have "reachable stream_init ?step stream1" by (rule reachable.next_step)
  moreover have "?step stream1 stream2"
    using stream_step.commit [of stream1 opened_db "[opened_change]" ref_state "''A''" None]
    by (simp add: stream0_def stream1_def stream2_def commits_def opened_db_def ref_db_tables
        row_notification_def opened_change_def open_row_def)
  ultimately have "reachable stream_init ?step stream2" by (rule reachable.next_step)
  moreover have "?step stream2 stream3"
    using stream_step.forward [of stream2 opened_change "[]" ref_state "''A''" None]
    by (simp add: stream0_def stream1_def stream2_def stream3_def broadcast_send_def
        POSITION_BROADCAST_CAPACITY_def)
  ultimately have "reachable stream_init ?step stream3" by (rule reachable.next_step)
  moreover have "?step stream3 stream4"
    using stream_step.receive [of stream3 Map.empty "Received (Change opened_change)"
        "\<lparr>bq_waiting = [], bq_lagged = False\<rparr>" "Reads opened_db" "Reads opened_db" ref_state "''A''" None True
        metrics0 "[Upsert (item_of_row 1 2 open_row)]"]
    by (simp add: stream0_def stream1_def stream2_def stream3_def stream4_def broadcast_recv_def meets_def
        position_change_matches_def opened_change_def ref_state_def market_matches_def timed_def
        position_by_identity_def opened_db_def item_key_def item_of_row_def)
  ultimately show ?thesis by (rule reachable.next_step)
qed



section \<open>A liquidity row lost between pages\<close>

text \<open>One deposit that two sources reported: the row's source is part of its key in the table but not
  of the cursor.\<close>

definition deposit_row :: liquidity_event_row where
  "deposit_row = \<lparr>le_network = ''n'', le_program = ''p'', le_market_id = 1, le_user = ''A'',
     le_assets = Some 5, le_shares = 5, le_min_assets_out = None, le_occurred_at = Some 9, le_version = 2\<rparr>"

definition twice_db :: database where
  "twice_db = ref_db\<lparr>db_liquidity_events :=
     [(1, ''s'', ''log/1'', ''deposit'') \<mapsto> deposit_row, (2, ''s'', ''log/1'', ''deposit'') \<mapsto> deposit_row]\<rparr>"

lemma twice_keys:
  "liquidity_keys ref_state ''A'' None twice_db =
     {(9, 1, ''s'', ''log/1'', ''deposit'', 1), (9, 1, ''s'', ''log/1'', ''deposit'', 2)}"
  by (auto simp: liquidity_keys_def twice_db_def deposit_row_def ref_state_def market_matches_def
      liquidity_time_def split: if_splits)

text \<open>With one row per page the second of the two rows is on no page: the first page ends with the one
  row and the page after its cursor is empty.\<close>
theorem liquidity_page_skips:
  "\<exists>item other. cut_page 1 (liquidity_page ref_state ''A'' None None 2 twice_db) = ([item], Some item) \<and>
    liquidity_page ref_state ''A'' None None 2 twice_db = [item, other] \<and>
    liquidity_page ref_state ''A'' None
      (Some (li_sort_time item, li_market_id item, li_signature item, li_instruction_path item)) 2 twice_db = []"
proof -
  let ?key = "\<lambda>i. (9, 1, ''s'', ''log/1'', ''deposit'', i) :: liquidity_key"
  have all: "{(t, m, signature, path, kind, source_id) \<in> liquidity_keys ref_state ''A'' None twice_db. True} =
      {?key 1, ?key 2}" by (auto simp: twice_keys)
  have none: "{(t, m, signature, path, kind, source_id) \<in> liquidity_keys ref_state ''A'' None twice_db.
      (t, m, signature, path) < (9, 1, ''s'', ''log/1'')} = {}" by (auto simp: twice_keys)
  have first: "liquidity_page ref_state ''A'' None None 2 twice_db =
      [liquidity_at twice_db (?key 2), liquidity_at twice_db (?key 1)]"
    by (simp only: liquidity_page_def option.case all) (simp add: newest_first_def)
  have second: "liquidity_page ref_state ''A'' None (Some (9, 1, ''s'', ''log/1'')) 2 twice_db = []"
    by (simp only: liquidity_page_def option.case none) (simp add: newest_first_def)
  have item: "li_sort_time (liquidity_at twice_db (?key 2)) = 9" "li_market_id (liquidity_at twice_db (?key 2)) = 1"
    "li_signature (liquidity_at twice_db (?key 2)) = ''s''"
    "li_instruction_path (liquidity_at twice_db (?key 2)) = ''log/1''"
    by (simp_all add: liquidity_at_def Let_def)
  show ?thesis
    by (rule exI [of _ "liquidity_at twice_db (?key 2)"], rule exI [of _ "liquidity_at twice_db (?key 1)"])
      (simp add: first second item cut_page_def)
qed

end
