(* ===== verification/Reference_Operations.thy ===== *)
theory Reference_Operations
  imports Fixture Api_Contract Reference_Api
begin

text \<open>
  The recovery drill and the replay fixture on the empty database of the reference indexer, and the
  API's self-check on a board of three users.
\<close>

lemma ref_fixture_libraries: "fixture_libraries ref_client"
  by (simp add: fixture_libraries_def ref_client_def)

lemma recovery_on_reference:
  "fst (recovery_verify ref_client ref_db) = Inr \<lparr>rv_scenarios = RECOVERY_SCENARIOS,
     rv_rollback_observations = 0, rv_rollback_cursors = 0, rv_duplicate_dead_letters = 1,
     rv_duplicate_attempts = 2, rv_source_one_slot = 100, rv_source_two_slot = 100,
     rv_duplicate_positions = 0\<rparr>"
proof -
  have "parse_pubkey ref_client t = Some (byte_string t)"
    "to_json ref_client event = Some (event_name event)" for t event
    by (simp_all add: ref_client_def)
  from recovery_drill_passes [OF ref_db_wf this(1) this(1) this(2)] show ?thesis by (elim exE conjE) simp
qed

lemma fixture_only_empty:
  assumes "db_transactions db = Map.empty" "db_instructions db = Map.empty" "db_liquidity_events db = Map.empty"
    "db_fee_events db = Map.empty" "db_observations db = Map.empty" "db_positions db = Map.empty"
    "db_cursors db = Map.empty" "db_markets db = Map.empty"
  shows "fixture_only s db"
  unfolding fixture_only_def using assms by (simp add: created_by_def cursor_within_def)

lemma replay_on_reference:
  "\<exists>report db'. replay ref_client ref_db = (Inr report, db') \<and> fx_transactions report = 8 \<and>
     history_is_won (fx_history report)"
proof -
  obtain s n ss where e: "ensure_source ''fixture'' ''er'' ''fixture://phase-02'' ref_db =
      Inr (s, ref_db\<lparr>db_next_source := n, db_sources := ss\<rparr>)"
    using ensure_source_er by blast
  have "fixture_only s (ref_db\<lparr>db_next_source := n, db_sources := ss\<rparr>)"
    by (rule fixture_only_empty) (simp_all add: ref_db_def)
  from replay_passes [OF ref_db_wf ref_fixture_libraries e this] show ?thesis by (elim exE conjE) simp
qed


section \<open>A database the self-check passes on\<close>

text \<open>Three wallets that have won today.\<close>

definition three_winners :: "position_key \<rightharpoonup> position_row" where
  "three_winners = [(''n'', ''p'', 1, 1) \<mapsto> won_row\<lparr>pr_user := Some ''A''\<rparr>,
     (''n'', ''p'', 1, 2) \<mapsto> won_row\<lparr>pr_user := Some ''B''\<rparr>, (''n'', ''p'', 1, 3) \<mapsto> won_row\<lparr>pr_user := Some ''C''\<rparr>]"

definition contract_db :: database where
  "contract_db = ref_db\<lparr>db_positions := three_winners, db_market_board := (three_winners, 30),
     db_markets := [(''n'', ''p'', 1) \<mapsto> \<lparr>mr_pubkey = None, mr_mode = None, mr_total_shares = None,
       mr_open_collateral = None, mr_active_positions = None, mr_pool_balance = None, mr_last_source = None,
       mr_last_slot = None, mr_updated_at = 10\<rparr>],
     db_refresh := (db_refresh ref_db)\<lparr>rf_version := 1, rf_last_success := Some 30\<rparr>\<rparr>"

definition contract_api :: api_libraries where
  "contract_api = ref_api\<lparr>al_parse_pubkey := (\<lambda>s. if s = ''not-a-wallet'' then None else Some (byte_string s))\<rparr>"

definition show_reference :: "pubkey \<Rightarrow> string" where "show_reference key = ''Z''"

lemma winners_at:
  "three_winners (''n'', ''p'', m, i) =
     (if m = 1 \<and> i = 3 then Some (won_row\<lparr>pr_user := Some ''C''\<rparr>)
      else if m = 1 \<and> i = 2 then Some (won_row\<lparr>pr_user := Some ''B''\<rparr>)
      else if m = 1 \<and> i = 1 then Some (won_row\<lparr>pr_user := Some ''A''\<rparr>) else None)"
  by (simp add: three_winners_def)

lemma winners_keys:
  "board_keys contract_api ref_state Today (Some 1) (three_winners, 30) user =
     (if user = ''A'' then {(1, 1)} else if user = ''B'' then {(1, 2)} else if user = ''C'' then {(1, 3)} else {})"
  by (auto simp: board_keys_def ref_state_def winners_at market_matches_def in_period_def contract_api_def ref_api_def
      won_row_def open_row_def split: if_splits)

lemma length_leaderboard:
  assumes "finite {user. board_keys l st p market_id board user \<noteq> {}}"
    and "board = (if market_id = None then db_global_board db else db_market_board db)"
  shows "length (leaderboard l st p market_id db) = card {user. board_keys l st p market_id board user \<noteq> {}}"
proof -
  have "inj_on (\<lambda>user. let rows = board_rows l st p market_id board user in
      (- sum_rows net_pnl rows, - sum_rows pr_collateral rows, user)) {user. board_keys l st p market_id board user \<noteq> {}}"
    by (rule inj_onI) (simp add: Let_def)
  from card_image [OF this] show ?thesis
    by (simp add: leaderboard_def ranking_def assms(2) Let_def)
qed

lemma three_ranked: "length (leaderboard contract_api ref_state Today (Some 1) contract_db) = 3"
proof -
  have users: "{user. board_keys contract_api ref_state Today (Some 1) (three_winners, 30) user \<noteq> {}} = {''A'', ''B'', ''C''}"
    by (auto simp: winners_keys split: if_splits)
  have "length (leaderboard contract_api ref_state Today (Some 1) contract_db) =
      card {user. board_keys contract_api ref_state Today (Some 1) (three_winners, 30) user \<noteq> {}}"
    by (rule length_leaderboard) (simp_all add: users contract_db_def)
  then show ?thesis by (simp add: users)
qed

lemma small_cursor_fits:
  assumes "v \<in> {0, 1}" and "r \<in> {1, 2, 3}"
  shows "cursor_fits contract_api (al_leaderboard_json contract_api)
    \<lparr>lc_fingerprint = ''today:1'', lc_refresh_version = v, lc_rank = r\<rparr>"
  using assms
  by (auto simp: cursor_fits_def cursor_text_def encode_cursor_def contract_api_def ref_api_def leaderboard_json_def
      show_int_def show_digit length_letters length_mark_text CHECKSUM_BYTES_def MAX_CURSOR_BYTES_def)

lemma contract_db_ready: "contract_ready contract_api show_reference ref_state 31 contract_db"
proof -
  have law: "cursor_law contract_api (al_leaderboard_json contract_api) (al_leaderboard_parse contract_api)"
    using ref_leaderboard_law by (simp add: contract_api_def ref_api_def cursor_law_def)
  have "lb_rank e \<in> {1, 2, 3}" if "e \<in> set (leaderboard contract_api ref_state Today (Some 1) contract_db)" for e
  proof -
    have "lb_rank e \<in> set (map lb_rank (leaderboard contract_api ref_state Today (Some 1) contract_db))" using that by simp
    then show ?thesis unfolding leaderboard_ranks three_ranked by auto
  qed
  then have "list_all (\<lambda>cursor. cursor_fits contract_api (al_leaderboard_json contract_api) cursor)
      (map (leaderboard_cursor_at ''today:1'' (db_refresh contract_db))
        (leaderboard contract_api ref_state Today (Some 1) contract_db))"
    by (auto simp: list_all_iff leaderboard_cursor_at_def contract_db_def ref_db_def intro!: small_cursor_fits)
  moreover have "cursor_fits contract_api (al_leaderboard_json contract_api)
      \<lparr>lc_fingerprint = ''today:1'', lc_refresh_version = rf_version (db_refresh contract_db) - 1, lc_rank = 1\<rparr>"
    by (rule small_cursor_fits) (simp_all add: contract_db_def)
  ultimately show ?thesis
    using law
    by (simp add: contract_ready_def three_ranked)
      (simp add: contract_db_def ref_state_def contract_api_def ref_api_def leaderboard_json_def history_json_def
        winners_at CONTRACT_WALLET_def show_reference_def)
qed

theorem contract_passes_on_reference:
  "contract_test contract_api show_reference (\<lambda>st. reference_server contract_api st 31 5 contract_db) ref_state
    (Reads contract_db) 1 1 default_metrics =
    Inr \<lparr>ct_routes_checked = 9, ct_pagination = True, ct_stale_cursor = True, ct_stale_metadata = True,
      ct_precision_string = True, ct_invalid_input = True, ct_unavailable = True\<rparr>"
  by (rule contract_passes [OF contract_db_ready])

end
