(* ===== verification/Spec2Isabelle.thy ===== *)
theory Spec2Isabelle
  imports Lifecycle Reference_Operations
begin

text \<open>
  A verification development for Leveraged Prediction: the on-chain program
  (\<open>programs/leveraged-prediction/src\<close>), the indexer that follows it
  (\<open>services/indexer/crates/{storage,decoder,indexer}/src\<close>) and the read API over the indexer's
  database (\<open>services/indexer/crates/api/src\<close>).

  \<^bold>\<open>The system.\<close> Users open ten-second positions against a market's pool, liquidity providers own shares of
  the pool, and a scheduled task settles every position by the oracle's price or refunds it. The program
  emits one event per change of the ledger. The indexer finds the events in the transaction logs of the
  rollup, stores them as rows and projects them into a table of positions; it also reconciles its tables
  with the accounts themselves. The API answers from these tables: leaderboards, statistics, histories in
  pages, a stream of position changes, health and metrics. The parts meet at three interfaces, which the
  development crosses by theorems and not by assumption: the bytes of events and accounts, the rows of the
  database, and the notifications the database sends.

  \<^bold>\<open>The theories, by part of the system.\<close>

  \<^item> Foundations. \<open>Prelude\<close>: results as sums with early return, the simp collections \<open>result_simps\<close>,
    \<open>rust_simps\<close> and \<open>const_defs\<close>, list and map lemmas, \<open>reachable\<close> and the locale \<open>transition_system\<close>.
    \<open>Rust_Ints\<close>: machine integers as words, checked arithmetic, conversions. \<open>Decimal\<close>: printed and
    parsed numbers. \<open>Pages\<close>: keyset pagination and the locale \<open>keyset\<close>.

  \<^item> The program. \<open>Program_State\<close> (\<open>state.rs\<close>, \<open>error.rs\<close>, the events and constants of \<open>lib.rs\<close>),
    \<open>Program_Math\<close> (\<open>math.rs\<close>, every function at its width), \<open>Platform\<close> (the chain as a record of
    accounts, balances, tasks and events, and the record \<open>env\<close> of what third-party programs do),
    \<open>Instruction_Common\<close> (\<open>instructions/mod.rs\<close>), \<open>Admin\<close>, \<open>Liquidity\<close> and \<open>Positions\<close> (one function per
    handler, with the account constraints as a load function and the handler's checks and effects in the
    order of the code), \<open>Program\<close> (the dispatch \<open>process\<close>).

  \<^item> What the program guarantees. \<open>Settlement_Math\<close>: the settlement against a reference payoff, with the
    locales \<open>settlement_rule\<close>, \<open>collateral_cover\<close> and \<open>share_pricing\<close> interpreted on the functions of
    \<open>math.rs\<close>. \<open>Env_Laws\<close>, \<open>Balances\<close>: the laws of the environment as the hypothesis \<open>env_laws\<close>.
    \<open>Oracle\<close>: accepted prices. \<open>Chain_Invariant\<close>: the step relation \<open>chain_step\<close> of all instructions and
    of the outside world, and its invariant, an interpretation of \<open>transition_system\<close>. \<open>Solvency\<close>,
    \<open>Ledger\<close>, \<open>Lifecycle\<close>: what it means for pools, positions, payouts and liquidity. \<open>Reference_Run\<close>:
    a concrete run to which all of them apply.

  \<^item> The bytes. \<open>Decoder\<close> (\<open>crates/decoder\<close>: discriminators, layouts, account orders), \<open>Wire_Codec\<close> and
    \<open>Event_Codec\<close>: what the program writes is what the decoder reads.

  \<^item> The indexer. \<open>Storage\<close> (\<open>crates/storage/src/lib.rs\<close>: tables as maps by primary key, one function per
    statement, batches as transactions), \<open>Ingest\<close> (\<open>ingest.rs\<close>, \<open>dead_letters.rs\<close>), \<open>Sources\<close>
    (\<open>sources/\<close>), \<open>Reconcile\<close> (\<open>exact_accounts.rs\<close>, \<open>smoke.rs\<close>), \<open>Runtime\<close> (\<open>runtime.rs\<close>,
    \<open>leaderboards.rs\<close>), \<open>Drills\<close> and \<open>Fixture\<close> (\<open>recovery.rs\<close>, \<open>fixture.rs\<close>), \<open>Operations\<close>
    (\<open>ProbeConfig::from_env\<close> of \<open>main.rs\<close>, \<open>check_api\<close> of \<open>smoke.rs\<close>).

  \<^item> What the indexer guarantees. \<open>Indexer_Relation\<close>: the locale \<open>database_relation\<close>, a relation every
    statement stays within, so every session does; \<open>Indexer_Invariants\<close> and \<open>Delegation\<close> interpret it.
    \<open>Convergence\<close>: the positions table refines a join of what the events say. \<open>Batches\<close>: which batches
    are accepted. \<open>Crawl\<close>, \<open>Log_Traces\<close>, \<open>Catch_Up\<close>: the paged crawl, the log parser and the catch-up.
    \<open>Pipeline\<close>: from a run of the program to an agreeing positions table. \<open>Stalls\<close>: what stops the
    indexer. \<open>Reference_Indexer\<close>: concrete libraries, node and database.

  \<^item> The API. \<open>Api_Cursor\<close> (\<open>error.rs\<close>, \<open>cursor.rs\<close>, the parameters of \<open>models.rs\<close>), \<open>Api\<close>
    (\<open>metrics.rs\<close>, the query timeout, the leaderboard views of \<open>migrations/0003\<close>, \<open>leaderboards\<close>,
    \<open>user_stats\<close>), \<open>Api_History\<close> (positions, liquidity, market summary, health, the middleware
    \<open>track\<close>), \<open>Api_Stream\<close> (the listener and the socket), \<open>Api_Router\<close> (the routes and a served request).

  \<^item> What the API guarantees. \<open>Api_Pages\<close>: the locale \<open>paged_route\<close>, which extends \<open>keyset\<close> by a route that
    serves its pages; interpreted for the positions there and for the leaderboard in \<open>Api_Boards\<close>.
    \<open>Stream_System\<close>: writer, trigger (\<open>migrations/0005\<close>), listener, bounded channel, socket and client as
    one \<open>transition_system\<close>. \<open>Reference_Api\<close>, \<open>Reference_Operations\<close>: concrete instances.

  \<^bold>\<open>How code corresponds to definitions.\<close> Structs are records with a prefix per struct, enums are
  datatypes. A fallible function returns a sum whose left side is its error, and \<open>and_then\<close> is the
  question-mark operator; an async function over the database is an action, which returns a result and the
  next database; a transaction is a function whose error leaves its caller with the database it had. A
  route is a function of the API's metrics and of what each of its queries meets (\<open>reading\<close>: the
  database, a refusal, a timeout). Loops over data are recursive functions. Loops over the outside world
  (sessions, the stream, the listener) are functions of the list of what happens or relations of one step.

  \<^bold>\<open>Bounds and fuel.\<close> Machine integers keep their width where the code computes with them, columns are
  integers with the range checks of their types. \<open>crawl\<close> terminates by a measure on the limit and the
  fetched pages. \<open>walk_route\<close>, a client that follows cursors, takes as fuel the number of pages it may
  ask for: more than the number of rows is enough, since every page but the last holds at least one row.

  \<^bold>\<open>The properties\<close> carry their numbers in the texts before them. On the chain: solvency, settlement,
  refunds and the ledger (1 to 12), prices, liquidity and arithmetic (13 to 23). For the indexer:
  agreement with the chain, convergence and refinement (24 to 26), what stops it (27 and 28), batches,
  cursors and tables (29 to 32), catch-up, logs and decoding (33 to 37). For the API: pages of positions,
  pages of a leaderboard and the stream (38 to 40).

  \<^bold>\<open>Parameters.\<close> Code outside this repository is an argument with stated laws: the Solana runtime, the
  token and delegation programs, the task scheduler and the oracle account (\<open>env\<close>, \<open>env_laws\<close>); Borsh,
  base58, base64, SHA-256 and JSON; URL parsing; the RPC node and the router; PostgreSQL's date
  arithmetic. Texts are ordered by their characters, as under the C collation; the page theorems hold for
  any total order. Every law is shown to be satisfiable by the concrete libraries of the reference theories.

  \<^bold>\<open>Not modelled.\<close> The SQL engine (statements are translated one by one), network transport and the HTTP
  framework, logging, process start-up and argument parsing, the probe and the dispatch of \<open>main.rs\<close>, the
  leaderboard fixture, the OpenAPI document (\<open>openapi.rs\<close>) and the API's self-check of its contract, and
  the web frontend.
\<close>

end
